(* ===== verification/Prelude.thy ===== *)
theory Prelude
  imports Main "HOL-Library.Word" "HOL-Library.Char_ord" "HOL-Library.List_Lexorder"
begin

text \<open>
  What every component of the model shares: the \<open>str\<close> and integer-parsing operations of the Rust
  standard library that the backend uses, the narrowing casts of Rust's integer types, the
  \<open>HashMap\<close> operations, and the lemmas about them.

  Text is modelled as \<open>string\<close>, one \<open>char\<close> per ASCII character; \<open>to_lowercase\<close>,
  \<open>to_uppercase\<close>, \<open>trim\<close> and friends are their ASCII restrictions. UUIDs and database ids are
  \<open>nat\<close>. Time stamps of \<open>chrono\<close> are \<open>int\<close> and monotonic \<open>Instant\<close>s are \<open>nat\<close>, in the unit
  each theory names.
\<close>

named_theorems text_simps "evaluation rules of the text operations"
named_theorems map_simps "lookup after an update of a hash map"

type_synonym uuid = nat

section \<open>Instants\<close>

text \<open>An \<open>Instant\<close> is a number of nanoseconds. \<open>duration_since\<close> saturates at zero, as does the
  subtraction of \<open>nat\<close>.\<close>

type_synonym instant = nat

abbreviation nanos :: "nat \<Rightarrow> nat" where "nanos secs \<equiv> secs * 1000000000"

definition as_secs :: "nat \<Rightarrow> nat" where
  "as_secs d = d div 1000000000"

lemma as_secs_nanos [simp]: "as_secs (nanos s) = s"
  by (simp add: as_secs_def)

lemma as_secs_less: "as_secs d < s \<longleftrightarrow> d < nanos s"
  by (simp add: as_secs_def less_mult_imp_div_less div_less_iff_less_mult)

section \<open>Text\<close>

definition is_ascii_digit :: "char \<Rightarrow> bool" where
  "is_ascii_digit c \<longleftrightarrow> 48 \<le> (of_char c :: nat) \<and> (of_char c :: nat) \<le> 57"

definition is_white :: "char \<Rightarrow> bool" where
  "is_white c \<longleftrightarrow> (of_char c :: nat) = 32 \<or> (9 \<le> (of_char c :: nat) \<and> (of_char c :: nat) \<le> 13)"

definition lower_char :: "char \<Rightarrow> char" where
  "lower_char c = (if 65 \<le> (of_char c :: nat) \<and> (of_char c :: nat) \<le> 90
     then char_of ((of_char c :: nat) + 32) else c)"

definition upper_char :: "char \<Rightarrow> char" where
  "upper_char c = (if 97 \<le> (of_char c :: nat) \<and> (of_char c :: nat) \<le> 122
     then char_of ((of_char c :: nat) - 32) else c)"

definition to_lowercase :: "string \<Rightarrow> string" where
  "to_lowercase s = map lower_char s"

definition to_uppercase :: "string \<Rightarrow> string" where
  "to_uppercase s = map upper_char s"

definition trim_start :: "string \<Rightarrow> string" where
  "trim_start s = dropWhile is_white s"

definition trim_end :: "string \<Rightarrow> string" where
  "trim_end s = rev (dropWhile is_white (rev s))"

definition trim :: "string \<Rightarrow> string" where
  "trim s = trim_end (trim_start s)"

definition trim_end_matches :: "char \<Rightarrow> string \<Rightarrow> string" where
  "trim_end_matches c s = rev (dropWhile (\<lambda>x. x = c) (rev s))"

definition trim_start_matches :: "char \<Rightarrow> string \<Rightarrow> string" where
  "trim_start_matches c s = dropWhile (\<lambda>x. x = c) s"

definition starts_with :: "string \<Rightarrow> string \<Rightarrow> bool" where
  "starts_with p s \<longleftrightarrow> take (length p) s = p"

definition ends_with :: "string \<Rightarrow> string \<Rightarrow> bool" where
  "ends_with p s \<longleftrightarrow> starts_with (rev p) (rev s)"

definition strip_prefix :: "string \<Rightarrow> string \<Rightarrow> string option" where
  "strip_prefix p s = (if starts_with p s then Some (drop (length p) s) else None)"

definition strip_suffix :: "string \<Rightarrow> string \<Rightarrow> string option" where
  "strip_suffix p s =
     (if ends_with p s then Some (take (length s - length p) s) else None)"

fun contains :: "string \<Rightarrow> string \<Rightarrow> bool" where
  "contains p [] = (p = [])"
| "contains p (c # cs) = (starts_with p (c # cs) \<or> contains p cs)"

text \<open>\<open>str::split\<close> keeps empty pieces; the empty text splits into one empty piece.\<close>

fun split_on :: "(char \<Rightarrow> bool) \<Rightarrow> string \<Rightarrow> string list" where
  "split_on p [] = [[]]"
| "split_on p (c # cs) =
     (if p c then [] # split_on p cs
      else (case split_on p cs of [] \<Rightarrow> [[c]] | w # ws \<Rightarrow> (c # w) # ws))"

abbreviation split_char :: "char \<Rightarrow> string \<Rightarrow> string list" where
  "split_char c \<equiv> split_on (\<lambda>x. x = c)"

fun split_once :: "char \<Rightarrow> string \<Rightarrow> (string \<times> string) option" where
  "split_once d [] = None"
| "split_once d (c # cs) =
     (if c = d then Some ([], cs)
      else map_option (\<lambda>(a, b). (c # a, b)) (split_once d cs))"

definition rsplit_once :: "char \<Rightarrow> string \<Rightarrow> (string \<times> string) option" where
  "rsplit_once d s = map_option (\<lambda>(a, b). (rev b, rev a)) (split_once d (rev s))"

fun join :: "string \<Rightarrow> string list \<Rightarrow> string" where
  "join sep [] = []"
| "join sep [w] = w"
| "join sep (w # ws) = w @ sep @ join sep ws"

definition eq_ignore_ascii_case :: "string \<Rightarrow> string \<Rightarrow> bool" where
  "eq_ignore_ascii_case a b \<longleftrightarrow> to_lowercase a = to_lowercase b"

section \<open>Numbers in text\<close>

definition digit_value :: "char \<Rightarrow> nat" where
  "digit_value c = (of_char c :: nat) - 48"

fun digits_value :: "nat \<Rightarrow> string \<Rightarrow> nat" where
  "digits_value acc [] = acc"
| "digits_value acc (c # cs) = digits_value (acc * 10 + digit_value c) cs"

definition parse_digits :: "string \<Rightarrow> nat option" where
  "parse_digits s =
     (if s \<noteq> [] \<and> list_all is_ascii_digit s then Some (digits_value 0 s) else None)"

text \<open>\<open>str::parse\<close> for an unsigned type of the given width: an optional \<open>+\<close>, at least one digit,
  and an error on overflow.\<close>

definition parse_unsigned :: "nat \<Rightarrow> string \<Rightarrow> nat option" where
  "parse_unsigned w s =
     (let body = (case s of c # cs \<Rightarrow> if c = CHR ''+'' then cs else s | [] \<Rightarrow> s)
      in case parse_digits body of
           Some n \<Rightarrow> if n < 2 ^ w then Some n else None
         | None \<Rightarrow> None)"

text \<open>\<open>str::parse\<close> for a signed type of the given width.\<close>

definition parse_signed :: "nat \<Rightarrow> string \<Rightarrow> int option" where
  "parse_signed w s =
     (case s of
        c # cs \<Rightarrow>
          if c = CHR ''-'' then
            (case parse_digits cs of
               Some n \<Rightarrow> if n \<le> 2 ^ (w - 1) then Some (- int n) else None
             | None \<Rightarrow> None)
          else
            (case parse_digits (if c = CHR ''+'' then cs else s) of
               Some n \<Rightarrow> if n < 2 ^ (w - 1) then Some (int n) else None
             | None \<Rightarrow> None)
      | [] \<Rightarrow> None)"

fun show_nat :: "nat \<Rightarrow> string" where
  "show_nat n =
     (if n < 10 then [char_of (48 + n)] else show_nat (n div 10) @ [char_of (48 + n mod 10)])"

declare show_nat.simps [simp del]

definition show_int :: "int \<Rightarrow> string" where
  "show_int i = (if i < 0 then ''-'' @ show_nat (nat (- i)) else show_nat (nat i))"

text \<open>A name in single quotes, as messages show it.\<close>

abbreviation quoted :: "string \<Rightarrow> string" where
  "quoted s \<equiv> [CHR 0x27] @ s @ [CHR 0x27]"

section \<open>Narrowing casts\<close>

text \<open>Rust's \<open>as i32\<close> and \<open>as i64\<close> keep the low bits; release builds wrap on overflow.\<close>

definition as_i32 :: "int \<Rightarrow> int" where
  "as_i32 x = (x + 2 ^ 31) mod 2 ^ 32 - 2 ^ 31"

definition as_i64 :: "int \<Rightarrow> int" where
  "as_i64 x = (x + 2 ^ 63) mod 2 ^ 64 - 2 ^ 63"

text \<open>Rust's integer division truncates towards zero.\<close>

definition trunc_div :: "int \<Rightarrow> int \<Rightarrow> int" where
  "trunc_div a b = (let q = \<bar>a\<bar> div \<bar>b\<bar> in if (a < 0) = (b < 0) then q else - q)"

lemma as_i32_id [simp]: "- (2 ^ 31) \<le> x \<Longrightarrow> x < 2 ^ 31 \<Longrightarrow> as_i32 x = x"
  by (simp add: as_i32_def)

lemma as_i64_id [simp]: "- (2 ^ 63) \<le> x \<Longrightarrow> x < 2 ^ 63 \<Longrightarrow> as_i64 x = x"
  by (simp add: as_i64_def)

lemma as_i32_range: "- (2 ^ 31) \<le> as_i32 x \<and> as_i32 x < 2 ^ 31"
  by (simp add: as_i32_def)

lemma trunc_div_pos [simp]: "0 \<le> a \<Longrightarrow> 0 < b \<Longrightarrow> trunc_div a b = a div b"
  by (simp add: trunc_div_def)

section \<open>Hash maps\<close>

text \<open>\<open>HashMap::retain\<close>.\<close>

definition retain :: "('k \<Rightarrow> 'v \<Rightarrow> bool) \<Rightarrow> ('k \<rightharpoonup> 'v) \<Rightarrow> ('k \<rightharpoonup> 'v)" where
  "retain P m = (\<lambda>k. case m k of None \<Rightarrow> None | Some v \<Rightarrow> if P k v then Some v else None)"

lemma retain_apply [map_simps]:
  "retain P m k = (case m k of None \<Rightarrow> None | Some v \<Rightarrow> if P k v then Some v else None)"
  by (simp add: retain_def)

lemma retain_empty [simp]: "retain P Map.empty = Map.empty"
  by (rule ext) (simp add: retain_def)

lemma retain_SomeD: "retain P m k = Some v \<Longrightarrow> m k = Some v \<and> P k v"
  by (auto simp: retain_def split: option.splits if_splits)

lemma retain_idem: "retain P (retain P m) = retain P m"
  by (rule ext) (auto simp: retain_def split: option.splits)

section \<open>Lists\<close>

lemma find_append: "find P (xs @ ys) = (case find P xs of None \<Rightarrow> find P ys | Some x \<Rightarrow> Some x)"
  by (induction xs) auto

lemma find_SomeD: "find P xs = Some x \<Longrightarrow> P x \<and> x \<in> set xs"
  by (induction xs) (auto split: if_splits)

lemma find_distinct: "distinct (map f xs) \<Longrightarrow> x \<in> set xs \<Longrightarrow> find (\<lambda>y. f y = f x) xs = Some x"
  by (induction xs) (auto simp: image_iff)

text \<open>\<open>ORDER BY key DESC LIMIT 1\<close>: the row with the greatest key; of several, the one listed first.\<close>

fun latest_on :: "('a \<Rightarrow> 'b::linorder) \<Rightarrow> 'a list \<Rightarrow> 'a option" where
  "latest_on f [] = None"
| "latest_on f (r # rs) = (case latest_on f rs of None \<Rightarrow> Some r
     | Some m \<Rightarrow> Some (if f r < f m then m else r))"

lemma latest_on_member: "latest_on f rs = Some r \<Longrightarrow> r \<in> set rs"
  by (induction rs arbitrary: r) (auto split: option.splits if_splits)

lemma latest_on_None: "latest_on f rs = None \<longleftrightarrow> rs = []"
  by (cases rs) (auto split: option.split)

text \<open>\<open>WHERE owner = id OR owner IS NULL ORDER BY owner NULLS LAST LIMIT 1\<close>: the row of its own, otherwise
  a global one; of several, the one listed first.\<close>

definition own_or_global :: "('a \<Rightarrow> nat option) \<Rightarrow> nat \<Rightarrow> 'a list \<Rightarrow> 'a option" where
  "own_or_global owner k rows =
     (case find (\<lambda>r. owner r = Some k) rows of
        Some r \<Rightarrow> Some r
      | None \<Rightarrow> find (\<lambda>r. owner r = None) rows)"

lemma own_or_global_Some:
  assumes "own_or_global owner k rows = Some r"
  shows "r \<in> set rows \<and> owner r \<in> {Some k, None} \<and> (owner r = None \<longleftrightarrow> (\<forall>x \<in> set rows. owner x \<noteq> Some k))"
proof (cases "find (\<lambda>r. owner r = Some k) rows")
  case None
  with assms have "find (\<lambda>r. owner r = None) rows = Some r" by (simp add: own_or_global_def)
  from find_SomeD [OF this] None show ?thesis by (auto simp: find_None_iff)
next
  case (Some x)
  with assms have "x = r" by (simp add: own_or_global_def)
  with find_SomeD [OF Some] show ?thesis by auto
qed

end
