(* ===== verification/App_Error.thy ===== *)
theory App_Error
  imports Prelude
begin

text \<open>
  The error type of the whole backend (\<open>backend/src/error.rs\<close>): its variants, the HTTP status and the
  machine-readable code of each, and the message a client sees. The sources of the \<open>#[from]\<close>
  variants are errors of other libraries; they are modelled by their rendered text, and
  \<open>sqlx::Error\<close> by whether it is the pool timeout the code tests for.
\<close>

datatype sqlx_error = PoolTimedOut | OtherSqlx string

datatype app_error =
    Config string
  | Database string
  | Sqlx sqlx_error
  | Migration string
  | Authentication string
  | Unauthorized string
  | Authorization string
  | NotFound string
  | Conflict string
  | Validation string
  | QuotaExceeded string
  | Storage string
  | Io string
  | AddrParse string
  | Json string
  | Jwt string
  | Internal string
  | Wasm string
  | BadGateway string
  | ServiceUnavailable string

text \<open>\<open>Result<T>\<close> of the crate: \<open>Inl\<close> is \<open>Err\<close>, \<open>Inr\<close> is \<open>Ok\<close>.\<close>

type_synonym 'a result = "app_error + 'a"

definition bind_result :: "('e + 'a) \<Rightarrow> ('a \<Rightarrow> 'e + 'b) \<Rightarrow> 'e + 'b" where
  "bind_result r f = (case r of Inl e \<Rightarrow> Inl e | Inr a \<Rightarrow> f a)"

lemma bind_result_simps [simp]:
  "bind_result (Inl e) f = Inl e"
  "bind_result (Inr a) f = f a"
  by (simp_all add: bind_result_def)

lemma bind_result_Inr_iff: "bind_result r f = Inr b \<longleftrightarrow> (\<exists>a. r = Inr a \<and> f a = Inr b)"
  by (cases r) simp_all

definition is_ok :: "'e + 'a \<Rightarrow> bool" where
  "is_ok r \<longleftrightarrow> (case r of Inl _ \<Rightarrow> False | Inr _ \<Rightarrow> True)"

lemma is_ok_simps [simp]: "\<not> is_ok (Inl e)" "is_ok (Inr a)"
  by (simp_all add: is_ok_def)

lemma is_ok_unit: "is_ok (r :: 'e + unit) \<longleftrightarrow> r = Inr ()"
  by (cases r) simp_all

text \<open>\<open>Display\<close>. What the database driver prints for its pool timeout is the first argument.\<close>

fun show_app_error :: "string \<Rightarrow> app_error \<Rightarrow> string" where
  "show_app_error pool (Config m) = ''Configuration error: '' @ m"
| "show_app_error pool (Database m) = ''Database error: '' @ m"
| "show_app_error pool (Sqlx PoolTimedOut) = ''Database error: '' @ pool"
| "show_app_error pool (Sqlx (OtherSqlx m)) = ''Database error: '' @ m"
| "show_app_error pool (Migration m) = ''Migration error: '' @ m"
| "show_app_error pool (Authentication m) = ''Authentication failed: '' @ m"
| "show_app_error pool (Unauthorized m) = ''Unauthorized: '' @ m"
| "show_app_error pool (Authorization m) = ''Access denied: '' @ m"
| "show_app_error pool (NotFound m) = ''Resource not found: '' @ m"
| "show_app_error pool (Conflict m) = ''Conflict: '' @ m"
| "show_app_error pool (Validation m) = ''Validation error: '' @ m"
| "show_app_error pool (QuotaExceeded m) = ''Quota exceeded: '' @ m"
| "show_app_error pool (Storage m) = ''Storage error: '' @ m"
| "show_app_error pool (Io m) = ''IO error: '' @ m"
| "show_app_error pool (AddrParse m) = ''Address parse error: '' @ m"
| "show_app_error pool (Json m) = ''JSON error: '' @ m"
| "show_app_error pool (Jwt m) = ''JWT error: '' @ m"
| "show_app_error pool (Internal m) = ''Internal error: '' @ m"
| "show_app_error pool (Wasm m) = ''WASM error: '' @ m"
| "show_app_error pool (BadGateway m) = ''Bad gateway: '' @ m"
| "show_app_error pool (ServiceUnavailable m) = ''Service unavailable: '' @ m"

definition is_name_too_long :: "string \<Rightarrow> bool" where
  "is_name_too_long msg =
     (let lower = to_lowercase msg
      in contains ''file name too long'' lower
         \<or> contains ''name too long'' lower
         \<or> contains ''enametoolong'' lower)"

fun status_and_code :: "app_error \<Rightarrow> nat \<times> string" where
  "status_and_code (Config _) = (500, ''CONFIG_ERROR'')"
| "status_and_code (Sqlx PoolTimedOut) = (503, ''POOL_EXHAUSTED'')"
| "status_and_code (Database msg) =
     (if contains ''PoolTimedOut'' msg then (503, ''POOL_EXHAUSTED'') else (500, ''DATABASE_ERROR''))"
| "status_and_code (Sqlx (OtherSqlx _)) = (500, ''DATABASE_ERROR'')"
| "status_and_code (Migration _) = (500, ''MIGRATION_ERROR'')"
| "status_and_code (Authentication _) = (401, ''AUTH_ERROR'')"
| "status_and_code (Unauthorized _) = (401, ''UNAUTHORIZED'')"
| "status_and_code (Authorization _) = (403, ''FORBIDDEN'')"
| "status_and_code (NotFound _) = (404, ''NOT_FOUND'')"
| "status_and_code (Conflict _) = (409, ''CONFLICT'')"
| "status_and_code (Validation _) = (400, ''VALIDATION_ERROR'')"
| "status_and_code (QuotaExceeded _) = (507, ''QUOTA_EXCEEDED'')"
| "status_and_code (Storage msg) =
     (if is_name_too_long msg then (400, ''PATH_TOO_LONG'') else (500, ''STORAGE_ERROR''))"
| "status_and_code (Io err) =
     (if is_name_too_long err then (400, ''PATH_TOO_LONG'') else (500, ''IO_ERROR''))"
| "status_and_code (AddrParse _) = (500, ''ADDR_PARSE_ERROR'')"
| "status_and_code (Json _) = (400, ''JSON_ERROR'')"
| "status_and_code (Jwt _) = (401, ''JWT_ERROR'')"
| "status_and_code (Internal _) = (500, ''INTERNAL_ERROR'')"
| "status_and_code (Wasm _) = (500, ''WASM_ERROR'')"
| "status_and_code (BadGateway _) = (502, ''BAD_GATEWAY'')"
| "status_and_code (ServiceUnavailable _) = (503, ''SERVICE_UNAVAILABLE'')"

fun user_message :: "app_error \<Rightarrow> string" where
  "user_message (Sqlx PoolTimedOut) = ''Database connection pool is saturated, retry shortly''"
| "user_message (Database msg) =
     (if contains ''PoolTimedOut'' msg
      then ''Database connection pool is saturated, retry shortly''
      else ''Database operation failed'')"
| "user_message (Sqlx (OtherSqlx _)) = ''Database operation failed''"
| "user_message (Migration _) = ''Database migration failed''"
| "user_message (Storage msg) =
     (if is_name_too_long msg
      then ''Path segment exceeds filesystem name length limit''
      else ''Storage operation failed'')"
| "user_message (Io err) =
     (if is_name_too_long err
      then ''Path segment exceeds filesystem name length limit''
      else ''IO operation failed'')"
| "user_message (Config _) = ''Server configuration error''"
| "user_message (Internal _) = ''Internal server error''"
| "user_message (AddrParse _) = ''Invalid address''"
| "user_message (Jwt _) = ''Invalid token''"
| "user_message (Wasm _) = ''Plugin execution failed''"
| "user_message (Authentication msg) = msg"
| "user_message (Unauthorized msg) = msg"
| "user_message (Authorization msg) = msg"
| "user_message (NotFound msg) = msg"
| "user_message (Conflict msg) = msg"
| "user_message (Validation msg) = msg"
| "user_message (QuotaExceeded msg) = msg"
| "user_message (BadGateway msg) = msg"
| "user_message (ServiceUnavailable msg) = msg"
| "user_message (Json _) = ''Invalid JSON''"

record response =
  status :: nat
  code :: string
  message :: string
  retry_after_header :: "string option"

definition into_response :: "app_error \<Rightarrow> response" where
  "into_response e =
     (let (st, c) = status_and_code e
      in \<lparr> status = st, code = c, message = user_message e,
           retry_after_header = (if st = 503 then Some ''1'' else None) \<rparr>)"

section \<open>Properties\<close>

text \<open>The text that may reach a client for a server-side failure is one of these constants.\<close>

definition server_messages :: "string list" where
  "server_messages =
     [''Database operation failed'', ''Database migration failed'', ''Storage operation failed'',
      ''Server configuration error'', ''Internal server error'', ''IO operation failed'',
      ''Invalid address'', ''Plugin execution failed'']"

text \<open>an error that is answered with status 500 never shows the client anything of its payload:
  the message is one of eight fixed texts, whatever the underlying error said.\<close>

theorem internal_errors_hide_details:
  "status (into_response e) = 500 \<Longrightarrow> message (into_response e) \<in> set server_messages"
  by (cases e rule: status_and_code.cases)
    (simp_all add: into_response_def server_messages_def Let_def split: if_splits)

theorem internal_errors_hide_details_witness:
  "message (into_response (Storage ''open /srv/keys/a.pem: denied'')) \<in> set server_messages"
  by (rule internal_errors_hide_details) code_simp

lemma retry_after_iff_503:
  "retry_after_header (into_response e) \<noteq> None \<longleftrightarrow> status (into_response e) = 503"
  by (simp add: into_response_def split: prod.splits)

lemma status_is_error: "400 \<le> status (into_response e) \<and> status (into_response e) < 600"
  by (cases e rule: status_and_code.cases) (simp_all add: into_response_def)

lemma name_too_long_is_client_error:
  "is_name_too_long msg \<Longrightarrow> status (into_response (Storage msg)) = 400
     \<and> status (into_response (Io msg)) = 400"
  by (simp add: into_response_def)

end
