(* ===== verification/Auth_Context.thy ===== *)
theory Auth_Context
  imports App_Error
begin

text \<open>
  The identity a request carries (\<open>AuthExtension\<close> of \<open>api/middleware/auth.rs\<close>), its conversions
  from JWT claims and from a user row, the scope and repository checks on it, and the extraction of
  credentials from the headers of a request.
\<close>

record auth_extension =
  user_id :: uuid
  username :: string
  email :: string
  is_admin :: bool
  is_api_token :: bool
  is_service_account :: bool
  scopes :: "string list option"
  allowed_repo_ids :: "uuid list option"

text \<open>The fields of \<open>Claims\<close> (\<open>services/auth_service.rs\<close>) and of the user row that the backend's
  authentication reads.\<close>

record claims =
  sub :: uuid
  claims_username :: string
  claims_email :: string
  claims_is_admin :: bool
  iat :: int
  exp :: int
  token_type :: string
  jti :: "uuid option"
  family_id :: "uuid option"

text \<open>A time stamp of \<open>chrono\<close> is an \<open>int\<close> of nanoseconds since the epoch; \<open>timestamp()\<close> rounds down
  to seconds.\<close>

type_synonym datetime = int

definition timestamp :: "datetime \<Rightarrow> int" where
  "timestamp t = t div 1000000000"

definition seconds :: "int \<Rightarrow> int" where
  "seconds n = n * 1000000000"

datatype auth_provider = Local | Ldap | Saml | Oidc

record user =
  user_pk :: uuid
  user_name :: string
  user_email :: string
  user_password_hash :: "string option"
  user_provider :: auth_provider
  user_external_id :: "string option"
  user_display_name :: "string option"
  user_active :: bool
  user_admin :: bool
  user_service_account :: bool
  user_must_change_password :: bool
  user_totp_secret :: "string option"
  user_totp_enabled :: bool
  user_totp_backup_codes :: "string option"
  user_totp_verified_at :: "datetime option"
  user_failed_login_attempts :: int
  user_locked_until :: "datetime option"
  user_last_failed_login_at :: "datetime option"
  user_password_changed_at :: datetime
  user_last_login_at :: "datetime option"
  user_created_at :: datetime
  user_updated_at :: datetime

record api_token_validation =
  val_user :: user
  val_scopes :: "string list"
  val_allowed_repo_ids :: "uuid list option"

definition has_scope :: "auth_extension \<Rightarrow> string \<Rightarrow> bool" where
  "has_scope a scope =
     (if \<not> is_api_token a then True
      else (case scopes a of
              None \<Rightarrow> True
            | Some ss \<Rightarrow> scope \<in> set ss \<or> ''*'' \<in> set ss \<or> ''admin'' \<in> set ss))"

definition can_access_repo :: "auth_extension \<Rightarrow> uuid \<Rightarrow> bool" where
  "can_access_repo a repo_id =
     (case allowed_repo_ids a of None \<Rightarrow> True | Some ids \<Rightarrow> repo_id \<in> set ids)"

definition require_scope :: "auth_extension \<Rightarrow> string \<Rightarrow> unit result" where
  "require_scope a scope =
     (if has_scope a scope then Inr ()
      else Inl (Authorization (''Token does not have required scope: '' @ scope)))"

definition require_admin :: "auth_extension \<Rightarrow> unit result" where
  "require_admin a =
     (if is_admin a then Inr () else Inl (Authorization ''Admin access required''))"

definition auth_from_claims :: "claims \<Rightarrow> auth_extension" where
  "auth_from_claims c =
     \<lparr> user_id = sub c, username = claims_username c, email = claims_email c,
       is_admin = claims_is_admin c, is_api_token = False, is_service_account = False,
       scopes = None, allowed_repo_ids = None \<rparr>"

definition auth_from_user :: "user \<Rightarrow> auth_extension" where
  "auth_from_user u =
     \<lparr> user_id = user_pk u, username = user_name u, email = user_email u,
       is_admin = user_admin u, is_api_token = False, is_service_account = user_service_account u,
       scopes = None, allowed_repo_ids = None \<rparr>"

definition auth_from_api_token :: "api_token_validation \<Rightarrow> auth_extension" where
  "auth_from_api_token v =
     \<lparr> user_id = user_pk (val_user v), username = user_name (val_user v), email = user_email (val_user v),
       is_admin = user_admin (val_user v), is_api_token = True,
       is_service_account = user_service_account (val_user v),
       scopes = Some (val_scopes v), allowed_repo_ids = val_allowed_repo_ids v \<rparr>"

text \<open>The response of a check that refuses before the handler runs: status, challenge and body.\<close>

record http_reply =
  reply_status :: nat
  www_authenticate :: "string option"
  reply_body :: string

definition basic_challenge :: "string \<Rightarrow> string" where
  "basic_challenge realm = ''Basic realm='' @ [CHR 0x22] @ realm @ [CHR 0x22]"

definition require_auth_basic :: "auth_extension option \<Rightarrow> string \<Rightarrow> http_reply + auth_extension" where
  "require_auth_basic auth realm =
     (case auth of
        Some a \<Rightarrow> Inr a
      | None \<Rightarrow> Inl \<lparr> reply_status = 401, www_authenticate = Some (basic_challenge realm),
                      reply_body = ''Authentication required'' \<rparr>)"

definition scope_refusal :: "string \<Rightarrow> http_reply" where
  "scope_refusal scope =
     \<lparr> reply_status = 403, www_authenticate = None,
       reply_body = ''Token does not have required scope: '' @ scope \<rparr>"

definition require_auth_basic_scope ::
  "auth_extension option \<Rightarrow> string \<Rightarrow> string \<Rightarrow> http_reply + auth_extension" where
  "require_auth_basic_scope auth realm scope =
     (case require_auth_basic auth realm of
        Inl r \<Rightarrow> Inl r
      | Inr ext \<Rightarrow> if \<not> has_scope ext scope then Inl (scope_refusal scope) else Inr ext)"

definition require_scope_response :: "auth_extension option \<Rightarrow> string \<Rightarrow> http_reply + unit" where
  "require_scope_response auth scope =
     (case auth of
        Some ext \<Rightarrow> if \<not> has_scope ext scope then Inl (scope_refusal scope) else Inr ()
      | None \<Rightarrow> Inr ())"

section \<open>Credentials in the headers\<close>

datatype extracted_token = Bearer string | ApiKey string | Basic string | NoToken | InvalidToken

text \<open>The headers the middlewares read; \<open>None\<close> is an absent header or one that is not text.\<close>

record headers =
  h_authorization :: "string option"
  h_api_key :: "string option"
  h_cookie :: "string option"

definition extract_token_from_auth_header :: "string \<Rightarrow> extracted_token" where
  "extract_token_from_auth_header h =
     (case strip_prefix ''Bearer '' h of
        Some token \<Rightarrow> Bearer token
      | None \<Rightarrow>
        (case strip_prefix ''ApiKey '' h of
           Some token \<Rightarrow> ApiKey token
         | None \<Rightarrow>
           (case (case strip_prefix ''Basic '' h of Some c \<Rightarrow> Some c | None \<Rightarrow> strip_prefix ''basic '' h) of
              Some creds \<Rightarrow> Basic creds
            | None \<Rightarrow> InvalidToken)))"

fun cookie_token :: "string list \<Rightarrow> extracted_token" where
  "cookie_token [] = NoToken"
| "cookie_token (c # cs) =
     (case strip_prefix ''ak_access_token='' (trim c) of
        Some token \<Rightarrow> Bearer token
      | None \<Rightarrow> cookie_token cs)"

definition extract_token :: "headers \<Rightarrow> extracted_token" where
  "extract_token h =
     (case h_authorization h of
        Some auth \<Rightarrow> extract_token_from_auth_header auth
      | None \<Rightarrow>
        (case h_api_key h of
           Some key \<Rightarrow> ApiKey key
         | None \<Rightarrow>
           (case h_cookie h of
              Some cookie \<Rightarrow> cookie_token (split_char (CHR '';'') cookie)
            | None \<Rightarrow> NoToken)))"

section \<open>Lemmas\<close>

lemma has_scope_session: "\<not> is_api_token a \<Longrightarrow> has_scope a s"
  by (simp add: has_scope_def)

lemma auth_header_never_NoToken: "extract_token_from_auth_header h \<noteq> NoToken"
  by (simp add: extract_token_from_auth_header_def split: option.splits)

lemma require_auth_basic_scope_ok:
  "require_auth_basic_scope auth realm scope = Inr ext \<longleftrightarrow> auth = Some ext \<and> has_scope ext scope"
  by (auto simp: require_auth_basic_scope_def require_auth_basic_def split: option.splits sum.splits)

end
