(* ===== verification/Interfaces.thy ===== *)
theory Interfaces
  imports Prelude
begin

text \<open>
  The contracts that several components rely on, as locales whose lemmas the components reach by
  interpretation: address prefixes (the SSRF allow list and the rate limiter's trusted ranges),
  caches with a time to live (permission rules, group membership, API tokens) and the layout of a
  byte range in chunks (resumable uploads, peer transfers).
\<close>

section \<open>Address prefixes\<close>

locale prefix_match =
  fixes matches :: "'a::len word \<Rightarrow> 'a word \<Rightarrow> nat \<Rightarrow> bool"
  assumes matches_top_bits:
    "p \<le> LENGTH('a) \<Longrightarrow>
       matches net ip p \<longleftrightarrow> drop_bit (LENGTH('a) - p) net = drop_bit (LENGTH('a) - p) ip"
begin

lemma matches_network [simp]: "p \<le> LENGTH('a) \<Longrightarrow> matches net net p"
  by (simp add: matches_top_bits)

lemma matches_sym: "p \<le> LENGTH('a) \<Longrightarrow> matches a b p \<longleftrightarrow> matches b a p"
  by (auto simp: matches_top_bits)

lemma matches_trans:
  "p \<le> LENGTH('a) \<Longrightarrow> matches a b p \<Longrightarrow> matches b c p \<Longrightarrow> matches a c p"
  by (simp add: matches_top_bits)

lemma matches_host: "matches net ip (LENGTH('a)) \<longleftrightarrow> net = ip"
  by (simp add: matches_top_bits)

lemma matches_all: "matches net ip 0"
  by (simp add: matches_top_bits)

lemma matches_narrow:
  assumes "p \<le> q" and "q \<le> LENGTH('a)" and "matches net ip q"
  shows "matches net ip p"
proof -
  have "drop_bit (q - p) (drop_bit (LENGTH('a) - q) net)
        = drop_bit (q - p) (drop_bit (LENGTH('a) - q) ip)"
    using assms by (simp add: matches_top_bits)
  moreover have "drop_bit (q - p) (drop_bit (LENGTH('a) - q) (w :: 'a word)) = drop_bit (LENGTH('a) - p) w" for w
    using assms(1,2) by (simp add: bit_eq_iff bit_simps)
  ultimately show ?thesis using assms(1,2) by (simp add: matches_top_bits)
qed

lemma matches_interval:
  assumes "p \<le> LENGTH('a)"
  shows "matches net ip p
    \<longleftrightarrow> unat net div 2 ^ (LENGTH('a) - p) = unat ip div 2 ^ (LENGTH('a) - p)"
  using assms by (simp add: matches_top_bits word_unat_eq_iff unat_drop_bit_eq) (simp add: drop_bit_eq_div)

end

text \<open>What a mask comparison decides.\<close>

lemma mask_compare_top_bits:
  fixes a b :: "'a::len word"
  shows "and a (push_bit n (- 1)) = and b (push_bit n (- 1)) \<longleftrightarrow> drop_bit n a = drop_bit n b"
proof
  assume eq: "and a (push_bit n (- 1)) = and b (push_bit n (- 1))"
  show "drop_bit n a = drop_bit n b"
  proof (rule bit_eqI)
    fix i
    assume "possible_bit TYPE('a word) i"
    from eq have "bit (and a (push_bit n (- 1))) (n + i) = bit (and b (push_bit n (- 1))) (n + i)"
      by simp
    then show "bit (drop_bit n a) i = bit (drop_bit n b) i"
      by (auto simp: bit_simps dest: bit_imp_le_length)
  qed
next
  assume eq: "drop_bit n a = drop_bit n b"
  show "and a (push_bit n (- 1)) = and b (push_bit n (- 1))"
  proof (rule bit_eqI)
    fix i
    assume "possible_bit TYPE('a word) i"
    from eq have "bit (drop_bit n a) (i - n) = bit (drop_bit n b) (i - n)"
      by simp
    then show "bit (and a (push_bit n (- 1))) i = bit (and b (push_bit n (- 1))) i"
      by (auto simp: bit_simps)
  qed
qed

lemma not_mask_compare_top_bits:
  fixes a b :: "'a::len word"
  shows "and a (not (mask n)) = and b (not (mask n)) \<longleftrightarrow> drop_bit n a = drop_bit n b"
  using mask_compare_top_bits [of a n b] by (simp add: push_bit_minus_one_eq_not_mask)

section \<open>Caches with a time to live\<close>

text \<open>A cache in front of a source whose value for a key changes over time. A request that misses
  reads the source at one time and stores the answer at a later one; in between, other requests may
  fill or clear the cache. A history is the list of these events in the order in which they take the
  cache's lock.\<close>

datatype 'k cache_event = Fill 'k nat nat | Clear

fun cache_event_step ::
  "'c \<Rightarrow> ('c \<Rightarrow> 'k \<Rightarrow> 'v \<Rightarrow> nat \<Rightarrow> 'c) \<Rightarrow> (nat \<Rightarrow> 'k \<Rightarrow> 'v) \<Rightarrow> 'k cache_event \<Rightarrow> 'c \<Rightarrow> 'c" where
  "cache_event_step nothing store src (Fill k read_at stored_at) c = store c k (src read_at k) stored_at"
| "cache_event_step nothing store src Clear c = nothing"

text \<open>\<open>honest\<close>: whatever the cache answers at a time, the source said at most \<open>bound\<close> earlier.\<close>

definition honest ::
  "('c \<Rightarrow> 'k \<Rightarrow> nat \<Rightarrow> 'v option) \<Rightarrow> nat \<Rightarrow> (nat \<Rightarrow> 'k \<Rightarrow> 'v) \<Rightarrow> 'c \<Rightarrow> bool" where
  "honest lookup bound src c \<longleftrightarrow>
     (\<forall>k v now. lookup c k now = Some v \<longrightarrow> (\<exists>t. now \<le> t + bound \<and> v = src t k))"

locale ttl_cache =
  fixes nothing :: 'c
    and lookup :: "'c \<Rightarrow> 'k \<Rightarrow> nat \<Rightarrow> 'v option"
    and store :: "'c \<Rightarrow> 'k \<Rightarrow> 'v \<Rightarrow> nat \<Rightarrow> 'c"
    and ttl :: nat
  assumes lookup_nothing: "lookup nothing k now = None"
    and lookup_store_same: "lookup (store c k v t) k now = Some w \<Longrightarrow> w = v \<and> now - t \<le> ttl"
    and lookup_store_other:
      "k' \<noteq> k \<Longrightarrow> lookup (store c k v t) k' now = Some w \<Longrightarrow> lookup c k' now = Some w"
begin

lemma honest_nothing: "honest lookup bound src nothing"
  by (simp add: honest_def lookup_nothing)

lemma honest_fill:
  assumes "honest lookup (ttl + delay) src c" and "stored_at \<le> read_at + delay" and "v = src read_at k"
  shows "honest lookup (ttl + delay) src (store c k v stored_at)"
  unfolding honest_def
proof (intro allI impI)
  fix k' w now
  assume hit: "lookup (store c k v stored_at) k' now = Some w"
  show "\<exists>t. now \<le> t + (ttl + delay) \<and> w = src t k'"
  proof (cases "k' = k")
    case True
    with hit lookup_store_same have "w = v" and "now - stored_at \<le> ttl" by blast+
    with True assms(2,3) show ?thesis by (intro exI [of _ read_at]) simp
  next
    case False
    with hit lookup_store_other have "lookup c k' now = Some w" by blast
    with assms(1) show ?thesis unfolding honest_def by blast
  qed
qed

lemma honest_history:
  assumes "list_all (\<lambda>e. case e of Fill k r s \<Rightarrow> s \<le> r + delay | Clear \<Rightarrow> True) es"
  shows "honest lookup (ttl + delay) src (fold (cache_event_step nothing store src) es nothing)"
proof -
  have "honest lookup (ttl + delay) src c \<Longrightarrow>
      honest lookup (ttl + delay) src (fold (cache_event_step nothing store src) es c)" for c
    using assms
  proof (induction es arbitrary: c)
    case Nil
    then show ?case by simp
  next
    case (Cons e es)
    then show ?case by (cases e) (simp_all add: honest_fill [OF _ _ refl] honest_nothing)
  qed
  with honest_nothing show ?thesis by blast
qed

lemma honest_hit:
  "honest lookup bound src c \<Longrightarrow> lookup c k now = Some v \<Longrightarrow> \<exists>t. now \<le> t + bound \<and> v = src t k"
  unfolding honest_def by blast

end

section \<open>Byte ranges in chunks\<close>

locale chunk_layout =
  fixes offset :: "nat \<Rightarrow> nat"
    and size_of :: "nat \<Rightarrow> nat"
    and count :: nat
    and total :: nat
  assumes offset_first: "offset 0 = 0"
    and offset_next: "i < count \<Longrightarrow> offset (Suc i) = offset i + size_of i"
    and offset_last: "offset count = total"
begin

lemma offset_sum: "i \<le> count \<Longrightarrow> offset i = (\<Sum>j<i. size_of j)"
  by (induction i) (simp_all add: offset_first offset_next)

lemma sizes_total: "(\<Sum>j<count. size_of j) = total"
  using offset_sum [of count] offset_last by simp

lemma offset_mono: "i \<le> j \<Longrightarrow> j \<le> count \<Longrightarrow> offset i \<le> offset j"
  by (simp add: offset_sum sum_mono2)

lemma offset_end: "i < count \<Longrightarrow> offset i + size_of i \<le> total"
  using offset_mono [of "Suc i" count] offset_next [of i] offset_last by simp

lemma byte_in_some_chunk:
  assumes "b < total"
  shows "\<exists>i<count. offset i \<le> b \<and> b < offset i + size_of i"
proof -
  have "n \<le> count \<Longrightarrow> b < offset n \<Longrightarrow> \<exists>i<n. offset i \<le> b \<and> b < offset i + size_of i" for n
  proof (induction n)
    case 0
    then show ?case by (simp add: offset_first)
  next
    case (Suc n)
    then show ?case
      by (cases "b < offset n") (auto simp: offset_next intro: less_SucI)
  qed
  from this [of count] assms offset_last show ?thesis by simp
qed

lemma chunks_disjoint:
  assumes "i < count" and "j < count" and "offset i \<le> b" and "b < offset i + size_of i"
    and "offset j \<le> b" and "b < offset j + size_of j"
  shows "i = j"
proof (rule ccontr)
  assume "i \<noteq> j"
  then consider "Suc i \<le> j" | "Suc j \<le> i" by linarith
  then show False
  proof cases
    case 1
    with assms offset_mono [of "Suc i" j] offset_next [of i] show False by simp
  next
    case 2
    with assms offset_mono [of "Suc j" i] offset_next [of j] show False by simp
  qed
qed

lemma byte_in_one_chunk:
  "b < total \<Longrightarrow> \<exists>!i. i < count \<and> offset i \<le> b \<and> b < offset i + size_of i"
  using byte_in_some_chunk chunks_disjoint by (metis (no_types, lifting))

end

text \<open>Chunks of equal size, the last one shorter.\<close>

locale equal_chunks =
  fixes csize :: nat
    and whole :: nat
  assumes csize_pos: "0 < csize"
begin

lemma chunks_cover: "whole \<le> (whole + csize - 1) div csize * csize"
proof -
  have "whole + csize - 1 < ((whole + csize - 1) div csize + 1) * csize"
    using div_less_iff_less_mult [OF csize_pos, of "whole + csize - 1" "(whole + csize - 1) div csize + 1"]
    by simp
  with csize_pos show ?thesis by (simp add: algebra_simps)
qed

lemma chunk_start: "i < (whole + csize - 1) div csize \<Longrightarrow> i * csize < whole"
proof -
  assume "i < (whole + csize - 1) div csize"
  then have "Suc i \<le> (whole + csize - 1) div csize" by simp
  then have "Suc i * csize \<le> whole + csize - 1" using csize_pos by (simp add: less_eq_div_iff_mult_less_eq)
  with csize_pos show "i * csize < whole" by simp
qed

end

sublocale equal_chunks \<subseteq> chunk_layout "\<lambda>i. min (i * csize) whole" "\<lambda>i. min csize (whole - i * csize)"
  "(whole + csize - 1) div csize" whole
proof
  show "min (0 * csize) whole = 0" by simp
  show "min (Suc i * csize) whole = min (i * csize) whole + min csize (whole - i * csize)"
    if "i < (whole + csize - 1) div csize" for i
    using chunk_start [OF that] by (auto simp: min_def)
  show "min ((whole + csize - 1) div csize * csize) whole = whole" using chunks_cover by simp
qed

context equal_chunks
begin

lemma byte_chunk:
  assumes "b < whole"
  shows "\<exists>i<(whole + csize - 1) div csize. i * csize \<le> b \<and> b < i * csize + min csize (whole - i * csize)"
proof -
  obtain i where i: "i < (whole + csize - 1) div csize" "min (i * csize) whole \<le> b"
      "b < min (i * csize) whole + min csize (whole - i * csize)"
    using byte_in_some_chunk [OF assms] by blast
  with chunk_start [OF i(1)] show ?thesis by (intro exI [of _ i]) simp
qed

end

end
