(* ===== verification/Net.thy ===== *)
theory Net
  imports Prelude
begin

text \<open>
  \<open>std::net::IpAddr\<close> as the backend uses it: addresses as machine words, the classification
  predicates of \<open>Ipv4Addr\<close> and \<open>Ipv6Addr\<close>, \<open>FromStr\<close> and \<open>Display\<close>.
\<close>

datatype ip_addr = V4 "32 word" | V6 "128 word"

definition ipv4_new :: "nat \<Rightarrow> nat \<Rightarrow> nat \<Rightarrow> nat \<Rightarrow> 32 word" where
  "ipv4_new a b c d = word_of_nat (((a * 256 + b) * 256 + c) * 256 + d)"

definition octet :: "nat \<Rightarrow> 32 word \<Rightarrow> nat" where
  "octet i v = unat v div 256 ^ (3 - i) mod 256"

definition octets :: "32 word \<Rightarrow> nat list" where
  "octets v = [octet 0 v, octet 1 v, octet 2 v, octet 3 v]"

definition segment :: "nat \<Rightarrow> 128 word \<Rightarrow> nat" where
  "segment i v = unat v div 65536 ^ (7 - i) mod 65536"

definition segments :: "128 word \<Rightarrow> nat list" where
  "segments v = map (\<lambda>i. segment i v) [0..<8]"

definition ipv6_of_segments :: "nat list \<Rightarrow> 128 word" where
  "ipv6_of_segments ss = word_of_nat (foldl (\<lambda>acc s. acc * 65536 + s) 0 ss)"

section \<open>Classification\<close>

definition is_loopback4 :: "32 word \<Rightarrow> bool" where
  "is_loopback4 v \<longleftrightarrow> octet 0 v = 127"

definition is_link_local4 :: "32 word \<Rightarrow> bool" where
  "is_link_local4 v \<longleftrightarrow> octet 0 v = 169 \<and> octet 1 v = 254"

definition is_unspecified4 :: "32 word \<Rightarrow> bool" where
  "is_unspecified4 v \<longleftrightarrow> v = 0"

definition is_broadcast4 :: "32 word \<Rightarrow> bool" where
  "is_broadcast4 v \<longleftrightarrow> v = - 1"

definition is_private4 :: "32 word \<Rightarrow> bool" where
  "is_private4 v \<longleftrightarrow> octet 0 v = 10
     \<or> (octet 0 v = 172 \<and> 16 \<le> octet 1 v \<and> octet 1 v \<le> 31)
     \<or> (octet 0 v = 192 \<and> octet 1 v = 168)"

definition is_loopback6 :: "128 word \<Rightarrow> bool" where
  "is_loopback6 v \<longleftrightarrow> v = 1"

definition is_unspecified6 :: "128 word \<Rightarrow> bool" where
  "is_unspecified6 v \<longleftrightarrow> v = 0"

definition to_ipv4_mapped :: "128 word \<Rightarrow> (32 word) option" where
  "to_ipv4_mapped v = (if drop_bit 32 v = 0xffff then Some (ucast v) else None)"

text \<open>\<open>to_ipv4\<close> also accepts the IPv4-compatible form.\<close>

definition to_ipv4 :: "128 word \<Rightarrow> (32 word) option" where
  "to_ipv4 v = (if drop_bit 32 v = 0xffff \<or> drop_bit 32 v = 0 then Some (ucast v) else None)"

section \<open>Parsing\<close>

text \<open>The recursive-descent parser of \<open>core::net::parser\<close>: each reader consumes a prefix of the
  text or fails without consuming.\<close>

type_synonym 'a reader = "string \<Rightarrow> ('a \<times> string) option"

definition hex_value :: "char \<Rightarrow> nat option" where
  "hex_value c =
     (let n = of_char c :: nat
      in if 48 \<le> n \<and> n \<le> 57 then Some (n - 48)
         else if 65 \<le> n \<and> n \<le> 70 then Some (n - 55)
         else if 97 \<le> n \<and> n \<le> 102 then Some (n - 87)
         else None)"

definition to_digit :: "nat \<Rightarrow> char \<Rightarrow> nat option" where
  "to_digit radix c =
     (case hex_value c of Some d \<Rightarrow> if d < radix then Some d else None | None \<Rightarrow> None)"

fun read_digits :: "nat \<Rightarrow> nat \<Rightarrow> nat \<Rightarrow> string \<Rightarrow> nat \<times> nat \<times> string" where
  "read_digits radix acc n [] = (acc, n, [])"
| "read_digits radix acc n (c # cs) =
     (case to_digit radix c of
        Some d \<Rightarrow> read_digits radix (acc * radix + d) (n + 1) cs
      | None \<Rightarrow> (acc, n, c # cs))"

definition read_number :: "nat \<Rightarrow> nat \<Rightarrow> bool \<Rightarrow> nat \<Rightarrow> nat reader" where
  "read_number radix max_digits allow_zero_prefix bound s =
     (case read_digits radix 0 0 s of (v, n, rest) \<Rightarrow>
        if max_digits < n \<or> n = 0 then None
        else if \<not> allow_zero_prefix \<and> take 1 s = ''0'' \<and> 1 < n then None
        else if bound \<le> v then None
        else Some (v, rest))"

fun read_char :: "char \<Rightarrow> string \<Rightarrow> string option" where
  "read_char c [] = None"
| "read_char c (x # xs) = (if x = c then Some xs else None)"

text \<open>\<open>read_separator\<close>: the separator precedes every item but the first.\<close>

definition read_sep :: "char \<Rightarrow> nat \<Rightarrow> 'a reader \<Rightarrow> 'a reader" where
  "read_sep c i r s = (if i = 0 then r s else case read_char c s of Some s' \<Rightarrow> r s' | None \<Rightarrow> None)"

fun read_octets :: "nat \<Rightarrow> nat \<Rightarrow> nat list reader" where
  "read_octets i 0 s = Some ([], s)"
| "read_octets i (Suc n) s =
     (case read_sep (CHR ''.'') i (read_number 10 3 False 256) s of
        Some (a, s') \<Rightarrow>
          (case read_octets (i + 1) n s' of Some (as, s'') \<Rightarrow> Some (a # as, s'') | None \<Rightarrow> None)
      | None \<Rightarrow> None)"

definition read_ipv4 :: "nat list reader" where
  "read_ipv4 s = read_octets 0 4 s"

text \<open>\<open>read_groups\<close> fills up to \<open>limit\<close> groups and says whether it ended in an embedded IPv4.\<close>

fun read_groups :: "nat \<Rightarrow> nat \<Rightarrow> string \<Rightarrow> nat list \<times> bool \<times> string" where
  "read_groups i 0 s = ([], False, s)"
| "read_groups i (Suc left) s =
     (case (if 0 < left then read_sep (CHR '':'') i read_ipv4 s else None) of
        Some (os, s') \<Rightarrow>
          ([os ! 0 * 256 + os ! 1, os ! 2 * 256 + os ! 3], True, s')
      | None \<Rightarrow>
          (case read_sep (CHR '':'') i (read_number 16 4 True 65536) s of
             Some (g, s') \<Rightarrow> (case read_groups (i + 1) left s' of (gs, v4, s'') \<Rightarrow> (g # gs, v4, s''))
           | None \<Rightarrow> ([], False, s)))"

definition read_ipv6 :: "nat list reader" where
  "read_ipv6 s =
     (case read_groups 0 8 s of (head, head_v4, s1) \<Rightarrow>
        if length head = 8 then Some (head, s1)
        else if head_v4 then None
        else case read_char (CHR '':'') s1 of None \<Rightarrow> None | Some s2 \<Rightarrow>
          (case read_char (CHR '':'') s2 of None \<Rightarrow> None | Some s3 \<Rightarrow>
            (case read_groups 0 (8 - (length head + 1)) s3 of (tail, _, s4) \<Rightarrow>
               Some (head @ replicate (8 - length head - length tail) 0 @ tail, s4))))"

definition parse_ip :: "string \<Rightarrow> ip_addr option" where
  "parse_ip s =
     (case read_ipv4 s of
        Some (os, []) \<Rightarrow> Some (V4 (ipv4_new (os ! 0) (os ! 1) (os ! 2) (os ! 3)))
      | _ \<Rightarrow>
        (case read_ipv6 s of
           Some (gs, []) \<Rightarrow> Some (V6 (ipv6_of_segments gs))
         | _ \<Rightarrow> None))"

section \<open>Display\<close>

definition show_ipv4 :: "32 word \<Rightarrow> string" where
  "show_ipv4 v = join ''.'' (map show_nat (octets v))"

definition hex_char :: "nat \<Rightarrow> char" where
  "hex_char n = (if n < 10 then char_of (48 + n) else char_of (87 + n))"

fun show_hex :: "nat \<Rightarrow> string" where
  "show_hex n = (if n < 16 then [hex_char n] else show_hex (n div 16) @ [hex_char (n mod 16)])"

declare show_hex.simps [simp del]

text \<open>The longest run of zero segments, the first of several: its start and length.\<close>

fun zero_run :: "nat \<Rightarrow> nat \<times> nat \<Rightarrow> nat \<times> nat \<Rightarrow> nat list \<Rightarrow> nat \<times> nat" where
  "zero_run i longest current [] = longest"
| "zero_run i longest current (s # ss) =
     (if s = 0 then
        (let current' = (if snd current = 0 then (i, 1) else (fst current, snd current + 1));
             longest' = (if snd longest < snd current' then current' else longest)
         in zero_run (i + 1) longest' current' ss)
      else zero_run (i + 1) longest (0, 0) ss)"

definition show_ipv6 :: "128 word \<Rightarrow> string" where
  "show_ipv6 v =
     (case to_ipv4_mapped v of
        Some v4 \<Rightarrow> ''::ffff:'' @ show_ipv4 v4
      | None \<Rightarrow>
          (let ss = segments v; (start, len) = zero_run 0 (0, 0) (0, 0) ss
           in if 1 < len
              then join '':'' (map show_hex (take start ss)) @ ''::''
                   @ join '':'' (map show_hex (drop (start + len) ss))
              else join '':'' (map show_hex ss)))"

fun show_ip :: "ip_addr \<Rightarrow> string" where
  "show_ip (V4 v) = show_ipv4 v"
| "show_ip (V6 v) = show_ipv6 v"

section \<open>Lemmas\<close>

lemma octet_bound: "octet i v < 256"
  by (simp add: octet_def)

lemma segment_bound: "segment i v < 65536"
  by (simp add: segment_def)

lemma to_ipv4_mapped_to_ipv4: "to_ipv4_mapped v = Some w \<Longrightarrow> to_ipv4 v = Some w"
  by (simp add: to_ipv4_def to_ipv4_mapped_def split: if_splits)

text \<open>Rules that evaluate \<open>parse_ip\<close> and \<open>show_ip\<close> on literals with the simplifier.\<close>

lemma read_octets_numeral:
  "read_octets i (numeral k) s =
     (case read_sep (CHR ''.'') i (read_number 10 3 False 256) s of
        Some (a, s') \<Rightarrow>
          (case read_octets (i + 1) (pred_numeral k) s' of
             Some (as, s'') \<Rightarrow> Some (a # as, s'') | None \<Rightarrow> None)
      | None \<Rightarrow> None)"
  by (simp add: numeral_eq_Suc)

lemma read_groups_numeral:
  "read_groups i (numeral k) s =
     (case (if 0 < pred_numeral k then read_sep (CHR '':'') i read_ipv4 s else None) of
        Some (os, s') \<Rightarrow>
          ([os ! 0 * 256 + os ! 1, os ! 2 * 256 + os ! 3], True, s')
      | None \<Rightarrow>
          (case read_sep (CHR '':'') i (read_number 16 4 True 65536) s of
             Some (g, s') \<Rightarrow>
               (case read_groups (i + 1) (pred_numeral k) s' of (gs, v4, s'') \<Rightarrow> (g # gs, v4, s''))
           | None \<Rightarrow> ([], False, s)))"
  by (simp add: numeral_eq_Suc)

lemma replicate_pred_numeral: "replicate (numeral k) x = x # replicate (pred_numeral k) x"
  by (simp add: numeral_eq_Suc)

lemmas parse_ip_eval = replicate_pred_numeral
  parse_ip_def read_ipv4_def read_ipv6_def read_octets_numeral read_groups_numeral read_sep_def
  read_number_def to_digit_def hex_value_def ipv4_new_def ipv6_of_segments_def Let_def

lemma parse_ip_samples:
  "parse_ip ''127.0.0.1'' = Some (V4 0x7f000001)"
  "parse_ip ''::ffff:169.254.169.254'' = Some (V6 0xffffa9fea9fe)"
  "parse_ip ''fe80::1'' = Some (V6 0xfe800000000000000000000000000001)"
  "parse_ip ''010.0.0.1'' = None"
  "parse_ip ''1.2.3'' = None"
  by (simp_all add: parse_ip_eval)

lemma show_ip_samples:
  "show_ip (V4 0x0a000001) = ''10.0.0.1''"
  "show_ip (V6 0xffff0a000001) = ''::ffff:10.0.0.1''"
  by (simp_all add: show_ipv4_def show_ipv6_def octets_def octet_def show_nat.simps
        to_ipv4_mapped_def drop_bit_eq_div char_of_def bit_0)

end
