(* ===== verification/Outbound.thy ===== *)
theory Outbound
  imports App_Error Interfaces Net
begin

text \<open>
  The guard on URLs the server fetches (\<open>api/validation.rs\<close>): blocked host names, blocked address
  ranges, and the operator's relaxations, read from the process environment.
\<close>

text \<open>The environment is a map from variable names to values. A URL is what \<open>reqwest::Url::parse\<close>
  returns of a text: its scheme and the \<open>host_str\<close> the code reads. The parser is a parameter of
  the validators.\<close>

type_synonym env = "string \<rightharpoonup> string"

record url =
  scheme :: string
  host_str :: "string option"

datatype block_reason = Hostname string | BlockedIp ip_addr

datatype outbound_context = Upstream | Webhook

fun env_var :: "outbound_context \<Rightarrow> string" where
  "env_var Upstream = ''UPSTREAM_ALLOW_PRIVATE_IPS''"
| "env_var Webhook = ''WEBHOOK_ALLOW_PRIVATE_IPS''"

definition cloud_metadata_ips :: "nat list list" where
  "cloud_metadata_ips = [[192, 0, 0, 192], [100, 100, 100, 200]]"

definition blocked_hosts :: "string list" where
  "blocked_hosts =
     [''localhost'', ''metadata.google.internal'', ''metadata.azure.com'',
      ''metadata.tencentyun.com'', ''metadata.oraclecloud.com'', ''metadata.platformequinix.com'',
      ''backend'', ''postgres'', ''redis'', ''opensearch'', ''trivy'']"

section \<open>Prefixes and the allow list\<close>

definition u32_mask :: "nat \<Rightarrow> 32 word" where
  "u32_mask n = (if n < 32 then push_bit n (- 1) else 0)"

definition u128_mask :: "nat \<Rightarrow> 128 word" where
  "u128_mask n = (if n < 128 then push_bit n (- 1) else 0)"

definition ipv4_in_prefix :: "32 word \<Rightarrow> 32 word \<Rightarrow> nat \<Rightarrow> bool" where
  "ipv4_in_prefix net ip prefix =
     (if prefix = 0 then True
      else (let mask = u32_mask (32 - prefix) in and net mask = and ip mask))"

definition ipv6_in_prefix :: "128 word \<Rightarrow> 128 word \<Rightarrow> nat \<Rightarrow> bool" where
  "ipv6_in_prefix net ip prefix =
     (if prefix = 0 then True
      else (let mask = u128_mask (128 - prefix) in and net mask = and ip mask))"

text \<open>\<open>Inl\<close> is the reason the entry is ignored with a warning.\<close>

definition cidr_contains :: "string \<Rightarrow> ip_addr \<Rightarrow> string + bool" where
  "cidr_contains entry ip =
     (let (addr_str, prefix_str) =
            (case split_once (CHR ''/'') entry of Some (a, p) \<Rightarrow> (a, Some p) | None \<Rightarrow> (entry, None))
      in case parse_ip addr_str of
           None \<Rightarrow> Inl ''invalid IP''
         | Some net \<Rightarrow>
           (case prefix_str of
              None \<Rightarrow> Inr (net = ip)
            | Some ps \<Rightarrow>
              (case parse_unsigned 8 ps of
                 None \<Rightarrow> Inl ''invalid prefix''
               | Some prefix \<Rightarrow>
                 if prefix = 0 then Inl ''prefix 0 (all-IPs) is not permitted in the allowlist''
                 else (case (net, ip) of
                         (V4 net4, V4 ip4) \<Rightarrow>
                           if 32 < prefix then Inl ''ipv4 prefix > 32''
                           else Inr (ipv4_in_prefix net4 ip4 prefix)
                       | (V6 net6, V6 ip6) \<Rightarrow>
                           if 128 < prefix then Inl ''ipv6 prefix > 128''
                           else Inr (ipv6_in_prefix net6 ip6 prefix)
                       | _ \<Rightarrow> Inr False))))"

fun any_entry_contains :: "string list \<Rightarrow> ip_addr \<Rightarrow> bool" where
  "any_entry_contains [] ip = False"
| "any_entry_contains (raw # rest) ip =
     (let entry = trim raw
      in if entry = [] then any_entry_contains rest ip
         else case cidr_contains entry ip of
                Inr True \<Rightarrow> True
              | _ \<Rightarrow> any_entry_contains rest ip)"

definition cidr_list_contains :: "string \<Rightarrow> ip_addr \<Rightarrow> bool" where
  "cidr_list_contains l ip = any_entry_contains (split_char (CHR '','') l) ip"

fun first_set :: "env \<Rightarrow> string list \<Rightarrow> string option" where
  "first_set env [] = None"
| "first_set env (name # names) =
     (case env name of
        Some v \<Rightarrow> if trim v \<noteq> [] then Some (trim v) else first_set env names
      | None \<Rightarrow> first_set env names)"

definition private_cidr_allowlist_value :: "env \<Rightarrow> string option" where
  "private_cidr_allowlist_value env =
     first_set env [''AK_SSRF_ALLOW_PRIVATE_CIDRS'', ''UPSTREAM_PRIVATE_IP_ALLOWLIST'']"

definition allow_private_ips_enabled :: "env \<Rightarrow> outbound_context \<Rightarrow> bool" where
  "allow_private_ips_enabled env ctx =
     (case env (env_var ctx) of
        Some v \<Rightarrow> (let t = trim v in t = ''1'' \<or> eq_ignore_ascii_case t ''true'')
      | None \<Rightarrow> False)"

definition private_ip_allowed :: "env \<Rightarrow> ip_addr \<Rightarrow> outbound_context \<Rightarrow> bool" where
  "private_ip_allowed env ip ctx =
     (case private_cidr_allowlist_value env of
        Some l \<Rightarrow> cidr_list_contains l ip
      | None \<Rightarrow> allow_private_ips_enabled env ctx)"

definition cgnat_block_enabled :: "env \<Rightarrow> bool" where
  "cgnat_block_enabled env =
     (case env ''BLOCK_CGNAT_OUTBOUND'' of
        Some v \<Rightarrow> v \<in> {''1'', ''true'', ''True'', ''TRUE''}
      | None \<Rightarrow> False)"

section \<open>Blocked addresses\<close>

definition is_hard_blocked_ipv4 :: "32 word \<Rightarrow> bool" where
  "is_hard_blocked_ipv4 v4 =
     (if is_loopback4 v4 \<or> is_link_local4 v4 \<or> is_unspecified4 v4 \<or> is_broadcast4 v4 then True
      else octets v4 \<in> set cloud_metadata_ips)"

definition is_blocked_ipv4 :: "env \<Rightarrow> 32 word \<Rightarrow> outbound_context \<Rightarrow> bool" where
  "is_blocked_ipv4 env v4 ctx =
     (if is_hard_blocked_ipv4 v4 then True
      else if is_private4 v4 then \<not> private_ip_allowed env (V4 v4) ctx
      else if cgnat_block_enabled env \<and> octet 0 v4 = 100
              \<and> and (octet 1 v4) 0xc0 = 0x40 then True
      else False)"

definition is_blocked_ipv6 :: "env \<Rightarrow> 128 word \<Rightarrow> outbound_context \<Rightarrow> bool" where
  "is_blocked_ipv6 env v6 ctx =
     (if is_loopback6 v6 \<or> is_unspecified6 v6 then True
      else if and (segment 0 v6) 0xffc0 = 0xfe80 then True
      else if and (segment 0 v6) 0xfe00 = 0xfc00 then \<not> private_ip_allowed env (V6 v6) ctx
      else case to_ipv4_mapped v6 of
             Some v4 \<Rightarrow> is_blocked_ipv4 env v4 ctx
           | None \<Rightarrow>
             (case to_ipv4 v6 of
                Some v4 \<Rightarrow> is_blocked_ipv4 env v4 ctx
              | None \<Rightarrow> False))"

fun is_blocked_ip_in :: "env \<Rightarrow> ip_addr \<Rightarrow> outbound_context \<Rightarrow> bool" where
  "is_blocked_ip_in env (V4 v4) ctx = is_blocked_ipv4 env v4 ctx"
| "is_blocked_ip_in env (V6 v6) ctx = is_blocked_ipv6 env v6 ctx"

section \<open>Blocked URLs\<close>

definition host_listed :: "string \<Rightarrow> bool" where
  "host_listed host \<longleftrightarrow>
     list_ex (\<lambda>blocked. host = blocked \<or> ends_with (''.'' @ blocked) host) blocked_hosts"

definition bare_host :: "string \<Rightarrow> string" where
  "bare_host host =
     (case Option.bind (strip_prefix ''['' host) (strip_suffix '']'') of
        Some h \<Rightarrow> h
      | None \<Rightarrow> host)"

definition is_blocked_url_in :: "env \<Rightarrow> url \<Rightarrow> outbound_context \<Rightarrow> block_reason option" where
  "is_blocked_url_in env u ctx =
     (case host_str u of
        None \<Rightarrow> None
      | Some host \<Rightarrow>
        if host_listed (trim_end_matches (CHR ''.'') (to_lowercase host)) then Some (Hostname host)
        else (case parse_ip (bare_host host) of
                Some ip \<Rightarrow> if is_blocked_ip_in env ip ctx then Some (BlockedIp ip) else None
              | None \<Rightarrow> None))"

definition is_blocked_url :: "env \<Rightarrow> url \<Rightarrow> block_reason option" where
  "is_blocked_url env u = is_blocked_url_in env u Upstream"

definition validate_outbound_url_with ::
  "(string \<Rightarrow> url option) \<Rightarrow> env \<Rightarrow> string \<Rightarrow> string \<Rightarrow> outbound_context \<Rightarrow> unit result" where
  "validate_outbound_url_with parse env url_str label ctx =
     (case parse url_str of
        None \<Rightarrow> Inl (Validation (''Invalid '' @ label))
      | Some parsed \<Rightarrow>
        if scheme parsed \<noteq> ''http'' \<and> scheme parsed \<noteq> ''https'' then
          Inl (Validation (label @ '' must use http or https''))
        else if host_str parsed = None then
          Inl (Validation (label @ '' must have a host''))
        else (case is_blocked_url_in env parsed ctx of
                Some (Hostname host) \<Rightarrow>
                  Inl (Validation (label @ '' host '' @ [CHR 0x27] @ host @ [CHR 0x27] @ '' is not allowed''))
              | Some (BlockedIp ip) \<Rightarrow>
                  Inl (Validation (label @ '' IP '' @ [CHR 0x27] @ show_ip ip @ [CHR 0x27]
                                   @ '' is not allowed (private/internal network)''))
              | None \<Rightarrow> Inr ()))"

definition validate_outbound_url ::
  "(string \<Rightarrow> url option) \<Rightarrow> env \<Rightarrow> string \<Rightarrow> string \<Rightarrow> unit result" where
  "validate_outbound_url parse env url_str label =
     validate_outbound_url_with parse env url_str label Upstream"

definition validate_outbound_webhook_url ::
  "(string \<Rightarrow> url option) \<Rightarrow> env \<Rightarrow> string \<Rightarrow> string \<Rightarrow> unit result" where
  "validate_outbound_webhook_url parse env url_str label =
     validate_outbound_url_with parse env url_str label Webhook"

section \<open>Lemmas\<close>

lemma ipv4_in_prefix_top_bits:
  "p \<le> 32 \<Longrightarrow> ipv4_in_prefix net ip p \<longleftrightarrow> drop_bit (32 - p) net = drop_bit (32 - p) ip"
  by (simp add: ipv4_in_prefix_def u32_mask_def Let_def not_mask_compare_top_bits
      push_bit_minus_one_eq_not_mask)

lemma ipv6_in_prefix_top_bits:
  "p \<le> 128 \<Longrightarrow> ipv6_in_prefix net ip p \<longleftrightarrow> drop_bit (128 - p) net = drop_bit (128 - p) ip"
  by (simp add: ipv6_in_prefix_def u128_mask_def Let_def not_mask_compare_top_bits
      push_bit_minus_one_eq_not_mask)

interpretation p4: prefix_match ipv4_in_prefix
  by unfold_locales (simp add: ipv4_in_prefix_top_bits)

interpretation p6: prefix_match ipv6_in_prefix
  by unfold_locales (simp add: ipv6_in_prefix_top_bits)

lemma first_set_SomeD: "first_set env names = Some v \<Longrightarrow> \<exists>n \<in> set names. \<exists>raw. env n = Some raw \<and> v = trim raw"
  by (induction names) (auto split: option.splits if_splits)

lemma first_set_update: "n \<notin> set names \<Longrightarrow> first_set (env(n := x)) names = first_set env names"
  by (induction names) (auto split: option.splits)

lemma any_entry_containsD:
  "any_entry_contains es ip \<Longrightarrow> \<exists>raw \<in> set es. trim raw \<noteq> [] \<and> cidr_contains (trim raw) ip = Inr True"
  by (induction es) (auto simp: Let_def split: if_splits sum.splits bool.splits)

text \<open>An entry that matches is a single address or a non-empty prefix of the address's family.\<close>

lemma cidr_contains_True:
  assumes "cidr_contains entry ip = Inr True"
  shows "parse_ip entry = Some ip
     \<or> (\<exists>a p n. split_once (CHR ''/'') entry = Some (a, p) \<and> parse_unsigned 8 p = Some n \<and> 0 < n
          \<and> ((\<exists>net v. parse_ip a = Some (V4 net) \<and> ip = V4 v \<and> n \<le> 32 \<and> ipv4_in_prefix net v n)
             \<or> (\<exists>net v. parse_ip a = Some (V6 net) \<and> ip = V6 v \<and> n \<le> 128 \<and> ipv6_in_prefix net v n)))"
  using assms
  by (auto simp: cidr_contains_def Let_def
      split: option.splits prod.splits if_splits ip_addr.splits)

lemma segment0_of_mapped:
  assumes "to_ipv4 v = Some w"
  shows "segment 0 v = 0"
proof -
  have "drop_bit 32 v = 0xffff \<or> drop_bit 32 v = 0" using assms by (simp add: to_ipv4_def split: if_splits)
  then have "unat (drop_bit 32 v) \<le> 0xffff" by auto
  then have "unat v div 2 ^ 32 \<le> 0xffff"
    by (simp only: unat_drop_bit_eq) (simp add: drop_bit_eq_div)
  then have "unat v < 2 ^ 48" by simp
  then show ?thesis by (simp add: segment_def)
qed

lemma to_ipv4_cases:
  "to_ipv4 v = (case to_ipv4_mapped v of Some w \<Rightarrow> Some w
                | None \<Rightarrow> if drop_bit 32 v = 0 then Some (ucast v) else None)"
  by (auto simp: to_ipv4_def to_ipv4_mapped_def)

lemma is_blocked_ipv6_embedded:
  "to_ipv4 v = Some w \<Longrightarrow> v \<noteq> 0 \<Longrightarrow> v \<noteq> 1 \<Longrightarrow> is_blocked_ipv6 env v ctx = is_blocked_ipv4 env w ctx"
  using segment0_of_mapped [of v w]
  by (simp add: is_blocked_ipv6_def is_loopback6_def is_unspecified6_def to_ipv4_cases
      split: option.splits if_splits)

lemma hard_blocked_blocked: "is_hard_blocked_ipv4 v \<Longrightarrow> is_blocked_ipv4 env v ctx"
  by (simp add: is_blocked_ipv4_def)

section \<open>Properties\<close>

text \<open>C3: whatever the environment relaxes, a URL that the validator accepts is http or https, has a
  host that is on no entry of the host block list (nor below one), and is no literal of a loopback,
  link-local, unspecified, broadcast or cloud metadata address, neither as IPv4 nor written inside
  an IPv6 literal, nor the IPv6 loopback, unspecified or a link-local address.\<close>

theorem accepted_url_avoids_hard_targets:
  assumes "validate_outbound_url_with parse env s label ctx = Inr ()"
  shows "\<exists>u host. parse s = Some u \<and> host_str u = Some host
     \<and> scheme u \<in> {''http'', ''https''}
     \<and> \<not> host_listed (trim_end_matches (CHR ''.'') (to_lowercase host))
     \<and> (\<forall>v. parse_ip (bare_host host) = Some (V4 v) \<longrightarrow> \<not> is_hard_blocked_ipv4 v)
     \<and> (\<forall>v. parse_ip (bare_host host) = Some (V6 v) \<longrightarrow>
           v \<noteq> 0 \<and> v \<noteq> 1 \<and> and (segment 0 v) 0xffc0 \<noteq> 0xfe80
           \<and> (\<forall>w. to_ipv4 v = Some w \<longrightarrow> \<not> is_hard_blocked_ipv4 w))"
proof -
  obtain u host where u: "parse s = Some u" "host_str u = Some host" "scheme u \<in> {''http'', ''https''}"
    and unblocked: "is_blocked_url_in env u ctx = None"
    using assms by (auto simp: validate_outbound_url_with_def split: option.splits if_splits block_reason.splits)
  have name: "\<not> host_listed (trim_end_matches (CHR ''.'') (to_lowercase host))"
    and ip: "\<And>ip. parse_ip (bare_host host) = Some ip \<Longrightarrow> \<not> is_blocked_ip_in env ip ctx"
    using unblocked u by (auto simp: is_blocked_url_in_def split: if_splits)
  have v4: "\<not> is_hard_blocked_ipv4 v" if "parse_ip (bare_host host) = Some (V4 v)" for v
    using ip [OF that] hard_blocked_blocked by auto
  have v6: "v \<noteq> 0 \<and> v \<noteq> 1 \<and> and (segment 0 v) 0xffc0 \<noteq> 0xfe80"
    if "parse_ip (bare_host host) = Some (V6 v)" for v
    using ip [OF that]
    by (auto simp: is_blocked_ipv6_def is_loopback6_def is_unspecified6_def split: if_splits)
  have "\<not> is_hard_blocked_ipv4 w" if "parse_ip (bare_host host) = Some (V6 v)" "to_ipv4 v = Some w" for v w
    using ip [OF that(1)] v6 [OF that(1)] that(2) is_blocked_ipv6_embedded hard_blocked_blocked by auto
  with u name v4 v6 show ?thesis by blast
qed

theorem accepted_url_avoids_hard_targets_witness:
  "\<exists>u host. Some \<lparr> scheme = ''https'', host_str = Some ''10.1.2.3'' \<rparr> = Some u
     \<and> host_str u = Some host
     \<and> scheme u \<in> {''http'', ''https''}
     \<and> \<not> host_listed (trim_end_matches (CHR ''.'') (to_lowercase host))
     \<and> (\<forall>v. parse_ip (bare_host host) = Some (V4 v) \<longrightarrow> \<not> is_hard_blocked_ipv4 v)
     \<and> (\<forall>v. parse_ip (bare_host host) = Some (V6 v) \<longrightarrow>
           v \<noteq> 0 \<and> v \<noteq> 1 \<and> and (segment 0 v) 0xffc0 \<noteq> 0xfe80
           \<and> (\<forall>w. to_ipv4 v = Some w \<longrightarrow> \<not> is_hard_blocked_ipv4 w))"
proof (rule accepted_url_avoids_hard_targets
    [where parse = "\<lambda>_. Some \<lparr> scheme = ''https'', host_str = Some ''10.1.2.3'' \<rparr>" and s = "''x''"
      and env = "[''UPSTREAM_ALLOW_PRIVATE_IPS'' \<mapsto> ''true'']" and label = "''URL''" and ctx = Upstream])
  have listed: "\<not> host_listed ''10.1.2.3''"
    by (simp add: host_listed_def blocked_hosts_def ends_with_def starts_with_def)
  have ip: "parse_ip (bare_host ''10.1.2.3'') = Some (V4 0x0a010203)"
    by (simp add: bare_host_def strip_prefix_def starts_with_def parse_ip_eval)
  have toggle: "allow_private_ips_enabled [''UPSTREAM_ALLOW_PRIVATE_IPS'' \<mapsto> ''true''] Upstream"
    by (simp add: allow_private_ips_enabled_def eq_ignore_ascii_case_def trim_def trim_start_def
        trim_end_def is_white_def Let_def)
  show "validate_outbound_url_with (\<lambda>_. Some \<lparr> scheme = ''https'', host_str = Some ''10.1.2.3'' \<rparr>)
      [''UPSTREAM_ALLOW_PRIVATE_IPS'' \<mapsto> ''true''] ''x'' ''URL'' Upstream = Inr ()"
    using listed toggle
    by (simp add: validate_outbound_url_with_def is_blocked_url_in_def ip is_blocked_ipv4_def
        is_hard_blocked_ipv4_def is_loopback4_def is_link_local4_def is_unspecified4_def
        is_broadcast4_def octets_def octet_def cloud_metadata_ips_def is_private4_def
        private_ip_allowed_def private_cidr_allowlist_value_def trim_end_matches_def
        to_lowercase_def lower_char_def)
qed

text \<open>C29: writing an IPv4 address inside an IPv6 literal does not change the verdict: the mapped form
  \<open>::ffff:a.b.c.d\<close> of every IPv4 address, and the compatible form \<open>::a.b.c.d\<close> of every one but
  0.0.0.0 and 0.0.0.1 (which are blocked as \<open>::\<close> and \<open>::1\<close>), are blocked exactly when the IPv4
  address is, in every environment and context.\<close>

theorem embedded_ipv4_same_verdict:
  "is_blocked_ip_in env (V6 (push_bit 32 0xffff + ucast (v :: 32 word))) ctx
     = is_blocked_ip_in env (V4 v) ctx
   \<and> is_blocked_ip_in env (V6 (ucast v)) ctx
     = (v = 0 \<or> v = 1 \<or> is_blocked_ip_in env (V4 v) ctx)"

proof -
  define c :: "128 word" where "c = ucast v"
  define h :: "128 word" where "h = push_bit 32 0xffff"
  have bits: "bit c i \<longleftrightarrow> i < 32 \<and> bit v i" for i
    by (auto simp: c_def bit_simps dest: bit_imp_le_length)
  have high: "bit h i \<Longrightarrow> 32 \<le> i" for i
    unfolding h_def bit_push_bit_iff by simp
  have "and h c = 0"
    by (rule bit_eqI) (auto simp: bit_and_iff bits dest: high)
  then have m: "h + c = or h c" by (rule disjunctive_add_eq_or)
  have cdrop: "drop_bit 32 c = 0" by (rule bit_eqI) (simp add: bit_drop_bit_eq bits)
  have cback: "(ucast c :: 32 word) = v" by (rule bit_eqI) (simp add: bit_simps bits)
  have mdrop: "drop_bit 32 (h + c) = 0xffff"
    unfolding m drop_bit_or cdrop by (simp add: h_def)
  have mback: "(ucast (h + c) :: 32 word) = v"
    unfolding m by (rule bit_eqI) (auto simp: bit_simps bits dest: high)
  have "to_ipv4 (h + c) = Some v" by (simp add: to_ipv4_def mdrop mback)
  moreover have "h + c \<noteq> 0" "h + c \<noteq> 1" using mdrop by auto
  moreover have "to_ipv4 c = Some v" by (simp add: to_ipv4_def cdrop cback)
  moreover have "c = 0 \<longleftrightarrow> v = 0" "c = 1 \<longleftrightarrow> v = 1"
    using cback by (auto simp: c_def)
  ultimately have "is_blocked_ipv6 env (h + c) ctx = is_blocked_ipv4 env v ctx"
    and "v \<noteq> 0 \<Longrightarrow> v \<noteq> 1 \<Longrightarrow> is_blocked_ipv6 env c ctx = is_blocked_ipv4 env v ctx"
    by (simp_all add: is_blocked_ipv6_embedded)
  moreover have "v = 0 \<or> v = 1 \<Longrightarrow> is_blocked_ipv6 env c ctx"
    by (auto simp: c_def is_blocked_ipv6_def is_loopback6_def is_unspecified6_def)
  ultimately show ?thesis unfolding h_def c_def is_blocked_ip_in.simps by blast
qed

text \<open>the relaxations of the two surfaces are independent and the named allow list overrides the
  blanket toggles: changing one surface's toggle never changes a verdict of the other, and with an
  allow list set no toggle changes any verdict.\<close>

theorem relaxations_independent:
  "is_blocked_ip_in (env(''UPSTREAM_ALLOW_PRIVATE_IPS'' := x)) ip Webhook = is_blocked_ip_in env ip Webhook
   \<and> is_blocked_ip_in (env(''WEBHOOK_ALLOW_PRIVATE_IPS'' := x)) ip Upstream = is_blocked_ip_in env ip Upstream
   \<and> (private_cidr_allowlist_value env \<noteq> None \<longrightarrow>
        is_blocked_ip_in (env(env_var ctx := x)) ip ctx = is_blocked_ip_in env ip ctx)"
proof -
  have allow: "private_cidr_allowlist_value (env(n := x)) = private_cidr_allowlist_value env"
    and cgnat: "cgnat_block_enabled (env(n := x)) = cgnat_block_enabled env"
    if "n \<in> {''UPSTREAM_ALLOW_PRIVATE_IPS'', ''WEBHOOK_ALLOW_PRIVATE_IPS''}" for n
  proof -
    have "n \<noteq> ''AK_SSRF_ALLOW_PRIVATE_CIDRS''" "n \<noteq> ''UPSTREAM_PRIVATE_IP_ALLOWLIST''"
      "n \<noteq> ''BLOCK_CGNAT_OUTBOUND''" using that by auto
    then show "private_cidr_allowlist_value (env(n := x)) = private_cidr_allowlist_value env"
      "cgnat_block_enabled (env(n := x)) = cgnat_block_enabled env"
      by (simp_all add: private_cidr_allowlist_value_def cgnat_block_enabled_def first_set_update
          del: first_set.simps)
  qed
  have same: "is_blocked_ip_in (env(n := x)) ip c = is_blocked_ip_in env ip c"
    if n: "n \<in> {''UPSTREAM_ALLOW_PRIVATE_IPS'', ''WEBHOOK_ALLOW_PRIVATE_IPS''}"
      and differs: "n \<noteq> env_var c \<or> private_cidr_allowlist_value env \<noteq> None" for n c
  proof -
    have "private_ip_allowed (env(n := x)) a c = private_ip_allowed env a c" for a
      using differs
      by (cases "private_cidr_allowlist_value env")
        (auto simp: private_ip_allowed_def allow [OF n] allow_private_ips_enabled_def)
    then have "is_blocked_ipv4 (env(n := x)) v c = is_blocked_ipv4 env v c" for v
      by (simp add: is_blocked_ipv4_def cgnat [OF n])
    with \<open>\<And>a. private_ip_allowed (env(n := x)) a c = private_ip_allowed env a c\<close> show ?thesis
      by (cases ip) (simp_all add: is_blocked_ipv6_def split: option.splits)
  qed
  show ?thesis using same [of _ Webhook] same [of _ Upstream] same [of "env_var ctx" ctx]
    by (cases ctx) simp_all
qed

theorem relaxations_independent_witness:
  "is_blocked_ip_in ([''AK_SSRF_ALLOW_PRIVATE_CIDRS'' \<mapsto> ''10.0.0.0/8''](env_var Upstream := Some ''true''))
       (V4 0xc0a80001) Upstream
     = is_blocked_ip_in [''AK_SSRF_ALLOW_PRIVATE_CIDRS'' \<mapsto> ''10.0.0.0/8''] (V4 0xc0a80001) Upstream"
proof -
  have "private_cidr_allowlist_value [''AK_SSRF_ALLOW_PRIVATE_CIDRS'' \<mapsto> ''10.0.0.0/8''] \<noteq> None"
    by (simp add: private_cidr_allowlist_value_def trim_def trim_start_def trim_end_def is_white_def)
  with relaxations_independent [of "[''AK_SSRF_ALLOW_PRIVATE_CIDRS'' \<mapsto> ''10.0.0.0/8'']" "Some ''true''" "V4 0xc0a80001" Upstream]
  show ?thesis by blast
qed

text \<open>a private address that an allow list exempts is covered by a well-formed entry of that list,
  the address itself or a prefix of at least one bit in the address's family. Malformed entries and
  all-address prefixes exempt nothing.\<close>

theorem allowlist_exempts_only_listed:
  assumes "private_cidr_allowlist_value env = Some l" and "private_ip_allowed env ip ctx"
  shows "\<exists>entry \<in> trim ` set (split_char (CHR '','') l). parse_ip entry = Some ip
     \<or> (\<exists>a p n. split_once (CHR ''/'') entry = Some (a, p) \<and> parse_unsigned 8 p = Some n \<and> 0 < n
          \<and> ((\<exists>net v. parse_ip a = Some (V4 net) \<and> ip = V4 v \<and> n \<le> 32
                 \<and> unat net div 2 ^ (32 - n) = unat v div 2 ^ (32 - n))
             \<or> (\<exists>net v. parse_ip a = Some (V6 net) \<and> ip = V6 v \<and> n \<le> 128
                 \<and> unat net div 2 ^ (128 - n) = unat v div 2 ^ (128 - n))))"
proof -
  from assms have "any_entry_contains (split_char (CHR '','') l) ip"
    by (simp add: private_ip_allowed_def cidr_list_contains_def)
  then obtain raw where raw: "raw \<in> set (split_char (CHR '','') l)" "cidr_contains (trim raw) ip = Inr True"
    using any_entry_containsD by blast
  show ?thesis
    by (rule bexI [OF _ imageI [OF raw(1)]])
      (use cidr_contains_True [OF raw(2)] p4.matches_interval p6.matches_interval in \<open>simp, blast\<close>)
qed

theorem allowlist_exempts_only_listed_witness:
  "\<exists>entry \<in> trim ` set (split_char (CHR '','') ''x,10.0.0.0/8''). parse_ip entry = Some (V4 0x0a010203)
     \<or> (\<exists>a p n. split_once (CHR ''/'') entry = Some (a, p) \<and> parse_unsigned 8 p = Some n \<and> 0 < n
          \<and> ((\<exists>net v. parse_ip a = Some (V4 net) \<and> V4 0x0a010203 = V4 v \<and> n \<le> 32
                 \<and> unat net div 2 ^ (32 - n) = unat v div 2 ^ (32 - n))
             \<or> (\<exists>net v. parse_ip a = Some (V6 net) \<and> V4 0x0a010203 = V6 v \<and> n \<le> 128
                 \<and> unat net div 2 ^ (128 - n) = unat v div 2 ^ (128 - n))))"
proof (rule allowlist_exempts_only_listed
    [where env = "[''AK_SSRF_ALLOW_PRIVATE_CIDRS'' \<mapsto> ''x,10.0.0.0/8'']" and ctx = Webhook])
  show l: "private_cidr_allowlist_value [''AK_SSRF_ALLOW_PRIVATE_CIDRS'' \<mapsto> ''x,10.0.0.0/8''] = Some ''x,10.0.0.0/8''"
    by (simp add: private_cidr_allowlist_value_def trim_def trim_start_def trim_end_def is_white_def)
  have "ipv4_in_prefix 0x0a000000 0x0a010203 8"
    by (simp add: p4.matches_interval)
  then show "private_ip_allowed [''AK_SSRF_ALLOW_PRIVATE_CIDRS'' \<mapsto> ''x,10.0.0.0/8''] (V4 0x0a010203) Webhook"
    by (simp add: private_ip_allowed_def l cidr_list_contains_def trim_def trim_start_def trim_end_def
        is_white_def cidr_contains_def parse_ip_eval parse_unsigned_def parse_digits_def
        is_ascii_digit_def digit_value_def)
qed

end
