(* ===== verification/Rate_Limiter.thy ===== *)
theory Rate_Limiter
  imports Auth_Context Interfaces Net
begin

text \<open>
  The per-instance request limiter (\<open>api/middleware/rate_limit.rs\<close>): trusted address ranges,
  exemptions, the fixed-window counter per key and its periodic clean-up, and the two middlewares.
  The mutex makes each operation on the counters atomic, so an operation is a
  function of the map.
\<close>

section \<open>Trusted ranges and exemptions\<close>

record cidr_range =
  network :: ip_addr
  prefix_len :: nat

datatype cidr_error =
    MissingSlash string
  | InvalidIp string
  | InvalidPrefixLength string
  | PrefixTooLong nat nat string

definition cidr_parse :: "string \<Rightarrow> cidr_error + cidr_range" where
  "cidr_parse s =
     (case split_once (CHR ''/'') s of
        None \<Rightarrow> Inl (MissingSlash s)
      | Some (addr_str, prefix_str) \<Rightarrow>
        (case parse_ip addr_str of
           None \<Rightarrow> Inl (InvalidIp addr_str)
         | Some net \<Rightarrow>
           (case parse_unsigned 8 prefix_str of
              None \<Rightarrow> Inl (InvalidPrefixLength prefix_str)
            | Some len \<Rightarrow>
                (let max_prefix = (case net of V4 _ \<Rightarrow> 32 | V6 _ \<Rightarrow> 128)
                 in if max_prefix < len then Inl (PrefixTooLong len max_prefix addr_str)
                    else Inr \<lparr> network = net, prefix_len = len \<rparr>))))"

definition cidr_mask32 :: "nat \<Rightarrow> 32 word" where
  "cidr_mask32 len = (if len = 0 then 0 else if 32 - len < 32 then push_bit (32 - len) (- 1) else 0)"

definition cidr_mask128 :: "nat \<Rightarrow> 128 word" where
  "cidr_mask128 len = (if len = 0 then 0 else if 128 - len < 128 then push_bit (128 - len) (- 1) else 0)"

definition contains_v4 :: "32 word \<Rightarrow> 32 word \<Rightarrow> nat \<Rightarrow> bool" where
  "contains_v4 net ip len = (and net (cidr_mask32 len) = and ip (cidr_mask32 len))"

definition contains_v6 :: "128 word \<Rightarrow> 128 word \<Rightarrow> nat \<Rightarrow> bool" where
  "contains_v6 net ip len = (and net (cidr_mask128 len) = and ip (cidr_mask128 len))"

definition cidr_contains_ip :: "cidr_range \<Rightarrow> ip_addr \<Rightarrow> bool" where
  "cidr_contains_ip r ip =
     (case (network r, ip) of
        (V4 net, V4 v) \<Rightarrow> contains_v4 net v (prefix_len r)
      | (V6 net, V6 v) \<Rightarrow> contains_v6 net v (prefix_len r)
      | _ \<Rightarrow> False)"

record exemptions =
  usernames :: "string set"
  exempt_service_accounts :: bool
  trusted_cidrs :: "cidr_range list"

definition is_exempt :: "exemptions \<Rightarrow> auth_extension \<Rightarrow> bool" where
  "is_exempt x auth =
     (if username auth \<in> usernames x then True
      else if exempt_service_accounts x \<and> is_service_account auth then True
      else False)"

definition is_trusted_cidr :: "exemptions \<Rightarrow> ip_addr \<Rightarrow> bool" where
  "is_trusted_cidr x ip = list_ex (\<lambda>c. cidr_contains_ip c ip) (trusted_cidrs x)"

section \<open>The counters\<close>

type_synonym counters = "string \<rightharpoonup> nat \<times> instant"

record limiter =
  max_requests :: nat
  window :: nat

definition limiter_new :: "nat \<Rightarrow> nat \<Rightarrow> limiter" where
  "limiter_new maximum window_secs = \<lparr> max_requests = maximum, window = nanos window_secs \<rparr>"

text \<open>\<open>Inr remaining\<close> admits the request, \<open>Inl seconds\<close> refuses it.\<close>

definition check_rate_limit :: "limiter \<Rightarrow> counters \<Rightarrow> string \<Rightarrow> instant \<Rightarrow> (nat + nat) \<times> counters" where
  "check_rate_limit l m key now =
     (let (count, start) = (case m key of Some e \<Rightarrow> e | None \<Rightarrow> (0, now))
      in if window l \<le> now - start then (Inr (max_requests l - 1), m(key \<mapsto> (1, now)))
         else if max_requests l \<le> count then
           (Inl (max (as_secs (window l) - as_secs (now - start)) 1), m(key \<mapsto> (count, start)))
         else (Inr (max_requests l - (count + 1)), m(key \<mapsto> (count + 1, start))))"

definition cleanup_expired :: "limiter \<Rightarrow> counters \<Rightarrow> instant \<Rightarrow> counters" where
  "cleanup_expired l m now = retain (\<lambda>_ (_, start). now - start < window l) m"

section \<open>The middlewares\<close>

text \<open>What the middlewares read of a request: the two extensions that may hold the identity, the peer
  address and the \<open>X-Forwarded-For\<close> header. The display of a UUID is the \<open>uuid\<close> crate's, so it is a
  parameter; the handler behind the middleware is one too.\<close>

record rl_request =
  ext_auth :: "auth_extension option"
  ext_auth_opt :: "auth_extension option option"
  connect_info :: "ip_addr option"
  x_forwarded_for :: "string option"

record rl_response =
  http_status :: nat
  http_headers :: "string \<rightharpoonup> string"
  http_body :: string

definition request_auth :: "rl_request \<Rightarrow> auth_extension option" where
  "request_auth r =
     (case ext_auth r of
        Some a \<Rightarrow> Some a
      | None \<Rightarrow> (case ext_auth_opt r of Some a \<Rightarrow> a | None \<Rightarrow> None))"

definition extract_client_ip_addr :: "rl_request \<Rightarrow> ip_addr option" where
  "extract_client_ip_addr r =
     (case connect_info r of
        Some ip \<Rightarrow> Some ip
      | None \<Rightarrow>
        (case x_forwarded_for r of
           Some xff \<Rightarrow> parse_ip (trim (hd (split_char (CHR '','') xff)))
         | None \<Rightarrow> None))"

definition extract_client_ip :: "rl_request \<Rightarrow> string" where
  "extract_client_ip r =
     (case extract_client_ip_addr r of
        Some ip \<Rightarrow> ''ip:'' @ show_ip ip
      | None \<Rightarrow>
        (case x_forwarded_for r of
           Some xff \<Rightarrow> ''ip:'' @ trim (hd (split_char (CHR '','') xff))
         | None \<Rightarrow> ''ip:unknown''))"

definition insert_header :: "string \<Rightarrow> string \<Rightarrow> rl_response \<Rightarrow> rl_response" where
  "insert_header name v r = r\<lparr> http_headers := (http_headers r)(name \<mapsto> v) \<rparr>"

text \<open>The exemption that lets a request bypass the counters, as the value of its response header.\<close>

definition exemption_of :: "exemptions \<Rightarrow> rl_request \<Rightarrow> string option" where
  "exemption_of x r =
     (if (case request_auth r of Some a \<Rightarrow> is_exempt x a | None \<Rightarrow> False) then Some ''true''
      else if trusted_cidrs x \<noteq> []
              \<and> (case extract_client_ip_addr r of Some ip \<Rightarrow> is_trusted_cidr x ip | None \<Rightarrow> False)
           then Some ''trusted-cidr''
      else None)"

text \<open>The part after the key is chosen is the same text in both middlewares.\<close>

definition limit_by_key ::
  "limiter \<Rightarrow> (rl_request \<Rightarrow> rl_response) \<Rightarrow> string \<Rightarrow> instant \<Rightarrow> rl_request \<Rightarrow> counters
   \<Rightarrow> rl_response \<times> counters" where
  "limit_by_key l handler key now r m =
     (case check_rate_limit l m key now of
        (Inr remaining, m') \<Rightarrow>
          (insert_header ''X-RateLimit-Remaining'' (show_nat remaining)
            (insert_header ''X-RateLimit-Limit'' (show_nat (max_requests l)) (handler r)), m')
      | (Inl retry_after, m') \<Rightarrow>
          (insert_header ''X-RateLimit-Remaining'' ''0''
            (insert_header ''X-RateLimit-Limit'' (show_nat (max_requests l))
              (insert_header ''Retry-After'' (show_nat retry_after)
                \<lparr> http_status = 429, http_headers = Map.empty,
                  http_body = ''Rate limit exceeded. Please try again later.'' \<rparr>)), m'))"

definition rate_limit_middleware ::
  "(uuid \<Rightarrow> string) \<Rightarrow> limiter \<Rightarrow> exemptions \<Rightarrow> (rl_request \<Rightarrow> rl_response) \<Rightarrow> instant \<Rightarrow> rl_request
   \<Rightarrow> counters \<Rightarrow> rl_response \<times> counters" where
  "rate_limit_middleware show_uuid l x handler now r m =
     (case exemption_of x r of
        Some reason \<Rightarrow> (insert_header ''X-RateLimit-Exempt'' reason (handler r), m)
      | None \<Rightarrow>
          (let key = (case request_auth r of
                        Some a \<Rightarrow> ''user:'' @ show_uuid (user_id a)
                      | None \<Rightarrow> extract_client_ip r)
           in limit_by_key l handler key now r m))"

definition rate_limit_by_ip_middleware ::
  "limiter \<Rightarrow> exemptions \<Rightarrow> (rl_request \<Rightarrow> rl_response) \<Rightarrow> instant \<Rightarrow> rl_request
   \<Rightarrow> counters \<Rightarrow> rl_response \<times> counters" where
  "rate_limit_by_ip_middleware l x handler now r m =
     (case exemption_of x r of
        Some reason \<Rightarrow> (insert_header ''X-RateLimit-Exempt'' reason (handler r), m)
      | None \<Rightarrow> limit_by_key l handler (extract_client_ip r) now r m)"

section \<open>Lemmas on trusted ranges\<close>

lemma contains_v4_top_bits:
  "p \<le> 32 \<Longrightarrow> contains_v4 net ip p \<longleftrightarrow> drop_bit (32 - p) net = drop_bit (32 - p) ip"
  by (cases "p = 0") (simp_all add: contains_v4_def cidr_mask32_def not_mask_compare_top_bits
      push_bit_minus_one_eq_not_mask)

lemma contains_v6_top_bits:
  "p \<le> 128 \<Longrightarrow> contains_v6 net ip p \<longleftrightarrow> drop_bit (128 - p) net = drop_bit (128 - p) ip"
  by (cases "p = 0") (simp_all add: contains_v6_def cidr_mask128_def not_mask_compare_top_bits
      push_bit_minus_one_eq_not_mask)

interpretation c4: prefix_match contains_v4
  by unfold_locales (simp add: contains_v4_top_bits)

interpretation c6: prefix_match contains_v6
  by unfold_locales (simp add: contains_v6_top_bits)

lemma cidr_parse_bounds:
  "cidr_parse s = Inr r \<Longrightarrow> prefix_len r \<le> (case network r of V4 _ \<Rightarrow> 32 | V6 _ \<Rightarrow> 128)"
  by (auto simp: cidr_parse_def Let_def split: option.splits prod.splits if_splits ip_addr.splits)

lemma cidr_contains_network: "cidr_parse s = Inr r \<Longrightarrow> cidr_contains_ip r (network r)"
  using cidr_parse_bounds [of s r] by (simp add: cidr_contains_ip_def split: ip_addr.splits)

section \<open>Lemmas on the counters\<close>

lemma check_other_key: "k \<noteq> key \<Longrightarrow> snd (check_rate_limit l m key now) k = m k"
  by (simp add: check_rate_limit_def Let_def split: prod.splits option.splits)

lemma check_same_key:
  "m key = m' key \<Longrightarrow> fst (check_rate_limit l m key now) = fst (check_rate_limit l m' key now)
     \<and> snd (check_rate_limit l m key now) key = snd (check_rate_limit l m' key now) key"
  by (simp add: check_rate_limit_def Let_def split: prod.splits)

text \<open>A schedule of requests in the order in which they take the lock, and the verdict of each.\<close>

fun run_limiter :: "limiter \<Rightarrow> counters \<Rightarrow> (string \<times> instant) list \<Rightarrow> (string \<times> instant \<times> bool) list" where
  "run_limiter l m [] = []"
| "run_limiter l m ((key, now) # es) =
     (let (r, m') = check_rate_limit l m key now
      in (key, now, is_ok r) # run_limiter l m' es)"

definition admitted :: "string \<Rightarrow> instant \<Rightarrow> nat \<Rightarrow> (string \<times> instant \<times> bool) list \<Rightarrow> nat" where
  "admitted key t d trace =
     length (filter (\<lambda>(k, now, ok). k = key \<and> t \<le> now \<and> now < t + d \<and> ok) trace)"

text \<open>How many requests an interval of one window's length that starts at \<open>t\<close> may still admit.\<close>

definition interval_budget :: "limiter \<Rightarrow> instant \<Rightarrow> (nat \<times> instant) option \<Rightarrow> nat" where
  "interval_budget l t e =
     (case e of
        None \<Rightarrow> 2 * max_requests l
      | Some (c, s) \<Rightarrow>
          if t + window l \<le> s then 0
          else if t \<le> s then max_requests l - c
          else if t < s + window l then (max_requests l - c) + max_requests l
          else 2 * max_requests l)"

lemma interval_budget_step:
  assumes "0 < max_requests l" and "0 < window l" and "\<And>c s. m key = Some (c, s) \<Longrightarrow> s \<le> now"
    and "check_rate_limit l m key now = (r, m')"
  shows "(if t \<le> now \<and> now < t + window l \<and> is_ok r then 1 else 0) + interval_budget l t (m' key)
           \<le> interval_budget l t (m key)"
  using assms
  by (cases "m key")
    (auto simp: check_rate_limit_def Let_def interval_budget_def not_le split: if_splits, linarith+)

lemma start_not_later:
  assumes "check_rate_limit l m key now = (r, m')" and "\<And>c s. m k = Some (c, s) \<Longrightarrow> s \<le> now"
    and "m' k = Some (c, s)"
  shows "s \<le> now"
  using assms by (auto simp: check_rate_limit_def Let_def split: prod.splits if_splits option.splits)

lemma admitted_le_budget:
  assumes "0 < max_requests l" and "0 < window l" and "sorted (map snd es)"
    and "\<And>c s e. m key = Some (c, s) \<Longrightarrow> e \<in> set es \<Longrightarrow> s \<le> snd e"
  shows "admitted key t (window l) (run_limiter l m es) \<le> interval_budget l t (m key)"
  using assms(3,4)
proof (induction es arbitrary: m)
  case Nil
  then show ?case by (simp add: admitted_def)
next
  case (Cons e es)
  obtain k now where e: "e = (k, now)" by (cases e)
  obtain r m' where step: "check_rate_limit l m k now = (r, m')" by fastforce
  have later: "now \<le> snd f" if "f \<in> set es" for f using Cons.prems(1) e that by auto
  show ?case
  proof (cases "k = key")
    case True
    have old: "s \<le> now" if "m key = Some (c, s)" for c s
      using Cons.prems(2) [OF that, of e] e by simp
    have "s \<le> snd f" if "m' key = Some (c, s)" "f \<in> set es" for c s f
      using start_not_later [OF step, of key] old later that by fastforce
    then have "admitted key t (window l) (run_limiter l m' es) \<le> interval_budget l t (m' key)"
      using Cons.IH Cons.prems(1) e by auto
    moreover have "(if t \<le> now \<and> now < t + window l \<and> is_ok r then 1 else 0)
        + interval_budget l t (m' key) \<le> interval_budget l t (m key)"
      using interval_budget_step assms(1,2) old step True by blast
    ultimately show ?thesis using e step True by (auto simp: admitted_def split: if_splits)
  next
    case False
    then have "m' key = m key" using check_other_key [of key k l m now] step by simp
    then have "admitted key t (window l) (run_limiter l m' es) \<le> interval_budget l t (m key)"
      using Cons.IH [of m'] Cons.prems e by auto
    then show ?thesis using e step False by (simp add: admitted_def)
  qed
qed

text \<open>Two maps that differ only in entries whose window is over.\<close>

definition expired_apart :: "limiter \<Rightarrow> instant \<Rightarrow> counters \<Rightarrow> counters \<Rightarrow> bool" where
  "expired_apart l now m m' \<longleftrightarrow>
     (\<forall>k. m' k = m k \<or> (m' k = None \<and> (\<exists>c s. m k = Some (c, s) \<and> window l \<le> now - s)))"

lemma expired_apart_check:
  assumes "0 < max_requests l" and "0 < window l" and apart: "expired_apart l t m m'" and "t \<le> now"
  shows "fst (check_rate_limit l m key now) = fst (check_rate_limit l m' key now)
    \<and> expired_apart l now (snd (check_rate_limit l m key now)) (snd (check_rate_limit l m' key now))"
proof -
  have other: "expired_apart l now m m'"
    using apart \<open>t \<le> now\<close> unfolding expired_apart_def by (meson diff_le_mono le_trans)
  have "fst (check_rate_limit l m key now) = fst (check_rate_limit l m' key now)
    \<and> snd (check_rate_limit l m key now) key = snd (check_rate_limit l m' key now) key"
    using other assms(1,2) unfolding expired_apart_def
    by (auto simp: check_rate_limit_def Let_def dest!: spec [of _ key] split: prod.splits)
  then show ?thesis
    using other check_other_key unfolding expired_apart_def by metis
qed

lemma expired_apart_run:
  assumes "0 < max_requests l" and "0 < window l" and "expired_apart l t m m'"
    and "sorted (t # map snd es)"
  shows "run_limiter l m es = run_limiter l m' es"
  using assms(3,4)
proof (induction es arbitrary: t m m')
  case Nil
  then show ?case by simp
next
  case (Cons e es)
  obtain k now where e: "e = (k, now)" by (cases e)
  then have "t \<le> now" and "sorted (now # map snd es)" using Cons.prems(2) by auto
  with expired_apart_check [OF assms(1,2) Cons.prems(1), of now k] Cons.IH e
  show ?case by (force split: prod.splits)
qed

lemma cleanup_expired_apart: "expired_apart l now m (cleanup_expired l m now)"
  by (auto simp: expired_apart_def cleanup_expired_def retain_def split: option.splits)

section \<open>Properties\<close>



text \<open>C30: the Retry-After of a refusal is at least one second and at most the window (or one second), and
  a client that waits that long is admitted if its key was not used in between: the subtraction of
  seconds never goes below zero.\<close>

theorem retry_after_is_enough:
  assumes "check_rate_limit (limiter_new maximum window_secs) m key now = (Inl retry, m')"
    and "\<And>c s. m key = Some (c, s) \<Longrightarrow> s \<le> now"
  shows "1 \<le> retry \<and> retry \<le> max window_secs 1
    \<and> is_ok (fst (check_rate_limit (limiter_new maximum window_secs) m' key (now + nanos retry)))"
proof -
  obtain c s where e: "(c, s) = (case m key of Some e \<Rightarrow> e | None \<Rightarrow> (0, now))"
    by (metis surj_pair)
  then have s: "s \<le> now" using assms(2) by (auto split: option.splits)
  from assms(1) e have retry: "retry = max (window_secs - as_secs (now - s)) 1"
    and m': "m' = m(key \<mapsto> (c, s))" and "now - s < nanos window_secs"
    by (auto simp: check_rate_limit_def limiter_new_def as_secs_def Let_def split: if_splits prod.splits)
  have "nanos window_secs \<le> (now - s) + nanos retry"
  proof -
    have "window_secs \<le> as_secs (now - s) + retry" by (simp add: retry)
    then have "nanos window_secs \<le> nanos (as_secs (now - s)) + nanos retry"
      by (metis add_mult_distrib mult_le_mono1)
    also have "nanos (as_secs (now - s)) \<le> now - s"
      by (simp add: as_secs_def div_times_less_eq_dividend)
    finally show ?thesis by simp
  qed
  then have "nanos window_secs \<le> now + nanos retry - s" using s by simp
  with m' show ?thesis
    by (simp add: retry check_rate_limit_def limiter_new_def Let_def)
qed

theorem retry_after_is_enough_witness:
  "1 \<le> (60 :: nat) \<and> 60 \<le> max 60 (1 :: nat)
    \<and> is_ok (fst (check_rate_limit (limiter_new 1 60) [''k'' \<mapsto> (1, 100)] ''k'' (200 + nanos 60)))"
proof (rule retry_after_is_enough)
  show "check_rate_limit (limiter_new 1 60) [''k'' \<mapsto> (1, 100)] ''k'' 200 = (Inl 60, [''k'' \<mapsto> (1, 100)])"
    by (simp add: check_rate_limit_def limiter_new_def as_secs_def)
qed simp

text \<open>the periodic clean-up is invisible to clients: dropping the expired entries at any time changes
  the verdict of no later request.\<close>

theorem cleanup_invisible:
  assumes "0 < max_requests l" and "0 < window l" and "sorted (now # map snd es)"
  shows "run_limiter l (cleanup_expired l m now) es = run_limiter l m es"
  using expired_apart_run [OF assms(1,2) cleanup_expired_apart assms(3)] by simp

theorem cleanup_invisible_witness:
  "run_limiter (limiter_new 1 1) (cleanup_expired (limiter_new 1 1) [''k'' \<mapsto> (1, 0)] (nanos 2)) [(''k'', nanos 3)]
     = run_limiter (limiter_new 1 1) [''k'' \<mapsto> (1, 0)] [(''k'', nanos 3)]"
  by (rule cleanup_invisible) (simp_all add: limiter_new_def)

text \<open>a request that no exemption covers is answered by the handler exactly when the counter of its
  key admits it, and is otherwise answered 429 with a Retry-After; the counters of every other key
  are untouched, and an exempt request touches none.\<close>

theorem middleware_obeys_limiter:
  "(case exemption_of x r of
      Some reason \<Rightarrow>
        snd (rate_limit_middleware show_uuid l x handler now r m) = m
        \<and> http_status (fst (rate_limit_middleware show_uuid l x handler now r m)) = http_status (handler r)
    | None \<Rightarrow>
        (let key = (case request_auth r of
                      Some a \<Rightarrow> ''user:'' @ show_uuid (user_id a) | None \<Rightarrow> extract_client_ip r);
             resp = fst (rate_limit_middleware show_uuid l x handler now r m);
             m' = snd (rate_limit_middleware show_uuid l x handler now r m)
         in (case fst (check_rate_limit l m key now) of
               Inr remaining \<Rightarrow> http_status resp = http_status (handler r)
                 \<and> http_body resp = http_body (handler r)
                 \<and> http_headers resp ''X-RateLimit-Remaining'' = Some (show_nat remaining)
             | Inl retry \<Rightarrow> http_status resp = 429
                 \<and> http_headers resp ''Retry-After'' = Some (show_nat retry))
            \<and> (\<forall>k. k \<noteq> key \<longrightarrow> m' k = m k)))"
proof -
  have other: "k \<noteq> key \<Longrightarrow> snd (limit_by_key l handler key now r m) k = m k" for k key
    using check_other_key [of k key l m now] by (auto simp: limit_by_key_def split: prod.splits sum.splits)
  have resp: "case fst (check_rate_limit l m key now) of
      Inr remaining \<Rightarrow> http_status (fst (limit_by_key l handler key now r m)) = http_status (handler r)
        \<and> http_body (fst (limit_by_key l handler key now r m)) = http_body (handler r)
        \<and> http_headers (fst (limit_by_key l handler key now r m)) ''X-RateLimit-Remaining'' = Some (show_nat remaining)
    | Inl retry \<Rightarrow> http_status (fst (limit_by_key l handler key now r m)) = 429
        \<and> http_headers (fst (limit_by_key l handler key now r m)) ''Retry-After'' = Some (show_nat retry)" for key
    by (cases "check_rate_limit l m key now"; cases "fst (check_rate_limit l m key now)")
      (simp_all add: limit_by_key_def insert_header_def)
  show ?thesis
  proof (cases "exemption_of x r")
    case None
    with other resp show ?thesis by (simp add: rate_limit_middleware_def Let_def)
  next
    case (Some reason)
    then show ?thesis by (simp add: rate_limit_middleware_def insert_header_def)
  qed
qed

theorem middleware_obeys_limiter_witness:
  "snd (rate_limit_middleware (\<lambda>_. ''7'') (limiter_new 1 60) \<lparr> usernames = {}, exempt_service_accounts = False,
        trusted_cidrs = [] \<rparr> (\<lambda>_. \<lparr> http_status = 200, http_headers = Map.empty, http_body = [] \<rparr>) 5
      \<lparr> ext_auth = Some \<lparr> user_id = 7, username = ''u'', email = [], is_admin = False, is_api_token = False,
          is_service_account = False, scopes = None, allowed_repo_ids = None \<rparr>, ext_auth_opt = None,
        connect_info = None, x_forwarded_for = None \<rparr> Map.empty) ''ip:10.0.0.1'' = None"
  using middleware_obeys_limiter
    [where x = "\<lparr> usernames = {}, exempt_service_accounts = False, trusted_cidrs = [] \<rparr>"
      and r = "\<lparr> ext_auth = Some \<lparr> user_id = 7, username = ''u'', email = [], is_admin = False,
          is_api_token = False, is_service_account = False, scopes = None, allowed_repo_ids = None \<rparr>,
          ext_auth_opt = None, connect_info = None, x_forwarded_for = None \<rparr>"
      and show_uuid = "\<lambda>_. ''7''" and l = "limiter_new 1 60"
      and handler = "\<lambda>_. \<lparr> http_status = 200, http_headers = Map.empty, http_body = [] \<rparr>"
      and now = 5 and m = Map.empty]
  by (simp add: exemption_of_def request_auth_def is_exempt_def Let_def)

end
