(* ===== verification/Permission.thy ===== *)
theory Permission
  imports App_Error Interfaces
begin

text \<open>
  Fine-grained permissions (\<open>services/permission_service.rs\<close>): the \<open>permissions\<close> and
  \<open>user_group_members\<close> tables, the query that resolves a user's actions on a target, the two caches
  in front of it with their 30 second life, and the check the middlewares call. A lock is never
  poisoned in the model. A database call is answered by the tables as they are when it runs, or by
  the driver's error text.
\<close>

section \<open>Tables\<close>

record permission_rule =
  principal_type :: string
  principal_id :: uuid
  target_type :: string
  target_id :: uuid
  actions :: "string list"

record perm_db =
  permissions :: "permission_rule list"
  user_group_members :: "(uuid \<times> uuid) list"

type_synonym 'a db_answer = "string + 'a"

definition rule_applies :: "perm_db \<Rightarrow> uuid \<Rightarrow> string \<Rightarrow> uuid \<Rightarrow> permission_rule \<Rightarrow> bool" where
  "rule_applies db uid tt tid r \<longleftrightarrow>
     (principal_type r = ''user'' \<and> principal_id r = uid
      \<or> principal_type r = ''group'' \<and> (uid, principal_id r) \<in> set (user_group_members db))
     \<and> target_type r = tt \<and> target_id r = tid"

definition query_actions :: "perm_db db_answer \<Rightarrow> uuid \<Rightarrow> string \<Rightarrow> uuid \<Rightarrow> string list result" where
  "query_actions d uid tt tid =
     (case d of
        Inl e \<Rightarrow> Inl (Database e)
      | Inr db \<Rightarrow> Inr (remdups (concat (map actions (filter (rule_applies db uid tt tid) (permissions db))))))"

definition query_rules_exist :: "perm_db db_answer \<Rightarrow> string \<Rightarrow> uuid \<Rightarrow> bool result" where
  "query_rules_exist d tt tid =
     (case d of
        Inl e \<Rightarrow> Inl (Database e)
      | Inr db \<Rightarrow> Inr (list_ex (\<lambda>r. target_type r = tt \<and> target_id r = tid) (permissions db)))"

section \<open>Caches\<close>

definition cache_ttl :: nat where "cache_ttl = nanos 30"

type_synonym cache_key = "uuid \<times> string \<times> uuid"
type_synonym rules_cache_key = "string \<times> uuid"

definition entry_expired :: "instant \<Rightarrow> instant \<Rightarrow> bool" where
  "entry_expired inserted_at now \<longleftrightarrow> cache_ttl < now - inserted_at"

definition cache_get :: "('k \<rightharpoonup> 'v \<times> instant) \<Rightarrow> 'k \<Rightarrow> instant \<Rightarrow> 'v option" where
  "cache_get c key now =
     (case c key of
        Some (v, inserted_at) \<Rightarrow> if entry_expired inserted_at now then None else Some v
      | None \<Rightarrow> None)"

definition cache_put :: "('k \<rightharpoonup> 'v \<times> instant) \<Rightarrow> 'k \<Rightarrow> 'v \<Rightarrow> instant \<Rightarrow> ('k \<rightharpoonup> 'v \<times> instant)" where
  "cache_put c key v now = (retain (\<lambda>_ (_, at). \<not> entry_expired at now) c)(key \<mapsto> (v, now))"

record permission_service =
  cache :: "cache_key \<rightharpoonup> string list \<times> instant"
  rules_cache :: "rules_cache_key \<rightharpoonup> bool \<times> instant"

definition permission_service_new :: permission_service where
  "permission_service_new = \<lparr> cache = Map.empty, rules_cache = Map.empty \<rparr>"

section \<open>Operations\<close>

text \<open>\<open>now\<close> is when the cache is consulted, \<open>later\<close> when the answer of the query is stored.\<close>

definition resolve_actions ::
  "perm_db db_answer \<Rightarrow> permission_service \<Rightarrow> instant \<Rightarrow> instant \<Rightarrow> uuid \<Rightarrow> string \<Rightarrow> uuid
   \<Rightarrow> string list result \<times> permission_service" where
  "resolve_actions d svc now later uid tt tid =
     (let key = (uid, tt, tid)
      in case cache_get (cache svc) key now of
           Some acts \<Rightarrow> (Inr acts, svc)
         | None \<Rightarrow>
           (case query_actions d uid tt tid of
              Inl e \<Rightarrow> (Inl e, svc)
            | Inr acts \<Rightarrow> (Inr acts, svc\<lparr> cache := cache_put (cache svc) key acts later \<rparr>)))"

definition check_permission ::
  "perm_db db_answer \<Rightarrow> permission_service \<Rightarrow> instant \<Rightarrow> instant \<Rightarrow> uuid \<Rightarrow> string \<Rightarrow> uuid \<Rightarrow> string \<Rightarrow> bool
   \<Rightarrow> bool result \<times> permission_service" where
  "check_permission d svc now later uid tt tid action admin =
     (if admin then (Inr True, svc)
      else case resolve_actions d svc now later uid tt tid of
             (Inl e, svc') \<Rightarrow> (Inl e, svc')
           | (Inr acts, svc') \<Rightarrow> (Inr (list_ex (\<lambda>a. a = action) acts), svc'))"

definition has_any_rules_for_target ::
  "perm_db db_answer \<Rightarrow> permission_service \<Rightarrow> instant \<Rightarrow> instant \<Rightarrow> string \<Rightarrow> uuid
   \<Rightarrow> bool result \<times> permission_service" where
  "has_any_rules_for_target d svc now later tt tid =
     (let key = (tt, tid)
      in case cache_get (rules_cache svc) key now of
           Some ex \<Rightarrow> (Inr ex, svc)
         | None \<Rightarrow>
           (case query_rules_exist d tt tid of
              Inl e \<Rightarrow> (Inl e, svc)
            | Inr ex \<Rightarrow> (Inr ex, svc\<lparr> rules_cache := cache_put (rules_cache svc) key ex later \<rparr>)))"

definition invalidate_cache :: "permission_service \<Rightarrow> permission_service" where
  "invalidate_cache svc = svc\<lparr> cache := Map.empty, rules_cache := Map.empty \<rparr>"

section \<open>The caches keep the contract of a cache with a time to live\<close>

lemma cache_get_empty: "cache_get Map.empty k now = None"
  by (simp add: cache_get_def)

lemma cache_get_put_same: "cache_get (cache_put c k v t) k now = Some w \<Longrightarrow> w = v \<and> now - t \<le> cache_ttl"
  by (simp add: cache_get_def cache_put_def entry_expired_def not_less split: if_splits)

lemma cache_get_put_other:
  "k' \<noteq> k \<Longrightarrow> cache_get (cache_put c k v t) k' now = Some w \<Longrightarrow> cache_get c k' now = Some w"
  by (auto simp: cache_get_def cache_put_def retain_apply split: option.splits if_splits)

interpretation pc: ttl_cache Map.empty cache_get cache_put cache_ttl
  by unfold_locales (simp add: cache_get_empty, erule cache_get_put_same, erule cache_get_put_other)

lemmas cache_defs = cache_get_def cache_put_def entry_expired_def cache_ttl_def

section \<open>What the query grants\<close>

definition grants :: "perm_db \<Rightarrow> uuid \<Rightarrow> string \<Rightarrow> uuid \<Rightarrow> string \<Rightarrow> bool" where
  "grants db uid tt tid action \<longleftrightarrow>
     (\<exists>r \<in> set (permissions db). target_type r = tt \<and> target_id r = tid \<and> action \<in> set (actions r)
        \<and> (principal_type r = ''user'' \<and> principal_id r = uid
           \<or> principal_type r = ''group'' \<and> (uid, principal_id r) \<in> set (user_group_members db)))"

lemma query_actions_grants:
  "query_actions (Inr db) uid tt tid = Inr acts \<Longrightarrow> action \<in> set acts \<longleftrightarrow> grants db uid tt tid action"
  by (auto simp: query_actions_def grants_def rule_applies_def)

text \<open>A cache whose entry for the caller, if any, is what the tables say now.\<close>

definition agrees :: "permission_service \<Rightarrow> perm_db \<Rightarrow> uuid \<Rightarrow> string \<Rightarrow> uuid \<Rightarrow> bool" where
  "agrees svc db uid tt tid \<longleftrightarrow>
     (\<forall>now acts. cache_get (cache svc) (uid, tt, tid) now = Some acts
        \<longrightarrow> query_actions (Inr db) uid tt tid = Inr acts)"

lemma agrees_empty: "cache svc = Map.empty \<Longrightarrow> agrees svc db uid tt tid"
  by (simp add: agrees_def cache_get_empty)

lemma check_permission_agrees:
  assumes "agrees svc db uid tt tid"
    and "check_permission (Inr db) svc now later uid tt tid action False = (res, svc')"
  shows "res = Inr (grants db uid tt tid action) \<and> agrees svc' db uid tt tid"
proof -
  obtain acts where acts: "query_actions (Inr db) uid tt tid = Inr acts" by (simp add: query_actions_def)
  from query_actions_grants [OF acts] have g: "list_ex (\<lambda>a. a = action) acts = grants db uid tt tid action"
    by (auto simp: list_ex_iff)
  show ?thesis
  proof (cases "cache_get (cache svc) (uid, tt, tid) now")
    case None
    with assms(2) acts g have "res = Inr (grants db uid tt tid action)"
      and "svc' = svc\<lparr> cache := cache_put (cache svc) (uid, tt, tid) acts later \<rparr>"
      by (auto simp: check_permission_def resolve_actions_def)
    with acts cache_get_put_same show ?thesis by (fastforce simp: agrees_def)
  next
    case (Some v)
    with assms(1) acts have "v = acts" by (simp add: agrees_def)
    with Some assms g show ?thesis by (auto simp: check_permission_def resolve_actions_def)
  qed
qed

text \<open>A request to the service at work between others: it reads the tables at one instant and fills
  the cache at a later one, at most \<open>D\<close> after; an invalidation may happen at any time. \<open>hist\<close> gives
  the tables at every instant.\<close>

record perm_state =
  service :: permission_service
  in_flight :: "(cache_key \<times> string list \<times> instant) list"

inductive perm_step :: "(instant \<Rightarrow> perm_db) \<Rightarrow> nat \<Rightarrow> perm_state \<Rightarrow> perm_state \<Rightarrow> bool" for hist D where
  read_db: "query_actions (Inr (hist t)) uid tt tid = Inr acts \<Longrightarrow>
    perm_step hist D s (s\<lparr> in_flight := ((uid, tt, tid), acts, t) # in_flight s \<rparr>)"
| fill: "(key, acts, t) \<in> set (in_flight s) \<Longrightarrow> at \<le> t + D \<Longrightarrow>
    perm_step hist D s
      (s\<lparr> service := (service s)\<lparr> cache := cache_put (cache (service s)) key acts at \<rparr>,
         in_flight := remove1 (key, acts, t) (in_flight s) \<rparr>)"
| invalidate: "perm_step hist D s (s\<lparr> service := invalidate_cache (service s) \<rparr>)"

inductive perm_reachable :: "(instant \<Rightarrow> perm_db) \<Rightarrow> nat \<Rightarrow> perm_state \<Rightarrow> bool" for hist D where
  initial: "perm_reachable hist D \<lparr> service = permission_service_new, in_flight = [] \<rparr>"
| step: "perm_reachable hist D s \<Longrightarrow> perm_step hist D s s' \<Longrightarrow> perm_reachable hist D s'"

definition actions_of :: "(instant \<Rightarrow> perm_db) \<Rightarrow> instant \<Rightarrow> cache_key \<Rightarrow> string list" where
  "actions_of hist t key = (case key of (uid, tt, tid) \<Rightarrow>
     remdups (concat (map actions (filter (rule_applies (hist t) uid tt tid) (permissions (hist t))))))"

lemma query_actions_of: "query_actions (Inr (hist t)) uid tt tid = Inr (actions_of hist t (uid, tt, tid))"
  by (simp add: query_actions_def actions_of_def)

definition perm_inv :: "(instant \<Rightarrow> perm_db) \<Rightarrow> nat \<Rightarrow> perm_state \<Rightarrow> bool" where
  "perm_inv hist D s \<longleftrightarrow>
     honest cache_get (cache_ttl + D) (actions_of hist) (cache (service s))
     \<and> (\<forall>(key, acts, t) \<in> set (in_flight s). acts = actions_of hist t key)"

lemma perm_step_inv: "perm_step hist D s s' \<Longrightarrow> perm_inv hist D s \<Longrightarrow> perm_inv hist D s'"
proof (induction rule: perm_step.induct)
  case (read_db t uid tt tid acts s)
  then show ?case by (simp add: perm_inv_def query_actions_of)
next
  case (fill key acts t s at)
  then have "acts = actions_of hist t key" by (auto simp: perm_inv_def)
  moreover have "honest cache_get (cache_ttl + D) (actions_of hist) (cache (service s))"
    using fill(3) by (simp add: perm_inv_def)
  ultimately have "honest cache_get (cache_ttl + D) (actions_of hist) (cache_put (cache (service s)) key acts at)"
    using pc.honest_fill [of D "actions_of hist" _ at t acts key] fill(2) by simp
  moreover from fill(3) have "\<forall>(k, a, r) \<in> set (remove1 (key, acts, t) (in_flight s)). a = actions_of hist r k"
    unfolding perm_inv_def using set_remove1_subset [of "(key, acts, t)" "in_flight s"] by blast
  ultimately show ?case by (simp add: perm_inv_def)
next
  case (invalidate s)
  then show ?case by (simp add: perm_inv_def invalidate_cache_def pc.honest_nothing)
qed

lemma perm_reachable_inv: "perm_reachable hist D s \<Longrightarrow> perm_inv hist D s"
proof (induction rule: perm_reachable.induct)
  case initial
  show ?case by (simp add: perm_inv_def permission_service_new_def pc.honest_nothing)
next
  case (step s s')
  then show ?case using perm_step_inv by blast
qed

section \<open>Properties\<close>


definition sample_rule :: permission_rule where
  "sample_rule = \<lparr> principal_type = ''group'', principal_id = 5, target_type = ''repository'', target_id = 9,
                   actions = [''read''] \<rparr>"



end
