(* ===== verification/Access_Control.thy ===== *)
theory Access_Control
  imports Auth_Context Permission Net
begin

text \<open>
  The authentication and repository-visibility middlewares (\<open>api/middleware/auth.rs\<close>), the download
  tickets they accept (\<open>services/auth_config_service.rs\<close>) and the repository cache they share with the
  handlers (\<open>api/mod.rs\<close>). The validators of \<open>AuthService\<close> answer through a record of functions:
  their own state is the subject of another theory, and nothing is assumed of their answers.
\<close>

section \<open>Requests\<close>

datatype http_method =
    Get | Head | Options | Post | Put | Patch | Delete | Connect | Trace | OtherMethod string

record request =
  req_method :: http_method
  req_path :: string
  req_query :: "string option"
  req_headers :: headers

text \<open>What a middleware leaves in the request's extensions: \<open>Option<AuthExtension>\<close>,
  \<open>AuthExtension\<close>, \<open>TokenIat\<close> and \<open>DownloadTicketAuth\<close>; an outer \<open>None\<close> is an absent extension.\<close>

record injected =
  inj_opt_auth :: "auth_extension option option"
  inj_auth :: "auth_extension option"
  inj_token_iat :: "int option"
  inj_ticket :: bool

definition no_extensions :: injected where
  "no_extensions = \<lparr> inj_opt_auth = None, inj_auth = None, inj_token_iat = None, inj_ticket = False \<rparr>"

text \<open>\<open>Next\<close> runs the handler, \<open>Refuse\<close> answers with a status and a text.\<close>

datatype outcome = Next injected | Refuse nat string

text \<open>The base64 decoder (with its UTF-8 check) is a library's.\<close>

record auth_answers =
  validate_access_token_async :: "string \<Rightarrow> claims result"
  validate_api_token :: "string \<Rightarrow> api_token_validation result"
  authenticate_password :: "string \<Rightarrow> string \<Rightarrow> user result"
  base64_text :: "string \<Rightarrow> string option"

definition decode_basic_credentials :: "auth_answers \<Rightarrow> string \<Rightarrow> (string \<times> string) option" where
  "decode_basic_credentials svc encoded = Option.bind (base64_text svc encoded) (split_once (CHR '':''))"

definition validate_api_token_with_scopes :: "auth_answers \<Rightarrow> string \<Rightarrow> unit + auth_extension" where
  "validate_api_token_with_scopes svc token =
     (case validate_api_token svc token of
        Inl _ \<Rightarrow> Inl ()
      | Inr v \<Rightarrow> Inr (auth_from_api_token v))"

section \<open>Download tickets\<close>

record ticket_row =
  ticket_user :: uuid
  ticket_purpose :: string
  ticket_path :: "string option"
  ticket_expires_at :: datetime

text \<open>The two statements of a ticket check may fail with the driver's error.\<close>

record ticket_db =
  download_tickets :: "string \<rightharpoonup> ticket_row"
  users_by_id :: "uuid \<rightharpoonup> user"
  delete_fails :: "string option"
  select_fails :: "string option"

definition validate_download_ticket ::
  "ticket_db \<Rightarrow> datetime \<Rightarrow> string \<Rightarrow> (uuid \<times> string \<times> string option) result \<times> ticket_db" where
  "validate_download_ticket db now ticket =
     (case delete_fails db of
        Some e \<Rightarrow> (Inl (Database e), db)
      | None \<Rightarrow>
        (case download_tickets db ticket of
           Some row \<Rightarrow>
             if now < ticket_expires_at row then
               (Inr (ticket_user row, ticket_purpose row, ticket_path row),
                db\<lparr> download_tickets := (download_tickets db)(ticket := None) \<rparr>)
             else (Inl (Authentication ''Invalid or expired download ticket''), db)
         | None \<Rightarrow> (Inl (Authentication ''Invalid or expired download ticket''), db)))"

definition cleanup_expired_download_tickets :: "ticket_db \<Rightarrow> datetime \<Rightarrow> ticket_db" where
  "cleanup_expired_download_tickets db now =
     db\<lparr> download_tickets := retain (\<lambda>_ row. \<not> ticket_expires_at row < now) (download_tickets db) \<rparr>"

fun percent_decode :: "string \<Rightarrow> string" where
  "percent_decode [] = []"
| "percent_decode (c # cs) =
     (if c = CHR ''+'' then CHR '' '' # percent_decode cs
      else if c = CHR ''%'' then
        (case cs of
           h # l # rest \<Rightarrow>
             (case (to_digit 16 h, to_digit 16 l) of
                (Some a, Some b) \<Rightarrow> char_of (a * 16 + b) # percent_decode rest
              | _ \<Rightarrow> c # percent_decode cs)
         | _ \<Rightarrow> c # percent_decode cs)
      else c # percent_decode cs)"

fun ticket_of_pairs :: "string list \<Rightarrow> string option" where
  "ticket_of_pairs [] = None"
| "ticket_of_pairs (pair # pairs) =
     (let (key, raw) = (case split_once (CHR ''='') pair of Some kv \<Rightarrow> kv | None \<Rightarrow> (pair, []))
      in if key \<noteq> ''ticket'' then ticket_of_pairs pairs
         else if raw = [] then None
         else Some (percent_decode raw))"

definition extract_ticket_from_query :: "string option \<Rightarrow> string option" where
  "extract_ticket_from_query query =
     (case query of None \<Rightarrow> None | Some q \<Rightarrow> ticket_of_pairs (split_char (CHR ''&'') q))"

definition ticket_method_allowed :: "http_method \<Rightarrow> bool" where
  "ticket_method_allowed m = (m = Get \<or> m = Head)"

definition ticket_path_allowed :: "string option \<Rightarrow> string \<Rightarrow> bool" where
  "ticket_path_allowed bound_path request_path =
     (case bound_path of None \<Rightarrow> True | Some p \<Rightarrow> p = request_path)"

text \<open>The columns that the ticket check selects, and those that the derived \<open>FromRow\<close> of \<open>User\<close> reads:
  \<open>query_as::<_, User>\<close> fails with \<open>ColumnNotFound\<close> when a field of the struct has no column.\<close>

definition ticket_user_columns :: "string list" where
  "ticket_user_columns =
     [''id'', ''username'', ''email'', ''password_hash'', ''display_name'',
      ''auth_provider'', ''external_id'', ''is_admin'', ''is_active'',
      ''is_service_account'', ''must_change_password'',
      ''totp_secret'', ''totp_enabled'', ''totp_backup_codes'', ''totp_verified_at'',
      ''last_login_at'', ''created_at'', ''updated_at'']"

definition user_row_fields :: "string list" where
  "user_row_fields =
     [''id'', ''username'', ''email'', ''password_hash'', ''auth_provider'', ''external_id'',
      ''display_name'', ''is_active'', ''is_admin'', ''is_service_account'', ''must_change_password'',
      ''totp_secret'', ''totp_enabled'', ''totp_backup_codes'', ''totp_verified_at'',
      ''failed_login_attempts'', ''locked_until'', ''last_failed_login_at'', ''password_changed_at'',
      ''last_login_at'', ''created_at'', ''updated_at'']"

definition user_from_row :: "string list \<Rightarrow> user \<Rightarrow> user result" where
  "user_from_row columns u =
     (if set user_row_fields \<subseteq> set columns then Inr u else Inl (Database ''no column found for name''))"

definition load_ticket_user :: "ticket_db \<Rightarrow> uuid \<Rightarrow> user option result" where
  "load_ticket_user db uid =
     (case select_fails db of
        Some e \<Rightarrow> Inl (Database e)
      | None \<Rightarrow>
        (case users_by_id db uid of
           Some u \<Rightarrow>
             if user_active u then
               (case user_from_row ticket_user_columns u of Inl e \<Rightarrow> Inl e | Inr u' \<Rightarrow> Inr (Some u'))
             else Inr None
         | None \<Rightarrow> Inr None))"

definition try_resolve_ticket_auth ::
  "ticket_db \<Rightarrow> datetime \<Rightarrow> string \<Rightarrow> http_method \<Rightarrow> string \<Rightarrow> auth_extension option \<times> ticket_db" where
  "try_resolve_ticket_auth db now ticket m path =
     (if \<not> ticket_method_allowed m then (None, db)
      else case validate_download_ticket db now ticket of
             (Inl _, db') \<Rightarrow> (None, db')
           | (Inr (uid, _, resource_path), db') \<Rightarrow>
               if \<not> ticket_path_allowed resource_path path then (None, db')
               else (case load_ticket_user db' uid of
                       Inr (Some u) \<Rightarrow>
                         (Some ((auth_from_user u)
                            \<lparr> is_admin := False, is_api_token := True, scopes := Some [] \<rparr>), db')
                     | _ \<Rightarrow> (None, db')))"

definition try_resolve_ticket ::
  "ticket_db \<Rightarrow> datetime \<Rightarrow> request \<Rightarrow> auth_extension option \<times> ticket_db" where
  "try_resolve_ticket db now r =
     (case extract_ticket_from_query (req_query r) of
        None \<Rightarrow> (None, db)
      | Some ticket \<Rightarrow> try_resolve_ticket_auth db now ticket (req_method r) (req_path r))"

section \<open>Resolving credentials\<close>

datatype auth_outcome = Resolved auth_extension | NoCredential | InvalidCredential | Overloaded

fun password_outcome :: "user result \<Rightarrow> auth_outcome option" where
  "password_outcome (Inr u) = Some (Resolved (auth_from_user u))"
| "password_outcome (Inl (ServiceUnavailable _)) = Some Overloaded"
| "password_outcome (Inl _) = None"

definition try_resolve_auth_outcome :: "auth_answers \<Rightarrow> extracted_token \<Rightarrow> auth_outcome" where
  "try_resolve_auth_outcome svc extracted =
     (case extracted of
        Bearer token \<Rightarrow>
          (case validate_access_token_async svc token of
             Inr c \<Rightarrow> Resolved (auth_from_claims c)
           | Inl _ \<Rightarrow>
             (case validate_api_token_with_scopes svc token of
                Inr ext \<Rightarrow> Resolved ext
              | Inl _ \<Rightarrow>
                (case decode_basic_credentials svc token of
                   Some (name, pass) \<Rightarrow>
                     (case password_outcome (authenticate_password svc name pass) of
                        Some out \<Rightarrow> out
                      | None \<Rightarrow> InvalidCredential)
                 | None \<Rightarrow> InvalidCredential)))
      | ApiKey token \<Rightarrow>
          (case validate_api_token_with_scopes svc token of
             Inr ext \<Rightarrow> Resolved ext
           | Inl _ \<Rightarrow> InvalidCredential)
      | Basic encoded \<Rightarrow>
          (case decode_basic_credentials svc encoded of
             None \<Rightarrow> InvalidCredential
           | Some (name, pass) \<Rightarrow>
             (case password_outcome (authenticate_password svc name pass) of
                Some out \<Rightarrow> out
              | None \<Rightarrow>
                (case validate_api_token_with_scopes svc pass of
                   Inr ext \<Rightarrow> Resolved ext
                 | Inl _ \<Rightarrow> InvalidCredential)))
      | NoToken \<Rightarrow> NoCredential
      | InvalidToken \<Rightarrow> InvalidCredential)"

definition try_resolve_auth :: "auth_answers \<Rightarrow> extracted_token \<Rightarrow> auth_extension option" where
  "try_resolve_auth svc extracted =
     (case try_resolve_auth_outcome svc extracted of Resolved ext \<Rightarrow> Some ext | _ \<Rightarrow> None)"

definition unauthorized_response :: outcome where
  "unauthorized_response = Refuse 401 ''Authentication required''"

definition service_unavailable_response :: outcome where
  "service_unavailable_response = Refuse 503 ''Authentication service is at capacity, retry shortly''"

definition forbidden_repo_response :: outcome where
  "forbidden_repo_response = Refuse 403 ''Token does not have access to this repository''"

definition forbidden_permission_response :: outcome where
  "forbidden_permission_response =
     Refuse 403 ''You do not have permission to perform this action on this repository''"

section \<open>The authentication middlewares\<close>

datatype header_result = HeaderOk auth_extension "int option" | HeaderErr string | HeaderShed string

definition header_auth :: "auth_answers \<Rightarrow> extracted_token \<Rightarrow> header_result" where
  "header_auth svc extracted =
     (case extracted of
        Bearer token \<Rightarrow>
          (case validate_access_token_async svc token of
             Inr c \<Rightarrow> HeaderOk (auth_from_claims c) (Some (iat c))
           | Inl _ \<Rightarrow>
             (case validate_api_token_with_scopes svc token of
                Inr ext \<Rightarrow> HeaderOk ext None
              | Inl _ \<Rightarrow> HeaderErr ''Invalid or expired token''))
      | ApiKey token \<Rightarrow>
          (case validate_api_token_with_scopes svc token of
             Inr ext \<Rightarrow> HeaderOk ext None
           | Inl _ \<Rightarrow> HeaderErr ''Invalid or expired API token'')
      | Basic encoded \<Rightarrow>
          (case decode_basic_credentials svc encoded of
             None \<Rightarrow> HeaderErr ''Invalid Basic auth credentials''
           | Some (name, pass) \<Rightarrow>
             (case authenticate_password svc name pass of
                Inr u \<Rightarrow> HeaderOk (auth_from_user u) None
              | Inl (ServiceUnavailable msg) \<Rightarrow> HeaderShed msg
              | Inl _ \<Rightarrow> HeaderErr ''Invalid credentials''))
      | NoToken \<Rightarrow> HeaderErr ''Missing authorization header''
      | InvalidToken \<Rightarrow> HeaderErr ''Invalid authorization header format'')"

definition auth_middleware ::
  "auth_answers \<Rightarrow> datetime \<Rightarrow> request \<Rightarrow> ticket_db \<Rightarrow> outcome \<times> ticket_db" where
  "auth_middleware svc now r db =
     (case header_auth svc (extract_token (req_headers r)) of
        HeaderShed msg \<Rightarrow> (Refuse 503 msg, db)
      | HeaderOk ext token_iat \<Rightarrow>
          (Next \<lparr> inj_opt_auth = Some (Some ext), inj_auth = Some ext, inj_token_iat = token_iat,
                  inj_ticket = False \<rparr>, db)
      | HeaderErr header_error \<Rightarrow>
          (case try_resolve_ticket db now r of
             (Some ext, db') \<Rightarrow>
               (Next \<lparr> inj_opt_auth = Some (Some ext), inj_auth = Some ext, inj_token_iat = None,
                       inj_ticket = True \<rparr>, db')
           | (None, db') \<Rightarrow>
               (Refuse 401
                  (if extract_token (req_headers r) = NoToken
                      \<and> extract_ticket_from_query (req_query r) \<noteq> None
                   then ''Invalid or expired download ticket'' else header_error), db')))"

definition optional_auth_middleware ::
  "auth_answers \<Rightarrow> datetime \<Rightarrow> request \<Rightarrow> ticket_db \<Rightarrow> outcome \<times> ticket_db" where
  "optional_auth_middleware svc now r db =
     (let out = try_resolve_auth_outcome svc (extract_token (req_headers r))
      in if out = Overloaded then (service_unavailable_response, db)
         else
           (let header_ext = (case out of Resolved ext \<Rightarrow> Some ext | _ \<Rightarrow> None);
                (ticket_ext, db') = (if header_ext = None then try_resolve_ticket db now r else (None, db));
                auth_ext = (case header_ext of Some e \<Rightarrow> Some e | None \<Rightarrow> ticket_ext)
            in if out = InvalidCredential \<and> auth_ext = None then (unauthorized_response, db')
               else (Next \<lparr> inj_opt_auth = Some auth_ext, inj_auth = None, inj_token_iat = None,
                            inj_ticket = (ticket_ext \<noteq> None) \<rparr>, db')))"

definition admin_middleware :: "auth_answers \<Rightarrow> request \<Rightarrow> outcome" where
  "admin_middleware svc r =
     (let finish = (\<lambda>ext. if \<not> is_admin ext then Refuse 403 ''Admin access required''
                          else Next (no_extensions\<lparr> inj_auth := Some ext \<rparr>))
      in case extract_token (req_headers r) of
           Bearer token \<Rightarrow>
             (case validate_access_token_async svc token of
                Inr c \<Rightarrow> finish (auth_from_claims c)
              | Inl _ \<Rightarrow>
                (case validate_api_token_with_scopes svc token of
                   Inr ext \<Rightarrow> finish ext
                 | Inl _ \<Rightarrow> Refuse 401 ''Invalid or expired token''))
         | ApiKey token \<Rightarrow>
             (case validate_api_token_with_scopes svc token of
                Inr ext \<Rightarrow> finish ext
              | Inl _ \<Rightarrow> Refuse 401 ''Invalid or expired API token'')
         | Basic encoded \<Rightarrow>
             (case decode_basic_credentials svc encoded of
                None \<Rightarrow> Refuse 401 ''Invalid Basic auth credentials''
              | Some (name, pass) \<Rightarrow>
                (case authenticate_password svc name pass of
                   Inr u \<Rightarrow> finish (auth_from_user u)
                 | Inl _ \<Rightarrow> Refuse 401 ''Invalid credentials''))
         | NoToken \<Rightarrow> Refuse 401 ''Missing authorization header''
         | InvalidToken \<Rightarrow> Refuse 401 ''Invalid authorization header format'')"

section \<open>Repository visibility\<close>

record cached_repo =
  repo_id :: uuid
  repo_format :: string
  repo_type :: string
  repo_upstream_url :: "string option"
  repo_storage_path :: string
  repo_storage_backend :: string
  repo_is_public :: bool
  repo_index_upstream_url :: "string option"

type_synonym repo_cache = "string \<rightharpoonup> cached_repo \<times> instant"

definition repo_cache_ttl_secs :: nat where "repo_cache_ttl_secs = 60"

definition repo_cache_get :: "repo_cache \<Rightarrow> string \<Rightarrow> instant \<Rightarrow> cached_repo option" where
  "repo_cache_get c key now =
     (case c key of
        Some (entry, at) \<Rightarrow> if as_secs (now - at) < repo_cache_ttl_secs then Some entry else None
      | None \<Rightarrow> None)"

definition repo_cache_put :: "repo_cache \<Rightarrow> string \<Rightarrow> cached_repo \<Rightarrow> instant \<Rightarrow> repo_cache" where
  "repo_cache_put c key entry now =
     (retain (\<lambda>_ (_, at). as_secs (now - at) < repo_cache_ttl_secs) c)(key \<mapsto> (entry, now))"

definition extract_repo_key :: "string \<Rightarrow> string" where
  "extract_repo_key path =
     (case split_char (CHR ''/'') (trim_start_matches (CHR ''/'') path) of
        _ # key # _ \<Rightarrow> key
      | _ \<Rightarrow> [])"

definition should_allow_repo_access :: "bool \<Rightarrow> bool \<Rightarrow> bool" where
  "should_allow_repo_access is_public has_auth = (is_public \<or> has_auth)"

definition is_write_method :: "http_method \<Rightarrow> bool" where
  "is_write_method m = (m \<in> {Post, Put, Patch, Delete})"

fun action_for_method :: "http_method \<Rightarrow> string" where
  "action_for_method Get = ''read''"
| "action_for_method Head = ''read''"
| "action_for_method Options = ''read''"
| "action_for_method Put = ''write''"
| "action_for_method Post = ''write''"
| "action_for_method Patch = ''write''"
| "action_for_method Delete = ''delete''"
| "action_for_method _ = ''read''"

text \<open>The clock readings and the database's answers that one request meets, in the order in which the
  middleware asks for them.\<close>

record vis_env =
  env_answers :: auth_answers
  repo_rows :: "string + (string \<rightharpoonup> cached_repo)"
  rules_db :: "perm_db db_answer"
  action_db :: "perm_db db_answer"
  admin_db :: "perm_db db_answer"
  wall_clock :: datetime
  at_repo_get :: instant
  at_repo_put :: instant
  at_rules :: "instant \<times> instant"
  at_action :: "instant \<times> instant"
  at_admin :: "instant \<times> instant"

record vis_state =
  vis_repo_cache :: repo_cache
  vis_permissions :: permission_service
  vis_tickets :: ticket_db

definition resolve_repo :: "vis_env \<Rightarrow> vis_state \<Rightarrow> string \<Rightarrow> cached_repo option \<times> vis_state" where
  "resolve_repo env st key =
     (case repo_cache_get (vis_repo_cache st) key (at_repo_get env) of
        Some entry \<Rightarrow> (Some entry, st)
      | None \<Rightarrow>
        (case (case repo_rows env of Inl _ \<Rightarrow> None | Inr rows \<Rightarrow> rows key) of
           Some entry \<Rightarrow>
             (Some entry,
              st\<lparr> vis_repo_cache := repo_cache_put (vis_repo_cache st) key entry (at_repo_put env) \<rparr>)
         | None \<Rightarrow> (None, st)))"

definition without_repo :: "vis_env \<Rightarrow> request \<Rightarrow> outcome" where
  "without_repo env r =
     (case try_resolve_auth_outcome (env_answers env) (extract_token (req_headers r)) of
        Overloaded \<Rightarrow> service_unavailable_response
      | InvalidCredential \<Rightarrow> unauthorized_response
      | NoCredential \<Rightarrow> Next (no_extensions\<lparr> inj_opt_auth := Some None \<rparr>)
      | Resolved ext \<Rightarrow> Next (no_extensions\<lparr> inj_opt_auth := Some (Some ext) \<rparr>))"

text \<open>The fine-grained rules of the repository, for an authenticated caller who is no administrator.
  \<open>unwrap_or(false)\<close> turns a failed check into a refusal.\<close>

definition enforce_rules ::
  "vis_env \<Rightarrow> vis_state \<Rightarrow> request \<Rightarrow> auth_extension \<Rightarrow> cached_repo \<Rightarrow> outcome option \<times> vis_state" where
  "enforce_rules env st r ext repo =
     (case has_any_rules_for_target (rules_db env) (vis_permissions st) (fst (at_rules env))
             (snd (at_rules env)) ''repository'' (repo_id repo) of
        (Inl _, p) \<Rightarrow>
          (Some (Refuse 503 ''permission service temporarily unavailable''), st\<lparr> vis_permissions := p \<rparr>)
      | (Inr False, p) \<Rightarrow> (None, st\<lparr> vis_permissions := p \<rparr>)
      | (Inr True, p) \<Rightarrow>
          (case check_permission (action_db env) p (fst (at_action env)) (snd (at_action env))
                  (user_id ext) ''repository'' (repo_id repo) (action_for_method (req_method r)) False of
             (Inr True, p') \<Rightarrow> (None, st\<lparr> vis_permissions := p' \<rparr>)
           | (_, p') \<Rightarrow>
             (case check_permission (admin_db env) p' (fst (at_admin env)) (snd (at_admin env))
                     (user_id ext) ''repository'' (repo_id repo) ''admin'' False of
                (Inr True, p'') \<Rightarrow> (None, st\<lparr> vis_permissions := p'' \<rparr>)
              | (_, p'') \<Rightarrow> (Some forbidden_permission_response, st\<lparr> vis_permissions := p'' \<rparr>))))"

definition with_repo :: "vis_env \<Rightarrow> vis_state \<Rightarrow> request \<Rightarrow> cached_repo \<Rightarrow> outcome \<times> vis_state" where
  "with_repo env st r repo =
     (let out = try_resolve_auth_outcome (env_answers env) (extract_token (req_headers r))
      in if out = Overloaded then (service_unavailable_response, st)
         else
           (let header_ext = (case out of Resolved ext \<Rightarrow> Some ext | _ \<Rightarrow> None);
                (ticket_ext, tickets) =
                  (if header_ext = None then try_resolve_ticket (vis_tickets st) (wall_clock env) r
                   else (None, vis_tickets st));
                auth_ext = (case header_ext of Some e \<Rightarrow> Some e | None \<Rightarrow> ticket_ext);
                st1 = st\<lparr> vis_tickets := tickets \<rparr>;
                extensions = \<lparr> inj_opt_auth = Some auth_ext, inj_auth = None, inj_token_iat = None,
                               inj_ticket = (ticket_ext \<noteq> None) \<rparr>;
                has_write_auth = (auth_ext \<noteq> None \<and> ticket_ext = None)
            in if out = InvalidCredential \<and> auth_ext = None then (unauthorized_response, st1)
               else if is_write_method (req_method r) \<and> \<not> has_write_auth then (unauthorized_response, st1)
               else if \<not> should_allow_repo_access (repo_is_public repo) (auth_ext \<noteq> None)
                 then (unauthorized_response, st1)
               else
                 (case auth_ext of
                    None \<Rightarrow> (Next extensions, st1)
                  | Some ext \<Rightarrow>
                      if \<not> can_access_repo ext (repo_id repo) then (forbidden_repo_response, st1)
                      else if is_admin ext then (Next extensions, st1)
                      else (case enforce_rules env st1 r ext repo of
                              (Some refusal, st2) \<Rightarrow> (refusal, st2)
                            | (None, st2) \<Rightarrow> (Next extensions, st2)))))"

definition repo_visibility_middleware :: "vis_env \<Rightarrow> vis_state \<Rightarrow> request \<Rightarrow> outcome \<times> vis_state" where
  "repo_visibility_middleware env st r =
     (let key = extract_repo_key (req_path r)
      in if key = [] then (Next no_extensions, st)
         else (case resolve_repo env st key of
                 (None, st1) \<Rightarrow> (without_repo env r, st1)
               | (Some repo, st1) \<Rightarrow> with_repo env st1 r repo))"

section \<open>Lemmas\<close>

lemma repo_cache_get_put_same:
  "repo_cache_get (repo_cache_put c k v t) k now = Some w \<Longrightarrow> w = v \<and> now - t \<le> nanos repo_cache_ttl_secs"
  by (simp add: repo_cache_get_def repo_cache_put_def as_secs_less split: if_splits)

lemma repo_cache_get_put_other:
  "k' \<noteq> k \<Longrightarrow> repo_cache_get (repo_cache_put c k v t) k' now = Some w \<Longrightarrow> repo_cache_get c k' now = Some w"
  by (auto simp: repo_cache_get_def repo_cache_put_def retain_apply split: option.splits if_splits)

interpretation rc: ttl_cache Map.empty repo_cache_get repo_cache_put "nanos repo_cache_ttl_secs"
  by unfold_locales
    (simp add: repo_cache_get_def, erule repo_cache_get_put_same, erule repo_cache_get_put_other)

lemma user_row_incomplete: "user_from_row ticket_user_columns u = Inl (Database ''no column found for name'')"
  by (simp add: user_from_row_def user_row_fields_def ticket_user_columns_def)

lemma load_ticket_user_never: "load_ticket_user db uid \<noteq> Inr (Some u)"
  by (simp add: load_ticket_user_def user_row_incomplete split: option.splits)

lemma ticket_auth_none: "fst (try_resolve_ticket_auth db now ticket m path) = None"
  using load_ticket_user_never
  by (auto simp: try_resolve_ticket_auth_def split: prod.splits sum.splits option.splits)

lemma ticket_none: "fst (try_resolve_ticket db now r) = None"
  by (simp add: try_resolve_ticket_def ticket_auth_none split: option.splits)

lemma ticket_needs_read_method: "fst (try_resolve_ticket db now r) \<noteq> None \<Longrightarrow> \<not> is_write_method (req_method r)"
  by (simp add: ticket_none)

lemma resolve_repo_permissions: "resolve_repo env st key = (res, st') \<Longrightarrow> vis_permissions st' = vis_permissions st"
  by (auto simp: resolve_repo_def split: option.splits sum.splits)

lemma password_outcome_shed: "password_outcome r = Some Overloaded \<longleftrightarrow> (\<exists>m. r = Inl (ServiceUnavailable m))"
  by (cases r rule: password_outcome.cases) simp_all

text \<open>The identity under which a request reaches the visibility rules.\<close>

definition header_identity :: "auth_answers \<Rightarrow> request \<Rightarrow> auth_extension option" where
  "header_identity svc r =
     (case try_resolve_auth_outcome svc (extract_token (req_headers r)) of Resolved ext \<Rightarrow> Some ext | _ \<Rightarrow> None)"

lemma enforce_rules_not_Next: "enforce_rules env st r ext repo \<noteq> (Some (Next exts), st')"
  by (simp add: enforce_rules_def forbidden_permission_response_def split: prod.splits sum.splits bool.splits)

lemma enforce_rules_tickets:
  "fst (enforce_rules env (st\<lparr> vis_tickets := t \<rparr>) r ext repo) = fst (enforce_rules env st r ext repo)"
  by (simp add: enforce_rules_def split: prod.splits sum.splits bool.splits)

lemma with_repo_Next:
  assumes "with_repo env st r repo = (Next exts, st')"
  shows "try_resolve_auth_outcome (env_answers env) (extract_token (req_headers r)) \<noteq> Overloaded"
    and "try_resolve_auth_outcome (env_answers env) (extract_token (req_headers r)) \<noteq> InvalidCredential"
    and "inj_opt_auth exts = Some (header_identity (env_answers env) r)"
    and "is_write_method (req_method r) \<Longrightarrow> header_identity (env_answers env) r \<noteq> None"
    and "\<not> repo_is_public repo \<Longrightarrow> header_identity (env_answers env) r \<noteq> None"
    and "header_identity (env_answers env) r = Some ext \<Longrightarrow> can_access_repo ext (repo_id repo)"
    and "header_identity (env_answers env) r = Some ext \<Longrightarrow> is_admin ext
           \<or> fst (enforce_rules env st r ext repo) = None"
  using assms ticket_none [of "vis_tickets st" "wall_clock env" r]
  by (auto simp: with_repo_def header_identity_def Let_def unauthorized_response_def
      service_unavailable_response_def forbidden_repo_response_def should_allow_repo_access_def enforce_rules_not_Next
      split: if_splits prod.splits option.splits auth_outcome.splits)

text \<open>With cold caches and one state of the tables, the rules allow exactly what the tables grant.\<close>

lemma enforce_rules_cold:
  assumes "vis_permissions st = permission_service_new"
    and "rules_db env = Inr db" and "action_db env = Inr db" and "admin_db env = Inr db"
  shows "fst (enforce_rules env st r ext repo) = None \<longleftrightarrow>
      (\<forall>rule \<in> set (permissions db). \<not> (target_type rule = ''repository'' \<and> target_id rule = repo_id repo))
      \<or> grants db (user_id ext) ''repository'' (repo_id repo) (action_for_method (req_method r))
      \<or> grants db (user_id ext) ''repository'' (repo_id repo) ''admin''"
proof -
  let ?uid = "user_id ext" and ?id = "repo_id repo"
  let ?any = "list_ex (\<lambda>rule. target_type rule = ''repository'' \<and> target_id rule = ?id) (permissions db)"
  obtain p where rules: "has_any_rules_for_target (Inr db) (vis_permissions st) (fst (at_rules env))
      (snd (at_rules env)) ''repository'' ?id = (Inr ?any, p)" and "cache p = Map.empty"
    by (simp add: assms permission_service_new_def has_any_rules_for_target_def query_rules_exist_def cache_get_empty)
  obtain res1 p1 where c1: "check_permission (Inr db) p (fst (at_action env)) (snd (at_action env)) ?uid
      ''repository'' ?id (action_for_method (req_method r)) False = (res1, p1)" by fastforce
  obtain res2 p2 where c2: "check_permission (Inr db) p1 (fst (at_admin env)) (snd (at_admin env)) ?uid
      ''repository'' ?id ''admin'' False = (res2, p2)" by fastforce
  from check_permission_agrees [OF agrees_empty c1] \<open>cache p = Map.empty\<close>
  have r1: "res1 = Inr (grants db ?uid ''repository'' ?id (action_for_method (req_method r)))"
    and "agrees p1 db ?uid ''repository'' ?id" by auto
  with check_permission_agrees [OF _ c2] have r2: "res2 = Inr (grants db ?uid ''repository'' ?id ''admin'')"
    by blast
  show ?thesis
    using c1 c2 by (auto simp: enforce_rules_def assms(2-4) rules r1 r2 list_ex_iff split: bool.splits)
qed

section \<open>Properties\<close>


text \<open>A session of a user in group 5, a private repository with one rule, and two requests for it.\<close>

definition sample_claims :: claims where
  "sample_claims = \<lparr> sub = 1, claims_username = ''ann'', claims_email = [], claims_is_admin = False,
     iat = 0, exp = 900, token_type = ''access'', jti = None, family_id = None \<rparr>"

definition sample_answers :: auth_answers where
  "sample_answers = \<lparr>
     validate_access_token_async = (\<lambda>t. if t = ''jwt'' then Inr sample_claims else Inl (Authentication [])),
     validate_api_token = (\<lambda>_. Inl (Authentication [])),
     authenticate_password = (\<lambda>_ _. Inl (Authentication [])), base64_text = (\<lambda>_. None) \<rparr>"

definition sample_repo :: cached_repo where
  "sample_repo = \<lparr> repo_id = 9, repo_format = ''pypi'', repo_type = ''local'', repo_upstream_url = None,
     repo_storage_path = ''libs'', repo_storage_backend = ''filesystem'', repo_is_public = False,
     repo_index_upstream_url = None \<rparr>"

definition sample_db :: perm_db where
  "sample_db = \<lparr> permissions = [sample_rule], user_group_members = [(1, 5)] \<rparr>"

definition sample_env :: "(string + (string \<rightharpoonup> cached_repo)) \<Rightarrow> vis_env" where
  "sample_env rows = \<lparr> env_answers = sample_answers, repo_rows = rows, rules_db = Inr sample_db,
     action_db = Inr sample_db, admin_db = Inr sample_db, wall_clock = 0, at_repo_get = 1, at_repo_put = 2,
     at_rules = (3, 4), at_action = (5, 6), at_admin = (7, 8) \<rparr>"

definition sample_request :: "http_method \<Rightarrow> string option \<Rightarrow> request" where
  "sample_request m auth = \<lparr> req_method = m, req_path = ''/pypi/libs/simple'', req_query = None,
     req_headers = \<lparr> h_authorization = auth, h_api_key = None, h_cookie = None \<rparr> \<rparr>"

definition sample_state :: vis_state where
  "sample_state = \<lparr> vis_repo_cache = Map.empty, vis_permissions = permission_service_new,
     vis_tickets = \<lparr> download_tickets = Map.empty, users_by_id = Map.empty, delete_fails = None, select_fails = None \<rparr> \<rparr>"

lemma sample_repo_key: "extract_repo_key (req_path (sample_request m auth)) = ''libs''"
  by (simp add: extract_repo_key_def sample_request_def trim_start_matches_def)

lemma sample_token:
  "extract_token (req_headers (sample_request m (Some ''Bearer jwt''))) = Bearer ''jwt''"
  "extract_token (req_headers (sample_request m None)) = NoToken"
  by (simp_all add: extract_token_def sample_request_def extract_token_from_auth_header_def
      strip_prefix_def starts_with_def)

lemma sample_outcome:
  "try_resolve_auth_outcome sample_answers (Bearer ''jwt'') = Resolved (auth_from_claims sample_claims)"
  "try_resolve_auth_outcome sample_answers NoToken = NoCredential"
  by (simp_all add: try_resolve_auth_outcome_def sample_answers_def)

lemma sample_resolve:
  "resolve_repo (sample_env (Inr [''libs'' \<mapsto> sample_repo])) sample_state ''libs''
     = (Some sample_repo, sample_state\<lparr> vis_repo_cache := repo_cache_put Map.empty ''libs'' sample_repo 2 \<rparr>)"
  by (simp add: resolve_repo_def sample_env_def sample_state_def repo_cache_get_def)

lemma sample_fields:
  "rules_db (sample_env rows) = Inr sample_db" "action_db (sample_env rows) = Inr sample_db"
  "admin_db (sample_env rows) = Inr sample_db" "env_answers (sample_env rows) = sample_answers"
  "vis_permissions sample_state = permission_service_new" "req_method (sample_request m a) = m"
  "repo_id sample_repo = 9" "\<not> repo_is_public sample_repo" "\<not> is_admin (auth_from_claims sample_claims)"
  "user_id (auth_from_claims sample_claims) = 1" "can_access_repo (auth_from_claims sample_claims) k"
  by (simp_all add: sample_env_def sample_state_def sample_request_def sample_repo_def sample_claims_def
      auth_from_claims_def can_access_repo_def)

lemma sample_grants: "grants sample_db 1 ''repository'' 9 ''read''"
  by (simp add: grants_def sample_db_def sample_rule_def)

lemmas sample_simps = sample_repo_key sample_token sample_outcome sample_resolve sample_fields

lemma sample_served:
  "\<exists>exts st2. repo_visibility_middleware (sample_env (Inr [''libs'' \<mapsto> sample_repo])) sample_state
     (sample_request Get (Some ''Bearer jwt'')) = (Next exts, st2)"
proof -
  let ?env = "sample_env (Inr [''libs'' \<mapsto> sample_repo])"
  let ?st = "sample_state\<lparr> vis_repo_cache := repo_cache_put Map.empty ''libs'' sample_repo 2 \<rparr>"
  have "fst (enforce_rules ?env ?st (sample_request Get (Some ''Bearer jwt''))
      (auth_from_claims sample_claims) sample_repo) = None"
    using sample_grants by (simp add: enforce_rules_cold [of _ _ sample_db] sample_simps)
  then obtain s where "enforce_rules ?env ?st (sample_request Get (Some ''Bearer jwt''))
      (auth_from_claims sample_claims) sample_repo = (None, s)" by (metis prod.collapse)
  then show ?thesis
    by (simp add: repo_visibility_middleware_def with_repo_def sample_simps Let_def should_allow_repo_access_def
        is_write_method_def)
qed


text \<open>a request for a known repository, with cold permission caches, is served exactly when no
  credential failed and: it is anonymous, reads and the repository is public; or its identity may use
  the repository and is an administrator, or the tables hold no rule on the repository, or grant the
  method's action or \<open>admin\<close> to the user or a group of the user.\<close>

theorem visibility_decision:
  assumes "resolve_repo env st (extract_repo_key (req_path r)) = (Some repo, st1)"
    and "extract_repo_key (req_path r) \<noteq> []"
    and "vis_permissions st = permission_service_new"
    and "rules_db env = Inr db" and "action_db env = Inr db" and "admin_db env = Inr db"
  shows "(\<exists>exts. fst (repo_visibility_middleware env st r) = Next exts) \<longleftrightarrow>
    (case try_resolve_auth_outcome (env_answers env) (extract_token (req_headers r)) of
       NoCredential \<Rightarrow> repo_is_public repo \<and> \<not> is_write_method (req_method r)
     | Resolved ext \<Rightarrow> can_access_repo ext (repo_id repo)
         \<and> (is_admin ext
            \<or> (\<forall>rule \<in> set (permissions db). \<not> (target_type rule = ''repository'' \<and> target_id rule = repo_id repo))
            \<or> grants db (user_id ext) ''repository'' (repo_id repo) (action_for_method (req_method r))
            \<or> grants db (user_id ext) ''repository'' (repo_id repo) ''admin'')
     | _ \<Rightarrow> False)"
proof -
  have m: "repo_visibility_middleware env st r = with_repo env st1 r repo"
    using assms(1,2) by (simp add: repo_visibility_middleware_def)
  have "vis_permissions st1 = permission_service_new"
    using resolve_repo_permissions [OF assms(1)] assms(3) by simp
  note rules = enforce_rules_cold [OF this assms(4-6), of r _ repo]
  have enforced: "(\<exists>exts. fst (case enforce_rules env s r ext repo of
        (Some x, s') \<Rightarrow> (x, s') | (None, s') \<Rightarrow> (Next i, s')) = Next exts)
      \<longleftrightarrow> fst (enforce_rules env st1 r ext repo) = None" if "s = st1" for s ext i
    using enforce_rules_not_Next [of env s r ext repo] that
    by (cases "enforce_rules env s r ext repo") (auto split: option.splits)
  obtain t where t: "try_resolve_ticket (vis_tickets st1) (wall_clock env) r = (None, t)"
    using ticket_none [of "vis_tickets st1" "wall_clock env" r] by (metis prod.collapse)
  show ?thesis
    unfolding m with_repo_def Let_def
    by (simp add: rules enforced t unauthorized_response_def
        service_unavailable_response_def forbidden_repo_response_def should_allow_repo_access_def
        split: auth_outcome.splits)
qed

theorem visibility_decision_witness:
  "\<exists>exts. fst (repo_visibility_middleware (sample_env (Inr [''libs'' \<mapsto> sample_repo])) sample_state
     (sample_request Get (Some ''Bearer jwt''))) = Next exts"
proof -
  show ?thesis
    using visibility_decision [of "sample_env (Inr [''libs'' \<mapsto> sample_repo])" sample_state
      "sample_request Get (Some ''Bearer jwt'')" sample_repo _ sample_db] sample_grants
    by (simp add: sample_simps)
qed

text \<open>a failed repository lookup opens the gate: when the cache holds no fresh entry and the query of
  the repository fails, an anonymous request, a write included, is passed to its handler with no
  visibility, scope or permission check, whatever repository the key names; the same request is
  refused when the query answers with a private repository.\<close>

theorem repo_lookup_failure_skips_checks:
  assumes "extract_repo_key (req_path r) \<noteq> []"
    and "repo_cache_get (vis_repo_cache st) (extract_repo_key (req_path r)) (at_repo_get env) = None"
    and "extract_token (req_headers r) = NoToken"
  shows "repo_visibility_middleware (env\<lparr> repo_rows := Inl e \<rparr>) st r
      = (Next (no_extensions\<lparr> inj_opt_auth := Some None \<rparr>), st)
    \<and> (\<forall>rows repo. rows (extract_repo_key (req_path r)) = Some repo \<longrightarrow> \<not> repo_is_public repo \<longrightarrow>
          fst (repo_visibility_middleware (env\<lparr> repo_rows := Inr rows \<rparr>) st r) = unauthorized_response)"
  using assms ticket_none [of "vis_tickets st" "wall_clock env" r]
  by (auto simp: repo_visibility_middleware_def resolve_repo_def without_repo_def try_resolve_auth_outcome_def
      with_repo_def should_allow_repo_access_def Let_def split: prod.splits)

theorem repo_lookup_failure_skips_checks_witness:
  "repo_visibility_middleware ((sample_env (Inl []))\<lparr> repo_rows := Inl ''pool timed out'' \<rparr>) sample_state
     (sample_request Put None) = (Next (no_extensions\<lparr> inj_opt_auth := Some None \<rparr>), sample_state)"
  using repo_lookup_failure_skips_checks [of "sample_request Put None" sample_state "sample_env (Inl [])" "''pool timed out''"]
  by (simp add: sample_simps repo_cache_get_def sample_state_def)

text \<open>no download ticket ever authenticates a request, because the statement that loads its owner
  does not select the columns \<open>User\<close> decodes; a valid ticket presented on a read is consumed all the
  same, and on a write it is neither consumed nor accepted.\<close>

theorem tickets_consumed_but_never_accepted:
  "fst (try_resolve_ticket_auth db now ticket m path) = None
   \<and> (is_write_method m \<longrightarrow> snd (try_resolve_ticket_auth db now ticket m path) = db)
   \<and> (\<forall>row. m \<in> {Get, Head} \<longrightarrow> delete_fails db = None \<longrightarrow> download_tickets db ticket = Some row
        \<longrightarrow> now < ticket_expires_at row
        \<longrightarrow> download_tickets (snd (try_resolve_ticket_auth db now ticket m path)) ticket = None)"
  using ticket_auth_none
  by (auto simp: try_resolve_ticket_auth_def ticket_method_allowed_def is_write_method_def
      validate_download_ticket_def split: prod.splits sum.splits option.splits)

theorem tickets_consumed_but_never_accepted_witness:
  "download_tickets (snd (try_resolve_ticket_auth
      \<lparr> download_tickets = [''t'' \<mapsto> \<lparr> ticket_user = 1, ticket_purpose = ''download'', ticket_path = None,
          ticket_expires_at = 30 \<rparr>], users_by_id = Map.empty, delete_fails = None, select_fails = None \<rparr>
      5 ''t'' Get ''/x'')) ''t'' = None"
  using tickets_consumed_but_never_accepted [of "\<lparr> download_tickets = [''t'' \<mapsto> \<lparr> ticket_user = 1,
      ticket_purpose = ''download'', ticket_path = None, ticket_expires_at = 30 \<rparr>], users_by_id = Map.empty,
      delete_fails = None, select_fails = None \<rparr>" 5 "''t''" Get "''/x''"]
  by simp

text \<open>C28: the administrator middleware accepts exactly the credentials that the header check of the
  authentication middleware accepts and whose identity is an administrator; it never accepts a
  download ticket.\<close>

theorem admin_gate:
  "admin_middleware svc r = Next exts \<longleftrightarrow>
     (\<exists>ext token_iat. header_auth svc (extract_token (req_headers r)) = HeaderOk ext token_iat
        \<and> is_admin ext \<and> exts = no_extensions\<lparr> inj_auth := Some ext \<rparr>)"
  by (auto simp: admin_middleware_def header_auth_def Let_def
      split: extracted_token.splits sum.splits option.splits if_splits app_error.splits)

text \<open>when the password check of a Basic credential is shed for lack of capacity, the authentication
  and the optional-authentication middleware answer 503, but the administrator middleware answers 401
  as if the password were wrong.\<close>

theorem overload_is_503_except_for_admins:
  assumes "extract_token (req_headers r) = Basic encoded"
    and "decode_basic_credentials svc encoded = Some (name, pass)"
    and "authenticate_password svc name pass = Inl (ServiceUnavailable msg)"
  shows "fst (auth_middleware svc now r db) = Refuse 503 msg
    \<and> fst (optional_auth_middleware svc now r db) = service_unavailable_response
    \<and> admin_middleware svc r = Refuse 401 ''Invalid credentials''"
  using assms
  by (simp add: auth_middleware_def header_auth_def optional_auth_middleware_def
      try_resolve_auth_outcome_def admin_middleware_def Let_def)

theorem overload_is_503_except_for_admins_witness:
  "admin_middleware (sample_answers\<lparr> authenticate_password := (\<lambda>_ _. Inl (ServiceUnavailable ''busy'')),
      base64_text := Some \<rparr>) (sample_request Get (Some ''Basic ann:pw'')) = Refuse 401 ''Invalid credentials''"
  using overload_is_503_except_for_admins [of "sample_request Get (Some ''Basic ann:pw'')" "''ann:pw''"
      "sample_answers\<lparr> authenticate_password := (\<lambda>_ _. Inl (ServiceUnavailable ''busy'')), base64_text := Some \<rparr>"
      "''ann''" "''pw''" "''busy''"]
  by (simp add: sample_request_def extract_token_def extract_token_from_auth_header_def strip_prefix_def
      starts_with_def decode_basic_credentials_def)

end
