(* ===== verification/Sessions.thy ===== *)
theory Sessions
  imports Auth_Context
begin

text \<open>
  JWT sessions of \<open>services/auth_service.rs\<close>: the credential-change watermark and its in-memory map,
  access-token validation, and refresh-token rotation with replay detection, sequentially and with
  requests interleaved statement by statement. Encoding and decoding a JWT is the \<open>jsonwebtoken\<close>
  crate's, so both are parameters. One call reads the clocks once; a database statement fails with
  the driver's error when \<open>fail\<close> says so, and leaves the tables alone.
\<close>

section \<open>State\<close>

record jti_row =
  jti_user :: uuid
  jti_family :: uuid
  jti_issued_at :: datetime
  jti_expires_at :: datetime
  jti_consumed_at :: "datetime option"
  jti_revoked_at :: "datetime option"

record session_state =
  st_users :: "user list"
  st_jtis :: "uuid \<rightharpoonup> jti_row"
  st_invalidations :: "uuid \<rightharpoonup> int \<times> instant"

record auth_config =
  jwt_access_token_expiry_minutes :: int
  jwt_refresh_token_expiry_days :: int
  account_lockout_threshold :: nat
  account_lockout_duration_minutes :: int
  password_expiry_days :: nat

record token_pair =
  access_token :: string
  refresh_token :: string
  expires_in :: nat

text \<open>What one call meets: the wall and the monotonic clock, the statements that fail, the UUIDs
  \<open>Uuid::new_v4\<close> yields, and the JWT library under the service's key.\<close>

record call_env =
  wall :: datetime
  mono :: instant
  fail :: "string \<Rightarrow> string option"
  new_family :: uuid
  new_jti :: uuid
  jwt_encode :: "claims \<Rightarrow> string + string"
  jwt_decode :: "string \<Rightarrow> string + claims"

definition find_user :: "user list \<Rightarrow> uuid \<Rightarrow> user option" where
  "find_user us uid = find (\<lambda>u. user_pk u = uid) us"

section \<open>The credential-change watermark\<close>

definition invalidation_retention_secs :: int where "invalidation_retention_secs = 7 * 24 * 3600"
definition credential_db_cache_ttl_secs :: nat where "credential_db_cache_ttl_secs = 5"

type_synonym invalidations = "uuid \<rightharpoonup> int \<times> instant"

definition invalidate_user_tokens_at ::
  "invalidations \<Rightarrow> uuid \<Rightarrow> int \<Rightarrow> datetime \<Rightarrow> instant \<Rightarrow> invalidations" where
  "invalidate_user_tokens_at m uid watermark wall_now mono_now =
     retain (\<lambda>_ (ts, _). timestamp wall_now - invalidation_retention_secs < ts) (m(uid \<mapsto> (watermark, mono_now)))"

definition invalidate_user_tokens ::
  "invalidations \<Rightarrow> uuid \<Rightarrow> datetime \<Rightarrow> instant \<Rightarrow> invalidations" where
  "invalidate_user_tokens m uid wall_now mono_now =
     invalidate_user_tokens_at m uid (min (2 ^ 63 - 1) (timestamp wall_now + 1)) wall_now mono_now"

definition invalidate_user_tokens_except_caller ::
  "invalidations \<Rightarrow> uuid \<Rightarrow> int \<Rightarrow> datetime \<Rightarrow> instant \<Rightarrow> invalidations" where
  "invalidate_user_tokens_except_caller m uid caller_iat wall_now mono_now =
     invalidate_user_tokens_at m uid (max (- (2 ^ 63)) (caller_iat - 1)) wall_now mono_now"

definition is_token_invalidated :: "invalidations \<Rightarrow> uuid \<Rightarrow> int \<Rightarrow> bool" where
  "is_token_invalidated m uid issued_at =
     (case m uid of Some (changed_at, _) \<Rightarrow> issued_at \<le> changed_at | None \<Rightarrow> False)"

record credential_watermark =
  watermark :: int
  watermark_active :: bool

definition db_watermark :: "user \<Rightarrow> int" where
  "db_watermark u =
     timestamp (max (user_password_changed_at u)
                  (case user_totp_verified_at u of Some t \<Rightarrow> t | None \<Rightarrow> user_password_changed_at u))"

definition fetch_credential_change_watermark ::
  "call_env \<Rightarrow> uuid \<Rightarrow> session_state \<Rightarrow> credential_watermark option result \<times> session_state" where
  "fetch_credential_change_watermark env uid s =
     (case (case st_invalidations s uid of
              Some (changed_at, recorded) \<Rightarrow>
                if as_secs (mono env - recorded) < credential_db_cache_ttl_secs then Some changed_at else None
            | None \<Rightarrow> None) of
        Some changed_at \<Rightarrow> (Inr (Some \<lparr> watermark = changed_at, watermark_active = True \<rparr>), s)
      | None \<Rightarrow>
        (case fail env ''select watermark'' of
           Some e \<Rightarrow> (Inl (Database e), s)
         | None \<Rightarrow>
           (case find_user (st_users s) uid of
              None \<Rightarrow> (Inr None, s)
            | Some u \<Rightarrow>
                (Inr (Some \<lparr> watermark = db_watermark u, watermark_active = user_active u \<rparr>),
                 if user_active u
                 then s\<lparr> st_invalidations :=
                          retain (\<lambda>_ (ts, _). timestamp (wall env) - invalidation_retention_secs < ts)
                            ((st_invalidations s)(uid \<mapsto> (db_watermark u, mono env))) \<rparr>
                 else s))))"

definition is_token_invalidated_replica_safe ::
  "call_env \<Rightarrow> uuid \<Rightarrow> int \<Rightarrow> session_state \<Rightarrow> bool result \<times> session_state" where
  "is_token_invalidated_replica_safe env uid issued_at s =
     (case fetch_credential_change_watermark env uid s of
        (Inl e, s') \<Rightarrow> (Inl e, s')
      | (Inr None, s') \<Rightarrow> (Inr False, s')
      | (Inr (Some entry), s') \<Rightarrow>
          if \<not> watermark_active entry then (Inr True, s')
          else (Inr (issued_at < watermark entry), s'))"

section \<open>Access tokens\<close>

definition decode_token :: "call_env \<Rightarrow> string \<Rightarrow> claims result" where
  "decode_token env token =
     (case jwt_decode env token of
        Inl e \<Rightarrow> Inl (Authentication (''Invalid token: '' @ e))
      | Inr c \<Rightarrow> Inr c)"

definition validate_access_token :: "call_env \<Rightarrow> string \<Rightarrow> session_state \<Rightarrow> claims result" where
  "validate_access_token env token s =
     (case decode_token env token of
        Inl e \<Rightarrow> Inl e
      | Inr c \<Rightarrow>
          if token_type c \<noteq> ''access'' then Inl (Authentication ''Invalid token type'')
          else if is_token_invalidated (st_invalidations s) (sub c) (iat c)
            then Inl (Authentication ''Token invalidated by credential change'')
          else Inr c)"

text \<open>The check of the credential change that access and refresh share.\<close>

definition check_credentials :: "call_env \<Rightarrow> claims \<Rightarrow> session_state \<Rightarrow> unit result \<times> session_state" where
  "check_credentials env c s =
     (case is_token_invalidated_replica_safe env (sub c) (iat c) s of
        (Inl e, s') \<Rightarrow> (Inl e, s')
      | (Inr True, s') \<Rightarrow> (Inl (Authentication ''Token invalidated by credential change''), s')
      | (Inr False, s') \<Rightarrow> (Inr (), s'))"

definition validate_access_token_async ::
  "call_env \<Rightarrow> string \<Rightarrow> session_state \<Rightarrow> claims result \<times> session_state" where
  "validate_access_token_async env token s =
     (case decode_token env token of
        Inl e \<Rightarrow> (Inl e, s)
      | Inr c \<Rightarrow>
          if token_type c \<noteq> ''access'' then (Inl (Authentication ''Invalid token type''), s)
          else (case check_credentials env c s of
                  (Inl e, s') \<Rightarrow> (Inl e, s')
                | (Inr _, s') \<Rightarrow> (Inr c, s')))"

section \<open>Minting\<close>

definition minutes :: "int \<Rightarrow> int" where "minutes n = seconds (60 * n)"
definition days :: "int \<Rightarrow> int" where "days n = seconds (86400 * n)"

definition access_claims :: "auth_config \<Rightarrow> call_env \<Rightarrow> user \<Rightarrow> claims" where
  "access_claims cfg env u =
     \<lparr> sub = user_pk u, claims_username = user_name u, claims_email = user_email u,
       claims_is_admin = user_admin u, iat = timestamp (wall env),
       exp = timestamp (wall env + minutes (jwt_access_token_expiry_minutes cfg)),
       token_type = ''access'', jti = None, family_id = None \<rparr>"

definition refresh_claims :: "auth_config \<Rightarrow> call_env \<Rightarrow> user \<Rightarrow> uuid \<Rightarrow> claims" where
  "refresh_claims cfg env u family =
     \<lparr> sub = user_pk u, claims_username = user_name u, claims_email = user_email u,
       claims_is_admin = user_admin u, iat = timestamp (wall env),
       exp = timestamp (wall env + days (jwt_refresh_token_expiry_days cfg)),
       token_type = ''refresh'', jti = Some (new_jti env), family_id = Some family \<rparr>"

definition encode_token :: "call_env \<Rightarrow> claims \<Rightarrow> string result" where
  "encode_token env c =
     (case jwt_encode env c of
        Inl e \<Rightarrow> Inl (Internal (''Token encoding failed: '' @ e))
      | Inr t \<Rightarrow> Inr t)"

definition generate_tokens_with_family :: "auth_config \<Rightarrow> call_env \<Rightarrow> user \<Rightarrow> uuid \<Rightarrow> token_pair result" where
  "generate_tokens_with_family cfg env u family =
     bind_result (encode_token env (access_claims cfg env u)) (\<lambda>a.
     bind_result (encode_token env (refresh_claims cfg env u family)) (\<lambda>r.
       Inr \<lparr> access_token = a, refresh_token = r,
             expires_in = nat ((jwt_access_token_expiry_minutes cfg * 60) mod 2 ^ 64) \<rparr>))"

definition generate_tokens :: "auth_config \<Rightarrow> call_env \<Rightarrow> user \<Rightarrow> token_pair result" where
  "generate_tokens cfg env u = generate_tokens_with_family cfg env u (new_family env)"

text \<open>\<open>DateTime::from_timestamp\<close> fails outside chrono's range.\<close>

definition from_timestamp :: "int \<Rightarrow> datetime option" where
  "from_timestamp t = (if - 8334601228800 \<le> t \<and> t \<le> 8210266876799 then Some (seconds t) else None)"

definition record_refresh_token_jti ::
  "call_env \<Rightarrow> uuid \<Rightarrow> uuid \<Rightarrow> uuid \<Rightarrow> datetime \<Rightarrow> datetime \<Rightarrow> session_state \<Rightarrow> unit result \<times> session_state" where
  "record_refresh_token_jti env j uid family issued expires s =
     (case fail env ''insert jti'' of
        Some e \<Rightarrow> (Inl (Database e), s)
      | None \<Rightarrow>
          (Inr (),
           if st_jtis s j = None
           then s\<lparr> st_jtis := (st_jtis s)(j \<mapsto> \<lparr> jti_user = uid, jti_family = family, jti_issued_at = issued,
                    jti_expires_at = expires, jti_consumed_at = None, jti_revoked_at = None \<rparr>) \<rparr>
           else s))"

definition persist_refresh_jti_from_pair ::
  "call_env \<Rightarrow> token_pair \<Rightarrow> uuid \<Rightarrow> session_state \<Rightarrow> unit result \<times> session_state" where
  "persist_refresh_jti_from_pair env tokens uid s =
     (case decode_token env (refresh_token tokens) of
        Inl e \<Rightarrow> (Inl e, s)
      | Inr c \<Rightarrow>
        (case (jti c, family_id c) of
           (Some j, Some f) \<Rightarrow>
             (case from_timestamp (iat c) of
                None \<Rightarrow> (Inl (Internal ''Invalid iat in minted refresh token''), s)
              | Some issued \<Rightarrow>
                (case from_timestamp (exp c) of
                   None \<Rightarrow> (Inl (Internal ''Invalid exp in minted refresh token''), s)
                 | Some expires \<Rightarrow> record_refresh_token_jti env j uid f issued expires s))
         | _ \<Rightarrow> (Inr (), s)))"

definition load_active_user :: "call_env \<Rightarrow> uuid \<Rightarrow> session_state \<Rightarrow> user result" where
  "load_active_user env uid s =
     (case fail env ''select user'' of
        Some e \<Rightarrow> Inl (Database e)
      | None \<Rightarrow>
        (case find_user (st_users s) uid of
           Some u \<Rightarrow> if user_active u then Inr u else Inl (Authentication ''User not found'')
         | None \<Rightarrow> Inl (Authentication ''User not found'')))"

text \<open>Loading the user, minting and recording: the tail of both refresh paths.\<close>

definition mint_and_record ::
  "auth_config \<Rightarrow> call_env \<Rightarrow> uuid \<Rightarrow> uuid \<Rightarrow> session_state \<Rightarrow> (user \<times> token_pair) result \<times> session_state" where
  "mint_and_record cfg env uid family s =
     (case load_active_user env uid s of
        Inl e \<Rightarrow> (Inl e, s)
      | Inr u \<Rightarrow>
        (case generate_tokens_with_family cfg env u family of
           Inl e \<Rightarrow> (Inl e, s)
         | Inr tokens \<Rightarrow>
           (case persist_refresh_jti_from_pair env tokens (user_pk u) s of
              (Inl e, s') \<Rightarrow> (Inl e, s')
            | (Inr _, s') \<Rightarrow> (Inr (u, tokens), s'))))"

section \<open>Rotation, statement by statement\<close>

definition select_jti :: "call_env \<Rightarrow> uuid \<Rightarrow> session_state \<Rightarrow> jti_row option result" where
  "select_jti env j s =
     (case fail env ''select jti'' of Some e \<Rightarrow> Inl (Database e) | None \<Rightarrow> Inr (st_jtis s j))"

definition revoke_family :: "datetime \<Rightarrow> uuid \<Rightarrow> session_state \<Rightarrow> session_state" where
  "revoke_family now family s =
     s\<lparr> st_jtis := (\<lambda>j. map_option (\<lambda>row.
          if jti_family row = family \<and> jti_revoked_at row = None then row\<lparr> jti_revoked_at := Some now \<rparr> else row)
          (st_jtis s j)) \<rparr>"

definition consume_jti :: "datetime \<Rightarrow> uuid \<Rightarrow> session_state \<Rightarrow> session_state" where
  "consume_jti now j s =
     (case st_jtis s j of
        Some row \<Rightarrow>
          if jti_consumed_at row = None
          then s\<lparr> st_jtis := (st_jtis s)(j \<mapsto> row\<lparr> jti_consumed_at := Some now \<rparr>) \<rparr> else s
      | None \<Rightarrow> s)"

text \<open>What the handler does with the selected row; \<open>Inr\<close> goes on to mint.\<close>

definition act_on_row ::
  "call_env \<Rightarrow> uuid \<Rightarrow> jti_row option \<Rightarrow> session_state \<Rightarrow> unit result \<times> session_state" where
  "act_on_row env j row s =
     (case row of
        None \<Rightarrow> (Inr (), s)
      | Some r \<Rightarrow>
          if jti_revoked_at r \<noteq> None then (Inl (Authentication ''Refresh token has been revoked''), s)
          else if jti_consumed_at r \<noteq> None then
            (case fail env ''revoke family'' of
               Some e \<Rightarrow> (Inl (Database e), s)
             | None \<Rightarrow> (Inl (Authentication ''Refresh token replay detected''),
                        revoke_family (wall env) (jti_family r) s))
          else
            (case fail env ''consume jti'' of
               Some e \<Rightarrow> (Inl (Database e), s)
             | None \<Rightarrow> (Inr (), consume_jti (wall env) j s)))"

definition refresh_tokens ::
  "auth_config \<Rightarrow> call_env \<Rightarrow> string \<Rightarrow> session_state \<Rightarrow> (user \<times> token_pair) result \<times> session_state" where
  "refresh_tokens cfg env token s =
     (case decode_token env token of
        Inl e \<Rightarrow> (Inl e, s)
      | Inr c \<Rightarrow>
          if token_type c \<noteq> ''refresh'' then (Inl (Authentication ''Invalid token type''), s)
          else (case check_credentials env c s of
                  (Inl e, s1) \<Rightarrow> (Inl e, s1)
                | (Inr _, s1) \<Rightarrow>
                  (case (jti c, family_id c) of
                     (Some j, Some family) \<Rightarrow>
                       (case select_jti env j s1 of
                          Inl e \<Rightarrow> (Inl e, s1)
                        | Inr row \<Rightarrow>
                          (case act_on_row env j row s1 of
                             (Inl e, s2) \<Rightarrow> (Inl e, s2)
                           | (Inr _, s2) \<Rightarrow> mint_and_record cfg env (sub c) family s2))
                   | _ \<Rightarrow> mint_and_record cfg env (sub c) (new_family env) s1)))"

definition revoke_all_refresh_token_families ::
  "call_env \<Rightarrow> uuid \<Rightarrow> session_state \<Rightarrow> unit result \<times> session_state" where
  "revoke_all_refresh_token_families env uid s =
     (case fail env ''revoke all'' of
        Some e \<Rightarrow> (Inl (Database e), s)
      | None \<Rightarrow>
          (Inr (), s\<lparr> st_jtis := (\<lambda>j. map_option (\<lambda>row.
             if jti_user row = uid \<and> jti_revoked_at row = None then row\<lparr> jti_revoked_at := Some (wall env) \<rparr>
             else row) (st_jtis s j)) \<rparr>))"

definition cleanup_expired_refresh_token_jti :: "datetime \<Rightarrow> datetime \<Rightarrow> session_state \<Rightarrow> session_state" where
  "cleanup_expired_refresh_token_jti now grace s =
     s\<lparr> st_jtis := retain (\<lambda>_ row. \<not> jti_expires_at row < now - grace) (st_jtis s) \<rparr>"

section \<open>Lemmas on the watermark\<close>

text \<open>Once the cached watermark is gone, the tables decide.\<close>

lemma replica_safe_by_tables:
  assumes "\<And>w r. st_invalidations s uid = Some (w, r) \<Longrightarrow> nanos 5 \<le> mono env - r"
    and "fail env ''select watermark'' = None"
  shows "fst (is_token_invalidated_replica_safe env uid issued s) =
    Inr (case find_user (st_users s) uid of
           None \<Rightarrow> False
         | Some u \<Rightarrow> \<not> user_active u \<or> issued < db_watermark u)"
proof -
  have "(case st_invalidations s uid of
      Some (changed_at, recorded) \<Rightarrow>
        if as_secs (mono env - recorded) < credential_db_cache_ttl_secs then Some changed_at else None
    | None \<Rightarrow> None) = None"
    using assms(1) by (auto simp: as_secs_less credential_db_cache_ttl_secs_def not_less split: option.splits)
  then show ?thesis
    using assms(2)
    by (simp add: is_token_invalidated_replica_safe_def fetch_credential_change_watermark_def split: option.splits)
qed

lemma replica_safe_by_cache:
  assumes "st_invalidations s uid = Some (w, r)" and "mono env - r < nanos 5"
  shows "is_token_invalidated_replica_safe env uid issued s = (Inr (issued < w), s)"
  using assms
  by (simp add: is_token_invalidated_replica_safe_def fetch_credential_change_watermark_def as_secs_less
      credential_db_cache_ttl_secs_def)

lemma check_credentials_fst:
  "fst (is_token_invalidated_replica_safe env (sub c) (iat c) s) = Inr b \<Longrightarrow>
     fst (check_credentials env c s)
       = (if b then Inl (Authentication ''Token invalidated by credential change'') else Inr ())"
  by (auto simp: check_credentials_def split: prod.splits sum.splits)

lemma validate_async_fst:
  assumes "jwt_decode env token = Inr c" and "token_type c = ''access''"
    and "fst (is_token_invalidated_replica_safe env (sub c) (iat c) s) = Inr b"
  shows "fst (validate_access_token_async env token s)
    = (if b then Inl (Authentication ''Token invalidated by credential change'') else Inr c)"
  using check_credentials_fst [OF assms(3)] assms(1,2)
  by (auto simp: validate_access_token_async_def decode_token_def split: prod.splits sum.splits if_splits)

lemma invalidate_entry:
  "invalidate_user_tokens_at m uid w wl mn uid
     = (if timestamp wl - invalidation_retention_secs < w then Some (w, mn) else None)"
  by (simp add: invalidate_user_tokens_at_def retain_apply)

section \<open>Lemmas on rotation\<close>

lemma check_credentials_jtis: "check_credentials env c s = (r, s') \<Longrightarrow> st_jtis s' = st_jtis s"
  by (auto simp: check_credentials_def is_token_invalidated_replica_safe_def
      fetch_credential_change_watermark_def split: prod.splits sum.splits option.splits if_splits bool.splits)

lemma record_jtis:
  "record_refresh_token_jti env j uid f i e s = (r, s') \<Longrightarrow> st_jtis s k \<noteq> None \<Longrightarrow> st_jtis s' k = st_jtis s k"
  by (auto simp: record_refresh_token_jti_def split: option.splits if_splits)

lemma persist_jtis:
  "persist_refresh_jti_from_pair env tokens uid s = (r, s') \<Longrightarrow> st_jtis s k \<noteq> None \<Longrightarrow> st_jtis s' k = st_jtis s k"
  by (auto simp: persist_refresh_jti_from_pair_def dest: record_jtis split: sum.splits option.splits)

lemma mint_jtis:
  "mint_and_record cfg env uid f s = (r, s') \<Longrightarrow> st_jtis s k \<noteq> None \<Longrightarrow> st_jtis s' k = st_jtis s k"
  by (auto simp: mint_and_record_def dest: persist_jtis split: sum.splits prod.splits)

lemma consume_lookup:
  "st_jtis s j = Some row \<Longrightarrow> jti_consumed_at row = None \<Longrightarrow>
     st_jtis (consume_jti now j s) j = Some (row\<lparr> jti_consumed_at := Some now \<rparr>)"
  by (simp add: consume_jti_def)

lemma act_on_row_ok:
  assumes "act_on_row env j (Some row) s = (Inr u, s')"
  shows "jti_revoked_at row = None" and "jti_consumed_at row = None" and "s' = consume_jti (wall env) j s"
  using assms by (auto simp: act_on_row_def split: if_splits option.splits)

text \<open>The part of a refresh after its token is decoded and typed.\<close>

lemma refresh_tokens_of:
  assumes "jwt_decode env token = Inr c" and "token_type c = ''refresh''"
    and "jti c = Some j" and "family_id c = Some f"
    and "check_credentials env c s = (Inr (), s1)"
  shows "refresh_tokens cfg env token s =
    (case select_jti env j s1 of
       Inl e \<Rightarrow> (Inl e, s1)
     | Inr row \<Rightarrow>
       (case act_on_row env j row s1 of
          (Inl e, s2) \<Rightarrow> (Inl e, s2)
        | (Inr _, s2) \<Rightarrow> mint_and_record cfg env (sub c) f s2))"
  using assms by (simp add: refresh_tokens_def decode_token_def)

lemma refresh_success:
  assumes "refresh_tokens cfg env token s = (Inr out, s')" and "jwt_decode env token = Inr c"
    and "jti c = Some j" and "family_id c = Some f" and "st_jtis s j = Some row"
  shows "jti_revoked_at row = None \<and> jti_consumed_at row = None
    \<and> st_jtis s' j = Some (row\<lparr> jti_consumed_at := Some (wall env) \<rparr>)"
proof -
  have tt: "token_type c = ''refresh''"
    using assms(1,2) by (auto simp: refresh_tokens_def decode_token_def split: if_splits)
  obtain s1 where cc: "check_credentials env c s = (Inr (), s1)"
    using assms(1,2) tt
    by (auto simp: refresh_tokens_def decode_token_def split: prod.splits sum.splits)
  then have rows: "st_jtis s1 = st_jtis s" by (rule check_credentials_jtis)
  note step = refresh_tokens_of [OF assms(2) tt assms(3,4) cc, of cfg]
  have sel: "select_jti env j s1 = Inr (Some row)"
    using assms(1,5) step rows by (auto simp: select_jti_def split: option.splits)
  obtain s2 where act: "act_on_row env j (Some row) s1 = (Inr (), s2)"
    and mint: "mint_and_record cfg env (sub c) f s2 = (Inr out, s')"
    using assms(1) step sel by (auto split: prod.splits sum.splits)
  note ok = act_on_row_ok [OF act]
  have "st_jtis s2 j = Some (row\<lparr> jti_consumed_at := Some (wall env) \<rparr>)"
    using consume_lookup [of s1 j row] ok rows assms(5) by simp
  with mint_jtis [OF mint, of j] ok show ?thesis by simp
qed

lemma refresh_consumed:
  assumes "jwt_decode env token = Inr c" and "token_type c = ''refresh''"
    and "jti c = Some j" and "family_id c = Some f"
    and "st_jtis s j = Some row" and "jti_revoked_at row = None" and "jti_consumed_at row \<noteq> None"
    and "fst (check_credentials env c s) = Inr ()"
    and "fail env ''select jti'' = None" and "fail env ''revoke family'' = None"
  shows "fst (refresh_tokens cfg env token s) = Inl (Authentication ''Refresh token replay detected'')
    \<and> st_jtis (snd (refresh_tokens cfg env token s))
        = st_jtis (revoke_family (wall env) (jti_family row) s)"
proof -
  obtain s1 where cc: "check_credentials env c s = (Inr (), s1)"
    using assms(8) by (metis prod.collapse)
  then have rows: "st_jtis s1 = st_jtis s" by (rule check_credentials_jtis)
  then show ?thesis
    using assms by (simp add: refresh_tokens_of [OF assms(1-4) cc] select_jti_def act_on_row_def revoke_family_def)
qed

section \<open>Interleaved rotation\<close>

text \<open>Several refresh requests at work on the same tables: each has passed its token checks
  (\<open>Presented\<close> its user, jti and family), then selects its row, acts on what it selected, and mints.
  Each statement is atomic; any request may go next, and each step has its own clock and faults.\<close>

datatype refresh_pc =
    Presented uuid uuid uuid
  | Selected uuid uuid uuid "jti_row option"
  | Marked uuid uuid
  | Rotated token_pair
  | Refused app_error

inductive refresh_step ::
  "auth_config \<Rightarrow> session_state \<times> refresh_pc list \<Rightarrow> session_state \<times> refresh_pc list \<Rightarrow> bool" for cfg where
  select: "i < length ps \<Longrightarrow> ps ! i = Presented u j f \<Longrightarrow> select_jti env j s = Inr row \<Longrightarrow>
    refresh_step cfg (s, ps) (s, ps[i := Selected u j f row])"
| select_fails: "i < length ps \<Longrightarrow> ps ! i = Presented u j f \<Longrightarrow> select_jti env j s = Inl e \<Longrightarrow>
    refresh_step cfg (s, ps) (s, ps[i := Refused e])"
| act: "i < length ps \<Longrightarrow> ps ! i = Selected u j f row \<Longrightarrow> act_on_row env j row s = (Inr x, s') \<Longrightarrow>
    refresh_step cfg (s, ps) (s', ps[i := Marked u f])"
| act_refuses: "i < length ps \<Longrightarrow> ps ! i = Selected u j f row \<Longrightarrow> act_on_row env j row s = (Inl e, s') \<Longrightarrow>
    refresh_step cfg (s, ps) (s', ps[i := Refused e])"
| mint: "i < length ps \<Longrightarrow> ps ! i = Marked u f \<Longrightarrow> mint_and_record cfg env u f s = (Inr (usr, t), s') \<Longrightarrow>
    refresh_step cfg (s, ps) (s', ps[i := Rotated t])"
| mint_fails: "i < length ps \<Longrightarrow> ps ! i = Marked u f \<Longrightarrow> mint_and_record cfg env u f s = (Inl e, s') \<Longrightarrow>
    refresh_step cfg (s, ps) (s', ps[i := Refused e])"

inductive refresh_reaches ::
  "auth_config \<Rightarrow> session_state \<times> refresh_pc list \<Rightarrow> session_state \<times> refresh_pc list \<Rightarrow> bool" for cfg where
  here: "refresh_reaches cfg x x"
| later: "refresh_reaches cfg x y \<Longrightarrow> refresh_step cfg y z \<Longrightarrow> refresh_reaches cfg x z"

inductive_cases refresh_stepE: "refresh_step cfg (s, ps) (s', ps')"

text \<open>Rows only grow: none disappears, changes family, or is un-consumed or un-revoked.\<close>

definition rows_grow :: "session_state \<Rightarrow> session_state \<Rightarrow> bool" where
  "rows_grow s s' \<longleftrightarrow>
     (\<forall>j row. st_jtis s j = Some row \<longrightarrow>
        (\<exists>row'. st_jtis s' j = Some row' \<and> jti_family row' = jti_family row \<and> jti_user row' = jti_user row
           \<and> (jti_consumed_at row \<noteq> None \<longrightarrow> jti_consumed_at row' = jti_consumed_at row)
           \<and> (jti_revoked_at row \<noteq> None \<longrightarrow> jti_revoked_at row' = jti_revoked_at row)))"

lemma rows_grow_refl: "rows_grow s s"
  by (simp add: rows_grow_def)

lemma rows_grow_trans: "rows_grow s t \<Longrightarrow> rows_grow t u \<Longrightarrow> rows_grow s u"
  unfolding rows_grow_def by metis

lemma act_grows: "act_on_row env j row s = (r, s') \<Longrightarrow> rows_grow s s'"
  by (auto simp: act_on_row_def rows_grow_def revoke_family_def consume_jti_def
      split: option.splits if_splits)

lemma mint_grows: "mint_and_record cfg env u f s = (r, s') \<Longrightarrow> rows_grow s s'"
  by (auto simp: rows_grow_def dest!: mint_jtis)

lemma refresh_reaches_grow: "refresh_reaches cfg x y \<Longrightarrow> rows_grow (fst x) (fst y)"
proof (induction rule: refresh_reaches.induct)
  case (here x)
  show ?case by (rule rows_grow_refl)
next
  case (later x y z)
  from \<open>refresh_step cfg y z\<close> have "rows_grow (fst y) (fst z)"
    by (cases rule: refresh_step.cases) (auto intro: rows_grow_refl dest: act_grows mint_grows)
  with later show ?case by (blast intro: rows_grow_trans)
qed

section \<open>Properties\<close>


text \<open>A user, a JWT library that writes a refresh token as one letter per unit of its jti, and a
  recorded token.\<close>

definition sample_user :: user where
  "sample_user = \<lparr> user_pk = 1, user_name = ''ann'', user_email = [], user_password_hash = Some ''h'',
     user_provider = Local, user_external_id = None, user_display_name = None, user_active = True,
     user_admin = False, user_service_account = False, user_must_change_password = False,
     user_totp_secret = None, user_totp_enabled = False, user_totp_backup_codes = None,
     user_totp_verified_at = None, user_failed_login_attempts = 0, user_locked_until = None,
     user_last_failed_login_at = None, user_password_changed_at = 0, user_last_login_at = None,
     user_created_at = 0, user_updated_at = 0 \<rparr>"

definition sample_config :: auth_config where
  "sample_config = \<lparr> jwt_access_token_expiry_minutes = 15, jwt_refresh_token_expiry_days = 7,
     account_lockout_threshold = 5, account_lockout_duration_minutes = 30, password_expiry_days = 0 \<rparr>"

definition sample_session_claims :: "string \<Rightarrow> claims" where
  "sample_session_claims t = \<lparr> sub = 1, claims_username = ''ann'', claims_email = [], claims_is_admin = False,
     iat = 0, exp = 900, token_type = (if t = ''access'' then ''access'' else ''refresh''),
     jti = (if t = ''access'' then None else Some (length t)),
     family_id = (if t = ''access'' then None else Some 70) \<rparr>"

definition sample_call :: "uuid \<Rightarrow> call_env" where
  "sample_call fresh_jti = \<lparr> wall = 0, mono = 0, fail = (\<lambda>_. None), new_family = 70, new_jti = fresh_jti,
     jwt_encode = (\<lambda>c. Inr (case jti c of None \<Rightarrow> ''access'' | Some j \<Rightarrow> replicate j (CHR ''r''))),
     jwt_decode = (\<lambda>t. Inr (sample_session_claims t)) \<rparr>"

definition sample_row :: jti_row where
  "sample_row = \<lparr> jti_user = 1, jti_family = 70, jti_issued_at = 0, jti_expires_at = seconds 604800,
     jti_consumed_at = None, jti_revoked_at = None \<rparr>"

definition sample_session :: session_state where
  "sample_session = \<lparr> st_users = [sample_user], st_jtis = [1 \<mapsto> sample_row], st_invalidations = Map.empty \<rparr>"

lemma sample_mint:
  assumes "st_users s = [sample_user]" and "st_jtis s n = None" and "n \<in> {2, 3}"
  shows "\<exists>t. mint_and_record sample_config (sample_call n) 1 70 s
    = (Inr (sample_user, t), s\<lparr> st_jtis := (st_jtis s)(n \<mapsto>
         \<lparr> jti_user = 1, jti_family = 70, jti_issued_at = 0, jti_expires_at = seconds 900,
           jti_consumed_at = None, jti_revoked_at = None \<rparr>) \<rparr>)"
proof -
  have "replicate n (CHR ''r'') \<noteq> ''access''" using assms(3) by (auto simp: numeral_eq_Suc)
  with assms show ?thesis
    by (auto simp: mint_and_record_def load_active_user_def find_user_def sample_call_def sample_user_def
        generate_tokens_with_family_def encode_token_def access_claims_def refresh_claims_def
        persist_refresh_jti_from_pair_def decode_token_def sample_session_claims_def from_timestamp_def
        record_refresh_token_jti_def seconds_def)
qed

lemma sample_refresh:
  "\<exists>out. refresh_tokens sample_config (sample_call 2) ''r'' sample_session
     = (Inr out, sample_session\<lparr> st_invalidations := [1 \<mapsto> (0, 0)],
          st_jtis := [1 \<mapsto> sample_row\<lparr> jti_consumed_at := Some 0 \<rparr>, 2 \<mapsto>
            \<lparr> jti_user = 1, jti_family = 70, jti_issued_at = 0, jti_expires_at = seconds 900,
              jti_consumed_at = None, jti_revoked_at = None \<rparr>] \<rparr>)"
proof -
  let ?s1 = "sample_session\<lparr> st_invalidations := [1 \<mapsto> (0, 0)] \<rparr>"
  have dec: "jwt_decode (sample_call 2) ''r'' = Inr (sample_session_claims ''r'')"
    by (simp add: sample_call_def)
  have c: "token_type (sample_session_claims ''r'') = ''refresh''" "jti (sample_session_claims ''r'') = Some 1"
    "family_id (sample_session_claims ''r'') = Some 70" "sub (sample_session_claims ''r'') = 1"
    by (simp_all add: sample_session_claims_def)
  have "retain (\<lambda>_ (ts, _). - 604800 < ts) [k \<mapsto> (0 :: int, 0 :: nat)] = [k \<mapsto> (0, 0)]" for k :: uuid
    by (rule ext) (simp add: retain_apply)
  then have cc: "check_credentials (sample_call 2) (sample_session_claims ''r'') sample_session = (Inr (), ?s1)"
    by (simp add: check_credentials_def is_token_invalidated_replica_safe_def fetch_credential_change_watermark_def
        sample_session_def sample_call_def find_user_def sample_user_def sample_session_claims_def db_watermark_def
        timestamp_def invalidation_retention_secs_def)
  obtain t where "mint_and_record sample_config (sample_call 2) 1 70 (consume_jti 0 1 ?s1)
      = (Inr (sample_user, t), (consume_jti 0 1 ?s1)\<lparr> st_jtis := (st_jtis (consume_jti 0 1 ?s1))(2 \<mapsto>
         \<lparr> jti_user = 1, jti_family = 70, jti_issued_at = 0, jti_expires_at = seconds 900,
           jti_consumed_at = None, jti_revoked_at = None \<rparr>) \<rparr>)"
    using sample_mint [of "consume_jti 0 1 ?s1" 2]
    by (auto simp: consume_jti_def sample_session_def sample_row_def)
  then show ?thesis
    using refresh_tokens_of [OF dec c(1-3) cc, of sample_config]
    by (simp add: c select_jti_def act_on_row_def sample_call_def sample_session_def sample_row_def consume_jti_def)
qed


text \<open>C33: two requests that present the same refresh token at the same time both succeed: the statement
  that marks the token consumed does not check that it changed a row, so both requests that selected
  the unconsumed row mint, and the family then has two live tokens where rotation promises one.\<close>

theorem concurrent_refresh_spends_twice:
  "\<exists>s ta tb a b. refresh_reaches sample_config
      (sample_session, [Presented 1 1 70, Presented 1 1 70]) (s, [Rotated ta, Rotated tb])
    \<and> st_jtis s 2 = Some a \<and> jti_family a = 70 \<and> jti_consumed_at a = None \<and> jti_revoked_at a = None
    \<and> st_jtis s 3 = Some b \<and> jti_family b = 70 \<and> jti_consumed_at b = None \<and> jti_revoked_at b = None"
proof -
  let ?env = "sample_call 2"
  let ?row = "Some sample_row"
  let ?s1 = "consume_jti 0 1 sample_session"
  let ?s2 = "consume_jti 0 1 ?s1"
  have sel: "select_jti ?env 1 sample_session = Inr ?row"
    by (simp add: select_jti_def sample_call_def sample_session_def)
  have act: "act_on_row ?env 1 ?row s = (Inr (), consume_jti 0 1 s)" for s
    by (simp add: act_on_row_def sample_row_def sample_call_def)
  have users: "st_users ?s2 = [sample_user]" and free: "st_jtis ?s2 2 = None" "st_jtis ?s2 3 = None"
    by (simp_all add: consume_jti_def sample_session_def sample_row_def)
  let ?new = "\<lparr> jti_user = 1, jti_family = 70, jti_issued_at = 0, jti_expires_at = seconds 900,
                jti_consumed_at = None, jti_revoked_at = None \<rparr>"
  let ?s3 = "?s2\<lparr> st_jtis := (st_jtis ?s2)(2 \<mapsto> ?new) \<rparr>"
  let ?s4 = "?s3\<lparr> st_jtis := (st_jtis ?s3)(3 \<mapsto> ?new) \<rparr>"
  obtain ta where ta: "mint_and_record sample_config (sample_call 2) 1 70 ?s2 = (Inr (sample_user, ta), ?s3)"
    using sample_mint [OF users, of 2] free by auto
  obtain tb where tb: "mint_and_record sample_config (sample_call 3) 1 70 ?s3 = (Inr (sample_user, tb), ?s4)"
    using sample_mint [of ?s3 3] users free by auto
  have "refresh_reaches sample_config (sample_session, [Presented 1 1 70, Presented 1 1 70])
      (sample_session, [Presented 1 1 70, Presented 1 1 70])" by (rule refresh_reaches.here)
  then have "refresh_reaches sample_config (sample_session, [Presented 1 1 70, Presented 1 1 70])
      (sample_session, [Selected 1 1 70 ?row, Presented 1 1 70])"
    using refresh_step.select [of 0 "[Presented 1 1 70, Presented 1 1 70]" 1 1 70 ?env, OF _ _ sel]
    by (auto intro: refresh_reaches.later)
  then have "refresh_reaches sample_config (sample_session, [Presented 1 1 70, Presented 1 1 70])
      (sample_session, [Selected 1 1 70 ?row, Selected 1 1 70 ?row])"
    using refresh_step.select [of 1 "[Selected 1 1 70 ?row, Presented 1 1 70]" 1 1 70 ?env, OF _ _ sel]
    by (auto intro: refresh_reaches.later)
  then have "refresh_reaches sample_config (sample_session, [Presented 1 1 70, Presented 1 1 70])
      (?s1, [Marked 1 70, Selected 1 1 70 ?row])"
    using refresh_step.act [of 0 "[Selected 1 1 70 ?row, Selected 1 1 70 ?row]" 1 1 70 ?row ?env, OF _ _ act]
    by (auto intro: refresh_reaches.later)
  then have "refresh_reaches sample_config (sample_session, [Presented 1 1 70, Presented 1 1 70])
      (?s2, [Marked 1 70, Marked 1 70])"
    using refresh_step.act [of 1 "[Marked 1 70, Selected 1 1 70 ?row]" 1 1 70 ?row ?env, OF _ _ act]
    by (auto intro: refresh_reaches.later)
  then have "refresh_reaches sample_config (sample_session, [Presented 1 1 70, Presented 1 1 70])
      (?s3, [Rotated ta, Marked 1 70])"
    using refresh_step.mint [of 0 "[Marked 1 70, Marked 1 70]" 1 70, OF _ _ ta]
    by (auto intro: refresh_reaches.later)
  then have reach: "refresh_reaches sample_config (sample_session, [Presented 1 1 70, Presented 1 1 70])
      (?s4, [Rotated ta, Rotated tb])"
    using refresh_step.mint [of 1 "[Rotated ta, Marked 1 70]" 1 70, OF _ _ tb]
    by (auto intro: refresh_reaches.later)
  have two: "st_jtis ?s4 2 = Some ?new" and three: "st_jtis ?s4 3 = Some ?new" by simp_all
  show ?thesis
    by (intro exI conjI) (rule reach, rule two, simp, simp, simp, rule three, simp, simp, simp)
qed

text \<open>a refresh token whose jti has no row (it predates the table, or its row was swept) is rotated
  without leaving a row for that jti, so every further presentation of it goes straight to minting
  again and is never recognised as a replay. (The minted token is assumed to decode to the jti it
  was encoded with.)\<close>

theorem unrecorded_token_replays:
  assumes "\<forall>u t c'. jwt_encode env (refresh_claims cfg env u f) = Inr t \<longrightarrow> jwt_decode env t = Inr c'
      \<longrightarrow> jti c' = Some (new_jti env)"
    and "refresh_tokens cfg env token s = (Inr out, s')" and "jwt_decode env token = Inr c"
    and "jti c = Some j" and "family_id c = Some f" and "st_jtis s j = None" and "new_jti env \<noteq> j"
  shows "st_jtis s' j = None
    \<and> (\<forall>env2 row. select_jti env2 j s' = Inr row \<longrightarrow> act_on_row env2 j row s' = (Inr (), s'))"
proof -
  have tt: "token_type c = ''refresh''"
    using assms(2,3) by (auto simp: refresh_tokens_def decode_token_def split: if_splits)
  obtain s1 where cc: "check_credentials env c s = (Inr (), s1)"
    using assms(2,3) tt by (auto simp: refresh_tokens_def decode_token_def split: prod.splits sum.splits)
  have rows: "st_jtis s1 = st_jtis s" by (rule check_credentials_jtis [OF cc])
  have mint: "mint_and_record cfg env (sub c) f s1 = (Inr out, s')"
    using assms(2,6) refresh_tokens_of [OF assms(3) tt assms(4,5) cc, of cfg] rows
    by (auto simp: select_jti_def act_on_row_def split: option.splits)
  then obtain u tokens where gen: "generate_tokens_with_family cfg env u f = Inr tokens"
    and per: "persist_refresh_jti_from_pair env tokens (user_pk u) s1 = (Inr (), s')"
    by (auto simp: mint_and_record_def split: sum.splits prod.splits)
  from gen have enc: "jwt_encode env (refresh_claims cfg env u f) = Inr (refresh_token tokens)"
    by (auto simp: generate_tokens_with_family_def bind_result_Inr_iff encode_token_def split: sum.splits)
  from per obtain c' where "jwt_decode env (refresh_token tokens) = Inr c'"
    by (auto simp: persist_refresh_jti_from_pair_def decode_token_def split: sum.splits)
  with per assms(1) enc rows assms(6,7) have "st_jtis s' j = None"
    by (auto simp: persist_refresh_jti_from_pair_def decode_token_def record_refresh_token_jti_def
        split: option.splits if_splits)
  then show ?thesis by (auto simp: select_jti_def act_on_row_def split: option.splits)
qed

theorem unrecorded_token_replays_witness:
  "\<exists>s'. st_jtis s' 1 = None \<and> select_jti (sample_call 3) 1 s' = Inr None
     \<and> act_on_row (sample_call 3) 1 None s' = (Inr (), s')"
proof -
  let ?s = "sample_session\<lparr> st_jtis := Map.empty \<rparr>"
  have dec: "jwt_decode (sample_call n) ''r'' = Inr (sample_session_claims ''r'')" for n
    by (simp add: sample_call_def)
  have j: "jti (sample_session_claims ''r'') = Some 1" and f: "family_id (sample_session_claims ''r'') = Some 70"
    and tt: "token_type (sample_session_claims ''r'') = ''refresh''"
    by (simp_all add: sample_session_claims_def)
  have minted: "\<forall>u t c'. jwt_encode (sample_call 2) (refresh_claims sample_config (sample_call 2) u 70) = Inr t
      \<longrightarrow> jwt_decode (sample_call 2) t = Inr c' \<longrightarrow> jti c' = Some (new_jti (sample_call 2))"
    by (auto simp: sample_call_def refresh_claims_def sample_session_claims_def numeral_eq_Suc)
  have "fst (is_token_invalidated_replica_safe (sample_call 2) 1 0 ?s) = Inr False"
    by (subst replica_safe_by_tables)
      (simp_all add: sample_call_def sample_session_def find_user_def sample_user_def db_watermark_def timestamp_def)
  then have "fst (check_credentials (sample_call 2) (sample_session_claims ''r'') ?s) = Inr ()"
    using check_credentials_fst [of "sample_call 2" "sample_session_claims ''r''" ?s False]
    by (simp add: sample_session_claims_def)
  then obtain s1 where cc: "check_credentials (sample_call 2) (sample_session_claims ''r'') ?s = (Inr (), s1)"
    by (metis prod.collapse)
  have rows: "st_jtis s1 = Map.empty" using check_credentials_jtis [OF cc] by simp
  have users: "st_users s1 = [sample_user]"
    using cc by (auto simp: check_credentials_def is_token_invalidated_replica_safe_def sample_session_def
        fetch_credential_change_watermark_def split: prod.splits sum.splits option.splits if_splits bool.splits)
  obtain t s2 where "mint_and_record sample_config (sample_call 2) 1 70 s1 = (Inr (sample_user, t), s2)"
    using sample_mint [OF users, of 2] rows by auto
  then have ref: "refresh_tokens sample_config (sample_call 2) ''r'' ?s = (Inr (sample_user, t), s2)"
    using refresh_tokens_of [OF dec tt j f cc, of sample_config] rows
    by (simp add: select_jti_def act_on_row_def sample_call_def sample_session_claims_def)
  have none: "st_jtis ?s 1 = None" and new: "new_jti (sample_call 2) \<noteq> 1" by (simp_all add: sample_call_def)
  from unrecorded_token_replays [OF minted ref dec j f none new]
  have gone: "st_jtis s2 1 = None"
    and "\<And>row. select_jti (sample_call 3) 1 s2 = Inr row \<Longrightarrow> act_on_row (sample_call 3) 1 row s2 = (Inr (), s2)"
    by blast+
  moreover have "select_jti (sample_call 3) 1 s2 = Inr None"
    using gone by (simp add: select_jti_def sample_call_def)
  ultimately show ?thesis by blast
qed



text \<open>an in-memory invalidation lasts only as long as the cache entry it is written to: right after
  \<open>invalidate_user_tokens\<close> every token of the user issued up to now is refused, but five seconds later
  the same token is accepted again if the user row was deleted, or is active and its credential
  columns are not in a later second than the token's \<open>iat\<close> (a token of the same second, or a change
  that clears \<open>totp_verified_at\<close>).\<close>

theorem invalidation_lapses:
  assumes "jwt_decode env1 token = Inr c" and "jwt_decode env2 token = Inr c" and "token_type c = ''access''"
    and "iat c \<le> timestamp now" and "timestamp now < 2 ^ 62"
    and "st_invalidations s = invalidate_user_tokens m (sub c) now t0"
    and "mono env1 - t0 < nanos 5" and "nanos 5 \<le> mono env2 - t0"
    and "fail env2 ''select watermark'' = None"
    and "\<And>u. find_user (st_users s) (sub c) = Some u \<Longrightarrow> user_active u \<and> db_watermark u \<le> iat c"
  shows "\<not> is_ok (fst (validate_access_token_async env1 token s))
    \<and> fst (validate_access_token_async env2 token s) = Inr c"
proof -
  have entry: "st_invalidations s (sub c) = Some (timestamp now + 1, t0)"
    using assms(5,6) by (simp add: invalidate_user_tokens_def invalidate_entry invalidation_retention_secs_def)
  from replica_safe_by_cache [OF entry assms(7), of "iat c"]
  have "fst (is_token_invalidated_replica_safe env1 (sub c) (iat c) s) = Inr True"
    using assms(4) by simp
  from validate_async_fst [OF assms(1,3) this]
  have first: "\<not> is_ok (fst (validate_access_token_async env1 token s))" by simp
  have "fst (is_token_invalidated_replica_safe env2 (sub c) (iat c) s) = Inr False"
    using replica_safe_by_tables [of s "sub c" env2 "iat c"] entry assms(8,9,10)
    by (auto split: option.splits)
  from validate_async_fst [OF assms(2,3) this] first show ?thesis by simp
qed

theorem invalidation_lapses_witness:
  "\<not> is_ok (fst (validate_access_token_async (sample_call 2) ''access''
      (sample_session\<lparr> st_users := [], st_invalidations := invalidate_user_tokens Map.empty 1 0 0 \<rparr>)))
   \<and> fst (validate_access_token_async ((sample_call 2)\<lparr> mono := nanos 6 \<rparr>) ''access''
      (sample_session\<lparr> st_users := [], st_invalidations := invalidate_user_tokens Map.empty 1 0 0 \<rparr>))
      = Inr (sample_session_claims ''access'')"
  by (rule invalidation_lapses [where now = 0 and ?t0.0 = 0 and m = Map.empty])
    (simp_all add: sample_call_def sample_session_claims_def timestamp_def find_user_def)

end
