(* ===== verification/Login.thy ===== *)
theory Login
  imports Sessions
begin

text \<open>
  Password login of \<open>services/auth_service.rs\<close>: the cap on concurrent password checks, account
  lockout, password expiry and \<open>authenticate\<close>. The bcrypt library is a parameter.
\<close>

section \<open>Definitions\<close>

text \<open>The semaphore of the password checks as one call finds it: absent, or whether a slot is free at
  once and whether one frees within the wait.\<close>

type_synonym capacity = "(bool \<times> bool) option"

definition acquire_permit_from :: "capacity \<Rightarrow> unit result" where
  "acquire_permit_from sem =
     (case sem of
        None \<Rightarrow> Inr ()
      | Some (free, freed_in_time) \<Rightarrow>
          if free then Inr ()
          else if freed_in_time then Inr ()
          else Inl (ServiceUnavailable ''Authentication service is at capacity, retry shortly''))"

record password_lib =
  capacity_now :: capacity
  bcrypt_verify :: "string \<Rightarrow> string \<Rightarrow> string + bool"

definition verify_password :: "password_lib \<Rightarrow> string \<Rightarrow> string \<Rightarrow> bool result" where
  "verify_password lib pass pw_hash =
     bind_result (acquire_permit_from (capacity_now lib)) (\<lambda>_.
       case bcrypt_verify lib pass pw_hash of
         Inl e \<Rightarrow> Inl (Internal (''Password verification failed: '' @ e))
       | Inr b \<Rightarrow> Inr b)"

definition is_account_locked :: "datetime option \<Rightarrow> datetime \<Rightarrow> bool" where
  "is_account_locked locked_until now = (case locked_until of Some t \<Rightarrow> now < t | None \<Rightarrow> False)"

definition is_password_expired :: "datetime \<Rightarrow> nat \<Rightarrow> datetime \<Rightarrow> bool" where
  "is_password_expired changed_at expiry_days now =
     (if expiry_days = 0 then False
      else changed_at + days (int expiry_days) \<le> now)"

definition should_lock :: "int \<Rightarrow> nat \<Rightarrow> int \<Rightarrow> datetime \<Rightarrow> datetime option" where
  "should_lock attempts threshold duration_minutes now =
     (if threshold = 0 then None
      else if as_i32 (int threshold) \<le> attempts then Some (now + minutes duration_minutes)
      else None)"

definition update_user :: "uuid \<Rightarrow> (user \<Rightarrow> user) \<Rightarrow> session_state \<Rightarrow> session_state" where
  "update_user uid f s = s\<lparr> st_users := map (\<lambda>u. if user_pk u = uid then f u else u) (st_users s) \<rparr>"

text \<open>What \<open>authenticate\<close> checks before the password: the user and the hash to compare with.\<close>

definition login_candidate :: "call_env \<Rightarrow> string \<Rightarrow> session_state \<Rightarrow> (user \<times> string) result" where
  "login_candidate env name s =
     (case fail env ''select login'' of
        Some e \<Rightarrow> Inl (Database e)
      | None \<Rightarrow>
        (case find (\<lambda>u. user_name u = name \<and> user_active u) (st_users s) of
           None \<Rightarrow> Inl (Authentication ''Invalid username or password'')
         | Some u \<Rightarrow>
             if is_account_locked (user_locked_until u) (wall env) then
               Inl (Authentication ''Account temporarily locked due to too many failed login attempts'')
             else if user_provider u \<noteq> Local then Inl (Authentication ''Use SSO provider to authenticate'')
             else (case user_password_hash u of
                     None \<Rightarrow> Inl (Authentication ''Invalid username or password'')
                   | Some h \<Rightarrow> Inr (u, h))))"

definition fail_user :: "auth_config \<Rightarrow> datetime \<Rightarrow> user \<Rightarrow> user \<Rightarrow> user" where
  "fail_user cfg now seen u =
     (let new_count = as_i32 (user_failed_login_attempts seen + 1)
      in u\<lparr> user_failed_login_attempts := new_count,
            user_locked_until := should_lock new_count (account_lockout_threshold cfg)
                                   (account_lockout_duration_minutes cfg) now,
            user_last_failed_login_at := Some now \<rparr>)"

definition reset_user :: "datetime \<Rightarrow> user \<Rightarrow> user" where
  "reset_user now u =
     u\<lparr> user_last_login_at := Some now, user_failed_login_attempts := 0, user_locked_until := None,
        user_last_failed_login_at := None \<rparr>"

text \<open>The branch of a wrong password: the counter written back is the one read by the select.\<close>

definition record_failure ::
  "auth_config \<Rightarrow> call_env \<Rightarrow> user \<Rightarrow> session_state \<Rightarrow> (user \<times> token_pair) result \<times> session_state" where
  "record_failure cfg env seen s =
     (case fail env ''record failure'' of
        Some e \<Rightarrow> (Inl (Database e), s)
      | None \<Rightarrow>
          (Inl (Authentication
             (if user_locked_until (fail_user cfg (wall env) seen seen) \<noteq> None
              then ''Account temporarily locked due to too many failed login attempts''
              else ''Invalid username or password'')),
           update_user (user_pk seen) (fail_user cfg (wall env) seen) s))"

definition finish_login ::
  "auth_config \<Rightarrow> call_env \<Rightarrow> user \<Rightarrow> session_state \<Rightarrow> (user \<times> token_pair) result \<times> session_state" where
  "finish_login cfg env u s =
     (case generate_tokens cfg env u of
        Inl e \<Rightarrow> (Inl e, s)
      | Inr tokens \<Rightarrow>
        (case persist_refresh_jti_from_pair env tokens (user_pk u) s of
           (Inl e, s') \<Rightarrow> (Inl e, s')
         | (Inr _, s') \<Rightarrow> (Inr (u, tokens), s')))"

definition authenticate ::
  "auth_config \<Rightarrow> call_env \<Rightarrow> password_lib \<Rightarrow> string \<Rightarrow> string \<Rightarrow> session_state
   \<Rightarrow> (user \<times> token_pair) result \<times> session_state" where
  "authenticate cfg env lib name pass s =
     (case login_candidate env name s of
        Inl e \<Rightarrow> (Inl e, s)
      | Inr (u, pw_hash) \<Rightarrow>
        (case verify_password lib pass pw_hash of
           Inl e \<Rightarrow> (Inl e, s)
         | Inr False \<Rightarrow> record_failure cfg env u s
         | Inr True \<Rightarrow>
           (case fail env ''reset lockout'' of
              Some e \<Rightarrow> (Inl (Database e), s)
            | None \<Rightarrow>
              (let s1 = update_user (user_pk u) (reset_user (wall env)) s
               in if \<not> user_must_change_password u
                     \<and> is_password_expired (user_password_changed_at u) (password_expiry_days cfg) (wall env)
                  then (case fail env ''force change'' of
                          Some e \<Rightarrow> (Inl (Database e), s1)
                        | None \<Rightarrow>
                            finish_login cfg env (u\<lparr> user_must_change_password := True \<rparr>)
                              (update_user (user_pk u) (\<lambda>v. v\<lparr> user_must_change_password := True \<rparr>) s1))
                  else finish_login cfg env u s1))))"

section \<open>Lemmas\<close>

lemma find_map_same:
  "find P us = Some u \<Longrightarrow> (\<And>v. P (f v) = P v) \<Longrightarrow> find P (map f us) = Some (f u)"
  by (induction us) (auto split: if_splits)

lemma candidate_user:
  "login_candidate env name s = Inr (u, h) \<Longrightarrow>
     find (\<lambda>u. user_name u = name \<and> user_active u) (st_users s) = Some u
     \<and> \<not> is_account_locked (user_locked_until u) (wall env) \<and> user_password_hash u = Some h"
  by (auto simp: login_candidate_def split: option.splits if_splits)

lemma fail_user_same [simp]:
  "user_name (fail_user cfg now seen u) = user_name u"
  "user_active (fail_user cfg now seen u) = user_active u"
  "user_pk (fail_user cfg now seen u) = user_pk u"
  "user_password_hash (fail_user cfg now seen u) = user_password_hash u"
  "user_failed_login_attempts (fail_user cfg now seen u) = as_i32 (user_failed_login_attempts seen + 1)"
  "user_locked_until (fail_user cfg now seen u)
     = should_lock (as_i32 (user_failed_login_attempts seen + 1)) (account_lockout_threshold cfg)
         (account_lockout_duration_minutes cfg) now"
  by (simp_all add: fail_user_def Let_def)

lemma find_after_failure:
  "find (\<lambda>u. user_name u = name \<and> user_active u) (st_users s) = Some u \<Longrightarrow>
     find (\<lambda>u. user_name u = name \<and> user_active u)
       (st_users (update_user (user_pk u) (fail_user cfg now u) s)) = Some (fail_user cfg now u u)"
  unfolding update_user_def
  by (simp, subst find_map_same [where u = u]) simp_all

text \<open>A sequence of calls that guess one wrong password, and how many of them get as far as comparing
  it.\<close>

fun guesses_compared ::
  "auth_config \<Rightarrow> password_lib \<Rightarrow> string \<Rightarrow> string \<Rightarrow> call_env list \<Rightarrow> session_state \<Rightarrow> nat" where
  "guesses_compared cfg lib name pass [] s = 0"
| "guesses_compared cfg lib name pass (env # envs) s =
     (if is_ok (login_candidate env name s) then 1 else 0)
     + guesses_compared cfg lib name pass envs (snd (authenticate cfg env lib name pass s))"

text \<open>How many more guesses can be compared up to time \<open>fin\<close>, from the user's counter and lock.\<close>

definition guess_budget :: "auth_config \<Rightarrow> datetime \<Rightarrow> datetime \<Rightarrow> user \<Rightarrow> int" where
  "guess_budget cfg now fin u =
     (let T = int (account_lockout_threshold cfg); c = user_failed_login_attempts u;
          d = minutes (account_lockout_duration_minutes cfg)
      in if c < T then (T - c) + (fin - now) div d
         else (case user_locked_until u of
                 Some l \<Rightarrow> if fin < l then 0 else (fin - l) div d + 1
               | None \<Rightarrow> 0))"

lemma guess_budget_nonneg:
  "0 < minutes (account_lockout_duration_minutes cfg) \<Longrightarrow> now \<le> fin \<Longrightarrow> 0 \<le> guess_budget cfg now fin u"
  by (auto simp: guess_budget_def Let_def pos_imp_zdiv_nonneg_iff split: option.splits)

lemma guess_budget_later:
  "0 < minutes (account_lockout_duration_minutes cfg) \<Longrightarrow> now \<le> now' \<Longrightarrow>
     guess_budget cfg now' fin u \<le> guess_budget cfg now fin u"
  by (auto simp: guess_budget_def Let_def intro: zdiv_mono1 split: option.splits)

lemma guess_budget_failure:
  assumes d: "0 < minutes (account_lockout_duration_minutes cfg)"
    and T: "0 < account_lockout_threshold cfg" "account_lockout_threshold cfg < 2 ^ 31"
    and c: "0 \<le> user_failed_login_attempts u" "user_failed_login_attempts u + 1 < 2 ^ 31"
    and "\<not> is_account_locked (user_locked_until u) now" and "now \<le> fin"
    and lock: "int (account_lockout_threshold cfg) \<le> user_failed_login_attempts u \<Longrightarrow> user_locked_until u \<noteq> None"
  shows "1 + guess_budget cfg now fin (fail_user cfg now u u) \<le> guess_budget cfg now fin u"
proof -
  let ?d = "minutes (account_lockout_duration_minutes cfg)"
  let ?T = "int (account_lockout_threshold cfg)" and ?c = "user_failed_login_attempts u"
  have c': "as_i32 (?c + 1) = ?c + 1" and T': "as_i32 ?T = ?T" using c T by simp_all
  have shift: "(fin - (now + ?d)) div ?d = (fin - now) div ?d - 1"
    using div_add_self2 [of ?d "fin - (now + ?d)"] d by (simp add: algebra_simps)
  have pos: "0 \<le> (fin - now) div ?d" using d \<open>now \<le> fin\<close> by (simp add: pos_imp_zdiv_nonneg_iff)
  show ?thesis
  proof (cases "?c < ?T")
    case True
    then show ?thesis
      using shift pos T by (auto simp: guess_budget_def Let_def should_lock_def c' T')
  next
    case False
    then obtain l where l: "user_locked_until u = Some l" using lock by auto
    then have "l \<le> now" using assms(6) by (simp add: is_account_locked_def)
    then have "(fin - now) div ?d \<le> (fin - l) div ?d" using d by (intro zdiv_mono1) simp_all
    then show ?thesis
      using False l shift \<open>l \<le> now\<close> \<open>now \<le> fin\<close> pos T
      by (auto simp: guess_budget_def Let_def should_lock_def c' T')
  qed
qed

text \<open>One wrong guess: it is refused before the comparison and nothing changes, or the failure is
  recorded.\<close>

lemma authenticate_guess:
  assumes "\<And>h. user_password_hash u = Some h \<Longrightarrow> verify_password lib pass h = Inr False"
    and "find (\<lambda>u. user_name u = name \<and> user_active u) (st_users s) = Some u"
    and "fail env ''record failure'' = None"
  shows "snd (authenticate cfg env lib name pass s) =
    (if is_ok (login_candidate env name s)
     then update_user (user_pk u) (fail_user cfg (wall env) u) s else s)"
proof (cases "login_candidate env name s")
  case (Inl e)
  then show ?thesis by (simp add: authenticate_def)
next
  case (Inr c)
  obtain v h where c: "c = (v, h)" by (cases c)
  with candidate_user [of env name s v h] Inr assms(2) have "v = u" "user_password_hash u = Some h" by auto
  with Inr c assms(1,3) show ?thesis
    by (simp add: authenticate_def record_failure_def)
qed

lemma guesses_within_budget:
  assumes "0 < minutes (account_lockout_duration_minutes cfg)"
    and "0 < account_lockout_threshold cfg" "account_lockout_threshold cfg < 2 ^ 31"
    and "\<And>h. user_password_hash u = Some h \<Longrightarrow> verify_password lib pass h = Inr False"
    and "find (\<lambda>u. user_name u = name \<and> user_active u) (st_users s) = Some u"
    and "\<forall>env \<in> set envs. fail env ''record failure'' = None \<and> wall env \<le> fin"
    and "sorted (now # map wall envs)" and "now \<le> fin"
    and "0 \<le> user_failed_login_attempts u" "user_failed_login_attempts u + int (length envs) < 2 ^ 31"
    and "int (account_lockout_threshold cfg) \<le> user_failed_login_attempts u \<Longrightarrow> user_locked_until u \<noteq> None"
  shows "int (guesses_compared cfg lib name pass envs s) \<le> guess_budget cfg now fin u"
  using assms(4-)
proof (induction envs arbitrary: s u now)
  case Nil
  then show ?case using guess_budget_nonneg [OF assms(1)] by simp
next
  case (Cons env envs)
  have order: "now \<le> wall env" "wall env \<le> fin" "sorted (wall env # map wall envs)"
    using Cons.prems(3,4) by auto
  note budget = guess_budget_later [OF assms(1) order(1), of fin u]
  have step: "snd (authenticate cfg env lib name pass s) =
    (if is_ok (login_candidate env name s)
     then update_user (user_pk u) (fail_user cfg (wall env) u) s else s)"
    using authenticate_guess Cons.prems(1,2,3) by simp
  show ?case
  proof (cases "is_ok (login_candidate env name s)")
    case False
    have "int (guesses_compared cfg lib name pass envs s) \<le> guess_budget cfg (wall env) fin u"
      using Cons.IH [OF Cons.prems(1,2) _ order(3,2)] Cons.prems by auto
    with False step budget show ?thesis by simp
  next
    case True
    then obtain v h where "login_candidate env name s = Inr (v, h)"
      by (cases "login_candidate env name s") auto
    with candidate_user [of env name s v h] Cons.prems(2)
    have unlocked: "\<not> is_account_locked (user_locked_until u) (wall env)" by simp
    let ?u = "fail_user cfg (wall env) u u" and ?s = "update_user (user_pk u) (fail_user cfg (wall env) u) s"
    have count: "user_failed_login_attempts ?u = user_failed_login_attempts u + 1"
      using Cons.prems(6,7) by simp
    have lock: "int (account_lockout_threshold cfg) \<le> user_failed_login_attempts ?u \<Longrightarrow> user_locked_until ?u \<noteq> None"
      using count assms(2,3) by (auto simp: should_lock_def)
    have "int (guesses_compared cfg lib name pass envs ?s) \<le> guess_budget cfg (wall env) fin ?u"
      using Cons.IH [OF _ find_after_failure [OF Cons.prems(2)] _ order(3,2) _ _ lock] Cons.prems(1,3,6,7) count
      by simp
    moreover have "1 + guess_budget cfg (wall env) fin ?u \<le> guess_budget cfg (wall env) fin u"
      using guess_budget_failure [OF assms(1-3) Cons.prems(6) _ unlocked order(2) Cons.prems(8)] Cons.prems(6,7) by simp
    ultimately show ?thesis using True step budget by simp
  qed
qed

section \<open>Properties\<close>



text \<open>concurrent failures are lost: two guesses that read the user before either writes count as
  one, because the counter written back is the one read, so the bound on sequential guesses does not
  hold for parallel ones.\<close>

theorem parallel_failures_count_once:
  assumes "fail env ''record failure'' = None"
  shows "snd (record_failure cfg env seen (snd (record_failure cfg env seen s)))
    = snd (record_failure cfg env seen s)"
  using assms
  by (auto simp: record_failure_def update_user_def fail_user_def Let_def)

theorem parallel_failures_count_once_witness:
  "snd (record_failure sample_config (sample_call 2) sample_user
      (snd (record_failure sample_config (sample_call 2) sample_user sample_session)))
    = snd (record_failure sample_config (sample_call 2) sample_user sample_session)"
  by (rule parallel_failures_count_once) (simp add: sample_call_def)

text \<open>a login returns tokens only for an active local account that was not locked, whose password
  the library accepted, and it leaves the account unlocked with its counter at zero.\<close>

theorem login_success:
  assumes "authenticate cfg env lib name pass s = (Inr (u, tokens), s')"
  shows "\<exists>v h. find (\<lambda>u. user_name u = name \<and> user_active u) (st_users s) = Some v \<and> user_pk u = user_pk v
    \<and> user_provider v = Local \<and> \<not> is_account_locked (user_locked_until v) (wall env)
    \<and> user_password_hash v = Some h \<and> bcrypt_verify lib pass h = Inr True
    \<and> (\<forall>w \<in> set (st_users s'). user_pk w = user_pk u \<longrightarrow>
          user_failed_login_attempts w = 0 \<and> user_locked_until w = None)"
proof -
  have persisted: "st_users s2 = st_users s1" if "persist_refresh_jti_from_pair env t k s1 = (r, s2)" for t k s1 r s2
    using that by (auto simp: persist_refresh_jti_from_pair_def record_refresh_token_jti_def
        split: sum.splits option.splits if_splits)
  have finished: "fst r = x \<and> st_users s2 = st_users s1" if "finish_login cfg env x s1 = (Inr r, s2)" for x s1 r s2
    using that by (auto simp: finish_login_def dest: persisted split: sum.splits prod.splits)
  from assms obtain v h where c: "login_candidate env name s = Inr (v, h)"
    by (auto simp: authenticate_def split: sum.splits)
  with assms have ok: "verify_password lib pass h = Inr True"
    by (auto simp: authenticate_def record_failure_def split: sum.splits bool.splits option.splits)
  then have "bcrypt_verify lib pass h = Inr True"
    by (auto simp: verify_password_def bind_result_Inr_iff split: sum.splits)
  moreover have "user_provider v = Local"
    using c by (auto simp: login_candidate_def split: option.splits if_splits)
  moreover have "user_pk u = user_pk v \<and> (\<forall>w \<in> set (st_users s'). user_pk w = user_pk v \<longrightarrow>
      user_failed_login_attempts w = 0 \<and> user_locked_until w = None)"
    using assms c ok
    by (auto simp: authenticate_def Let_def update_user_def reset_user_def dest!: finished
        split: option.splits if_splits)
  ultimately show ?thesis using candidate_user [OF c] by metis
qed

theorem login_success_witness:
  "\<exists>u tokens s'. authenticate sample_config (sample_call 2) \<lparr> capacity_now = None, bcrypt_verify = (\<lambda>_ _. Inr True) \<rparr>
      ''ann'' ''pw'' sample_session = (Inr (u, tokens), s')
    \<and> user_pk u = 1"
proof -
  let ?lib = "\<lparr> capacity_now = None, bcrypt_verify = (\<lambda>_ _. Inr True) \<rparr>"
  have "replicate 2 (CHR ''r'') \<noteq> ''access''" by (simp add: numeral_eq_Suc)
  then obtain u tokens s' where ok: "authenticate sample_config (sample_call 2) ?lib ''ann'' ''pw'' sample_session
      = (Inr (u, tokens), s')"
    by (simp add: authenticate_def login_candidate_def sample_call_def sample_session_def sample_user_def
        is_account_locked_def verify_password_def acquire_permit_from_def Let_def is_password_expired_def
        sample_config_def finish_login_def generate_tokens_def generate_tokens_with_family_def encode_token_def
        access_claims_def refresh_claims_def persist_refresh_jti_from_pair_def decode_token_def
        sample_session_claims_def from_timestamp_def record_refresh_token_jti_def seconds_def)
  from login_success [OF ok] obtain v where "find (\<lambda>u. user_name u = ''ann'' \<and> user_active u) (st_users sample_session) = Some v"
    and pk: "user_pk u = user_pk v" by blast
  then have "v = sample_user" by (simp add: sample_session_def split: if_splits)
  with pk have "user_pk u = 1" by (simp add: sample_user_def)
  with ok show ?thesis by blast
qed

end
