(* ===== verification/Api_Tokens.thy ===== *)
theory Api_Tokens
  imports Login Interfaces
begin

text \<open>
  API tokens of \<open>services/auth_service.rs\<close>: validation with its five-minute cache, generation and
  revocation, the in-memory sets that cut cached validations short, and the interleaving of
  validations with revocations and deactivations. One replica is modelled, with the one long-lived
  cache it registers. SHA-256, bcrypt and the repository-selector service are parameters.
\<close>

section \<open>State\<close>

definition api_token_cache_ttl_secs :: nat where "api_token_cache_ttl_secs = 300"

record api_token_row =
  tok_id :: uuid
  tok_user :: uuid
  tok_name :: string
  tok_hash :: string
  tok_prefix :: string
  tok_scopes :: "string list"
  tok_expires_at :: "datetime option"
  tok_revoked_at :: "datetime option"
  tok_last_used_at :: "datetime option"
  tok_selector :: "string option"

record cached_token =
  entry_validation :: api_token_validation
  entry_token_id :: uuid
  entry_expires_at :: "datetime option"

type_synonym token_cache = "string \<rightharpoonup> cached_token \<times> instant"

record token_state =
  tok_rows :: "api_token_row list"
  tok_users :: "user list"
  tok_repos :: "(uuid \<times> uuid) list"
  revoked_set :: "uuid \<rightharpoonup> instant"
  user_invalidated :: "uuid \<rightharpoonup> instant"
  token_cache :: token_cache

record token_env =
  tok_wall :: datetime
  tok_now :: instant
  tok_fail :: "string \<Rightarrow> string option"
  tok_lib :: password_lib
  sha256_hex :: "string \<Rightarrow> string"
  dummy_hash :: string
  selector_is_empty :: "string \<Rightarrow> bool"
  resolve_selector :: "string \<Rightarrow> uuid list result"

section \<open>The in-memory sets\<close>

definition recent_only :: "instant \<Rightarrow> (uuid \<rightharpoonup> instant) \<Rightarrow> (uuid \<rightharpoonup> instant)" where
  "recent_only now m = retain (\<lambda>_ at. as_secs (now - at) < api_token_cache_ttl_secs * 2) m"

definition mark_api_token_revoked :: "uuid \<Rightarrow> instant \<Rightarrow> (uuid \<rightharpoonup> instant) \<Rightarrow> (uuid \<rightharpoonup> instant)" where
  "mark_api_token_revoked tid now m = recent_only now (m(tid \<mapsto> now))"

definition is_api_token_revoked_in_cache :: "(uuid \<rightharpoonup> instant) \<Rightarrow> uuid \<Rightarrow> bool" where
  "is_api_token_revoked_in_cache m tid \<longleftrightarrow> m tid \<noteq> None"

definition is_user_api_tokens_invalidated_after :: "(uuid \<rightharpoonup> instant) \<Rightarrow> uuid \<Rightarrow> instant \<Rightarrow> bool" where
  "is_user_api_tokens_invalidated_after m uid cached_at =
     (case m uid of Some invalidated_at \<Rightarrow> cached_at \<le> invalidated_at | None \<Rightarrow> False)"

definition flush_user :: "uuid \<Rightarrow> token_cache \<Rightarrow> token_cache" where
  "flush_user uid c = retain (\<lambda>_ (e, _). user_pk (val_user (entry_validation e)) \<noteq> uid) c"

definition invalidate_user_token_cache_entries :: "uuid \<Rightarrow> instant \<Rightarrow> token_state \<Rightarrow> token_state" where
  "invalidate_user_token_cache_entries uid now s =
     s\<lparr> user_invalidated := recent_only now ((user_invalidated s)(uid \<mapsto> now)),
        token_cache := flush_user uid (token_cache s) \<rparr>"

definition prune_stale_user_token_invalidations :: "instant \<Rightarrow> token_state \<Rightarrow> token_state" where
  "prune_stale_user_token_invalidations now s =
     s\<lparr> user_invalidated := recent_only now (user_invalidated s) \<rparr>"

section \<open>Validation\<close>

definition token_cache_get :: "token_cache \<Rightarrow> string \<Rightarrow> instant \<Rightarrow> (cached_token \<times> instant) option" where
  "token_cache_get c key now =
     (case c key of
        Some (e, at) \<Rightarrow> if as_secs (now - at) < api_token_cache_ttl_secs then Some (e, at) else None
      | None \<Rightarrow> None)"

definition token_cache_put :: "token_cache \<Rightarrow> string \<Rightarrow> cached_token \<Rightarrow> instant \<Rightarrow> token_cache" where
  "token_cache_put c key e now =
     (retain (\<lambda>_ (_, at). as_secs (now - at) < api_token_cache_ttl_secs) c)(key \<mapsto> (e, now))"

text \<open>The answer from the cache; \<open>None\<close> goes on to the database.\<close>

definition cache_answer :: "token_env \<Rightarrow> string \<Rightarrow> token_state \<Rightarrow> cached_token result option" where
  "cache_answer env token s =
     (case token_cache_get (token_cache s) (sha256_hex env token) (tok_now env) of
        None \<Rightarrow> None
      | Some (e, at) \<Rightarrow> Some
          (if is_api_token_revoked_in_cache (revoked_set s) (entry_token_id e)
           then Inl (Unauthorized ''Token has been revoked'')
           else if (case entry_expires_at e of Some x \<Rightarrow> x < tok_wall env | None \<Rightarrow> False)
           then Inl (Authentication ''API token expired'')
           else if is_user_api_tokens_invalidated_after (user_invalidated s)
                     (user_pk (val_user (entry_validation e))) at
           then Inl (Authentication ''User account is deactivated'')
           else Inr e))"

definition check_token_validation_result :: "bool \<Rightarrow> bool \<Rightarrow> bool \<Rightarrow> unit result" where
  "check_token_validation_result token_exists is_revoked hash_matches =
     (if \<not> token_exists then Inl (Authentication ''Invalid API token'')
      else if is_revoked then Inl (Unauthorized ''Token has been revoked'')
      else if \<not> hash_matches then Inl (Authentication ''Invalid API token'')
      else Inr ())"

definition should_debounce_usage_update :: "datetime option \<Rightarrow> datetime \<Rightarrow> bool" where
  "should_debounce_usage_update last_used_at now =
     (case last_used_at of None \<Rightarrow> True | Some lu \<Rightarrow> minutes 5 < now - lu)"

definition query :: "token_env \<Rightarrow> string \<Rightarrow> 'a \<Rightarrow> 'a result" where
  "query env name rows = (case tok_fail env name of Some e \<Rightarrow> Inl (Database e) | None \<Rightarrow> Inr rows)"

definition resolve_restrictions ::
  "token_env \<Rightarrow> api_token_row \<Rightarrow> token_state \<Rightarrow> uuid list option result" where
  "resolve_restrictions env row s =
     (case tok_selector row of
        Some selector \<Rightarrow>
          if selector_is_empty env selector then Inr None
          else bind_result (resolve_selector env selector) (\<lambda>ids.
                 Inr (if ids = [] then Some [] else Some ids))
      | None \<Rightarrow>
          bind_result (query env ''select token repositories''
                         (map snd (filter (\<lambda>(t, _). t = tok_id row) (tok_repos s)))) (\<lambda>ids.
            Inr (if ids = [] then None else Some ids)))"

text \<open>The token's row, once its secret, revocation and expiry are checked. The dummy bcrypt run of a short
  token and of an unknown prefix only costs time; the latter's shed is an error all the same.\<close>

definition checked_row :: "token_env \<Rightarrow> string \<Rightarrow> token_state \<Rightarrow> api_token_row result" where
  "checked_row env token s =
     (if length token < 8 then Inl (Authentication ''Invalid API token'')
      else
        bind_result (query env ''select token''
                       (find (\<lambda>r. tok_prefix r = take 8 token) (tok_rows s))) (\<lambda>stored.
        bind_result (verify_password (tok_lib env) token
                       (case stored of Some r \<Rightarrow> tok_hash r | None \<Rightarrow> dummy_hash env)) (\<lambda>hash_matches.
        bind_result (check_token_validation_result (stored \<noteq> None)
                       (case stored of Some r \<Rightarrow> tok_revoked_at r \<noteq> None | None \<Rightarrow> False) hash_matches) (\<lambda>_.
          let row = the stored
          in if (case tok_expires_at row of Some x \<Rightarrow> x < tok_wall env | None \<Rightarrow> False)
             then Inl (Authentication ''API token expired'')
             else Inr row))))"

text \<open>The entry that a successful validation caches.\<close>

definition db_validate :: "token_env \<Rightarrow> string \<Rightarrow> token_state \<Rightarrow> cached_token result" where
  "db_validate env token s =
     bind_result (checked_row env token s) (\<lambda>row.
     bind_result (query env ''select user''
                    (find (\<lambda>u. user_pk u = tok_user row \<and> user_active u) (tok_users s))) (\<lambda>found.
     case found of
       None \<Rightarrow> Inl (Authentication ''User not found'')
     | Some u \<Rightarrow>
         bind_result (resolve_restrictions env row s) (\<lambda>ids.
           Inr \<lparr> entry_validation = \<lparr> val_user = u, val_scopes = tok_scopes row,
                                      val_allowed_repo_ids = ids \<rparr>,
                 entry_token_id = tok_id row, entry_expires_at = tok_expires_at row \<rparr>)))"

text \<open>The detached task that records the use of a token whose row passed its checks; it may fail
  unnoticed.\<close>

definition touch_usage :: "token_env \<Rightarrow> string \<Rightarrow> token_state \<Rightarrow> token_state" where
  "touch_usage env token s =
     (case checked_row env token s of
        Inl _ \<Rightarrow> s
      | Inr row \<Rightarrow>
          if should_debounce_usage_update (tok_last_used_at row) (tok_wall env)
             \<and> tok_fail env ''touch'' = None
          then s\<lparr> tok_rows := map (\<lambda>r. if tok_id r = tok_id row
                 then r\<lparr> tok_last_used_at := Some (tok_wall env) \<rparr> else r) (tok_rows s) \<rparr>
          else s)"

definition store_entry :: "string \<Rightarrow> cached_token \<Rightarrow> instant \<Rightarrow> token_state \<Rightarrow> token_state" where
  "store_entry key e now s = s\<lparr> token_cache := token_cache_put (token_cache s) key e now \<rparr>"

definition validate_api_token ::
  "token_env \<Rightarrow> instant \<Rightarrow> string \<Rightarrow> token_state \<Rightarrow> api_token_validation result \<times> token_state" where
  "validate_api_token env later token s =
     (case cache_answer env token s of
        Some (Inl e) \<Rightarrow> (Inl e, s)
      | Some (Inr e) \<Rightarrow> (Inr (entry_validation e), s)
      | None \<Rightarrow>
        (case db_validate env token s of
           Inl e \<Rightarrow> (Inl e, touch_usage env token s)
         | Inr e \<Rightarrow>
             (Inr (entry_validation e),
              store_entry (sha256_hex env token) e later (touch_usage env token s))))"

section \<open>Generation and revocation\<close>

definition clamp :: "int \<Rightarrow> int \<Rightarrow> int \<Rightarrow> int" where
  "clamp lo hi x = (if x < lo then lo else if hi < x then hi else x)"

text \<open>\<open>token\<close> is the random token the two UUIDs give, \<open>tid\<close> the id the insert returns.\<close>

definition generate_api_token ::
  "token_env \<Rightarrow> (string \<Rightarrow> string result) \<Rightarrow> string \<Rightarrow> uuid \<Rightarrow> uuid \<Rightarrow> string \<Rightarrow> string list \<Rightarrow> int option
   \<Rightarrow> token_state \<Rightarrow> (string \<times> uuid) result \<times> token_state" where
  "generate_api_token env hash_password token tid uid name granted expires_in_days s =
     (if 50 < length granted then (Inl (Validation ''Too many scopes (max 50)''), s)
      else if list_ex (\<lambda>x. 256 < length x) granted then
        (Inl (Validation ''Scope name too long (max 256 characters)''), s)
      else case hash_password token of
             Inl e \<Rightarrow> (Inl e, s)
           | Inr h \<Rightarrow>
             (case tok_fail env ''insert token'' of
                Some e \<Rightarrow> (Inl (Database e), s)
              | None \<Rightarrow>
                  (Inr (token, tid),
                   s\<lparr> tok_rows := tok_rows s @
                        [\<lparr> tok_id = tid, tok_user = uid, tok_name = name, tok_hash = h, tok_prefix = take 8 token,
                           tok_scopes = granted,
                           tok_expires_at = map_option (\<lambda>d. tok_wall env + days (clamp 1 3650 d)) expires_in_days,
                           tok_revoked_at = None, tok_last_used_at = None, tok_selector = None \<rparr>] \<rparr>)))"

definition revoke_api_token :: "token_env \<Rightarrow> uuid \<Rightarrow> uuid \<Rightarrow> token_state \<Rightarrow> unit result \<times> token_state" where
  "revoke_api_token env tid uid s =
     (let hit = (\<lambda>r. tok_id r = tid \<and> tok_user r = uid \<and> tok_revoked_at r = None)
      in case tok_fail env ''revoke token'' of
           Some e \<Rightarrow> (Inl (Database e), s)
         | None \<Rightarrow>
             if \<not> list_ex hit (tok_rows s) then (Inl (NotFound ''API token not found''), s)
             else (Inr (),
                   s\<lparr> tok_rows := map (\<lambda>r. if hit r then r\<lparr> tok_revoked_at := Some (tok_wall env) \<rparr> else r)
                                    (tok_rows s),
                      revoked_set := mark_api_token_revoked tid (tok_now env) (revoked_set s) \<rparr>))"

definition set_user_inactive :: "uuid \<Rightarrow> token_state \<Rightarrow> token_state" where
  "set_user_inactive uid s =
     s\<lparr> tok_users := map (\<lambda>u. if user_pk u = uid then u\<lparr> user_active := False \<rparr> else u) (tok_users s) \<rparr>"

section \<open>Lemmas\<close>

lemma token_cache_get_put_same:
  "token_cache_get (token_cache_put c k v t) k now = Some w \<Longrightarrow> w = (v, t) \<and> now - t \<le> nanos 300"
  by (simp add: token_cache_get_def token_cache_put_def as_secs_less api_token_cache_ttl_secs_def split: if_splits)

lemma token_cache_get_put_other:
  "k' \<noteq> k \<Longrightarrow> token_cache_get (token_cache_put c k v t) k' now = Some w \<Longrightarrow> token_cache_get c k' now = Some w"
  by (auto simp: token_cache_get_def token_cache_put_def retain_apply split: option.splits if_splits)

definition token_lookup :: "token_cache \<Rightarrow> string \<Rightarrow> instant \<Rightarrow> cached_token option" where
  "token_lookup c key now = map_option fst (token_cache_get c key now)"

lemma token_lookup_Some:
  "token_lookup c key now = Some e \<longleftrightarrow> (\<exists>at. token_cache_get c key now = Some (e, at))"
  by (auto simp: token_lookup_def)

interpretation tc: ttl_cache Map.empty token_lookup token_cache_put "nanos 300"
proof
  show "token_lookup Map.empty k now = None" for k now by (simp add: token_lookup_def token_cache_get_def)
  show "w = v \<and> now - t \<le> nanos 300" if "token_lookup (token_cache_put c k v t) k now = Some w" for c k v t now w
    using that token_cache_get_put_same unfolding token_lookup_Some by fast
  show "token_lookup c k' now = Some w"
    if "k' \<noteq> k" "token_lookup (token_cache_put c k v t) k' now = Some w" for c k k' v t now w
    using that(2) token_cache_get_put_other [OF that(1)] unfolding token_lookup_Some by blast
qed

lemma recent_only_Some: "recent_only now m k = Some t \<longleftrightarrow> m k = Some t \<and> now - t < nanos 600"
  by (auto simp: recent_only_def retain_apply as_secs_less api_token_cache_ttl_secs_def split: option.splits)

lemma token_cache_put_Some:
  "token_cache_put c key e now k = Some (e', at) \<Longrightarrow>
     (k = key \<and> e' = e \<and> at = now) \<or> c k = Some (e', at)"
  by (auto simp: token_cache_put_def retain_apply split: if_splits option.splits)

text \<open>What an accepting database validation has checked.\<close>

lemma query_ok: "query env name rows = Inr x \<longleftrightarrow> tok_fail env name = None \<and> x = rows"
  by (auto simp: query_def split: option.splits)

lemma verify_ok: "verify_password lib pass h = Inr b \<Longrightarrow> bcrypt_verify lib pass h = Inr b"
  by (auto simp: verify_password_def bind_result_Inr_iff split: sum.splits)

lemma check_token_ok: "check_token_validation_result known revd ok = Inr u \<longleftrightarrow> known \<and> \<not> revd \<and> ok"
  by (auto simp: check_token_validation_result_def)

lemma checked_row_ok:
  assumes "checked_row env token s = Inr row"
  shows "find (\<lambda>r. tok_prefix r = take 8 token) (tok_rows s) = Some row \<and> tok_revoked_at row = None
    \<and> bcrypt_verify (tok_lib env) token (tok_hash row) = Inr True
    \<and> (case tok_expires_at row of Some x \<Rightarrow> tok_wall env \<le> x | None \<Rightarrow> True)"
proof -
  from assms have "\<not> length token < 8" by (auto simp: checked_row_def)
  with assms obtain stored ok u where "stored = find (\<lambda>r. tok_prefix r = take 8 token) (tok_rows s)"
    and v: "verify_password (tok_lib env) token
        (case stored of Some r \<Rightarrow> tok_hash r | None \<Rightarrow> dummy_hash env) = Inr ok"
    and c: "check_token_validation_result (stored \<noteq> None)
        (case stored of Some r \<Rightarrow> tok_revoked_at r \<noteq> None | None \<Rightarrow> False) ok = Inr u"
    and row: "(if (case tok_expires_at (the stored) of Some x \<Rightarrow> x < tok_wall env | None \<Rightarrow> False)
        then Inl (Authentication ''API token expired'') else Inr (the stored)) = Inr row"
    unfolding checked_row_def bind_result_Inr_iff query_ok Let_def by (auto simp only: if_False bind_result_Inr_iff query_ok)
  moreover from c obtain r where "stored = Some r" "tok_revoked_at r = None" ok
    by (auto simp: check_token_ok)
  ultimately show ?thesis using verify_ok [OF v] by (auto split: if_splits option.splits)
qed

lemma db_validate_ok:
  assumes "db_validate env token s = Inr e"
  shows "\<exists>row. checked_row env token s = Inr row \<and> entry_token_id e = tok_id row
    \<and> entry_expires_at e = tok_expires_at row
    \<and> find (\<lambda>u. user_pk u = tok_user row \<and> user_active u) (tok_users s) = Some (val_user (entry_validation e))
    \<and> val_scopes (entry_validation e) = tok_scopes row
    \<and> resolve_restrictions env row s = Inr (val_allowed_repo_ids (entry_validation e))"
  using assms by (auto simp: db_validate_def bind_result_Inr_iff query_ok split: option.splits)

definition accepted_entry :: "token_env \<Rightarrow> string \<Rightarrow> token_state \<Rightarrow> cached_token result" where
  "accepted_entry env token s =
     (case cache_answer env token s of Some r \<Rightarrow> r | None \<Rightarrow> db_validate env token s)"

lemma validate_accepted:
  "fst (validate_api_token env later token s) = Inr v \<longleftrightarrow>
     (\<exists>e. accepted_entry env token s = Inr e \<and> v = entry_validation e)"
  by (auto simp: validate_api_token_def accepted_entry_def split: option.splits sum.splits)

lemma touch_usage_same [simp]:
  "tok_users (touch_usage env token s) = tok_users s"
  "revoked_set (touch_usage env token s) = revoked_set s"
  "user_invalidated (touch_usage env token s) = user_invalidated s"
  "token_cache (touch_usage env token s) = token_cache s"
  by (simp_all add: touch_usage_def split: sum.splits)

lemma touch_usage_rows:
  "map tok_id (tok_rows (touch_usage env token s)) = map tok_id (tok_rows s)"
  "\<exists>f. tok_rows (touch_usage env token s) = map f (tok_rows s)
     \<and> (\<forall>r. tok_id (f r) = tok_id r \<and> tok_revoked_at (f r) = tok_revoked_at r)"
proof -
  show maps: "\<exists>f. tok_rows (touch_usage env token s) = map f (tok_rows s)
     \<and> (\<forall>r. tok_id (f r) = tok_id r \<and> tok_revoked_at (f r) = tok_revoked_at r)"
  proof (cases "checked_row env token s")
    case (Inl e)
    then show ?thesis by (intro exI [of _ id]) (simp add: touch_usage_def)
  next
    case (Inr row)
    show ?thesis
      by (rule exI [of _ "\<lambda>r. if tok_id r = tok_id row
            \<and> should_debounce_usage_update (tok_last_used_at row) (tok_wall env) \<and> tok_fail env ''touch'' = None
          then r\<lparr> tok_last_used_at := Some (tok_wall env) \<rparr> else r"])
        (auto simp: touch_usage_def Inr intro!: map_idI [symmetric])
  qed
  then show "map tok_id (tok_rows (touch_usage env token s)) = map tok_id (tok_rows s)" by auto
qed

section \<open>Validations between revocations and deactivations\<close>

text \<open>A validation that misses the cache reads the database in one step and stores its entry in a later
  one, at most \<open>D\<close> after. \<open>revoked_when\<close> is a ghost: when a token's revocation returned.\<close>

record token_machine =
  machine :: token_state
  machine_clock :: instant
  in_flight_entries :: "(string \<times> cached_token \<times> instant) list"
  revoked_when :: "uuid \<rightharpoonup> instant"

inductive token_step :: "nat \<Rightarrow> token_machine \<Rightarrow> token_machine \<Rightarrow> bool" for D where
  read_db: "machine_clock s \<le> tok_now env \<Longrightarrow> db_validate env token (machine s) = Inr e \<Longrightarrow>
    token_step D s (s\<lparr> machine_clock := tok_now env,
      in_flight_entries := (sha256_hex env token, e, tok_now env) # in_flight_entries s \<rparr>)"
| store: "(key, e, r) \<in> set (in_flight_entries s) \<Longrightarrow> machine_clock s \<le> now \<Longrightarrow> now \<le> r + D \<Longrightarrow>
    token_step D s (s\<lparr> machine_clock := now, machine := store_entry key e now (machine s) \<rparr>)"
| revoke: "machine_clock s \<le> tok_now env \<Longrightarrow> revoke_api_token env tid uid (machine s) = (Inr u, m') \<Longrightarrow>
    token_step D s (s\<lparr> machine_clock := tok_now env, machine := m',
      revoked_when := (revoked_when s)(tid \<mapsto> tok_now env) \<rparr>)"
| mark_user: "machine_clock s \<le> now \<Longrightarrow>
    token_step D s (s\<lparr> machine_clock := now, machine := invalidate_user_token_cache_entries uid now (machine s) \<rparr>)"
| deactivate: "token_step D s (s\<lparr> machine := set_user_inactive uid (machine s) \<rparr>)"
| touch: "token_step D s (s\<lparr> machine := touch_usage env token (machine s) \<rparr>)"

definition token_start :: "token_state \<Rightarrow> instant \<Rightarrow> token_machine" where
  "token_start db now = \<lparr> machine = db\<lparr> revoked_set := Map.empty, user_invalidated := Map.empty,
       token_cache := Map.empty \<rparr>, machine_clock = now, in_flight_entries = [], revoked_when = Map.empty \<rparr>"

inductive token_reachable :: "nat \<Rightarrow> token_machine \<Rightarrow> bool" for D where
  start: "distinct (map tok_id (tok_rows db)) \<Longrightarrow> token_reachable D (token_start db now)"
| step: "token_reachable D s \<Longrightarrow> token_step D s s' \<Longrightarrow> token_reachable D s'"

text \<open>The invariant: ids stay distinct and nothing is dated in the future; a revoked token's row says so,
  its mark is kept for ten minutes, and what is or may still be cached under its id was read before the
  revocation.\<close>

definition timely :: "token_machine \<Rightarrow> bool" where
  "timely s \<longleftrightarrow> distinct (map tok_id (tok_rows (machine s)))
     \<and> (\<forall>key e r. (key, e, r) \<in> set (in_flight_entries s) \<longrightarrow> r \<le> machine_clock s)
     \<and> (\<forall>key e at. token_cache (machine s) key = Some (e, at) \<longrightarrow> at \<le> machine_clock s)"

definition row_revoked :: "token_state \<Rightarrow> uuid \<Rightarrow> bool" where
  "row_revoked m tid \<longleftrightarrow> (\<forall>r \<in> set (tok_rows m). tok_id r = tid \<longrightarrow> tok_revoked_at r \<noteq> None)"

definition mark_kept :: "(uuid \<rightharpoonup> instant) \<Rightarrow> uuid \<Rightarrow> instant \<Rightarrow> instant \<Rightarrow> bool" where
  "mark_kept m tid t clock \<longleftrightarrow> m tid = Some t \<or> (m tid = None \<and> t + nanos 600 \<le> clock)"

definition cut_off :: "nat \<Rightarrow> token_machine \<Rightarrow> uuid \<Rightarrow> instant \<Rightarrow> bool" where
  "cut_off D s tid t \<longleftrightarrow> row_revoked (machine s) tid
     \<and> mark_kept (revoked_set (machine s)) tid t (machine_clock s)
     \<and> (\<forall>key e r. (key, e, r) \<in> set (in_flight_entries s) \<longrightarrow> entry_token_id e = tid \<longrightarrow> r \<le> t)
     \<and> (\<forall>key e at. token_cache (machine s) key = Some (e, at) \<longrightarrow> entry_token_id e = tid \<longrightarrow> at \<le> t + D)"

definition revocation_inv :: "nat \<Rightarrow> token_machine \<Rightarrow> bool" where
  "revocation_inv D s \<longleftrightarrow> timely s \<and> (\<forall>tid t. revoked_when s tid = Some t \<longrightarrow> cut_off D s tid t)"

lemma revoke_ok:
  assumes "revoke_api_token env tid uid s = (Inr u, s')" and "distinct (map tok_id (tok_rows s))"
  shows "(\<exists>f. tok_rows s' = map f (tok_rows s) \<and> (\<forall>r. tok_id (f r) = tok_id r
             \<and> (tok_revoked_at r \<noteq> None \<longrightarrow> tok_revoked_at (f r) \<noteq> None)))
    \<and> (\<forall>r \<in> set (tok_rows s'). tok_id r = tid \<longrightarrow> tok_revoked_at r \<noteq> None)
    \<and> (\<exists>r \<in> set (tok_rows s). tok_id r = tid \<and> tok_revoked_at r = None)
    \<and> revoked_set s' = mark_api_token_revoked tid (tok_now env) (revoked_set s)
    \<and> token_cache s' = token_cache s"
proof -
  let ?hit = "\<lambda>r. tok_id r = tid \<and> tok_user r = uid \<and> tok_revoked_at r = None"
  let ?f = "\<lambda>r. if ?hit r then r\<lparr> tok_revoked_at := Some (tok_wall env) \<rparr> else r"
  from assms(1) have s': "s' = s\<lparr> tok_rows := map ?f (tok_rows s),
      revoked_set := mark_api_token_revoked tid (tok_now env) (revoked_set s) \<rparr>"
    unfolding revoke_api_token_def Let_def by (simp split: option.splits if_split_asm)
  from assms(1) have "list_ex ?hit (tok_rows s)"
    unfolding revoke_api_token_def Let_def by (simp split: option.splits if_split_asm)
  then obtain r0 where r0: "r0 \<in> set (tok_rows s)" "?hit r0" by (auto simp: list_ex_iff)
  have rv: "tok_revoked_at (?f r) \<noteq> None" if "r \<in> set (tok_rows s)" "tok_id r = tid" for r
  proof -
    have "r = r0" using assms(2) r0 that by (auto simp: distinct_map dest: inj_onD)
    with r0 show ?thesis by simp
  qed
  have same_id: "tok_id (?f r) = tok_id r" for r by simp
  have "tok_rows s' = map ?f (tok_rows s)" by (simp add: s')
  then have all: "\<forall>r \<in> set (tok_rows s'). tok_id r = tid \<longrightarrow> tok_revoked_at r \<noteq> None"
    using rv same_id by (smt (verit, best) image_iff list.set_map)
  have "\<exists>f. tok_rows s' = map f (tok_rows s) \<and> (\<forall>r. tok_id (f r) = tok_id r
      \<and> (tok_revoked_at r \<noteq> None \<longrightarrow> tok_revoked_at (f r) \<noteq> None))"
    by (rule exI [of _ ?f]) (simp add: s')
  moreover have "revoked_set s' = mark_api_token_revoked tid (tok_now env) (revoked_set s)"
    and "token_cache s' = token_cache s" by (simp_all add: s')
  ultimately show ?thesis using all r0 by blast
qed

lemma read_not_revoked:
  assumes "db_validate env token m = Inr e" and "row_revoked m tid"
  shows "entry_token_id e \<noteq> tid"
proof -
  obtain row where "checked_row env token m = Inr row" "entry_token_id e = tok_id row"
    using db_validate_ok [OF assms(1)] by blast
  with checked_row_ok [of env token m row] assms(2) show ?thesis
    by (auto simp: find_Some_iff row_revoked_def)
qed

lemma mark_keeps:
  assumes "mark_kept m k t clock" and "clock \<le> now" and "k \<noteq> tid"
  shows "mark_kept (mark_api_token_revoked tid now m) k t now"
  using assms
  by (auto simp: mark_kept_def mark_api_token_revoked_def recent_only_def retain_apply as_secs_less
      api_token_cache_ttl_secs_def split: option.splits)

lemma mark_kept_later: "mark_kept m k t clock \<Longrightarrow> clock \<le> now \<Longrightarrow> mark_kept m k t now"
  by (auto simp: mark_kept_def)

lemma mark_kept_now: "mark_kept (mark_api_token_revoked tid now m) tid now now"
  by (simp add: mark_kept_def mark_api_token_revoked_def recent_only_Some)

lemma row_revoked_map:
  assumes "row_revoked m tid" and "tok_rows m' = map f (tok_rows m)"
    and "\<forall>r. tok_id (f r) = tok_id r \<and> (tok_revoked_at r \<noteq> None \<longrightarrow> tok_revoked_at (f r) \<noteq> None)"
  shows "row_revoked m' tid"
  using assms by (auto simp: row_revoked_def)

lemma invalidate_user_same [simp]:
  "tok_rows (invalidate_user_token_cache_entries uid now m) = tok_rows m"
  "revoked_set (invalidate_user_token_cache_entries uid now m) = revoked_set m"
  by (simp_all add: invalidate_user_token_cache_entries_def)

lemma invalidate_user_cache:
  "token_cache (invalidate_user_token_cache_entries uid now m) k = Some x \<Longrightarrow> token_cache m k = Some x"
  by (simp add: invalidate_user_token_cache_entries_def flush_user_def retain_apply split: option.splits if_splits)

lemma store_entry_same [simp]:
  "tok_rows (store_entry key e now m) = tok_rows m"
  "revoked_set (store_entry key e now m) = revoked_set m"
  by (simp_all add: store_entry_def)

lemma store_entry_cache:
  "token_cache (store_entry key e now m) k = Some (e', at) \<Longrightarrow>
     (k = key \<and> e' = e \<and> at = now) \<or> token_cache m k = Some (e', at)"
  by (simp add: store_entry_def token_cache_put_Some)

lemma timely_flight:
  "timely s \<Longrightarrow> machine_clock s \<le> now \<Longrightarrow> (key, e, r) \<in> set (in_flight_entries s) \<Longrightarrow> r \<le> now"
  by (meson le_trans timely_def)

lemma timely_cache:
  "timely s \<Longrightarrow> machine_clock s \<le> now \<Longrightarrow> token_cache (machine s) key = Some (e, at) \<Longrightarrow> at \<le> now"
  by (meson le_trans timely_def)

lemma timelyI:
  "distinct (map tok_id (tok_rows (machine s))) \<Longrightarrow>
   (\<And>key e r. (key, e, r) \<in> set (in_flight_entries s) \<Longrightarrow> r \<le> machine_clock s) \<Longrightarrow>
   (\<And>key e at. token_cache (machine s) key = Some (e, at) \<Longrightarrow> at \<le> machine_clock s) \<Longrightarrow> timely s"
  by (simp add: timely_def)

lemma timely_distinct: "timely s \<Longrightarrow> distinct (map tok_id (tok_rows (machine s)))"
  by (simp add: timely_def)

lemma timely_step:
  assumes "token_step D s s'" and t: "timely s"
  shows "timely s'"
  using assms(1)
proof cases
  case (read_db env token e)
  then show ?thesis
    by (intro timelyI) (auto simp: timely_distinct [OF t] dest: timely_flight [OF t] timely_cache [OF t])
next
  case (store key e r now)
  then show ?thesis
    by (intro timelyI)
      (auto simp: timely_distinct [OF t] dest: timely_flight [OF t] timely_cache [OF t] dest!: store_entry_cache)
next
  case (revoke env tid uid u m')
  from revoke_ok [OF revoke(3) timely_distinct [OF t]] obtain f where
      "tok_rows m' = map f (tok_rows (machine s))" "\<forall>r. tok_id (f r) = tok_id r"
      and cache: "token_cache m' = token_cache (machine s)" by blast
  then have ids: "map tok_id (tok_rows m') = map tok_id (tok_rows (machine s))" by simp
  with revoke cache show ?thesis
    by (intro timelyI)
      (auto simp: timely_distinct [OF t] ids simp del: map_map map_eq_conv dest: timely_flight [OF t] timely_cache [OF t])
next
  case (mark_user now uid)
  then show ?thesis
    by (intro timelyI)
      (auto simp: timely_distinct [OF t] dest: timely_flight [OF t] timely_cache [OF t] dest!: invalidate_user_cache)
next
  case (deactivate uid)
  with t show ?thesis by (simp add: timely_def set_user_inactive_def)
next
  case (touch env token)
  with t show ?thesis by (simp add: timely_def touch_usage_rows(1))
qed

lemma cut_off_store:
  assumes "cut_off D s tid t" and "(key, e, r) \<in> set (in_flight_entries s)"
    and "machine_clock s \<le> now" and "now \<le> r + D"
  shows "cut_off D (s\<lparr> machine_clock := now, machine := store_entry key e now (machine s) \<rparr>) tid t"
proof -
  have "now \<le> t + D" if "entry_token_id e = tid"
    using assms(1,2,4) that by (fastforce simp: cut_off_def)
  with assms(1,3) show ?thesis
    by (auto simp: cut_off_def row_revoked_def intro: mark_kept_later dest!: store_entry_cache)
qed

lemma cut_off_revoke:
  assumes "timely s" and "\<forall>k t. revoked_when s k = Some t \<longrightarrow> cut_off D s k t"
    and "machine_clock s \<le> tok_now env" and "revoke_api_token env tid uid (machine s) = (Inr u, m')"
    and "((revoked_when s)(tid \<mapsto> tok_now env)) k = Some t"
  shows "cut_off D (s\<lparr> machine_clock := tok_now env, machine := m', revoked_when := w \<rparr>) k t"
proof -
  have "distinct (map tok_id (tok_rows (machine s)))" using assms(1) by (simp add: timely_def)
  from revoke_ok [OF assms(4) this] obtain f where f: "tok_rows m' = map f (tok_rows (machine s))"
      "\<forall>r. tok_id (f r) = tok_id r \<and> (tok_revoked_at r \<noteq> None \<longrightarrow> tok_revoked_at (f r) \<noteq> None)"
    and now: "row_revoked m' tid"
    and marks: "revoked_set m' = mark_api_token_revoked tid (tok_now env) (revoked_set (machine s))"
    and cache: "token_cache m' = token_cache (machine s)" unfolding row_revoked_def by blast
  show ?thesis
  proof (cases "k = tid")
    case True
    with assms(5) have "t = tok_now env" by simp
    with True now marks cache timely_flight [OF assms(1,3)] timely_cache [OF assms(1,3)] show ?thesis
      by (auto simp: cut_off_def mark_kept_now intro: trans_le_add1)
  next
    case False
    then have "cut_off D s k t" using assms(2,5) by simp
    moreover have "row_revoked m' k" if "row_revoked (machine s) k" using row_revoked_map [OF that f] .
    ultimately show ?thesis
      unfolding cut_off_def by (simp add: marks cache mark_keeps [OF _ assms(3) False])
  qed
qed

lemma revocation_inv_step:
  "token_step D s s' \<Longrightarrow> revocation_inv D s \<Longrightarrow> revocation_inv D s'"
proof -
  assume step: "token_step D s s'" and inv: "revocation_inv D s"
  have t: "timely s" and c: "\<forall>k t. revoked_when s k = Some t \<longrightarrow> cut_off D s k t"
    using inv by (auto simp: revocation_inv_def)
  have "cut_off D s' k t'" if "revoked_when s' k = Some t'" for k t'
    using step
  proof cases
    case (read_db env token e)
    then have "cut_off D s k t'" using c that by simp
    with read_db read_not_revoked show ?thesis
      by (auto simp: cut_off_def intro: mark_kept_later)
  next
    case (store key e r now)
    then show ?thesis using c that by (auto intro: cut_off_store)
  next
    case (revoke env tid uid u m')
    then show ?thesis using cut_off_revoke [OF t c] that by simp
  next
    case (mark_user now uid)
    then have "cut_off D s k t'" using c that by simp
    with mark_user show ?thesis
      by (auto simp: cut_off_def row_revoked_def intro: mark_kept_later dest!: invalidate_user_cache)
  next
    case (deactivate uid)
    then show ?thesis using c that by (simp add: cut_off_def row_revoked_def set_user_inactive_def)
  next
    case (touch env token)
    then have "cut_off D s k t'" using c that by simp
    moreover have "row_revoked (touch_usage env token (machine s)) k" if "row_revoked (machine s) k"
      using row_revoked_map [OF that] touch_usage_rows(2) by (metis (no_types))
    ultimately show ?thesis using touch by (simp add: cut_off_def)
  qed
  with timely_step [OF step t] show "revocation_inv D s'" by (simp add: revocation_inv_def)
qed

lemma token_reachable_inv: "token_reachable D s \<Longrightarrow> revocation_inv D s"
proof (induction rule: token_reachable.induct)
  case (start db now)
  then show ?case by (simp add: revocation_inv_def timely_def token_start_def)
next
  case (step s s')
  then show ?case using revocation_inv_step by blast
qed

section \<open>Properties\<close>

lemma cache_answer_ok:
  assumes "cache_answer env token m = Some (Inr e)"
  shows "\<exists>at. token_cache m (sha256_hex env token) = Some (e, at) \<and> tok_now env - at < nanos 300
    \<and> revoked_set m (entry_token_id e) = None"
  using assms
  by (auto simp: cache_answer_def token_cache_get_def is_api_token_revoked_in_cache_def as_secs_less
      api_token_cache_ttl_secs_def split: option.splits if_splits)

lemma cut_off_cached:
  assumes "cut_off D s tid t" and "D \<le> nanos 300" and "machine_clock s \<le> now"
    and "token_cache (machine s) key = Some (e, at)" and "entry_token_id e = tid"
    and "revoked_set (machine s) tid = None"
  shows "nanos 300 \<le> now - at"
proof -
  have "at \<le> t + D" and "t + nanos 600 \<le> machine_clock s"
    using assms(1,4-6) by (auto simp: cut_off_def mark_kept_def)
  with assms(2,3) show ?thesis by simp
qed

text \<open>C4: Once \<open>revoke_api_token\<close> has returned for a token id, no later call of
  \<open>validate_api_token\<close> on that replica is answered by that token's row or by an entry cached for it,
  whatever validations, revocations, deactivations and usage updates interleave, as long as a
  validation in flight stores its entry within five minutes of its database read: the revocation mark
  outlives every entry that may have been read before it.\<close>

theorem revoked_token_stays_refused:
  assumes "token_reachable D s" and "revoked_when s tid = Some t" and "D \<le> nanos 300"
    and "machine_clock s \<le> tok_now env"
    and "fst (validate_api_token env later token (machine s)) = Inr v"
  shows "\<exists>e. accepted_entry env token (machine s) = Inr e \<and> v = entry_validation e \<and> entry_token_id e \<noteq> tid"
proof -
  have cut: "cut_off D s tid t"
    using token_reachable_inv [OF assms(1)] assms(2) by (simp add: revocation_inv_def)
  obtain e where e: "accepted_entry env token (machine s) = Inr e" "v = entry_validation e"
    using assms(5) validate_accepted by blast
  have "entry_token_id e \<noteq> tid"
  proof (cases "cache_answer env token (machine s)")
    case None
    with e have "db_validate env token (machine s) = Inr e" by (simp add: accepted_entry_def)
    then show ?thesis by (rule read_not_revoked) (use cut in \<open>simp add: cut_off_def\<close>)
  next
    case (Some r)
    with e have "cache_answer env token (machine s) = Some (Inr e)" by (simp add: accepted_entry_def)
    then obtain at where hit: "token_cache (machine s) (sha256_hex env token) = Some (e, at)"
        "tok_now env - at < nanos 300" "revoked_set (machine s) (entry_token_id e) = None"
      using cache_answer_ok by blast
    show ?thesis
    proof
      assume "entry_token_id e = tid"
      with cut_off_cached [OF cut assms(3,4) hit(1)] hit(2,3) show False by simp
    qed
  qed
  with e show ?thesis by blast
qed

definition sample_token_row :: "uuid \<Rightarrow> string \<Rightarrow> api_token_row" where
  "sample_token_row tid prefix = \<lparr> tok_id = tid, tok_user = 1, tok_name = ''ci'', tok_hash = ''h'',
     tok_prefix = prefix, tok_scopes = [''read''], tok_expires_at = None, tok_revoked_at = None,
     tok_last_used_at = None, tok_selector = None \<rparr>"

definition sample_token_env :: "instant \<Rightarrow> token_env" where
  "sample_token_env now = \<lparr> tok_wall = 0, tok_now = now, tok_fail = (\<lambda>_. None),
     tok_lib = \<lparr> capacity_now = None, bcrypt_verify = (\<lambda>p h. Inr True) \<rparr>, sha256_hex = (\<lambda>t. t),
     dummy_hash = ''d'', selector_is_empty = (\<lambda>_. True), resolve_selector = (\<lambda>_. Inr []) \<rparr>"

definition sample_token_state :: token_state where
  "sample_token_state = \<lparr> tok_rows = [sample_token_row 7 ''aaaaaaaa'', sample_token_row 8 ''bbbbbbbb''],
     tok_users = [sample_user], tok_repos = [], revoked_set = Map.empty, user_invalidated = Map.empty,
     token_cache = Map.empty \<rparr>"

lemmas sample_token_defs = sample_token_row_def sample_token_env_def sample_token_state_def sample_user_def
lemmas validation_defs = validate_api_token_def cache_answer_def token_cache_get_def db_validate_def
  checked_row_def query_def bind_result_def verify_password_def acquire_permit_from_def
  check_token_validation_result_def resolve_restrictions_def

definition sample_revoked :: token_machine where
  "sample_revoked = (token_start sample_token_state 1)\<lparr> machine_clock := 2,
     machine := snd (revoke_api_token (sample_token_env 2) 7 1 sample_token_state),
     revoked_when := [7 \<mapsto> 2] \<rparr>"

lemma sample_revoked_reachable: "token_reachable 0 sample_revoked"
proof -
  have start: "token_reachable 0 (token_start sample_token_state 1)"
    by (rule token_reachable.start) (simp add: sample_token_defs)
  have m: "machine (token_start sample_token_state n) = sample_token_state" for n
    by (simp add: token_start_def sample_token_state_def)
  have r: "fst (revoke_api_token (sample_token_env 2) 7 1 sample_token_state) = Inr ()"
    by (simp add: revoke_api_token_def sample_token_defs)
  let ?s = "token_start sample_token_state 1" and ?env = "sample_token_env 2"
  have "token_step 0 ?s (?s\<lparr> machine_clock := tok_now ?env,
      machine := snd (revoke_api_token ?env 7 1 sample_token_state),
      revoked_when := (revoked_when ?s)(7 \<mapsto> tok_now ?env) \<rparr>)"
    by (rule token_step.revoke [where uid = 1 and u = "()"])
      (use r in \<open>simp_all add: m prod_eq_iff\<close>, simp add: token_start_def sample_token_env_def)
  moreover have "?s\<lparr> machine_clock := tok_now ?env, machine := snd (revoke_api_token ?env 7 1 sample_token_state),
      revoked_when := (revoked_when ?s)(7 \<mapsto> tok_now ?env) \<rparr> = sample_revoked"
    by (simp add: sample_revoked_def token_start_def) (simp add: sample_token_env_def)
  ultimately have "token_step 0 ?s sample_revoked" by simp
  with start show ?thesis by (rule token_reachable.step)
qed

lemma sample_revoked_validation:
  "fst (validate_api_token (sample_token_env 3) 3 ''bbbbbbbb-secret'' (machine sample_revoked))
     = Inr \<lparr> val_user = sample_user, val_scopes = [''read''], val_allowed_repo_ids = None \<rparr>"
  by (simp add: sample_revoked_def revoke_api_token_def sample_token_defs validation_defs Let_def
      mark_api_token_revoked_def)

lemma revoked_token_stays_refused_witness:
  "\<exists>e. accepted_entry (sample_token_env 3) ''bbbbbbbb-secret'' (machine sample_revoked) = Inr e
     \<and> \<lparr> val_user = sample_user, val_scopes = [''read''], val_allowed_repo_ids = None \<rparr> = entry_validation e
     \<and> entry_token_id e \<noteq> 7"
  by (rule revoked_token_stays_refused [OF sample_revoked_reachable _ _ _ sample_revoked_validation, of 7 2])
    (simp_all add: sample_revoked_def sample_token_env_def)

lemma clamp_ge: "lo \<le> hi \<Longrightarrow> lo \<le> clamp lo hi x"
  by (simp add: clamp_def)

lemma days_mono: "m \<le> n \<Longrightarrow> days m \<le> days n"
  by (simp add: days_def seconds_def)

text \<open>C31: A token that \<open>generate_api_token\<close> has returned validates as its owner, with exactly the
  scopes it was granted and no repository restriction, on a replica that has nothing cached for it, at
  any time until a day after its creation, provided its eight-character prefix is not already taken by
  another row (the lookup reads the first row of a prefix only).\<close>

theorem generated_token_validates:
  assumes gen: "generate_api_token env hash_password token tid uid name granted lifetime s = (Inr out, s')"
    and "8 \<le> length token" and fresh: "\<forall>r \<in> set (tok_rows s). tok_prefix r \<noteq> take 8 token"
    and hash: "hash_password token = Inr h" "bcrypt_verify (tok_lib env') token h = Inr True"
    and env': "capacity_now (tok_lib env') = None" "tok_fail env' = (\<lambda>_. None)"
      "tok_wall env' \<le> tok_wall env + days 1"
    and u: "find (\<lambda>u. user_pk u = uid \<and> user_active u) (tok_users s) = Some u"
    and repos: "\<forall>x \<in> set (tok_repos s). fst x \<noteq> tid"
    and cold: "token_cache s (sha256_hex env' token) = None"
  shows "fst (validate_api_token env' later token s')
    = Inr \<lparr> val_user = u, val_scopes = granted, val_allowed_repo_ids = None \<rparr>"
proof -
  let ?row = "\<lparr> tok_id = tid, tok_user = uid, tok_name = name, tok_hash = h, tok_prefix = take 8 token,
    tok_scopes = granted, tok_expires_at = map_option (\<lambda>d. tok_wall env + days (clamp 1 3650 d)) lifetime,
    tok_revoked_at = None, tok_last_used_at = None, tok_selector = None \<rparr>"
  have s': "s' = s\<lparr> tok_rows := tok_rows s @ [?row] \<rparr>"
    using gen hash(1) by (simp add: generate_api_token_def split: if_splits option.splits)
  have "find (\<lambda>r. tok_prefix r = take 8 token) (tok_rows s) = None"
    using fresh by (auto simp: find_None_iff)
  then have row: "find (\<lambda>r. tok_prefix r = take 8 token) (tok_rows s') = Some ?row"
    by (simp add: s' find_append)
  have "\<not> (case tok_expires_at ?row of Some x \<Rightarrow> x < tok_wall env' | None \<Rightarrow> False)"
  proof -
    have "tok_wall env' \<le> tok_wall env + days (clamp 1 3650 d)" for d
      using env'(3) days_mono [OF clamp_ge [of 1 3650 d]] by simp
    then show ?thesis by (simp add: not_less split: option.split)
  qed
  with row have "checked_row env' token s' = Inr ?row"
    using assms(2) hash(2) env'(1,2)
    by (simp add: validation_defs Let_def)
  moreover have "resolve_restrictions env' ?row s' = Inr None"
    using repos env'(2) by (simp add: resolve_restrictions_def query_def bind_result_def s')
      (auto simp: filter_empty_conv)
  ultimately have "db_validate env' token s' = Inr \<lparr> entry_validation = \<lparr> val_user = u, val_scopes = granted,
      val_allowed_repo_ids = None \<rparr>, entry_token_id = tid, entry_expires_at = tok_expires_at ?row \<rparr>"
    using u env'(2) by (simp add: db_validate_def query_def bind_result_def s')
  moreover have "cache_answer env' token s' = None"
    using cold by (simp add: cache_answer_def token_cache_get_def s')
  ultimately show ?thesis by (simp add: validate_api_token_def)
qed

lemma generated_token_validates_witness:
  "fst (validate_api_token (sample_token_env 1) 1 ''cccccccc_secret''
      (snd (generate_api_token (sample_token_env 0) (\<lambda>_. Inr ''h'') ''cccccccc_secret'' 9 1 ''bot'' [''write''] None
        sample_token_state)))
    = Inr \<lparr> val_user = sample_user, val_scopes = [''write''], val_allowed_repo_ids = None \<rparr>"
  by (rule generated_token_validates [where env = "sample_token_env 0" and hash_password = "\<lambda>_. Inr ''h''"
        and tid = 9 and uid = 1 and name = "''bot''" and s = sample_token_state and lifetime = None
        and out = "(''cccccccc_secret'', 9)" and h = "''h''"])
    (simp_all add: generate_api_token_def sample_token_defs days_def seconds_def)

text \<open>The race: a validation reads the database, the user is marked and then deactivated, as the
  comment above \<open>invalidate_user_token_cache_entries\<close> prescribes, and the validation stores its entry,
  dated after the mark.\<close>

definition race_entry :: cached_token where
  "race_entry = \<lparr> entry_validation = \<lparr> val_user = sample_user, val_scopes = [''read''],
     val_allowed_repo_ids = None \<rparr>, entry_token_id = 7, entry_expires_at = None \<rparr>"

definition race_end :: token_machine where
  "race_end = \<lparr> machine = sample_token_state\<lparr> tok_users := [sample_user\<lparr> user_active := False \<rparr>],
       user_invalidated := [1 \<mapsto> 2], token_cache := [''aaaaaaaa-secret'' \<mapsto> (race_entry, 3)] \<rparr>,
     machine_clock = 3, in_flight_entries = [(''aaaaaaaa-secret'', race_entry, 1)], revoked_when = Map.empty \<rparr>"

lemma race_end_reachable: "token_reachable 2 race_end"
proof -
  let ?s = "token_start sample_token_state 0" and ?k = "''aaaaaaaa-secret''"
  let ?m = "sample_token_state\<lparr> user_invalidated := [1 \<mapsto> 2] \<rparr>"
  let ?i = "sample_token_state\<lparr> user_invalidated := [1 \<mapsto> 2], tok_users := [sample_user\<lparr> user_active := False \<rparr>] \<rparr>"
  have s: "?s = \<lparr> machine = sample_token_state, machine_clock = 0, in_flight_entries = [], revoked_when = Map.empty \<rparr>"
    by (simp add: token_start_def sample_token_state_def)
  have "token_reachable 2 ?s" by (rule token_reachable.start) (simp add: sample_token_defs)
  moreover have "db_validate (sample_token_env 1) ?k sample_token_state = Inr race_entry"
    by (simp add: sample_token_defs validation_defs Let_def race_entry_def)
  from token_step.read_db [of ?s "sample_token_env 1" ?k race_entry 2] this
  have "token_step 2 ?s \<lparr> machine = sample_token_state, machine_clock = 1,
      in_flight_entries = [(?k, race_entry, 1)], revoked_when = Map.empty \<rparr>" (is "token_step 2 ?s ?s1")
    by (simp add: s) (simp add: sample_token_env_def)
  moreover have "invalidate_user_token_cache_entries 1 2 sample_token_state = ?m"
    by (simp add: invalidate_user_token_cache_entries_def sample_token_state_def flush_user_def recent_only_def
        fun_eq_iff)
      (auto simp: retain_apply as_secs_def api_token_cache_ttl_secs_def)
  with token_step.mark_user [of ?s1 2 2 1]
  have "token_step 2 ?s1 \<lparr> machine = ?m, machine_clock = 2,
      in_flight_entries = [(?k, race_entry, 1)], revoked_when = Map.empty \<rparr>" (is "token_step 2 _ ?s2")
    by simp
  moreover have "set_user_inactive 1 ?m = ?i"
    by (simp add: set_user_inactive_def sample_token_state_def sample_user_def)
  with token_step.deactivate [of 2 ?s2 1]
  have "token_step 2 ?s2 \<lparr> machine = ?i, machine_clock = 2,
      in_flight_entries = [(?k, race_entry, 1)], revoked_when = Map.empty \<rparr>" (is "token_step 2 _ ?s3")
    by simp
  moreover have "store_entry ?k race_entry 3 ?i = machine race_end"
    by (simp add: store_entry_def token_cache_put_def race_end_def sample_token_state_def)
  with token_step.store [of ?k race_entry 1 ?s3 3 2] have "token_step 2 ?s3 race_end"
    by (simp add: race_end_def)
  ultimately show ?thesis by (metis token_reachable.step)
qed

text \<open>Marking a user before deactivating does not reject the entries then in flight, as the comment
  says it does: a validation that read the database before the mark and stores its entry after it is
  dated later than the mark, so the deactivated user's token is accepted from the cache.\<close>

theorem deactivation_races_with_fill:
  "token_reachable 2 race_end
   \<and> filter user_active (tok_users (machine race_end)) = []
   \<and> user_invalidated (machine race_end) 1 = Some 2
   \<and> (\<exists>v. fst (validate_api_token (sample_token_env 5) 5 ''aaaaaaaa-secret'' (machine race_end)) = Inr v
        \<and> user_pk (val_user v) = 1)"
  using race_end_reachable
  by (simp add: race_end_def race_entry_def validation_defs is_api_token_revoked_in_cache_def
      is_user_api_tokens_invalidated_after_def sample_token_defs as_secs_def api_token_cache_ttl_secs_def)

end
