(* ===== verification/Uploads.thy ===== *)
theory Uploads
  imports Auth_Context Interfaces
begin

text \<open>
  Chunked uploads of \<open>services/upload_service.rs\<close> and the handlers of \<open>api/handlers/upload.rs\<close> that call
  them: sessions and chunk rows in the database, the temporary file the chunks are written to, and the
  checks that complete an upload. SHA-256 is a parameter; every database statement and file operation
  may fail, as the environment says.
\<close>

section \<open>Data\<close>

record upload_session =
  up_id :: uuid
  up_user :: uuid
  up_repository :: uuid
  up_repository_key :: string
  up_artifact_path :: string
  up_content_type :: string
  up_total_size :: int
  up_chunk_size :: int
  up_total_chunks :: int
  up_completed_chunks :: int
  up_bytes_received :: int
  up_checksum :: string
  up_temp_path :: string
  up_status :: string
  up_error :: "string option"
  up_created_at :: datetime
  up_updated_at :: datetime
  up_expires_at :: datetime

record chunk_row =
  ch_session :: uuid
  ch_index :: int
  ch_offset :: int
  ch_length :: int
  ch_status :: string
  ch_checksum :: "string option"

record chunk_result =
  cr_index :: int
  cr_bytes_received :: int
  cr_completed :: int
  cr_remaining :: int

datatype upload_error =
    UpDatabase string
  | UpIo string
  | UpNotFound
  | UpExpired
  | InvalidChunk string
  | ChecksumMismatch string string
  | IncompleteChunks int int
  | SizeMismatch int int
  | InvalidStatus string
  | RepositoryNotFound string
  | InvalidChunkSize

type_synonym 'a upload = "upload_error + 'a"

record upload_state =
  sessions :: "upload_session list"
  chunks :: "chunk_row list"
  files :: "string \<rightharpoonup> string"

text \<open>\<open>written\<close> is how much of a chunk a failing write leaves in the file.\<close>

record upload_env =
  up_now :: datetime
  up_fail :: "string \<Rightarrow> string option"
  written :: nat
  sha_hex :: "string \<Rightarrow> string"
  uuid_text :: "uuid \<Rightarrow> string"

record session_params =
  par_storage_path :: string
  par_user :: uuid
  par_repo :: uuid
  par_repo_key :: string
  par_artifact_path :: string
  par_total_size :: int
  par_chunk_size :: "int option"
  par_checksum :: string
  par_content_type :: "string option"

section \<open>Paths and ranges\<close>

definition validate_artifact_path :: "string \<Rightarrow> unit upload" where
  "validate_artifact_path path =
     (if path = [] then Inl (InvalidChunk ''artifact_path cannot be empty'')
      else if CHR 0x00 \<in> set path then Inl (InvalidChunk ''artifact_path contains null bytes'')
      else if starts_with ''/'' path \<or> starts_with [CHR 0x5C] path then
        Inl (InvalidChunk ''artifact_path must be relative'')
      else if list_ex (\<lambda>c. trim c = ''..'' \<or> trim c = ''.'' \<or> trim c = [] \<and> contains ''//'' path)
                (split_char (CHR ''/'') path) then
        Inl (InvalidChunk ''artifact_path contains path traversal'')
      else if contains ''%2e%2e'' (to_lowercase path) \<or> contains ''%2f'' (to_lowercase path)
              \<or> contains ''%5c'' (to_lowercase path) then
        Inl (InvalidChunk ''artifact_path contains encoded traversal characters'')
      else if CHR 0x5C \<in> set path then Inl (InvalidChunk ''artifact_path must use forward slashes'')
      else Inr ())"

definition parse_content_range :: "string \<Rightarrow> string + (int \<times> int \<times> int)" where
  "parse_content_range value =
     (let header = trim value
      in case strip_prefix ''bytes '' header of
           None \<Rightarrow> Inl (''Content-Range must start with 'bytes ': '' @ header)
         | Some rest \<Rightarrow>
      (case split_once (CHR ''/'') rest of
           None \<Rightarrow> Inl (''Content-Range missing '/': '' @ header)
         | Some (range_part, total_str) \<Rightarrow>
      (case split_once (CHR ''-'') range_part of
           None \<Rightarrow> Inl (''Content-Range missing '-': '' @ header)
         | Some (start_str, end_str) \<Rightarrow>
      (case parse_signed 64 start_str of
           None \<Rightarrow> Inl (''Invalid start byte: '' @ start_str)
         | Some start \<Rightarrow>
      (case parse_signed 64 end_str of
           None \<Rightarrow> Inl (''Invalid end byte: '' @ end_str)
         | Some fin \<Rightarrow>
      (case parse_signed 64 total_str of
           None \<Rightarrow> Inl (''Invalid total size: '' @ total_str)
         | Some whole \<Rightarrow>
             if fin < start then
               Inl (''start ('' @ show_int start @ '') > end ('' @ show_int fin @ '')'')
             else if whole \<le> fin then
               Inl (''end ('' @ show_int fin @ '') >= total ('' @ show_int whole @ '')'')
             else Inr (start, fin, whole)))))))"

section \<open>Creating a session\<close>

definition min_chunk_size :: int where "min_chunk_size = 1048576"
definition max_chunk_size :: int where "max_chunk_size = 268435456"
definition default_chunk_size :: int where "default_chunk_size = 8388608"

definition total_chunks_of :: "int \<Rightarrow> int \<Rightarrow> int" where
  "total_chunks_of whole csize = as_i32 (trunc_div (as_i64 (whole + csize - 1)) csize)"

definition chunk_offset :: "int \<Rightarrow> int \<Rightarrow> int" where
  "chunk_offset csize i = i * csize"

definition chunk_length :: "int \<Rightarrow> int \<Rightarrow> int \<Rightarrow> int" where
  "chunk_length whole csize i =
     (if i = total_chunks_of whole csize - 1 then as_i32 (whole - chunk_offset csize i) else csize)"

definition path_join :: "string \<Rightarrow> string \<Rightarrow> string" where
  "path_join a b = (if a = [] \<or> ends_with ''/'' a then a @ b else a @ ''/'' @ b)"

definition new_session :: "upload_env \<Rightarrow> session_params \<Rightarrow> uuid \<Rightarrow> int \<Rightarrow> upload_session" where
  "new_session env p sid csize =
     \<lparr> up_id = sid, up_user = par_user p, up_repository = par_repo p, up_repository_key = par_repo_key p,
       up_artifact_path = par_artifact_path p,
       up_content_type = (case par_content_type p of Some t \<Rightarrow> t | None \<Rightarrow> ''application/octet-stream''),
       up_total_size = par_total_size p, up_chunk_size = csize,
       up_total_chunks = total_chunks_of (par_total_size p) csize, up_completed_chunks = 0,
       up_bytes_received = 0, up_checksum = par_checksum p,
       up_temp_path = path_join (path_join (par_storage_path p) ''.uploads'') (uuid_text env sid),
       up_status = ''pending'', up_error = None, up_created_at = up_now env, up_updated_at = up_now env,
       up_expires_at = up_now env + seconds 86400 \<rparr>"

definition placeholder_rows :: "uuid \<Rightarrow> int \<Rightarrow> int \<Rightarrow> chunk_row list" where
  "placeholder_rows sid whole csize =
     map (\<lambda>i. \<lparr> ch_session = sid, ch_index = i, ch_offset = chunk_offset csize i,
                ch_length = chunk_length whole csize i, ch_status = ''pending'', ch_checksum = None \<rparr>)
         [0..total_chunks_of whole csize - 1]"

text \<open>The temporary file is made before the transaction; when that fails the file stays.\<close>

definition create_session ::
  "upload_env \<Rightarrow> session_params \<Rightarrow> uuid \<Rightarrow> upload_state \<Rightarrow> upload_session upload \<times> upload_state" where
  "create_session env p sid s =
     (let csize = (case par_chunk_size p of Some c \<Rightarrow> c | None \<Rightarrow> default_chunk_size);
          session = new_session env p sid csize
      in if par_total_size p \<le> 0 then (Inl (InvalidChunk ''total_size must be a positive integer''), s)
         else if csize < min_chunk_size \<or> max_chunk_size < csize then (Inl InvalidChunkSize, s)
         else case up_fail env ''create file'' of
                Some e \<Rightarrow> (Inl (UpIo e), s)
              | None \<Rightarrow>
                (let s1 = s\<lparr> files := (files s)(up_temp_path session \<mapsto> []) \<rparr>
                 in case up_fail env ''set length'' of
                      Some e \<Rightarrow> (Inl (UpIo e), s1)
                    | None \<Rightarrow>
                (let s2 = s\<lparr> files := (files s)(up_temp_path session \<mapsto>
                                replicate (nat (par_total_size p)) (CHR 0x00)) \<rparr>
                 in case up_fail env ''insert session'' of
                      Some e \<Rightarrow> (Inl (UpDatabase e), s2)
                    | None \<Rightarrow> (Inr session,
                        s2\<lparr> sessions := sessions s @ [session],
                            chunks := chunks s @ placeholder_rows sid (par_total_size p) csize \<rparr>))))"

section \<open>Uploading a chunk\<close>

definition get_session :: "upload_env \<Rightarrow> uuid \<Rightarrow> uuid option \<Rightarrow> upload_state \<Rightarrow> upload_session upload" where
  "get_session env sid expected s =
     (case up_fail env ''select session'' of
        Some e \<Rightarrow> Inl (UpDatabase e)
      | None \<Rightarrow>
        (case find (\<lambda>x. up_id x = sid) (sessions s) of
           None \<Rightarrow> Inl UpNotFound
         | Some session \<Rightarrow>
             if (case expected of Some uid \<Rightarrow> up_user session \<noteq> uid | None \<Rightarrow> False) then Inl UpNotFound
             else if up_expires_at session < up_now env then Inl UpExpired
             else Inr session))"

definition is_chunk :: "uuid \<Rightarrow> int \<Rightarrow> chunk_row \<Rightarrow> bool" where
  "is_chunk sid i r \<longleftrightarrow> ch_session r = sid \<and> ch_index r = i"

definition claim_chunk :: "uuid \<Rightarrow> int \<Rightarrow> upload_state \<Rightarrow> bool \<times> upload_state" where
  "claim_chunk sid i s =
     (let hit = (\<lambda>r. is_chunk sid i r \<and> ch_status r = ''pending'')
      in (list_ex hit (chunks s),
          s\<lparr> chunks := map (\<lambda>r. if hit r then r\<lparr> ch_status := ''uploading'' \<rparr> else r) (chunks s) \<rparr>))"

text \<open>The answer when no pending row was claimed.\<close>

definition not_claimed :: "upload_env \<Rightarrow> upload_session \<Rightarrow> int \<Rightarrow> upload_state \<Rightarrow> chunk_result upload" where
  "not_claimed env session i s =
     (case up_fail env ''select chunk'' of
        Some e \<Rightarrow> Inl (UpDatabase e)
      | None \<Rightarrow>
        (case find (is_chunk (up_id session) i) (chunks s) of
           Some r \<Rightarrow>
             if ch_status r = ''completed'' then
               Inr \<lparr> cr_index = i, cr_bytes_received = up_bytes_received session,
                     cr_completed = up_completed_chunks session,
                     cr_remaining = up_total_chunks session - up_completed_chunks session \<rparr>
             else if ch_status r = ''uploading'' then
               Inl (InvalidChunk (''chunk '' @ show_int i @ '' is already being uploaded by another request''))
             else Inl (InvalidChunk (''chunk '' @ show_int i @ '' is in an unexpected state''))
         | None \<Rightarrow> Inl (InvalidChunk (''chunk_index '' @ show_int i @ '' out of range (0..''
                      @ show_int (up_total_chunks session) @ '')''))))"

definition write_at :: "nat \<Rightarrow> string \<Rightarrow> string \<Rightarrow> string" where
  "write_at off bs f =
     take off (f @ replicate (off - length f) (CHR 0x00)) @ bs @ drop (off + length bs) f"

text \<open>Seeking to an offset of \<open>2 ^ 63\<close> or more, which a negative offset becomes, is an error.\<close>

definition write_file ::
  "upload_env \<Rightarrow> string \<Rightarrow> int \<Rightarrow> string \<Rightarrow> (string \<rightharpoonup> string) \<Rightarrow> unit upload \<times> (string \<rightharpoonup> string)" where
  "write_file env path off bs fs =
     (case up_fail env ''open file'' of
        Some e \<Rightarrow> (Inl (UpIo e), fs)
      | None \<Rightarrow>
        (case fs path of
           None \<Rightarrow> (Inl (UpIo ''No such file or directory''), fs)
         | Some f \<Rightarrow>
             if off < 0 then (Inl (UpIo ''Invalid argument''), fs)
             else case up_fail env ''write file'' of
                    Some e \<Rightarrow> (Inl (UpIo e), fs(path \<mapsto> write_at (nat off) (take (written env) bs) f))
                  | None \<Rightarrow> (Inr (), fs(path \<mapsto> write_at (nat off) bs f))))"

text \<open>Two statements: the chunk's row, then the session's counters.\<close>

definition finish_chunk ::
  "upload_env \<Rightarrow> upload_session \<Rightarrow> int \<Rightarrow> string \<Rightarrow> upload_state \<Rightarrow> chunk_result upload \<times> upload_state" where
  "finish_chunk env session i bs s =
     (case up_fail env ''complete chunk'' of
        Some e \<Rightarrow> (Inl (UpDatabase e), s)
      | None \<Rightarrow>
        (let s1 = s\<lparr> chunks := map (\<lambda>r. if is_chunk (up_id session) i r
               then r\<lparr> ch_status := ''completed'', ch_checksum := Some (sha_hex env bs) \<rparr> else r) (chunks s) \<rparr>
         in case up_fail env ''update session'' of
              Some e \<Rightarrow> (Inl (UpDatabase e), s1)
            | None \<Rightarrow>
              (let s2 = s1\<lparr> sessions := map (\<lambda>x. if up_id x = up_id session
                     then x\<lparr> up_completed_chunks := up_completed_chunks x + 1,
                             up_bytes_received := up_bytes_received x + int (length bs),
                             up_status := (if up_status x = ''pending'' then ''in_progress'' else up_status x),
                             up_updated_at := up_now env \<rparr> else x) (sessions s1) \<rparr>
               in case find (\<lambda>x. up_id x = up_id session) (sessions s2) of
                    None \<Rightarrow> (Inl (UpDatabase ''no rows returned''), s2)
                  | Some x \<Rightarrow>
                      (Inr \<lparr> cr_index = i, cr_bytes_received = up_bytes_received x,
                             cr_completed = up_completed_chunks x,
                             cr_remaining = up_total_chunks session - up_completed_chunks x \<rparr>, s2))))"

definition upload_chunk ::
  "upload_env \<Rightarrow> uuid \<Rightarrow> int \<Rightarrow> int \<Rightarrow> string \<Rightarrow> uuid \<Rightarrow> upload_state \<Rightarrow> chunk_result upload \<times> upload_state" where
  "upload_chunk env sid i off bs uid s =
     (case get_session env sid (Some uid) s of
        Inl e \<Rightarrow> (Inl e, s)
      | Inr session \<Rightarrow>
          if up_status session = ''completed'' \<or> up_status session = ''cancelled'' then
            (Inl (InvalidStatus (up_status session)), s)
          else case up_fail env ''claim chunk'' of
                 Some e \<Rightarrow> (Inl (UpDatabase e), s)
               | None \<Rightarrow>
                 (case claim_chunk sid i s of
                    (False, s1) \<Rightarrow> (not_claimed env session i s1, s1)
                  | (True, s1) \<Rightarrow>
                    (case write_file env (up_temp_path session) off bs (files s1) of
                       (Inl e, fs) \<Rightarrow> (Inl e, s1\<lparr> files := fs \<rparr>)
                     | (Inr _, fs) \<Rightarrow> finish_chunk env session i bs (s1\<lparr> files := fs \<rparr>))))"

text \<open>The handler: the chunk's index comes from the range's start, and the body must have the range's
  length. Its errors are the text of a 400 response or an upload error.\<close>

definition patch_chunk ::
  "upload_env \<Rightarrow> uuid \<Rightarrow> string option \<Rightarrow> string \<Rightarrow> uuid \<Rightarrow> upload_state
   \<Rightarrow> ((string + upload_error) + chunk_result) \<times> upload_state" where
  "patch_chunk env sid range_header body uid s =
     (case range_header of
        None \<Rightarrow> (Inl (Inl ''Missing Content-Range header''), s)
      | Some h \<Rightarrow>
     (case parse_content_range h of
        Inl e \<Rightarrow> (Inl (Inl (''Invalid Content-Range: '' @ e)), s)
      | Inr (start, fin, _) \<Rightarrow>
     (case get_session env sid (Some uid) s of
        Inl e \<Rightarrow> (Inl (Inr e), s)
      | Inr session \<Rightarrow>
          let i = as_i32 (trunc_div start (up_chunk_size session));
              expected = as_i64 (as_i64 (fin - start) + 1)
          in if expected \<noteq> int (length body) then
               (Inl (Inl (if expected < int (length body)
                  then ''Body exceeds declared Content-Range length of '' @ show_int expected @ '' bytes''
                  else ''Content-Range declares '' @ show_int expected @ '' bytes but body contains ''
                         @ show_int (int (length body)) @ '' bytes'')), s)
             else (case upload_chunk env sid i start body uid s of
                     (Inl e, s') \<Rightarrow> (Inl (Inr e), s')
                   | (Inr r, s') \<Rightarrow> (Inr r, s')))))"

section \<open>Completing, cancelling, cleaning up\<close>

definition set_session_status :: "upload_env \<Rightarrow> uuid \<Rightarrow> string \<Rightarrow> string option \<Rightarrow> upload_state \<Rightarrow> upload_state" where
  "set_session_status env sid st msg s =
     s\<lparr> sessions := map (\<lambda>x. if up_id x = sid
          then x\<lparr> up_status := st, up_updated_at := up_now env,
                  up_error := (case msg of Some m \<Rightarrow> Some m | None \<Rightarrow> up_error x) \<rparr>
          else x) (sessions s) \<rparr>"

definition complete_session ::
  "upload_env \<Rightarrow> uuid \<Rightarrow> uuid \<Rightarrow> upload_state \<Rightarrow> upload_session upload \<times> upload_state" where
  "complete_session env sid uid s =
     (case get_session env sid (Some uid) s of
        Inl e \<Rightarrow> (Inl e, s)
      | Inr session \<Rightarrow>
          if up_status session = ''completed'' then (Inl (InvalidStatus ''already completed''), s)
          else if up_status session = ''cancelled'' then (Inl (InvalidStatus ''cancelled''), s)
          else case up_fail env ''count chunks'' of
                 Some e \<Rightarrow> (Inl (UpDatabase e), s)
               | None \<Rightarrow>
          if 0 < length (filter (\<lambda>r. ch_session r = sid \<and> ch_status r \<noteq> ''completed'') (chunks s)) then
            (Inl (IncompleteChunks (up_completed_chunks session) (up_total_chunks session)), s)
          else case files s (up_temp_path session) of
                 None \<Rightarrow> (Inl (UpIo ''No such file or directory''), s)
               | Some f \<Rightarrow>
          if int (length f) \<noteq> up_total_size session then
            (Inl (SizeMismatch (up_total_size session) (int (length f))), s)
          else case up_fail env ''read file'' of
                 Some e \<Rightarrow> (Inl (UpIo e), s)
               | None \<Rightarrow>
          if sha_hex env f \<noteq> up_checksum session then
            (Inl (ChecksumMismatch (up_checksum session) (sha_hex env f)),
             if up_fail env ''mark failed'' = None
             then set_session_status env sid ''failed'' (Some (''checksum mismatch: expected ''
                    @ up_checksum session @ '', got '' @ sha_hex env f)) s
             else s)
          else case up_fail env ''mark completed'' of
                 Some e \<Rightarrow> (Inl (UpDatabase e), s)
               | None \<Rightarrow> (Inr session, set_session_status env sid ''completed'' None s))"

definition remove_file :: "upload_env \<Rightarrow> string \<Rightarrow> upload_state \<Rightarrow> upload_state" where
  "remove_file env path s =
     (if up_fail env ''remove file'' = None then s\<lparr> files := (files s)(path := None) \<rparr> else s)"

definition cancel_session :: "upload_env \<Rightarrow> uuid \<Rightarrow> uuid \<Rightarrow> upload_state \<Rightarrow> unit upload \<times> upload_state" where
  "cancel_session env sid uid s =
     (case up_fail env ''select session'' of
        Some e \<Rightarrow> (Inl (UpDatabase e), s)
      | None \<Rightarrow>
        (case find (\<lambda>x. up_id x = sid) (sessions s) of
           None \<Rightarrow> (Inl UpNotFound, s)
         | Some session \<Rightarrow>
             if up_user session \<noteq> uid then (Inl UpNotFound, s)
             else (let s1 = remove_file env (up_temp_path session) s
                   in case up_fail env ''cancel session'' of
                        Some e \<Rightarrow> (Inl (UpDatabase e), s1)
                      | None \<Rightarrow> (Inr (), set_session_status env sid ''cancelled'' None s1))))"

text \<open>The loop stops at the first failing update.\<close>

fun cleanup_loop :: "upload_env \<Rightarrow> upload_session list \<Rightarrow> upload_state \<Rightarrow> unit upload \<times> upload_state" where
  "cleanup_loop env [] s = (Inr (), s)"
| "cleanup_loop env (x # xs) s =
     (let s1 = remove_file env (up_temp_path x) s
      in case up_fail env (''expire '' @ uuid_text env (up_id x)) of
           Some e \<Rightarrow> (Inl (UpDatabase e), s1)
         | None \<Rightarrow> cleanup_loop env xs (set_session_status env (up_id x) ''cancelled'' (Some ''expired'') s1))"

definition cleanup_expired :: "upload_env \<Rightarrow> upload_state \<Rightarrow> int upload \<times> upload_state" where
  "cleanup_expired env s =
     (case up_fail env ''select expired'' of
        Some e \<Rightarrow> (Inl (UpDatabase e), s)
      | None \<Rightarrow>
        (let expired = filter (\<lambda>x. up_expires_at x < up_now env
                          \<and> up_status x \<noteq> ''completed'' \<and> up_status x \<noteq> ''cancelled'') (sessions s)
         in case cleanup_loop env expired s of
              (Inl e, s') \<Rightarrow> (Inl e, s')
            | (Inr _, s') \<Rightarrow> (Inr (int (length expired)), s')))"

section \<open>What each operation does to the chunk rows\<close>

lemmas upload_splits = option.splits sum.splits prod.splits if_split_asm

lemma get_session_ok:
  "get_session env sid expected s = Inr x \<longleftrightarrow>
     up_fail env ''select session'' = None \<and> find (\<lambda>x. up_id x = sid) (sessions s) = Some x
     \<and> (expected = None \<or> expected = Some (up_user x)) \<and> up_now env \<le> up_expires_at x"
  by (auto simp: get_session_def split: option.splits)

lemma get_session_id: "get_session env sid expected s = Inr x \<Longrightarrow> up_id x = sid"
  by (auto simp: get_session_ok find_Some_iff)

lemma set_session_status_chunks [simp]: "chunks (set_session_status env sid st msg s) = chunks s"
  by (simp add: set_session_status_def)

lemma set_session_status_files [simp]: "files (set_session_status env sid st msg s) = files s"
  by (simp add: set_session_status_def)

lemma remove_file_chunks [simp]: "chunks (remove_file env path s) = chunks s"
  by (simp add: remove_file_def)

lemma complete_session_chunks: "chunks (snd (complete_session env sid uid s)) = chunks s"
  by (simp add: complete_session_def split: option.splits sum.splits)

lemma cancel_session_chunks: "chunks (snd (cancel_session env sid uid s)) = chunks s"
  by (simp add: cancel_session_def Let_def split: option.splits)

lemma cleanup_loop_chunks: "chunks (snd (cleanup_loop env xs s)) = chunks s"
  by (induction env xs s rule: cleanup_loop.induct) (simp_all add: Let_def split: option.splits)

lemma cleanup_expired_chunks: "chunks (snd (cleanup_expired env s)) = chunks s"
  using cleanup_loop_chunks [of env "filter (\<lambda>x. up_expires_at x < up_now env
      \<and> up_status x \<noteq> ''completed'' \<and> up_status x \<noteq> ''cancelled'') (sessions s)" s]
  by (simp add: cleanup_expired_def Let_def split_beta split: option.split sum.split)

lemma create_session_chunks:
  "chunks (snd (create_session env p sid s)) = chunks s
   \<or> (\<exists>rows. chunks (snd (create_session env p sid s)) = chunks s @ rows
        \<and> (\<forall>r \<in> set rows. ch_session r = sid))"
  by (auto simp: create_session_def Let_def placeholder_rows_def split: option.splits)

lemma claim_chunk_eq:
  "claim_chunk sid i s = (claimed, s1) \<longleftrightarrow>
     claimed = list_ex (\<lambda>r. is_chunk sid i r \<and> ch_status r = ''pending'') (chunks s)
     \<and> s1 = s\<lparr> chunks := map (\<lambda>r. if is_chunk sid i r \<and> ch_status r = ''pending''
                                   then r\<lparr> ch_status := ''uploading'' \<rparr> else r) (chunks s) \<rparr>"
  by (auto simp: claim_chunk_def Let_def)

lemma finish_chunk_chunks:
  "chunks (snd (finish_chunk env session i bs s)) = chunks s
   \<or> chunks (snd (finish_chunk env session i bs s)) = map (\<lambda>r. if is_chunk (up_id session) i r
        then r\<lparr> ch_status := ''completed'', ch_checksum := Some (sha_hex env bs) \<rparr> else r) (chunks s)"
  by (simp add: finish_chunk_def Let_def split: option.splits)

text \<open>A chunk that no pending row backs changes nothing.\<close>

lemma upload_chunk_unclaimed:
  assumes "\<forall>r \<in> set (chunks s). is_chunk sid i r \<longrightarrow> ch_status r = ''uploading''"
  shows "snd (upload_chunk env sid i off bs uid s) = s"
    and "fst (upload_chunk env sid i off bs uid s) \<noteq> Inr r"
proof -
  have no: "claim_chunk sid i s = (False, s)"
    using assms by (auto simp: claim_chunk_eq list_ex_iff map_idI)
  have "not_claimed env x i s \<noteq> Inr r" if "up_id x = sid" for x
    using assms that by (auto simp: not_claimed_def find_Some_iff all_set_conv_all_nth split: option.splits)
  then show "snd (upload_chunk env sid i off bs uid s) = s"
    and "fst (upload_chunk env sid i off bs uid s) \<noteq> Inr r"
    using get_session_id by (auto simp: upload_chunk_def no split: option.splits sum.splits)
qed

section \<open>A completed upload is what was declared\<close>

text \<open>C23: \<open>complete_session\<close> succeeds only for the session's owner, before it expires, when it is neither
  completed nor cancelled, when no chunk row of it is in another state than completed, and when the
  temporary file has exactly the declared size and SHA-256; it then only sets the status.\<close>

theorem completed_upload_is_verified:
  assumes "complete_session env sid uid s = (Inr session, s')"
  shows "find (\<lambda>x. up_id x = sid) (sessions s) = Some session \<and> up_user session = uid
    \<and> up_now env \<le> up_expires_at session
    \<and> up_status session \<noteq> ''completed'' \<and> up_status session \<noteq> ''cancelled''
    \<and> filter (\<lambda>r. ch_session r = sid \<and> ch_status r \<noteq> ''completed'') (chunks s) = []
    \<and> (\<exists>f. files s (up_temp_path session) = Some f \<and> int (length f) = up_total_size session
          \<and> sha_hex env f = up_checksum session)
    \<and> s' = set_session_status env sid ''completed'' None s"
  using assms by (auto simp: complete_session_def get_session_ok split: upload_splits)

definition sample_env :: upload_env where
  "sample_env = \<lparr> up_now = 0, up_fail = (\<lambda>_. None), written = 0, sha_hex = (\<lambda>f. f),
     uuid_text = (\<lambda>_. ''u'') \<rparr>"

definition sample_params :: session_params where
  "sample_params = \<lparr> par_storage_path = ''d'', par_user = 1, par_repo = 2, par_repo_key = ''r'',
     par_artifact_path = ''a'', par_total_size = 1, par_chunk_size = Some 1048576, par_checksum = ''x'',
     par_content_type = None \<rparr>"

definition empty_uploads :: upload_state where
  "empty_uploads = \<lparr> sessions = [], chunks = [], files = Map.empty \<rparr>"

lemma total_chunks_sample: "total_chunks_of 1 1048576 = 1"
  by (simp add: total_chunks_of_def trunc_div_def as_i64_def as_i32_def)

section \<open>A chunk whose write failed\<close>

inductive upload_step :: "upload_state \<Rightarrow> upload_state \<Rightarrow> bool" where
  create: "\<forall>r \<in> set (chunks s). ch_session r \<noteq> sid \<Longrightarrow> upload_step s (snd (create_session env p sid s))"
| chunk: "upload_step s (snd (upload_chunk env sid i off bs uid s))"
| complete: "upload_step s (snd (complete_session env sid uid s))"
| cancel: "upload_step s (snd (cancel_session env sid uid s))"
| cleanup: "upload_step s (snd (cleanup_expired env s))"

inductive upload_reaches :: "upload_state \<Rightarrow> upload_state \<Rightarrow> bool" where
  here: "upload_reaches s s"
| further: "upload_reaches s t \<Longrightarrow> upload_step t u \<Longrightarrow> upload_reaches s u"

text \<open>The table's unique key, and a chunk all of whose rows say that an upload is under way.\<close>

definition unique_chunks :: "upload_state \<Rightarrow> bool" where
  "unique_chunks s \<longleftrightarrow> distinct (map (\<lambda>r. (ch_session r, ch_index r)) (chunks s))"

definition stuck :: "uuid \<Rightarrow> int \<Rightarrow> chunk_row list \<Rightarrow> bool" where
  "stuck sid i rows \<longleftrightarrow> list_ex (is_chunk sid i) rows
     \<and> list_all (\<lambda>r. is_chunk sid i r \<longrightarrow> ch_status r = ''uploading'') rows"

lemma stuck_append:
  "stuck sid i rows \<Longrightarrow> \<forall>r \<in> set new. ch_session r \<noteq> sid \<Longrightarrow> stuck sid i (rows @ new)"
  by (auto simp: stuck_def is_chunk_def list_all_iff)

text \<open>A statement on other chunks leaves this one alone.\<close>

lemma stuck_map:
  assumes "stuck sid i rows" and "\<forall>r. is_chunk sid i (f r) = is_chunk sid i r"
    and "\<forall>r. is_chunk sid i r \<longrightarrow> ch_status r = ''uploading'' \<longrightarrow> ch_status (f r) = ''uploading''"
  shows "stuck sid i (map f rows)"
  using assms by (simp add: stuck_def list_all_iff list_ex_iff)

lemma stuck_upload:
  assumes "stuck sid i (chunks s)"
  shows "stuck sid i (chunks (snd (upload_chunk env sid' i' off bs uid s)))"
proof (cases "sid' = sid \<and> i' = i")
  case True
  then have "\<forall>r \<in> set (chunks s). is_chunk sid' i' r \<longrightarrow> ch_status r = ''uploading''"
    using assms by (simp add: stuck_def list_all_iff)
  with assms show ?thesis by (simp add: upload_chunk_unclaimed(1))
next
  case False
  then have other: "is_chunk sid' i' r \<Longrightarrow> \<not> is_chunk sid i r" for r by (auto simp: is_chunk_def)
  have claimed: "stuck sid i (chunks s1)" if "claim_chunk sid' i' s = (c, s1)" for c s1
    using that other by (auto simp: claim_chunk_eq is_chunk_def intro!: stuck_map [OF assms])
  have finished: "stuck sid i (chunks (snd (finish_chunk env x i' bs t)))"
    if "stuck sid i (chunks t)" "up_id x = sid'" for x t
  proof -
    have "stuck sid i (map (\<lambda>r. if is_chunk sid' i' r then r\<lparr> ch_status := ''completed'',
        ch_checksum := Some (sha_hex env bs) \<rparr> else r) (chunks t))"
      using other by (intro stuck_map [OF that(1)]) (auto simp: is_chunk_def)
    with finish_chunk_chunks [of env x i' bs t] that show ?thesis by auto
  qed
  show ?thesis
    using assms claimed finished get_session_id
    by (auto simp: upload_chunk_def split: option.split sum.split prod.split bool.split)
qed

lemma stuck_step: "upload_step s t \<Longrightarrow> stuck sid i (chunks s) \<Longrightarrow> stuck sid i (chunks t)"
proof (induction rule: upload_step.induct)
  case (create s sid' env p)
  from create(2) have "sid \<noteq> sid'" using create(1) by (auto simp: stuck_def is_chunk_def list_ex_iff)
  then have "stuck sid i (chunks s @ rows)" if "\<forall>r \<in> set rows. ch_session r = sid'" for rows
    using that by (intro stuck_append [OF create(2)]) auto
  with create(2) create_session_chunks [of env p sid' s] show ?case by auto
next
  case (chunk s env sid' i' off bs uid)
  then show ?case by (rule stuck_upload)
qed (simp_all add: complete_session_chunks cancel_session_chunks cleanup_expired_chunks)

lemma stuck_reaches: "upload_reaches s t \<Longrightarrow> stuck sid i (chunks s) \<Longrightarrow> stuck sid i (chunks t)"
  by (induction rule: upload_reaches.induct) (auto intro: stuck_step)

lemma stuck_blocks_completion:
  assumes "stuck sid i (chunks s)"
  shows "fst (complete_session env sid uid s) \<noteq> Inr x"
proof
  assume "fst (complete_session env sid uid s) = Inr x"
  then have "filter (\<lambda>r. ch_session r = sid \<and> ch_status r \<noteq> ''completed'') (chunks s) = []"
    by (auto simp: complete_session_def split: upload_splits)
  with assms show False by (auto simp: stuck_def filter_empty_conv list_ex_iff list_all_iff is_chunk_def)
qed

lemma upload_io_error:
  assumes "unique_chunks s" and "upload_chunk env sid i off bs uid s = (Inl (UpIo e), t)"
  shows "stuck sid i (chunks t)"
proof -
  let ?claimed = "map (\<lambda>r. if is_chunk sid i r \<and> ch_status r = ''pending''
      then r\<lparr> ch_status := ''uploading'' \<rparr> else r) (chunks s)"
  have nc: "not_claimed env x i u \<noteq> Inl (UpIo e)" for x u
    by (simp add: not_claimed_def split: option.split)
  have fc: "finish_chunk env x i bs u \<noteq> (Inl (UpIo e), t)" for x u
    by (simp add: finish_chunk_def Let_def split: option.split)
  have "get_session env sid (Some uid) s \<noteq> Inl (UpIo e)"
    by (simp add: get_session_def split: option.split)
  with assms(2) obtain x where x: "get_session env sid (Some uid) s = Inr x"
    by (auto simp: upload_chunk_def split: sum.splits)
  obtain c s1 where c: "claim_chunk sid i s = (c, s1)" by fastforce
  have up: "(case (c, s1) of (False, s1) \<Rightarrow> (not_claimed env x i s1, s1)
      | (True, s1) \<Rightarrow> (case write_file env (up_temp_path x) off bs (files s1) of
          (Inl e, fs) \<Rightarrow> (Inl e, s1\<lparr> files := fs \<rparr>)
        | (Inr _, fs) \<Rightarrow> finish_chunk env x i bs (s1\<lparr> files := fs \<rparr>))) = (Inl (UpIo e), t)"
    using assms(2) by (simp add: upload_chunk_def x c split: if_split_asm option.splits)
  with nc fc have "c" and "chunks t = chunks s1" by (auto split: bool.splits sum.splits prod.splits)
  with c have "list_ex (\<lambda>r. is_chunk sid i r \<and> ch_status r = ''pending'') (chunks s) \<and> chunks t = ?claimed"
    by (simp add: claim_chunk_eq)
  then obtain r where r: "r \<in> set (chunks s)" "is_chunk sid i r" "ch_status r = ''pending''"
    and t: "chunks t = ?claimed" by (auto simp: list_ex_iff)
  let ?mark = "\<lambda>r. if is_chunk sid i r \<and> ch_status r = ''pending'' then r\<lparr> ch_status := ''uploading'' \<rparr> else r"
  have one: "r' = r" if "r' \<in> set (chunks s)" "is_chunk sid i r'" for r'
    using assms(1) r that by (auto simp: unique_chunks_def distinct_map is_chunk_def dest: inj_onD)
  have mark: "is_chunk sid i (?mark r') = is_chunk sid i r'" for r' by (simp add: is_chunk_def)
  have "is_chunk sid i r' \<Longrightarrow> ch_status (?mark r') = ''uploading''" if "r' \<in> set (chunks s)" for r'
    using one [OF that] r(3) by simp
  with mark r show ?thesis
    unfolding stuck_def t list_ex_iff list_all_iff set_map by blast
qed

text \<open>When writing a chunk fails (the file cannot be opened, sought or written), its row stays in state
  \<open>uploading\<close>: whatever operations follow, on this or other sessions, no upload of that chunk is accepted
  again and the session never completes. The claim is not undone on the error path.\<close>

theorem failed_write_blocks_session:
  assumes "unique_chunks s" and "upload_chunk env sid i off bs uid s = (Inl (UpIo e), t)"
    and "upload_reaches t u"
  shows "fst (complete_session env' sid uid' u) \<noteq> Inr x
    \<and> fst (upload_chunk env'' sid i off' bs' uid'' u) \<noteq> Inr y"
proof -
  have s: "stuck sid i (chunks u)"
    using stuck_reaches [OF assms(3) upload_io_error [OF assms(1,2)]] .
  then have "\<forall>r \<in> set (chunks u). is_chunk sid i r \<longrightarrow> ch_status r = ''uploading''"
    by (simp add: stuck_def list_all_iff)
  with stuck_blocks_completion [OF s] upload_chunk_unclaimed(2) show ?thesis by blast
qed

section \<open>The chunks reassemble the file\<close>

lemma write_at_length: "off + length bs \<le> length f \<Longrightarrow> length (write_at off bs f) = length f"
  by (simp add: write_at_def)

lemma write_at_nth:
  assumes "off + length bs \<le> length f" and "b < length f"
  shows "write_at off bs f ! b = (if off \<le> b \<and> b < off + length bs then bs ! (b - off) else f ! b)"
  using assms by (auto simp: write_at_def nth_append not_less min_def)

text \<open>The layout of the code is the interface's, for the sizes \<open>create_session\<close> accepts.\<close>

interpretation default_layout: equal_chunks "nat default_chunk_size" whole for whole
  by unfold_locales (simp add: default_chunk_size_def)

lemma code_layout:
  assumes "0 < c" and "c \<le> 2 ^ 28" and "l \<le> (2 ^ 31 - 1) * c"
  shows "total_chunks_of (int l) (int c) = int ((l + c - 1) div c)"
    and "i < (l + c - 1) div c \<Longrightarrow> chunk_length (int l) (int c) (int i) = int (min c (l - i * c))"
proof -
  let ?n = "(l + c - 1) div c"
  have "l \<le> (2 ^ 31 - 1) * 2 ^ 28" using assms(2,3) by (meson le_trans mult_le_mono2)
  then have big: "int l + int c - 1 < 2 ^ 63" using assms(2) by simp
  have "l + c - 1 < 2 ^ 31 * c" using assms(1,3) by (simp add: algebra_simps)
  then have small: "?n < 2 ^ 31" using assms(1) by (simp add: div_less_iff_less_mult)
  have e: "int l + int c - 1 = int (l + c - 1)" using assms(1) by linarith
  have "as_i64 (int (l + c - 1)) = int (l + c - 1)" by (rule as_i64_id) (use big e in linarith)+
  moreover have "trunc_div (int (l + c - 1)) (int c) = int ?n"
    using trunc_div_pos [of "int (l + c - 1)" "int c"] assms(1) by (simp only: zdiv_int of_nat_0_le_iff of_nat_0_less_iff)
  moreover have "as_i32 (int m) = int m" if "m < 2 ^ 31" for m
    by (rule as_i32_id) (use that in simp_all)
  then have "as_i32 (int ?n) = int ?n" using small .
  ultimately show n: "total_chunks_of (int l) (int c) = int ?n" by (simp only: total_chunks_of_def e)
  assume i: "i < ?n"
  have eq: "equal_chunks c" using assms(1) by unfold_locales
  have "i * c < l" using equal_chunks.chunk_start [OF eq i] .
  show "chunk_length (int l) (int c) (int i) = int (min c (l - i * c))"
  proof (cases "i = ?n - 1")
    case True
    with i have "?n * c = i * c + c" by (cases ?n) (simp_all add: algebra_simps)
    with equal_chunks.chunks_cover [OF eq, of l] have "l - i * c \<le> c" by simp
    moreover have "int l - int i * int c = int (l - i * c)" using \<open>i * c < l\<close> by (simp add: of_nat_diff)
    moreover have "int i = int ?n - 1" using True i by simp
    ultimately show ?thesis using assms(2) by (simp add: chunk_length_def chunk_offset_def n)
  next
    case False
    with i have "Suc i < ?n" by simp
    from equal_chunks.chunk_start [OF eq this] have "c \<le> l - i * c" by simp
    moreover have "int i \<noteq> int ?n - 1" using False i by linarith
    ultimately show ?thesis by (simp add: chunk_length_def n)
  qed
qed

definition client_chunk :: "string \<Rightarrow> int \<Rightarrow> int \<Rightarrow> string" where
  "client_chunk bs csize i =
     take (nat (chunk_length (int (length bs)) csize i)) (drop (nat (chunk_offset csize i)) bs)"

definition upload_all :: "upload_env \<Rightarrow> uuid \<Rightarrow> uuid \<Rightarrow> string \<Rightarrow> int \<Rightarrow> int list \<Rightarrow> upload_state \<Rightarrow> upload_state" where
  "upload_all env sid uid bs csize order s =
     fold (\<lambda>i s. snd (upload_chunk env sid i (chunk_offset csize i) (client_chunk bs csize i) uid s)) order s"

lemma find_update:
  assumes "\<forall>x. up_id (g x) = up_id x"
  shows "find (\<lambda>x. up_id x = k) (map (\<lambda>x. if up_id x = k then g x else x) xs)
    = map_option g (find (\<lambda>x. up_id x = k) xs)"
  using assms by (induction xs) auto

text \<open>What a successful upload of a pending chunk leaves.\<close>

lemma upload_chunk_done:
  assumes x: "get_session env sid (Some uid) s = Inr x" "up_status x \<in> {''pending'', ''in_progress''}"
    and ok: "up_fail env = (\<lambda>_. None)" and off: "0 \<le> off"
    and pending: "list_ex (\<lambda>r. is_chunk sid i r \<and> ch_status r = ''pending'') (chunks s)"
    and f: "files s (up_temp_path x) = Some f"
  shows "sessions (snd (upload_chunk env sid i off bs uid s)) = map (\<lambda>x. if up_id x = sid
           then x\<lparr> up_completed_chunks := up_completed_chunks x + 1,
                   up_bytes_received := up_bytes_received x + int (length bs),
                   up_status := (if up_status x = ''pending'' then ''in_progress'' else up_status x),
                   up_updated_at := up_now env \<rparr> else x) (sessions s)"
    and "chunks (snd (upload_chunk env sid i off bs uid s)) = map (\<lambda>r. if is_chunk sid i r
           then r\<lparr> ch_status := ''completed'', ch_checksum := Some (sha_hex env bs) \<rparr> else r) (chunks s)"
    and "files (snd (upload_chunk env sid i off bs uid s)) = (files s)(up_temp_path x \<mapsto> write_at (nat off) bs f)"
proof -
  have id: "up_id x = sid" using get_session_id [OF x(1)] .
  have st: "\<not> (up_status x = ''completed'' \<or> up_status x = ''cancelled'')" using x(2) by auto
  have nn: "\<not> off < 0" using off by simp
  let ?mark = "\<lambda>r. if is_chunk sid i r \<and> ch_status r = ''pending'' then r\<lparr> ch_status := ''uploading'' \<rparr> else r"
  let ?s = "s\<lparr> chunks := map ?mark (chunks s), files := (files s)(up_temp_path x \<mapsto> write_at (nat off) bs f) \<rparr>"
  have up: "upload_chunk env sid i off bs uid s = finish_chunk env x i bs ?s"
    using pending
    by (simp add: upload_chunk_def claim_chunk_def write_file_def x(1) st ok f nn Let_def split: option.split)
  show "sessions (snd (upload_chunk env sid i off bs uid s)) = map (\<lambda>x. if up_id x = sid
           then x\<lparr> up_completed_chunks := up_completed_chunks x + 1,
                   up_bytes_received := up_bytes_received x + int (length bs),
                   up_status := (if up_status x = ''pending'' then ''in_progress'' else up_status x),
                   up_updated_at := up_now env \<rparr> else x) (sessions s)"
    unfolding up finish_chunk_def Let_def by (simp add: ok id split: option.split)
  have "is_chunk sid i (?mark r) = is_chunk sid i r" for r by (simp add: is_chunk_def)
  then show "chunks (snd (upload_chunk env sid i off bs uid s)) = map (\<lambda>r. if is_chunk sid i r
           then r\<lparr> ch_status := ''completed'', ch_checksum := Some (sha_hex env bs) \<rparr> else r) (chunks s)"
    unfolding up finish_chunk_def Let_def by (simp add: ok id split: option.split)
  show "files (snd (upload_chunk env sid i off bs uid s)) = (files s)(up_temp_path x \<mapsto> write_at (nat off) bs f)"
    unfolding up finish_chunk_def Let_def by (simp add: ok split: option.split)
qed

text \<open>The session as created but for its counters and status.\<close>

definition same_session :: "upload_session \<Rightarrow> upload_session \<Rightarrow> bool" where
  "same_session x y \<longleftrightarrow> up_id x = up_id y \<and> up_user x = up_user y \<and> up_temp_path x = up_temp_path y
     \<and> up_total_size x = up_total_size y \<and> up_checksum x = up_checksum y
     \<and> up_expires_at x = up_expires_at y \<and> up_status x \<in> {''pending'', ''in_progress''}"

text \<open>The upload of \<open>bs\<close> in chunks of \<open>c\<close> bytes when the chunks in \<open>ready\<close> are there.\<close>

definition uploading :: "upload_session \<Rightarrow> string \<Rightarrow> nat \<Rightarrow> nat set \<Rightarrow> upload_state \<Rightarrow> bool" where
  "uploading session bs c ready s \<longleftrightarrow>
     (\<exists>x. find (\<lambda>x. up_id x = up_id session) (sessions s) = Some x \<and> same_session x session)
     \<and> (\<forall>r \<in> set (chunks s). ch_session r = up_id session \<longrightarrow>
          ch_index r \<in> int ` {..<(length bs + c - 1) div c}
          \<and> ch_status r = (if ch_index r \<in> int ` ready then ''completed'' else ''pending''))
     \<and> (\<forall>i < (length bs + c - 1) div c. list_ex (is_chunk (up_id session) (int i)) (chunks s))
     \<and> (\<exists>f. files s (up_temp_path session) = Some f \<and> length f = length bs
          \<and> (\<forall>i \<in> ready. \<forall>b. i * c \<le> b \<and> b < i * c + min c (length bs - i * c) \<longrightarrow> f ! b = bs ! b))"

lemma list_ex_map_same: "list_ex P xs \<Longrightarrow> \<forall>r. P (f r) = P r \<Longrightarrow> list_ex P (map f xs)"
  by (auto simp: list_ex_iff)

lemma uploading_step:
  assumes inv: "uploading session bs c ready s" and c: "0 < c" "c \<le> 2 ^ 28" "length bs \<le> (2 ^ 31 - 1) * c"
    and i: "i < (length bs + c - 1) div c" "i \<notin> ready"
    and ok: "up_fail env = (\<lambda>_. None)" and now: "up_now env \<le> up_expires_at session"
  shows "uploading session bs c (insert i ready) (snd (upload_chunk env (up_id session) (int i)
     (chunk_offset (int c) (int i)) (client_chunk bs (int c) (int i)) (up_user session) s))"
proof -
  let ?sid = "up_id session" and ?chunk = "client_chunk bs (int c) (int i)"
  let ?t = "snd (upload_chunk env ?sid (int i) (chunk_offset (int c) (int i)) ?chunk (up_user session) s)"
  obtain x where x: "find (\<lambda>x. up_id x = ?sid) (sessions s) = Some x" "same_session x session"
    using inv unfolding uploading_def by blast
  obtain f where f: "files s (up_temp_path session) = Some f" "length f = length bs"
      "\<forall>j \<in> ready. \<forall>b. j * c \<le> b \<and> b < j * c + min c (length bs - j * c) \<longrightarrow> f ! b = bs ! b"
    using inv unfolding uploading_def by blast
  have rows: "ch_index r \<in> int ` {..<(length bs + c - 1) div c}"
      "ch_status r = (if ch_index r \<in> int ` ready then ''completed'' else ''pending'')"
    if "r \<in> set (chunks s)" "ch_session r = ?sid" for r using inv that unfolding uploading_def by blast+
  have there: "list_ex (is_chunk ?sid (int j)) (chunks s)" if "j < (length bs + c - 1) div c" for j
    using inv that unfolding uploading_def by blast
  have get: "get_session env ?sid (Some (up_user session)) s = Inr x"
    using x ok now by (simp add: get_session_ok same_session_def)
  have st: "up_status x \<in> {''pending'', ''in_progress''}" using x(2) by (simp add: same_session_def)
  have pending: "list_ex (\<lambda>r. is_chunk ?sid (int i) r \<and> ch_status r = ''pending'') (chunks s)"
    using there [OF i(1)] rows(2) i(2) by (fastforce simp: list_ex_iff is_chunk_def)
  have path: "up_temp_path x = up_temp_path session" using x(2) by (simp add: same_session_def)
  have off: "nat (chunk_offset (int c) (int i)) = i * c" "0 \<le> chunk_offset (int c) (int i)"
    by (simp_all add: chunk_offset_def nat_mult_distrib)
  have chunk: "?chunk = take (min c (length bs - i * c)) (drop (i * c) bs)"
    using code_layout(2) [OF c i(1)] by (simp add: client_chunk_def off)
  have start: "i * c < length bs"
    using equal_chunks.chunk_start [of c i "length bs"] c(1) i(1) by (simp add: equal_chunks_def)
  have len: "length ?chunk = min c (length bs - i * c)" by (simp add: chunk)
  have fits: "i * c + length ?chunk \<le> length f" using start f(2) len by linarith
  note up = upload_chunk_done [OF get st ok off(2) pending, unfolded path, OF f(1), of ?chunk, unfolded off]
  have "find (\<lambda>x. up_id x = ?sid) (sessions ?t) = Some (x\<lparr> up_completed_chunks := up_completed_chunks x + 1,
      up_bytes_received := up_bytes_received x + int (length ?chunk),
      up_status := (if up_status x = ''pending'' then ''in_progress'' else up_status x),
      up_updated_at := up_now env \<rparr>)"
    unfolding up(1) by (subst find_update) (simp_all add: x(1))
  moreover have "same_session (x\<lparr> up_completed_chunks := up_completed_chunks x + 1,
      up_bytes_received := up_bytes_received x + int (length ?chunk),
      up_status := (if up_status x = ''pending'' then ''in_progress'' else up_status x),
      up_updated_at := up_now env \<rparr>) session" using x(2) by (auto simp: same_session_def)
  moreover have "\<forall>r \<in> set (chunks ?t). ch_session r = ?sid \<longrightarrow>
      ch_index r \<in> int ` {..<(length bs + c - 1) div c}
      \<and> ch_status r = (if ch_index r \<in> int ` insert i ready then ''completed'' else ''pending'')"
    unfolding up(2) using rows i(1) by (fastforce simp: is_chunk_def)
  moreover have "list_ex (is_chunk ?sid (int j)) (chunks ?t)" if "j < (length bs + c - 1) div c" for j
    unfolding up(2) by (rule list_ex_map_same [OF there [OF that]]) (simp add: is_chunk_def)
  moreover have "files ?t (up_temp_path session) = Some (write_at (i * c) ?chunk f)" unfolding up(3) by simp
  moreover have "write_at (i * c) ?chunk f ! b = bs ! b"
    if "j \<in> insert i ready" "j * c \<le> b" "b < j * c + min c (length bs - j * c)" for j b
  proof -
    have b: "b < length bs" using that(2,3) by linarith
    have at: "write_at (i * c) ?chunk f ! b =
        (if i * c \<le> b \<and> b < i * c + length ?chunk then ?chunk ! (b - i * c) else f ! b)"
      by (rule write_at_nth [OF fits]) (simp add: b f(2))
    show ?thesis
    proof (cases "i * c \<le> b \<and> b < i * c + length ?chunk")
      case True
      then have "b - i * c < min c (length bs - i * c)" "i * c + (b - i * c) = b" using len by linarith+
      then have "?chunk ! (b - i * c) = bs ! b" unfolding chunk by (simp only: nth_take nth_drop)
      with True at show ?thesis by simp
    next
      case False
      with that(2,3) len have "j \<noteq> i" by auto
      with that f(3) have "f ! b = bs ! b" by blast
      then show ?thesis unfolding at if_not_P [OF False] .
    qed
  qed
  ultimately show ?thesis
    unfolding uploading_def using write_at_length [OF fits] f(2) by auto
qed

lemma uploading_all:
  assumes "uploading session bs c ready s" and c: "0 < c" "c \<le> 2 ^ 28" "length bs \<le> (2 ^ 31 - 1) * c"
    and "distinct order" "set order \<subseteq> {..<(length bs + c - 1) div c} - ready"
    and ok: "up_fail env = (\<lambda>_. None)" "up_now env \<le> up_expires_at session"
  shows "uploading session bs c (ready \<union> set order)
    (upload_all env (up_id session) (up_user session) bs (int c) (map int order) s)"
  using assms(1,5,6)
proof (induction order arbitrary: ready s)
  case Nil
  then show ?case by (simp add: upload_all_def)
next
  case (Cons i order)
  let ?t = "snd (upload_chunk env (up_id session) (int i) (chunk_offset (int c) (int i))
    (client_chunk bs (int c) (int i)) (up_user session) s)"
  have "uploading session bs c (insert i ready) ?t"
    using Cons.prems by (intro uploading_step [OF _ c _ _ ok]) auto
  then have "uploading session bs c (insert i ready \<union> set order)
      (upload_all env (up_id session) (up_user session) bs (int c) (map int order) ?t)"
    using Cons.prems by (intro Cons.IH) auto
  then show ?case by (simp add: upload_all_def)
qed

lemma create_session_uploading:
  assumes "create_session env p (up_id session) s = (Inr session, s1)"
    and "\<forall>x \<in> set (sessions s). up_id x \<noteq> up_id session" "\<forall>r \<in> set (chunks s). ch_session r \<noteq> up_id session"
    and bs: "int (length bs) = par_total_size p" and c: "up_chunk_size session = int c"
    and fit: "length bs \<le> (2 ^ 31 - 1) * c"
  shows "uploading session bs c {} s1" and "0 < c" "c \<le> 2 ^ 28"
    and "up_user session = par_user p" "up_checksum session = par_checksum p"
    and "up_total_size session = int (length bs)" "up_now env \<le> up_expires_at session"
    and "up_total_chunks session = int ((length bs + c - 1) div c)"
proof -
  let ?n = "case par_chunk_size p of Some c \<Rightarrow> c | None \<Rightarrow> default_chunk_size"
  have "session = new_session env p (up_id session) ?n
      \<and> s1 = s\<lparr> files := (files s)(up_temp_path session \<mapsto> replicate (nat (par_total_size p)) (CHR 0x00)),
        sessions := sessions s @ [session],
        chunks := chunks s @ placeholder_rows (up_id session) (par_total_size p) ?n \<rparr>
      \<and> min_chunk_size \<le> ?n \<and> ?n \<le> max_chunk_size"
    using assms(1) unfolding create_session_def Let_def
    by (simp split: option.split_asm if_split_asm) auto
  then obtain n where n: "session = new_session env p (up_id session) n"
    and s1: "s1 = s\<lparr> files := (files s)(up_temp_path session \<mapsto> replicate (nat (par_total_size p)) (CHR 0x00)),
      sessions := sessions s @ [session],
      chunks := chunks s @ placeholder_rows (up_id session) (par_total_size p) n \<rparr>"
    and range: "min_chunk_size \<le> n" "n \<le> max_chunk_size" by blast
  have "up_chunk_size session = n" by (subst n) (simp add: new_session_def)
  with c have nc: "n = int c" by simp
  then show c': "0 < c" "c \<le> 2 ^ 28" using range by (simp_all add: min_chunk_size_def max_chunk_size_def)
  note count = code_layout(1) [OF c' fit]
  show "up_user session = par_user p" by (subst n) (simp add: new_session_def)
  show "up_checksum session = par_checksum p" by (subst n) (simp add: new_session_def)
  show "up_total_size session = int (length bs)" by (subst n) (simp add: new_session_def bs)
  show "up_now env \<le> up_expires_at session" by (subst n) (simp add: new_session_def seconds_def)
  show "up_total_chunks session = int ((length bs + c - 1) div c)"
    by (subst n) (simp add: new_session_def nc count bs [symmetric])
  have "up_status session = ''pending''" by (subst n) (simp add: new_session_def)
  then have "same_session session session" by (simp add: same_session_def)
  moreover have "find (\<lambda>x. up_id x = up_id session) (sessions s) = None"
    using assms(2) by (auto simp: find_None_iff)
  then have "find (\<lambda>x. up_id x = up_id session) (sessions s1) = Some session"
    by (simp add: s1 find_append)
  moreover have "list_ex (is_chunk (up_id session) (int i)) (chunks s1)"
    if "i < (length bs + c - 1) div c" for i
    using that by (simp add: s1 placeholder_rows_def list_ex_iff is_chunk_def bs [symmetric] nc count bex_Un)
  moreover have "\<forall>r \<in> set (chunks s1). ch_session r = up_id session \<longrightarrow>
      ch_index r \<in> int ` {..<(length bs + c - 1) div c} \<and> ch_status r = ''pending''"
  proof (intro ballI impI conjI)
    fix r
    assume "r \<in> set (chunks s1)" "ch_session r = up_id session"
    with assms(3) have r: "r \<in> set (placeholder_rows (up_id session) (int (length bs)) (int c))"
      by (auto simp: s1 bs nc)
    then show "ch_status r = ''pending''" by (auto simp: placeholder_rows_def)
    from r have "0 \<le> ch_index r" "ch_index r < int ((length bs + c - 1) div c)"
      by (auto simp: placeholder_rows_def count)
    then show "ch_index r \<in> int ` {..<(length bs + c - 1) div c}"
      by (intro image_eqI [of _ _ "nat (ch_index r)"]) auto
  qed
  moreover have "files s1 (up_temp_path session) = Some (replicate (length bs) (CHR 0x00))"
    by (simp add: s1 bs [symmetric])
  ultimately show "uploading session bs c {} s1" by (auto simp: uploading_def)
qed

text \<open>C22: A file uploaded in its chunks, each once and in any order, reassembles: after a session was
  created and every chunk sent with its offset, the temporary file equals the file, and completing the
  session succeeds when the declared SHA-256 is the file's.\<close>

theorem chunks_reassemble:
  assumes "create_session env p sid s = (Inr session, s1)" and "sid = up_id session"
    and "\<forall>x \<in> set (sessions s). up_id x \<noteq> sid" and "\<forall>r \<in> set (chunks s). ch_session r \<noteq> sid"
    and "int (length bs) = par_total_size p" and "sha_hex env bs = par_checksum p"
    and "up_chunk_size session = int c" and "length bs \<le> (2 ^ 31 - 1) * c"
    and "distinct order" and "set order = {..<nat (up_total_chunks session)}"
    and "up_fail env = (\<lambda>_. None)"
    and "s2 = upload_all env sid (par_user p) bs (int c) (map int order) s1"
  shows "files s2 (up_temp_path session) = Some bs
    \<and> (\<exists>x. fst (complete_session env sid (par_user p) s2) = Inr x)"
proof -
  note mk = create_session_uploading [OF _ _ _ assms(5,7,8), of env s s1, folded assms(2), OF assms(1,3,4)]
  have order: "set order = {..<(length bs + c - 1) div c}" using assms(10) mk(8) by simp
  have "uploading session bs c ({} \<union> set order) s2"
    using uploading_all [OF mk(1,2,3) assms(8,9) _ assms(11) mk(7)] order assms(2,12) mk(4) by simp
  then have up: "uploading session bs c (set order) s2" by simp
  obtain f where f: "files s2 (up_temp_path session) = Some f" "length f = length bs"
      "\<forall>i \<in> set order. \<forall>b. i * c \<le> b \<and> b < i * c + min c (length bs - i * c) \<longrightarrow> f ! b = bs ! b"
    using up unfolding uploading_def by blast
  have eq: "equal_chunks c" using mk(2) by unfold_locales
  have same: "f ! b = bs ! b" if inside: "b < length bs" for b
  proof -
    obtain i where i: "i < (length bs + c - 1) div c" "i * c \<le> b" "b < i * c + min c (length bs - i * c)"
      using equal_chunks.byte_chunk [OF eq inside] by blast
    with f(3) order show ?thesis by blast
  qed
  then have "f = bs" using f(2) by (intro nth_equalityI) simp_all
  obtain x where x: "find (\<lambda>x. up_id x = sid) (sessions s2) = Some x" "same_session x session"
    using up assms(2) unfolding uploading_def by blast
  have "filter (\<lambda>r. ch_session r = sid \<and> ch_status r \<noteq> ''completed'') (chunks s2) = []"
    using up assms(2) order unfolding uploading_def filter_empty_conv by auto
  moreover have "get_session env sid (Some (par_user p)) s2 = Inr x"
    using x mk(4,7) assms(11) by (simp add: get_session_ok same_session_def)
  moreover have "up_status x \<noteq> ''completed''" "up_status x \<noteq> ''cancelled''"
    using x(2) by (auto simp: same_session_def)
  ultimately have "fst (complete_session env sid (par_user p) s2) = Inr x"
    using x(2) f(1) \<open>f = bs\<close> mk(5,6) assms(6,11)
    by (simp add: complete_session_def same_session_def)
  with f(1) \<open>f = bs\<close> show ?thesis by blast
qed

section \<open>Witnesses\<close>

definition sample_upload :: upload_state where
  "sample_upload = snd (create_session sample_env sample_params 5 empty_uploads)"

lemma sample_create:
  "create_session sample_env sample_params 5 empty_uploads
     = (Inr (new_session sample_env sample_params 5 1048576), sample_upload)"
  by (simp add: sample_upload_def create_session_def sample_env_def sample_params_def min_chunk_size_def
      max_chunk_size_def Let_def)

lemma chunks_reassemble_witness:
  "files (upload_all sample_env 5 1 ''x'' 1048576 [0] sample_upload) ''d/.uploads/u'' = Some ''x''
   \<and> (\<exists>y. fst (complete_session sample_env 5 1 (upload_all sample_env 5 1 ''x'' 1048576 [0] sample_upload)) = Inr y)"
proof -
  have path: "up_temp_path (new_session sample_env sample_params 5 1048576) = ''d/.uploads/u''"
    by (simp add: new_session_def sample_env_def sample_params_def path_join_def ends_with_def starts_with_def)
  have user: "par_user sample_params = 1" by (simp add: sample_params_def)
  let ?s2 = "upload_all sample_env 5 (par_user sample_params) ''x'' (int 1048576) (map int [0]) sample_upload"
  have "files ?s2 (up_temp_path (new_session sample_env sample_params 5 1048576)) = Some ''x''
      \<and> (\<exists>y. fst (complete_session sample_env 5 (par_user sample_params) ?s2) = Inr y)"
    by (rule chunks_reassemble [OF sample_create _ _ _ _ _ _ _ _ _ _ refl])
      (auto simp: new_session_def sample_env_def sample_params_def empty_uploads_def total_chunks_sample)
  then show ?thesis by (simp add: path user)
qed

text \<open>An upload ready to complete.\<close>

definition full_upload :: upload_state where
  "full_upload = \<lparr> sessions = [(new_session sample_env sample_params 5 1048576)\<lparr> up_status := ''in_progress'' \<rparr>],
     chunks = [\<lparr> ch_session = 5, ch_index = 0, ch_offset = 0, ch_length = 1, ch_status = ''completed'',
                 ch_checksum = Some ''x'' \<rparr>],
     files = [''d/.uploads/u'' \<mapsto> ''x''] \<rparr>"

lemmas sample_upload_defs = full_upload_def new_session_def sample_env_def sample_params_def path_join_def
  ends_with_def starts_with_def seconds_def get_session_def total_chunks_sample

lemma completed_upload_is_verified_witness:
  "\<exists>session f. fst (complete_session sample_env 5 1 full_upload) = Inr session
     \<and> files full_upload (up_temp_path session) = Some f \<and> int (length f) = up_total_size session
     \<and> sha_hex sample_env f = up_checksum session"
proof -
  obtain session t where "complete_session sample_env 5 1 full_upload = (Inr session, t)"
    by (simp add: complete_session_def sample_upload_defs)
  with completed_upload_is_verified [OF this] show ?thesis by auto
qed

definition broken_disk :: upload_env where
  "broken_disk = sample_env\<lparr> up_fail := (\<lambda>q. if q = ''write file'' then Some ''no space'' else None) \<rparr>"

lemma failed_write_blocks_session_witness:
  "\<exists>t. upload_chunk broken_disk 5 0 0 ''x'' 1 sample_upload = (Inl (UpIo ''no space''), t)
     \<and> (\<nexists>x. fst (complete_session sample_env 5 1 t) = Inr x)
     \<and> (\<nexists>y. fst (upload_chunk sample_env 5 0 0 ''x'' 1 t) = Inr y)"
proof -
  have rows: "chunks sample_upload = [\<lparr> ch_session = 5, ch_index = 0, ch_offset = 0, ch_length = 1,
      ch_status = ''pending'', ch_checksum = None \<rparr>]"
    by (simp add: sample_upload_def create_session_def sample_env_def sample_params_def min_chunk_size_def
        max_chunk_size_def empty_uploads_def placeholder_rows_def total_chunks_sample chunk_offset_def
        chunk_length_def Let_def)
  have u: "unique_chunks sample_upload" by (simp add: unique_chunks_def rows)
  obtain t where t: "upload_chunk broken_disk 5 0 0 ''x'' 1 sample_upload = (Inl (UpIo ''no space''), t)"
    by (simp add: sample_upload_def create_session_def min_chunk_size_def max_chunk_size_def empty_uploads_def
        placeholder_rows_def total_chunks_sample chunk_offset_def chunk_length_def upload_chunk_def
        claim_chunk_def is_chunk_def write_file_def broken_disk_def sample_upload_defs Let_def)
  with failed_write_blocks_session [OF u t upload_reaches.here] show ?thesis by blast
qed

end
