(* ===== verification/Quarantine.thy ===== *)
theory Quarantine
  imports Auth_Context
begin

text \<open>
  The quarantine of uploaded artifacts: the decisions and statements of
  \<open>services/quarantine_service.rs\<close>, the administrator's handlers of \<open>api/handlers/quarantine.rs\<close>, and the
  status update after a scan in \<open>services/scanner_service.rs\<close>, whose read and write are two steps.
\<close>

section \<open>Decisions\<close>

datatype quarantine_state = Quarantined | Released | Rejected

fun as_str :: "quarantine_state \<Rightarrow> string" where
  "as_str Quarantined = ''quarantined''"
| "as_str Released = ''released''"
| "as_str Rejected = ''rejected''"

definition default_duration_minutes :: int where "default_duration_minutes = 60"

record quarantine_config =
  q_enabled :: bool
  q_duration_minutes :: int

definition should_quarantine :: "quarantine_config \<Rightarrow> bool" where
  "should_quarantine c = q_enabled c"

definition quarantine_until :: "quarantine_config \<Rightarrow> datetime \<Rightarrow> datetime" where
  "quarantine_until c now = now + seconds (60 * q_duration_minutes c)"

definition check_download_allowed :: "string option \<Rightarrow> datetime option \<Rightarrow> datetime \<Rightarrow> unit result" where
  "check_download_allowed status_text until_ts now =
     (if status_text = Some ''quarantined'' then
        (case until_ts of
           Some t \<Rightarrow> if t \<le> now then Inr ()
                     else Inl (Conflict ''Artifact is quarantined and pending security review'')
         | None \<Rightarrow> Inl (Conflict ''Artifact is quarantined and pending security review''))
      else if status_text = Some ''rejected'' then
        Inl (Authorization ''Artifact was rejected during security review'')
      else Inr ())"

definition status_after_scan :: "bool \<Rightarrow> quarantine_state" where
  "status_after_scan has_findings = (if has_findings then Rejected else Released)"

definition validate_duration :: "int \<Rightarrow> int" where
  "validate_duration m = max m 1"

text \<open>Rows of \<open>repository_config\<close> override the environment; an unreadable table overrides nothing. The
  query's order of the two keys does not matter, since each sets its own value.\<close>

fun apply_override :: "string \<times> string option \<Rightarrow> bool \<times> int \<Rightarrow> bool \<times> int" where
  "apply_override (k, None) cfg = cfg"
| "apply_override (k, Some v) (enabled, duration) =
     (if k = ''quarantine_enabled'' then (v = ''true'' \<or> v = ''1'', duration)
      else if k = ''quarantine_duration_minutes'' then
        (enabled, case parse_signed 64 v of Some d \<Rightarrow> d | None \<Rightarrow> duration)
      else (enabled, duration))"

definition resolve_config ::
  "(string \<Rightarrow> string option) \<Rightarrow> (string + (string \<times> string option) list) \<Rightarrow> quarantine_config" where
  "resolve_config env_var rows =
     (let global_enabled = (env_var ''QUARANTINE_ENABLED'' = Some ''true''
            \<or> env_var ''QUARANTINE_ENABLED'' = Some ''1'');
          global_duration = (case env_var ''QUARANTINE_DURATION_MINUTES'' of
              Some v \<Rightarrow> (case parse_signed 64 v of Some d \<Rightarrow> d | None \<Rightarrow> default_duration_minutes)
            | None \<Rightarrow> default_duration_minutes);
          (enabled, duration) = fold apply_override (case rows of Inr rs \<Rightarrow> rs | Inl _ \<Rightarrow> [])
            (global_enabled, global_duration)
      in \<lparr> q_enabled = enabled, q_duration_minutes = validate_duration duration \<rparr>)"

section \<open>Statements\<close>

record artifact =
  art_id :: uuid
  art_repository :: uuid
  art_deleted :: bool
  art_quarantine :: "string option"
  art_until :: "datetime option"

type_synonym 'a artifacts = "'a artifact_scheme list"

text \<open>A query or statement may fail: the first argument is the database's error, if any.\<close>

definition set_quarantine ::
  "string option \<Rightarrow> uuid \<Rightarrow> string \<Rightarrow> datetime option \<Rightarrow> 'a artifacts \<Rightarrow> unit result \<times> 'a artifacts" where
  "set_quarantine db_error aid st until_ts rows =
     (case db_error of
        Some e \<Rightarrow> (Inl (Database e), rows)
      | None \<Rightarrow> (Inr (), map (\<lambda>a. if art_id a = aid
             then a\<lparr> art_quarantine := Some st, art_until := until_ts \<rparr> else a) rows))"

text \<open>The hold that follows an upload; its failure is only logged.\<close>

definition apply_quarantine_hold ::
  "(string \<Rightarrow> string option) \<Rightarrow> (string + (string \<times> string option) list) \<Rightarrow> string option \<Rightarrow> uuid
   \<Rightarrow> datetime \<Rightarrow> 'a artifacts \<Rightarrow> 'a artifacts" where
  "apply_quarantine_hold env_var config_rows db_error aid now rows =
     (let c = resolve_config env_var config_rows
      in if should_quarantine c
         then snd (set_quarantine db_error aid ''quarantined'' (Some (quarantine_until c now)) rows)
         else rows)"

definition release_if_quarantined :: "uuid \<Rightarrow> string \<Rightarrow> 'a artifacts \<Rightarrow> 'a artifacts" where
  "release_if_quarantined aid st rows = map (\<lambda>a. if art_id a = aid \<and> art_quarantine a = Some ''quarantined''
     then a\<lparr> art_quarantine := Some st, art_until := None \<rparr> else a) rows"

definition transition ::
  "string option \<Rightarrow> uuid \<Rightarrow> quarantine_state \<Rightarrow> 'a artifacts \<Rightarrow> unit result \<times> 'a artifacts" where
  "transition db_error aid new rows =
     (if new = Quarantined then (Inl (Conflict ''Cannot transition to quarantined state''), rows)
      else case db_error of
             Some e \<Rightarrow> (Inl (Database e), rows)
           | None \<Rightarrow>
               if list_ex (\<lambda>a. art_id a = aid \<and> art_quarantine a = Some ''quarantined'') rows
               then (Inr (), release_if_quarantined aid (as_str new) rows)
               else (Inl (Conflict ''Artifact is not in quarantined state; transition not allowed''), rows))"

definition live_artifact :: "uuid \<Rightarrow> 'a artifacts \<Rightarrow> 'a artifact_scheme option" where
  "live_artifact aid rows = find (\<lambda>a. art_id a = aid \<and> \<not> art_deleted a) rows"

definition get_status ::
  "string option \<Rightarrow> uuid \<Rightarrow> 'a artifacts \<Rightarrow> (string option \<times> datetime option) result" where
  "get_status db_error aid rows =
     (case db_error of
        Some e \<Rightarrow> Inl (Database e)
      | None \<Rightarrow>
        (case live_artifact aid rows of
           None \<Rightarrow> Inl (NotFound ''Artifact not found'')
         | Some a \<Rightarrow> Inr (art_quarantine a, art_until a)))"

definition get_status_with_repo ::
  "string option \<Rightarrow> uuid \<Rightarrow> 'a artifacts \<Rightarrow> (string option \<times> datetime option \<times> uuid) result" where
  "get_status_with_repo db_error aid rows =
     (case db_error of
        Some e \<Rightarrow> Inl (Database e)
      | None \<Rightarrow>
        (case live_artifact aid rows of
           None \<Rightarrow> Inl (NotFound ''Artifact not found'')
         | Some a \<Rightarrow> Inr (art_quarantine a, art_until a, art_repository a)))"

definition check_artifact_download :: "string option \<Rightarrow> uuid \<Rightarrow> datetime \<Rightarrow> 'a artifacts \<Rightarrow> unit result" where
  "check_artifact_download db_error aid now rows =
     (case db_error of
        Some e \<Rightarrow> Inl (Database e)
      | None \<Rightarrow>
        (case live_artifact aid rows of
           None \<Rightarrow> Inr ()
         | Some a \<Rightarrow> check_download_allowed (art_quarantine a) (art_until a) now))"

section \<open>Handlers\<close>

text \<open>Two queries: whether the artifact exists, and the transition. Events and logs are left out.\<close>

definition admin_decision ::
  "quarantine_state \<Rightarrow> (string \<Rightarrow> string option) \<Rightarrow> auth_extension option \<Rightarrow> uuid \<Rightarrow> 'a artifacts
   \<Rightarrow> string result \<times> 'a artifacts" where
  "admin_decision new db_error auth aid rows =
     (case auth of
        None \<Rightarrow> (Inl (Authentication ''Authentication required''), rows)
      | Some ext \<Rightarrow>
        (case require_admin ext of
           Inl e \<Rightarrow> (Inl e, rows)
         | Inr _ \<Rightarrow>
           (case get_status (db_error ''select'') aid rows of
              Inl e \<Rightarrow> (Inl e, rows)
            | Inr _ \<Rightarrow>
              (case transition (db_error ''update'') aid new rows of
                 (Inl e, rows') \<Rightarrow> (Inl e, rows')
               | (Inr _, rows') \<Rightarrow> (Inr (as_str new), rows')))))"

definition release_artifact where "release_artifact = admin_decision Released"
definition reject_artifact where "reject_artifact = admin_decision Rejected"

text \<open>\<open>repo\<close> is what the repository service finds for the artifact's repository: whether it is public.\<close>

definition get_quarantine_status ::
  "(uuid \<Rightarrow> bool result) \<Rightarrow> string option \<Rightarrow> auth_extension option \<Rightarrow> uuid \<Rightarrow> datetime \<Rightarrow> 'a artifacts
   \<Rightarrow> (string option \<times> datetime option \<times> bool) result" where
  "get_quarantine_status repo db_error auth aid now rows =
     (case auth of
        None \<Rightarrow> Inl (Authentication ''Authentication required'')
      | Some ext \<Rightarrow>
          bind_result (get_status_with_repo db_error aid rows) (\<lambda>(st, until_ts, rid).
          bind_result (repo rid) (\<lambda>public.
            if \<not> public \<and> \<not> can_access_repo ext rid then Inl (NotFound ''Artifact not found'')
            else Inr (st, until_ts, \<not> is_ok (check_download_allowed st until_ts now)))))"

section \<open>After a scan\<close>

text \<open>The read; a failed one looks like no status.\<close>

definition read_status :: "string option \<Rightarrow> uuid \<Rightarrow> 'a artifacts \<Rightarrow> string option" where
  "read_status db_error aid rows =
     (case db_error of
        Some _ \<Rightarrow> None
      | None \<Rightarrow> (case find (\<lambda>a. art_id a = aid) rows of Some a \<Rightarrow> art_quarantine a | None \<Rightarrow> None))"

text \<open>The write, for the status that was read.\<close>

definition write_status ::
  "string option \<Rightarrow> string option \<Rightarrow> uuid \<Rightarrow> int \<Rightarrow> 'a artifacts \<Rightarrow> unit result \<times> 'a artifacts" where
  "write_status db_error current aid findings rows =
     (case db_error of
        Some e \<Rightarrow> (Inl (Database e), rows)
      | None \<Rightarrow> (Inr (),
          if current = Some ''quarantined''
          then release_if_quarantined aid (as_str (status_after_scan (0 < findings))) rows
          else map (\<lambda>a. if art_id a = aid
                 then a\<lparr> art_quarantine := Some (if 0 < findings then ''flagged'' else ''clean'') \<rparr> else a) rows))"

definition update_quarantine_status ::
  "string option \<Rightarrow> string option \<Rightarrow> uuid \<Rightarrow> int \<Rightarrow> 'a artifacts \<Rightarrow> unit result \<times> 'a artifacts" where
  "update_quarantine_status read_error write_error aid findings rows =
     write_status write_error (read_status read_error aid rows) aid findings rows"

section \<open>Rejection is final against administrators and quarantine scans\<close>

text \<open>Administrators decide and scans finish in any order. A scan remembers the status it read; this
  relation has the scans that read \<open>quarantined\<close>.\<close>

inductive quarantine_step :: "'a artifacts \<Rightarrow> 'a artifacts \<Rightarrow> bool" where
  decide: "quarantine_step rows (snd (admin_decision new db_error auth aid rows))"
| scan: "quarantine_step rows (snd (write_status db_error (Some ''quarantined'') aid findings rows))"

inductive quarantine_reaches :: "'a artifacts \<Rightarrow> 'a artifacts \<Rightarrow> bool" where
  stay: "quarantine_reaches rows rows"
| go: "quarantine_reaches rows t \<Longrightarrow> quarantine_step t u \<Longrightarrow> quarantine_reaches rows u"

definition rejected :: "uuid \<Rightarrow> 'a artifacts \<Rightarrow> bool" where
  "rejected aid rows \<longleftrightarrow> list_all (\<lambda>a. art_id a = aid \<longrightarrow> art_quarantine a = Some ''rejected'') rows"

lemma release_if_quarantined_live:
  "live_artifact aid (release_if_quarantined aid' st rows) = map_option
     (\<lambda>a. if aid = aid' \<and> art_quarantine a = Some ''quarantined''
          then a\<lparr> art_quarantine := Some st, art_until := None \<rparr> else a) (live_artifact aid rows)"
  unfolding live_artifact_def release_if_quarantined_def by (induction rows) auto

lemma release_keeps_rejected: "rejected aid rows \<Longrightarrow> rejected aid (release_if_quarantined aid' st rows)"
  by (auto simp: rejected_def release_if_quarantined_def list_all_iff)

lemma release_keeps_ids: "map art_id (release_if_quarantined aid st rows) = map art_id rows"
  by (simp add: release_if_quarantined_def)

lemma transition_eq:
  "snd (transition db_error aid new rows) = rows
   \<or> snd (transition db_error aid new rows) = release_if_quarantined aid (as_str new) rows"
  by (simp add: transition_def split: option.split)

lemma admin_decision_eq:
  "snd (admin_decision new db_error auth aid rows) = rows
   \<or> snd (admin_decision new db_error auth aid rows) = release_if_quarantined aid (as_str new) rows"
  using transition_eq [of "db_error ''update''" aid new rows]
  by (simp add: admin_decision_def split_beta split: option.split sum.split)

lemma quarantine_step_eq:
  "quarantine_step rows rows' \<Longrightarrow> rows' = rows \<or> (\<exists>aid st. rows' = release_if_quarantined aid st rows)"
proof (induction rule: quarantine_step.induct)
  case (decide rows new db_error auth aid)
  then show ?case using admin_decision_eq [of new db_error auth aid rows] by blast
next
  case (scan rows db_error aid findings)
  then show ?case by (auto simp: write_status_def split: option.split)
qed

lemma rejected_reaches: "quarantine_reaches rows rows' \<Longrightarrow> rejected aid rows \<Longrightarrow> rejected aid rows'"
proof (induction rule: quarantine_reaches.induct)
  case (go rows t u)
  then show ?case using quarantine_step_eq [OF go(2)] release_keeps_rejected by blast
qed

lemma live_reaches:
  "quarantine_reaches rows rows' \<Longrightarrow> live_artifact aid rows \<noteq> None \<Longrightarrow> live_artifact aid rows' \<noteq> None"
proof (induction rule: quarantine_reaches.induct)
  case (go rows t u)
  then show ?case using quarantine_step_eq [OF go(2)] by (auto simp: release_if_quarantined_live)
qed

lemma rejected_live: "rejected aid rows \<Longrightarrow> live_artifact aid rows = Some a \<Longrightarrow> art_quarantine a = Some ''rejected''"
  by (auto simp: rejected_def live_artifact_def list_all_iff find_Some_iff)


definition sample_admin :: auth_extension where
  "sample_admin = \<lparr> user_id = 1, username = ''root'', email = [], is_admin = True, is_api_token = False,
     is_service_account = False, scopes = None, allowed_repo_ids = None \<rparr>"

definition sample_artifact :: artifact where
  "sample_artifact = \<lparr> art_id = 3, art_repository = 2, art_deleted = False,
     art_quarantine = Some ''quarantined'', art_until = Some 100 \<rparr>"

lemmas sample_quarantine_defs = sample_admin_def sample_artifact_def reject_artifact_def admin_decision_def
  require_admin_def get_status_def live_artifact_def transition_def release_if_quarantined_def

lemma sample_reject:
  "reject_artifact (\<lambda>_. None) (Some sample_admin) 3 [sample_artifact]
     = (Inr ''rejected'', [sample_artifact\<lparr> art_quarantine := Some ''rejected'', art_until := None \<rparr>])"
  by (simp add: sample_quarantine_defs)



end
