(* ===== verification/Curation.thy ===== *)
theory Curation
  imports Auth_Context "HOL-Library.Product_Lexorder"
begin

text \<open>
  Curation of \<open>services/curation_service.rs\<close>: glob patterns, version constraints, the first-match rule
  engine, the catalogue of upstream packages and the batched re-evaluation of pending packages.
\<close>

section \<open>Patterns\<close>

text \<open>The indices of the code are the lists' suffixes.\<close>

fun glob_match_inner :: "string \<Rightarrow> string \<Rightarrow> bool" where
  "glob_match_inner [] t = (t = [])"
| "glob_match_inner (p # ps) t =
     (if p = CHR ''*'' then list_ex (\<lambda>skip. glob_match_inner ps (drop skip t)) [0..<Suc (length t)]
      else case t of [] \<Rightarrow> False | c # cs \<Rightarrow> (p = CHR ''?'' \<or> p = c) \<and> glob_match_inner ps cs)"

definition glob_match :: "string \<Rightarrow> string \<Rightarrow> bool" where
  "glob_match pattern txt = glob_match_inner pattern txt"

text \<open>What a pattern means.\<close>

inductive globs :: "string \<Rightarrow> string \<Rightarrow> bool" where
  globs_end: "globs [] []"
| globs_star: "globs ps v \<Longrightarrow> globs (CHR ''*'' # ps) (u @ v)"
| globs_any: "globs ps t \<Longrightarrow> globs (CHR ''?'' # ps) (c # t)"
| globs_char: "c \<noteq> CHR ''*'' \<Longrightarrow> globs ps t \<Longrightarrow> globs (c # ps) (c # t)"

inductive_simps globs_nil: "globs [] t"
inductive_cases globs_consE: "globs (p # ps) t"

section \<open>Versions\<close>

text \<open>\<open>str::cmp\<close> on bytes.\<close>

fun str_compare :: "string \<Rightarrow> string \<Rightarrow> int" where
  "str_compare [] [] = 0"
| "str_compare [] (y # ys) = - 1"
| "str_compare (x # xs) [] = 1"
| "str_compare (x # xs) (y # ys) =
     (if (of_char x :: nat) < of_char y then - 1
      else if (of_char y :: nat) < of_char x then 1 else str_compare xs ys)"

definition segment_compare :: "string \<Rightarrow> string \<Rightarrow> int" where
  "segment_compare a b =
     (case (parse_unsigned 64 a, parse_unsigned 64 b) of
        (Some na, Some nb) \<Rightarrow> if na < nb then - 1 else if nb < na then 1 else 0
      | _ \<Rightarrow> str_compare a b)"

text \<open>A missing segment counts as \<open>0\<close>.\<close>

fun segments_compare :: "string list \<Rightarrow> string list \<Rightarrow> int" where
  "segments_compare [] [] = 0"
| "segments_compare [] (b # bs) =
     (let c = segment_compare ''0'' b in if c \<noteq> 0 then c else segments_compare [] bs)"
| "segments_compare (a # as) [] =
     (let c = segment_compare a ''0'' in if c \<noteq> 0 then c else segments_compare as [])"
| "segments_compare (a # as) (b # bs) =
     (let c = segment_compare a b in if c \<noteq> 0 then c else segments_compare as bs)"

definition version_segments :: "string \<Rightarrow> string list" where
  "version_segments = split_on (\<lambda>c. c = CHR ''.'' \<or> c = CHR ''-'')"

definition version_compare :: "string \<Rightarrow> string \<Rightarrow> int" where
  "version_compare a b = segments_compare (version_segments a) (version_segments b)"

definition version_matches :: "string \<Rightarrow> string \<Rightarrow> bool" where
  "version_matches wanted version =
     (let c = trim wanted
      in if c = ''*'' then True
         else case strip_prefix ''>='' c of
                Some v \<Rightarrow> 0 \<le> version_compare version (trim v)
              | None \<Rightarrow>
         (case strip_prefix ''<='' c of
                Some v \<Rightarrow> version_compare version (trim v) \<le> 0
              | None \<Rightarrow>
         (case strip_prefix ''>'' c of
                Some v \<Rightarrow> 0 < version_compare version (trim v)
              | None \<Rightarrow>
         (case strip_prefix ''<'' c of
                Some v \<Rightarrow> version_compare version (trim v) < 0
              | None \<Rightarrow>
         (case strip_prefix ''='' c of
                Some v \<Rightarrow> version_compare version (trim v) = 0
              | None \<Rightarrow> version_compare version c = 0)))))"

section \<open>Rules\<close>

record curation_rule =
  rule_id :: uuid
  rule_repo :: "uuid option"
  package_pattern :: string
  version_constraint :: string
  rule_architecture :: string
  rule_action :: string
  priority :: int
  rule_reason :: string
  rule_enabled :: bool
  rule_created_by :: "uuid option"
  rule_created_at :: datetime
  rule_updated_at :: datetime

record curation_package =
  pkg_id :: uuid
  pkg_staging :: uuid
  pkg_remote :: uuid
  pkg_format :: string
  pkg_name :: string
  pkg_version :: string
  pkg_release :: "string option"
  pkg_architecture :: "string option"
  pkg_checksum :: "string option"
  pkg_upstream_path :: string
  pkg_status :: string
  pkg_evaluated_at :: "datetime option"
  pkg_evaluated_by :: "uuid option"
  pkg_reason :: "string option"
  pkg_rule :: "uuid option"
  pkg_metadata :: string
  pkg_first_seen :: datetime
  pkg_upstream_updated :: "datetime option"

record rule_evaluation =
  eval_action :: string
  eval_reason :: string
  eval_rule :: "uuid option"

record curation_db =
  rules :: "curation_rule list"
  packages :: "curation_package list"

definition rule_matches :: "curation_rule \<Rightarrow> string \<Rightarrow> string \<Rightarrow> string option \<Rightarrow> bool" where
  "rule_matches r name version arch \<longleftrightarrow>
     glob_match (package_pattern r) name \<and> version_matches (version_constraint r) version
     \<and> (rule_architecture r = ''*''
        \<or> (case arch of Some a \<Rightarrow> rule_architecture r = a | None \<Rightarrow> True))"

fun evaluate_package_in_memory ::
  "curation_rule list \<Rightarrow> string \<Rightarrow> string \<Rightarrow> string \<Rightarrow> string option \<Rightarrow> rule_evaluation" where
  "evaluate_package_in_memory [] default_action name version arch =
     \<lparr> eval_action = default_action,
       eval_reason = ''No matching rule; default action: '' @ default_action, eval_rule = None \<rparr>"
| "evaluate_package_in_memory (r # rs) default_action name version arch =
     (if rule_matches r name version arch
      then \<lparr> eval_action = rule_action r, eval_reason = rule_reason r, eval_rule = Some (rule_id r) \<rparr>
      else evaluate_package_in_memory rs default_action name version arch)"

text \<open>\<open>ORDER BY priority, created_at\<close>; rows that tie keep the table's order.\<close>

definition in_rule_order :: "curation_rule list \<Rightarrow> curation_rule list" where
  "in_rule_order = sort_key (\<lambda>r. (priority r, rule_created_at r))"

definition applicable_rules :: "uuid \<Rightarrow> curation_db \<Rightarrow> curation_rule list" where
  "applicable_rules repo db =
     in_rule_order (filter (\<lambda>r. rule_enabled r \<and> (rule_repo r = Some repo \<or> rule_repo r = None)) (rules db))"

text \<open>The service passes the database's errors on; \<open>fail\<close> names the failing statement.\<close>

type_synonym db_faults = "string \<Rightarrow> string option"

definition run_query :: "db_faults \<Rightarrow> string \<Rightarrow> 'a \<Rightarrow> string + 'a" where
  "run_query fail name rows = (case fail name of Some e \<Rightarrow> Inl e | None \<Rightarrow> Inr rows)"

definition evaluate_package ::
  "db_faults \<Rightarrow> uuid \<Rightarrow> string \<Rightarrow> string \<Rightarrow> string \<Rightarrow> string option \<Rightarrow> curation_db \<Rightarrow> string + rule_evaluation" where
  "evaluate_package fail repo default_action name version arch db =
     (case run_query fail ''select rules'' (applicable_rules repo db) of
        Inl e \<Rightarrow> Inl e
      | Inr rs \<Rightarrow> Inr (evaluate_package_in_memory rs default_action name version arch))"

definition create_rule ::
  "db_faults \<Rightarrow> uuid \<Rightarrow> datetime \<Rightarrow> uuid option \<Rightarrow> string \<Rightarrow> string \<Rightarrow> string \<Rightarrow> string \<Rightarrow> int \<Rightarrow> string \<Rightarrow> uuid
   \<Rightarrow> curation_db \<Rightarrow> (string + curation_rule) \<times> curation_db" where
  "create_rule fail rid now repo pattern wanted arch action prio reason creator db =
     (let r = \<lparr> rule_id = rid, rule_repo = repo, package_pattern = pattern, version_constraint = wanted,
                rule_architecture = arch, rule_action = action, priority = prio, rule_reason = reason,
                rule_enabled = True, rule_created_by = Some creator, rule_created_at = now,
                rule_updated_at = now \<rparr>
      in case run_query fail ''insert rule'' r of
           Inl e \<Rightarrow> (Inl e, db)
         | Inr _ \<Rightarrow>
             if action = ''allow'' \<or> action = ''block'' then (Inr r, db\<lparr> rules := rules db @ [r] \<rparr>)
             else (Inl ''check constraint violated'', db))"

definition list_rules :: "db_faults \<Rightarrow> uuid option \<Rightarrow> curation_db \<Rightarrow> string + curation_rule list" where
  "list_rules fail repo db = run_query fail ''list rules''
     (in_rule_order (case repo of
        Some i \<Rightarrow> filter (\<lambda>r. rule_repo r = Some i \<or> rule_repo r = None) (rules db)
      | None \<Rightarrow> rules db))"

definition update_rule ::
  "db_faults \<Rightarrow> datetime \<Rightarrow> uuid \<Rightarrow> string \<Rightarrow> string \<Rightarrow> string \<Rightarrow> string \<Rightarrow> int \<Rightarrow> string \<Rightarrow> bool
   \<Rightarrow> curation_db \<Rightarrow> (string + curation_rule) \<times> curation_db" where
  "update_rule fail now rid pattern wanted arch action prio reason on db =
     (let upd = (\<lambda>r. r\<lparr> package_pattern := pattern, version_constraint := wanted, rule_architecture := arch,
                        rule_action := action, priority := prio, rule_reason := reason,
                        rule_enabled := on, rule_updated_at := now \<rparr>)
      in case run_query fail ''update rule'' (find (\<lambda>r. rule_id r = rid) (rules db)) of
           Inl e \<Rightarrow> (Inl e, db)
         | Inr None \<Rightarrow> (Inl ''no rows returned'', db)
         | Inr (Some r) \<Rightarrow>
             if action = ''allow'' \<or> action = ''block''
             then (Inr (upd r), db\<lparr> rules := map (\<lambda>r. if rule_id r = rid then upd r else r) (rules db) \<rparr>)
             else (Inl ''check constraint violated'', db))"

text \<open>Deleting a rule clears the references of packages to it.\<close>

definition delete_rule :: "db_faults \<Rightarrow> uuid \<Rightarrow> curation_db \<Rightarrow> (string + unit) \<times> curation_db" where
  "delete_rule fail rid db =
     (case run_query fail ''delete rule'' () of
        Inl e \<Rightarrow> (Inl e, db)
      | Inr _ \<Rightarrow> (Inr (), db\<lparr> rules := filter (\<lambda>r. rule_id r \<noteq> rid) (rules db),
          packages := map (\<lambda>p. if pkg_rule p = Some rid then p\<lparr> pkg_rule := None \<rparr> else p) (packages db) \<rparr>))"

section \<open>Packages\<close>

definition same_coordinates :: "curation_package \<Rightarrow> curation_package \<Rightarrow> bool" where
  "same_coordinates p q \<longleftrightarrow> pkg_staging p = pkg_staging q \<and> pkg_format p = pkg_format q
     \<and> pkg_name p = pkg_name q \<and> pkg_version p = pkg_version q
     \<and> (case pkg_release p of Some x \<Rightarrow> x | None \<Rightarrow> []) = (case pkg_release q of Some x \<Rightarrow> x | None \<Rightarrow> [])
     \<and> (case pkg_architecture p of Some x \<Rightarrow> x | None \<Rightarrow> []) = (case pkg_architecture q of Some x \<Rightarrow> x | None \<Rightarrow> [])"

text \<open>An insert of \<open>new\<close>, a row with the column defaults, or an update of the row it conflicts with.\<close>

definition upsert_package ::
  "db_faults \<Rightarrow> datetime \<Rightarrow> curation_package \<Rightarrow> curation_db \<Rightarrow> (string + curation_package) \<times> curation_db" where
  "upsert_package fail now new db =
     (let row = new\<lparr> pkg_status := ''pending'', pkg_evaluated_at := None, pkg_evaluated_by := None,
                     pkg_reason := None, pkg_rule := None, pkg_first_seen := now, pkg_upstream_updated := None \<rparr>;
          upd = (\<lambda>p. p\<lparr> pkg_checksum := pkg_checksum new, pkg_upstream_path := pkg_upstream_path new,
                        pkg_metadata := pkg_metadata new, pkg_upstream_updated := Some now \<rparr>)
      in case run_query fail ''upsert package'' (find (same_coordinates new) (packages db)) of
           Inl e \<Rightarrow> (Inl e, db)
         | Inr None \<Rightarrow> (Inr row, db\<lparr> packages := packages db @ [row] \<rparr>)
         | Inr (Some p) \<Rightarrow> (Inr (upd p), db\<lparr> packages :=
             map (\<lambda>p. if same_coordinates new p then upd p else p) (packages db) \<rparr>))"

definition get_package :: "db_faults \<Rightarrow> uuid \<Rightarrow> curation_db \<Rightarrow> string + curation_package" where
  "get_package fail pid db =
     (case run_query fail ''select package'' (find (\<lambda>p. pkg_id p = pid) (packages db)) of
        Inl e \<Rightarrow> Inl e | Inr None \<Rightarrow> Inl ''no rows returned'' | Inr (Some p) \<Rightarrow> Inr p)"

text \<open>The table's check on the status column; foreign keys are left out.\<close>

definition valid_package_status :: "string \<Rightarrow> bool" where
  "valid_package_status st \<longleftrightarrow>
     st = ''pending'' \<or> st = ''approved'' \<or> st = ''blocked'' \<or> st = ''review''"

definition set_package_status ::
  "db_faults \<Rightarrow> datetime \<Rightarrow> uuid \<Rightarrow> string \<Rightarrow> string \<Rightarrow> uuid option \<Rightarrow> uuid option
   \<Rightarrow> curation_db \<Rightarrow> (string + curation_package) \<times> curation_db" where
  "set_package_status fail now pid st reason evaluator rid db =
     (let upd = (\<lambda>p. p\<lparr> pkg_status := st, pkg_reason := Some reason, pkg_evaluated_by := evaluator,
                        pkg_rule := rid, pkg_evaluated_at := Some now \<rparr>)
      in case run_query fail ''update package'' (find (\<lambda>p. pkg_id p = pid) (packages db)) of
           Inl e \<Rightarrow> (Inl e, db)
         | Inr None \<Rightarrow> (Inl ''no rows returned'', db)
         | Inr (Some p) \<Rightarrow>
             if valid_package_status st
             then (Inr (upd p), db\<lparr> packages := map (\<lambda>p. if pkg_id p = pid then upd p else p) (packages db) \<rparr>)
             else (Inl ''check constraint violated'', db))"

definition bulk_set_status ::
  "db_faults \<Rightarrow> datetime \<Rightarrow> uuid list \<Rightarrow> string \<Rightarrow> string \<Rightarrow> uuid option \<Rightarrow> curation_db \<Rightarrow> (string + nat) \<times> curation_db" where
  "bulk_set_status fail now ids st reason evaluator db =
     (case run_query fail ''bulk update'' (length (filter (\<lambda>p. pkg_id p \<in> set ids) (packages db))) of
        Inl e \<Rightarrow> (Inl e, db)
      | Inr n \<Rightarrow>
          if n = 0 \<or> valid_package_status st
          then (Inr n, db\<lparr> packages := map (\<lambda>p. if pkg_id p \<in> set ids
                 then p\<lparr> pkg_status := st, pkg_reason := Some reason, pkg_evaluated_by := evaluator,
                         pkg_evaluated_at := Some now \<rparr> else p) (packages db) \<rparr>)
          else (Inl ''check constraint violated'', db))"

definition count_by_status :: "db_faults \<Rightarrow> uuid \<Rightarrow> curation_db \<Rightarrow> string + (string \<times> nat) list" where
  "count_by_status fail repo db =
     (let mine = map pkg_status (filter (\<lambda>p. pkg_staging p = repo) (packages db))
      in run_query fail ''count packages'' (map (\<lambda>st. (st, count_list mine st)) (remdups mine)))"

section \<open>Re-evaluation\<close>

type_synonym verdict = "string \<times> string \<times> uuid option"

definition new_status :: "string \<Rightarrow> string" where
  "new_status action =
     (if action = ''allow'' then ''approved'' else if action = ''block'' then ''blocked'' else ''review'')"

definition verdict_of :: "curation_rule list \<Rightarrow> string \<Rightarrow> curation_package \<Rightarrow> verdict" where
  "verdict_of rs default_action p =
     (let e = evaluate_package_in_memory rs default_action (pkg_name p) (pkg_version p) (pkg_architecture p)
      in (new_status (eval_action e), eval_reason e, eval_rule e))"

definition is_pending :: "uuid \<Rightarrow> curation_package \<Rightarrow> bool" where
  "is_pending repo p \<longleftrightarrow> pkg_staging p = repo \<and> pkg_status p = ''pending''"

definition set_verdict :: "datetime \<Rightarrow> verdict \<Rightarrow> curation_package \<Rightarrow> curation_package" where
  "set_verdict now v p = (case v of (st, reason, rid) \<Rightarrow>
     p\<lparr> pkg_status := st, pkg_reason := Some reason, pkg_evaluated_by := None, pkg_rule := rid,
        pkg_evaluated_at := Some now \<rparr>)"

text \<open>One update per verdict, in the order the hash map yields the verdicts; a failing update ends the
  loop with the earlier ones done. \<open>members\<close> are the packages grouped under a verdict.\<close>

fun update_groups ::
  "(verdict \<Rightarrow> string option) \<Rightarrow> datetime \<Rightarrow> (verdict \<Rightarrow> uuid list) \<Rightarrow> verdict list \<Rightarrow> nat
   \<Rightarrow> curation_package list \<Rightarrow> (string + nat) \<times> curation_package list" where
  "update_groups fail now members [] updated ps = (Inr updated, ps)"
| "update_groups fail now members (v # vs) updated ps =
     (case fail v of
        Some e \<Rightarrow> (Inl e, ps)
      | None \<Rightarrow> update_groups fail now members vs
          (updated + length (filter (\<lambda>p. pkg_id p \<in> set (members v)) ps))
          (map (\<lambda>p. if pkg_id p \<in> set (members v) then set_verdict now v p else p) ps))"

definition re_evaluate_pending ::
  "db_faults \<Rightarrow> (verdict \<Rightarrow> string option) \<Rightarrow> (verdict list \<Rightarrow> verdict list) \<Rightarrow> datetime \<Rightarrow> uuid \<Rightarrow> string
   \<Rightarrow> curation_db \<Rightarrow> (string + nat) \<times> curation_db" where
  "re_evaluate_pending fail group_fail iteration now repo default_action db =
     (case run_query fail ''select pending'' (filter (is_pending repo) (packages db)) of
        Inl e \<Rightarrow> (Inl e, db)
      | Inr pending \<Rightarrow>
          if pending = [] then (Inr 0, db)
          else (case run_query fail ''select rules'' (applicable_rules repo db) of
                  Inl e \<Rightarrow> (Inl e, db)
                | Inr rs \<Rightarrow>
                    (let verdict = verdict_of rs default_action;
                         members = (\<lambda>v. map pkg_id (filter (\<lambda>p. verdict p = v) pending));
                         groups = iteration (remdups (map verdict pending));
                         (r, ps) = update_groups group_fail now members groups 0 (packages db)
                     in (r, db\<lparr> packages := ps \<rparr>))))"

section \<open>The patterns mean what they say\<close>

text \<open>C26: The backtracking matcher agrees with the meaning of patterns: \<open>*\<close> stands for any text, \<open>?\<close> for
  any one character, every other character for itself.\<close>

theorem glob_match_meaning: "glob_match pattern txt \<longleftrightarrow> globs pattern txt"
proof -
  have "glob_match_inner ps t \<longleftrightarrow> globs ps t" for ps t
  proof (induction ps arbitrary: t)
    case Nil
    then show ?case by (simp add: globs_nil)
  next
    case (Cons p ps)
    show ?case
    proof (cases "p = CHR ''*''")
      case True
      have "glob_match_inner (p # ps) t \<longleftrightarrow> (\<exists>n\<le>length t. globs ps (drop n t))"
        using True Cons by (auto simp: list_ex_iff less_Suc_eq_le simp del: upt_Suc)
      also have "\<dots> \<longleftrightarrow> (\<exists>u v. t = u @ v \<and> globs ps v)"
        by (metis append_eq_conv_conj append_take_drop_id le_add1 length_append)
      also have "\<dots> \<longleftrightarrow> globs (p # ps) t" using True by (auto intro: globs_star elim!: globs_consE)
      finally show ?thesis .
    next
      case False
      with Cons show ?thesis
        by (auto intro: globs.intros elim: globs_consE split: list.split)
    qed
  qed
  then show ?thesis by (simp add: glob_match_def)
qed

text \<open>The version order is not an order: a segment that is not a number is compared as text with every
  other, so \<open>1a\<close> is above \<open>10\<close> and below \<open>2\<close>, while \<open>2\<close> is below \<open>10\<close>. A version can satisfy
  \<open>>=10\<close> and \<open><2\<close> at once, and a block rule \<open>>=2\<close> lets \<open>1a\<close> through although it blocks \<open>10\<close>.\<close>

theorem version_order_cycle:
  "version_compare ''2'' ''10'' = - 1 \<and> version_compare ''10'' ''1a'' = - 1
   \<and> version_compare ''1a'' ''2'' = - 1
   \<and> version_matches ''>=10'' ''1a'' \<and> version_matches ''<2'' ''1a''"
  by (simp add: version_matches_def version_compare_def version_segments_def segment_compare_def
      parse_unsigned_def parse_digits_def is_ascii_digit_def digit_value_def Let_def strip_prefix_def
      starts_with_def trim_def trim_start_def trim_end_def is_white_def)

section \<open>Batched re-evaluation\<close>

text \<open>The groups' updates touch the packages whose verdict has come up, each once.\<close>

lemma update_groups_ok:
  assumes ids: "distinct (map pkg_id ps)"
    and members: "\<forall>v. set (members v) = pkg_id ` {p \<in> set ps. P p \<and> verdict p = v}"
  shows "distinct vs \<Longrightarrow> set vs \<inter> ready = {} \<Longrightarrow> \<forall>v \<in> set vs. fail v = None \<Longrightarrow>
    update_groups fail now members vs n
      (map (\<lambda>p. if P p \<and> verdict p \<in> ready then set_verdict now (verdict p) p else p) ps)
    = (Inr (n + length (filter (\<lambda>p. P p \<and> verdict p \<in> set vs) ps)),
       map (\<lambda>p. if P p \<and> verdict p \<in> ready \<union> set vs then set_verdict now (verdict p) p else p) ps)"
proof (induction vs arbitrary: n ready)
  case Nil
  then show ?case by simp
next
  case (Cons v vs)
  let ?now = "\<lambda>R p. if P p \<and> verdict p \<in> R then set_verdict now (verdict p) p else p"
  have id: "pkg_id (set_verdict now w p) = pkg_id p" for w p
    by (simp add: set_verdict_def split: prod.split)
  then have id': "pkg_id (?now R p) = pkg_id p" for R p by simp
  have "set (members v) = pkg_id ` {p \<in> set ps. P p \<and> verdict p = v}" using members by blast
  then have mem: "pkg_id p \<in> set (members v) \<longleftrightarrow> P p \<and> verdict p = v" if "p \<in> set ps" for p
    using ids that by (auto simp: distinct_map dest: inj_onD)
  have step: "map (\<lambda>p. if pkg_id p \<in> set (members v) then set_verdict now v p else p) (map (?now ready) ps)
      = map (?now (insert v ready)) ps"
    using Cons.prems(2) mem by (auto simp: id')
  have "filter (\<lambda>p. pkg_id p \<in> set (members v)) ps = filter (\<lambda>p. P p \<and> verdict p = v) ps"
    by (rule filter_cong) (simp_all add: mem)
  then have "filter (\<lambda>p. pkg_id p \<in> set (members v)) (map (?now ready) ps)
      = map (?now ready) (filter (\<lambda>p. P p \<and> verdict p = v) ps)"
    by (simp add: filter_map o_def id')
  then have count: "length (filter (\<lambda>p. pkg_id p \<in> set (members v)) (map (?now ready) ps))
      = length (filter (\<lambda>p. P p \<and> verdict p = v) ps)" by simp
  have "length (filter (\<lambda>p. P p \<and> verdict p = v) ps) + length (filter (\<lambda>p. P p \<and> verdict p \<in> set vs) ps)
      = length (filter (\<lambda>p. P p \<and> verdict p \<in> set (v # vs)) ps)"
    using Cons.prems(1) by (induction ps) auto
  moreover have "update_groups fail now members (v # vs) n (map (?now ready) ps)
      = update_groups fail now members vs (n + length (filter (\<lambda>p. P p \<and> verdict p = v) ps))
          (map (?now (insert v ready)) ps)"
  proof -
    have "fail v = None" using Cons.prems(3) by simp
    then show ?thesis by (simp only: update_groups.simps option.case step count)
  qed
  ultimately show ?case using Cons.IH [of "insert v ready"] Cons.prems by simp
qed

text \<open>C25: Re-evaluating the pending packages of a staging repository, when no statement fails, is the same
  as evaluating each of them on its own against the enabled rules of the repository and the global ones,
  in priority order: exactly the pending packages get the verdict of the first rule that matches them,
  every other package is untouched, the count is the number of pending packages, and the order in which
  the hash map yields the groups does not matter.\<close>

theorem re_evaluation_is_per_package:
  assumes "distinct (map pkg_id (packages db))" and "fail = (\<lambda>_. None)" and "group_fail = (\<lambda>_. None)"
    and perm: "\<forall>vs. set (iteration vs) = set vs \<and> (distinct vs \<longrightarrow> distinct (iteration vs))"
  shows "re_evaluate_pending fail group_fail iteration now repo default_action db
    = (Inr (length (filter (is_pending repo) (packages db))),
       db\<lparr> packages := map (\<lambda>p. if is_pending repo p
         then set_verdict now (verdict_of (applicable_rules repo db) default_action p) p else p) (packages db) \<rparr>)"
proof (cases "filter (is_pending repo) (packages db) = []")
  case True
  then have "map (\<lambda>p. if is_pending repo p
      then set_verdict now (verdict_of (applicable_rules repo db) default_action p) p else p) (packages db) = packages db"
    by (auto simp: filter_empty_conv intro: map_idI)
  with True assms(2) show ?thesis by (simp add: re_evaluate_pending_def run_query_def)
next
  case False
  let ?verdict = "verdict_of (applicable_rules repo db) default_action"
  let ?pending = "filter (is_pending repo) (packages db)"
  let ?members = "\<lambda>v. map pkg_id (filter (\<lambda>p. ?verdict p = v) ?pending)"
  let ?groups = "iteration (remdups (map ?verdict ?pending))"
  have groups: "set ?groups = ?verdict ` set ?pending" "distinct ?groups" using perm by simp_all
  have "\<forall>v. set (?members v) = pkg_id ` {p \<in> set (packages db). is_pending repo p \<and> ?verdict p = v}" by auto
  from update_groups_ok [OF assms(1) this groups(2), of "{}" group_fail now 0]
  have "update_groups group_fail now ?members ?groups 0 (packages db)
      = (Inr (length (filter (\<lambda>p. is_pending repo p \<and> ?verdict p \<in> set ?groups) (packages db))),
         map (\<lambda>p. if is_pending repo p \<and> ?verdict p \<in> set ?groups then set_verdict now (?verdict p) p else p)
           (packages db))"
    using assms(3) by simp
  moreover have "filter (\<lambda>p. is_pending repo p \<and> ?verdict p \<in> set ?groups) (packages db) = ?pending"
    by (rule filter_cong) (auto simp: groups)
  moreover have "map (\<lambda>p. if is_pending repo p \<and> ?verdict p \<in> set ?groups then set_verdict now (?verdict p) p
      else p) (packages db)
    = map (\<lambda>p. if is_pending repo p then set_verdict now (?verdict p) p else p) (packages db)"
    by (rule map_cong) (auto simp: groups)
  ultimately show ?thesis
    using False assms(2) by (simp add: re_evaluate_pending_def run_query_def Let_def split_beta)
qed

definition sample_rule :: "uuid \<Rightarrow> string \<Rightarrow> string \<Rightarrow> int \<Rightarrow> curation_rule" where
  "sample_rule i pattern action prio = \<lparr> rule_id = i, rule_repo = None, package_pattern = pattern,
     version_constraint = ''*'', rule_architecture = ''*'', rule_action = action, priority = prio,
     rule_reason = ''listed'', rule_enabled = True, rule_created_by = None, rule_created_at = 0,
     rule_updated_at = 0 \<rparr>"

definition sample_package :: "uuid \<Rightarrow> string \<Rightarrow> curation_package" where
  "sample_package i name = \<lparr> pkg_id = i, pkg_staging = 1, pkg_remote = 2, pkg_format = ''rpm'', pkg_name = name,
     pkg_version = ''1'', pkg_release = None, pkg_architecture = None, pkg_checksum = Some ''aa'',
     pkg_upstream_path = ''p'', pkg_status = ''pending'', pkg_evaluated_at = None, pkg_evaluated_by = None,
     pkg_reason = None, pkg_rule = None, pkg_metadata = [], pkg_first_seen = 0, pkg_upstream_updated = None \<rparr>"

definition sample_curation :: curation_db where
  "sample_curation = \<lparr> rules = [sample_rule 10 ''*'' ''allow'' 50, sample_rule 11 ''evil*'' ''block'' 5],
     packages = [sample_package 20 ''evil-lib'', sample_package 21 ''good''] \<rparr>"

lemma re_evaluation_is_per_package_witness:
  "re_evaluate_pending (\<lambda>_. None) (\<lambda>_. None) rev 7 1 ''review'' sample_curation
    = (Inr (length (filter (is_pending 1) (packages sample_curation))),
       sample_curation\<lparr> packages := map (\<lambda>p. if is_pending 1 p
         then set_verdict 7 (verdict_of (applicable_rules 1 sample_curation) ''review'' p) p else p)
         (packages sample_curation) \<rparr>)
   \<and> map pkg_status (packages (snd (re_evaluate_pending (\<lambda>_. None) (\<lambda>_. None) rev 7 1 ''review'' sample_curation)))
      = [''blocked'', ''approved'']"
proof -
  have eq: "re_evaluate_pending (\<lambda>_. None) (\<lambda>_. None) rev 7 1 ''review'' sample_curation
    = (Inr (length (filter (is_pending 1) (packages sample_curation))),
       sample_curation\<lparr> packages := map (\<lambda>p. if is_pending 1 p
         then set_verdict 7 (verdict_of (applicable_rules 1 sample_curation) ''review'' p) p else p)
         (packages sample_curation) \<rparr>)"
    by (rule re_evaluation_is_per_package) (simp_all add: sample_curation_def sample_package_def)
  have rs: "applicable_rules 1 sample_curation = [sample_rule 11 ''evil*'' ''block'' 5, sample_rule 10 ''*'' ''allow'' 50]"
    by (simp add: applicable_rules_def in_rule_order_def sample_curation_def sample_rule_def less_prod_def' less_eq_prod_def)
  have "map pkg_status (packages (snd (re_evaluate_pending (\<lambda>_. None) (\<lambda>_. None) rev 7 1 ''review'' sample_curation)))
      = [''blocked'', ''approved'']"
    unfolding eq rs
    by (simp add: sample_curation_def sample_package_def sample_rule_def is_pending_def
      verdict_of_def rule_matches_def version_matches_def trim_def trim_start_def trim_end_def is_white_def
      glob_match_def set_verdict_def new_status_def Let_def upt_rec)
  with eq show ?thesis ..
qed

section \<open>Approval of replaced content\<close>

text \<open>When the upstream replaces an approved package's content under the same coordinates, the catalogue
  takes the new checksum and path but keeps the approval, which was given to other content.\<close>

theorem approval_survives_replacement:
  assumes "find (same_coordinates new) (packages db) = Some p" and "pkg_status p = ''approved''"
    and "pkg_checksum p \<noteq> pkg_checksum new" and "fail ''upsert package'' = None"
  shows "\<exists>row db'. upsert_package fail now new db = (Inr row, db') \<and> row \<in> set (packages db')
    \<and> pkg_checksum row = pkg_checksum new \<and> pkg_status row = ''approved''"
proof -
  have "p \<in> set (packages db)" "same_coordinates new p" using assms(1) by (auto simp: find_Some_iff)
  with assms show ?thesis
    by (auto simp: upsert_package_def run_query_def Let_def intro: rev_image_eqI)
qed

lemma approval_survives_replacement_witness:
  "\<exists>row db'. upsert_package (\<lambda>_. None) 9 (sample_package 30 ''lib'')
      \<lparr> rules = [], packages = [(sample_package 20 ''lib'')\<lparr> pkg_status := ''approved'', pkg_checksum := Some ''bb'' \<rparr>] \<rparr>
      = (Inr row, db') \<and> row \<in> set (packages db')
    \<and> pkg_checksum row = pkg_checksum (sample_package 30 ''lib'') \<and> pkg_status row = ''approved''"
  by (rule approval_survives_replacement
      [where p = "(sample_package 20 ''lib'')\<lparr> pkg_status := ''approved'', pkg_checksum := Some ''bb'' \<rparr>"])
    (simp_all add: same_coordinates_def sample_package_def)

end
