(* ===== verification/Maven_Version.thy ===== *)
theory Maven_Version
  imports Prelude
begin

text \<open>
  Maven's version order as \<open>formats/maven_version.rs\<close> ports it: the parser of dotted, dashed and mixed
  versions into nested items, their comparison, and the latest version of a list.
\<close>

section \<open>Items\<close>

datatype item = IntItem nat | StringItem string | ListItem "item list"

datatype ordering = Less | Equal | Greater

fun reverse :: "ordering \<Rightarrow> ordering" where
  "reverse Less = Greater"
| "reverse Equal = Equal"
| "reverse Greater = Less"

definition nat_cmp :: "nat \<Rightarrow> nat \<Rightarrow> ordering" where
  "nat_cmp a b = (if a < b then Less else if a = b then Equal else Greater)"

fun str_cmp :: "string \<Rightarrow> string \<Rightarrow> ordering" where
  "str_cmp [] [] = Equal"
| "str_cmp [] (y # ys) = Less"
| "str_cmp (x # xs) [] = Greater"
| "str_cmp (x # xs) (y # ys) =
     (let c = nat_cmp (of_char x) (of_char y) in if c = Equal then str_cmp xs ys else c)"

definition qualifier_rank :: "string \<Rightarrow> nat option" where
  "qualifier_rank s =
     (if s = ''alpha'' \<or> s = ''a'' then Some 0
      else if s = ''beta'' \<or> s = ''b'' then Some 1
      else if s = ''milestone'' \<or> s = ''m'' then Some 2
      else if s = ''rc'' \<or> s = ''cr'' then Some 3
      else if s = ''snapshot'' then Some 4
      else if s = [] \<or> s = ''ga'' \<or> s = ''final'' \<or> s = ''release'' then Some 5
      else if s = ''sp'' then Some 6
      else None)"

section \<open>Parsing\<close>

text \<open>A number that does not fit 64 bits becomes 0.\<close>

definition make_item :: "bool \<Rightarrow> string \<Rightarrow> item" where
  "make_item is_digit tok =
     (if is_digit then IntItem (case parse_unsigned 64 tok of Some n \<Rightarrow> n | None \<Rightarrow> 0)
      else StringItem
        (if tok = ''a'' then ''alpha'' else if tok = ''b'' then ''beta''
         else if tok = ''m'' then ''milestone'' else if tok = ''cr'' then ''rc''
         else if tok = ''ga'' \<or> tok = ''final'' \<or> tok = ''release'' then [] else tok))"

fun is_null :: "item \<Rightarrow> bool" where
  "is_null (IntItem n) = (n = 0)"
| "is_null (StringItem s) = (s = [])"
| "is_null (ListItem l) = (l = [])"

definition trim_trailing_nulls :: "item list \<Rightarrow> item list" where
  "trim_trailing_nulls l = rev (dropWhile is_null (rev l))"

text \<open>The stack's top comes first; it is never empty.\<close>

fun push :: "item \<Rightarrow> item list list \<Rightarrow> item list list" where
  "push i (l # ls) = (l @ [i]) # ls"
| "push i [] = []"

type_synonym parser_state = "item list list \<times> string \<times> bool"

fun parse_char :: "char \<Rightarrow> parser_state \<Rightarrow> parser_state" where
  "parse_char ch (stack, current, is_digit) =
     (if ch = CHR ''.'' then
        (push (if current \<noteq> [] then make_item is_digit current else IntItem 0) stack, [], is_digit)
      else if ch = CHR ''-'' then
        ([] # (if current \<noteq> [] then push (make_item is_digit current) stack else stack), [], is_digit)
      else
        (let d = is_ascii_digit ch
         in if current \<noteq> [] \<and> d \<noteq> is_digit
            then ((if d then push (make_item is_digit current) stack
                   else [] # push (make_item is_digit current) stack), [ch], d)
            else (stack, current @ [ch], d)))"

fun close_lists :: "item list list \<Rightarrow> item list" where
  "close_lists (child # parent # rest) = close_lists ((parent @ [ListItem (trim_trailing_nulls child)]) # rest)"
| "close_lists [root] = trim_trailing_nulls root"
| "close_lists [] = []"

definition parse_items :: "string \<Rightarrow> item list" where
  "parse_items version =
     (let (stack, current, is_digit) = fold parse_char version ([[]], [], False)
      in close_lists (if current \<noteq> [] then push (make_item is_digit current) stack else stack))"

text \<open>The canonical text that equality compares.\<close>

fun show_item :: "item \<Rightarrow> string" where
  "show_item (IntItem n) = show_nat n"
| "show_item (StringItem s) = s"
| "show_item (ListItem l) = ''('' @ join ''.'' (map show_item l) @ '')''"

definition canonical :: "string \<Rightarrow> string" where
  "canonical version = join ''.'' (map show_item (parse_items (to_lowercase version)))"

definition version_eq :: "string \<Rightarrow> string \<Rightarrow> bool" where
  "version_eq a b \<longleftrightarrow> canonical a = canonical b"

section \<open>Comparison\<close>

definition cmp_string :: "string \<Rightarrow> string \<Rightarrow> ordering" where
  "cmp_string a b =
     (case (qualifier_rank a, qualifier_rank b) of
        (Some ar, Some br) \<Rightarrow> nat_cmp ar br
      | (Some _, None) \<Rightarrow> Less
      | (None, Some _) \<Rightarrow> Greater
      | (None, None) \<Rightarrow> str_cmp a b)"

fun cmp_item_with_null :: "item \<Rightarrow> ordering" where
  "cmp_item_with_null (IntItem n) = nat_cmp n 0"
| "cmp_item_with_null (StringItem s) =
     (case qualifier_rank s of Some r \<Rightarrow> nat_cmp r 5 | None \<Rightarrow> Greater)"
| "cmp_item_with_null (ListItem []) = Equal"
| "cmp_item_with_null (ListItem (i # is)) = cmp_item_with_null i"

fun cmp_list :: "item list \<Rightarrow> item list \<Rightarrow> ordering"
  and cmp_item :: "item \<Rightarrow> item \<Rightarrow> ordering" where
  "cmp_list [] [] = Equal"
| "cmp_list (a # as) [] = (let c = cmp_item_with_null a in if c = Equal then cmp_list as [] else c)"
| "cmp_list [] (b # bs) = (let c = reverse (cmp_item_with_null b) in if c = Equal then cmp_list [] bs else c)"
| "cmp_list (a # as) (b # bs) = (let c = cmp_item a b in if c = Equal then cmp_list as bs else c)"
| "cmp_item (IntItem a) (IntItem b) = nat_cmp a b"
| "cmp_item (StringItem a) (StringItem b) = cmp_string a b"
| "cmp_item (ListItem a) (ListItem b) = cmp_list a b"
| "cmp_item (IntItem _) (StringItem _) = Greater"
| "cmp_item (StringItem _) (IntItem _) = Less"
| "cmp_item (IntItem _) (ListItem _) = Greater"
| "cmp_item (ListItem _) (IntItem _) = Less"
| "cmp_item (StringItem _) (ListItem _) = Less"
| "cmp_item (ListItem _) (StringItem _) = Greater"

definition version_cmp :: "string \<Rightarrow> string \<Rightarrow> ordering" where
  "version_cmp a b = cmp_list (parse_items (to_lowercase a)) (parse_items (to_lowercase b))"

text \<open>\<open>Iterator::max_by\<close> keeps the later of two that compare equal.\<close>

fun max_by :: "('a \<Rightarrow> 'a \<Rightarrow> ordering) \<Rightarrow> 'a list \<Rightarrow> 'a option" where
  "max_by cmp [] = None"
| "max_by cmp (x # xs) = Some (fold (\<lambda>y best. if cmp best y = Greater then best else y) xs x)"

definition latest_version :: "string list \<Rightarrow> string option" where
  "latest_version versions = max_by version_cmp versions"

definition latest_release :: "string list \<Rightarrow> string option" where
  "latest_release versions = max_by version_cmp (filter (\<lambda>v. \<not> contains ''SNAPSHOT'' v) versions)"

section \<open>Comparison is antisymmetric\<close>

lemma nat_cmp_reverse: "nat_cmp b a = reverse (nat_cmp a b)"
  by (simp add: nat_cmp_def)

lemma reverse_reverse [simp]: "reverse (reverse c) = c"
  by (cases c) simp_all

lemma reverse_Equal [simp]: "reverse c = Equal \<longleftrightarrow> c = Equal" "Equal = reverse c \<longleftrightarrow> c = Equal"
  by (cases c; simp)+

lemma str_cmp_reverse: "str_cmp b a = reverse (str_cmp a b)"
  by (induction a b rule: str_cmp.induct) (simp_all add: Let_def nat_cmp_def)

lemma cmp_string_reverse: "cmp_string b a = reverse (cmp_string a b)"
  by (simp add: cmp_string_def str_cmp_reverse [of b a] nat_cmp_def split: option.split)

lemma cmp_reverse:
  "cmp_list bs as = reverse (cmp_list as bs)"
  "cmp_item b a = reverse (cmp_item a b)"
proof (induction as bs and a b rule: cmp_list_cmp_item.induct)
  case (5 a b)
  then show ?case by (simp add: nat_cmp_reverse [of b a])
next
  case (6 a b)
  then show ?case by (simp add: cmp_string_reverse [of b a])
qed (simp_all add: Let_def)

section \<open>Numeric versions\<close>

text \<open>Versions of digits and dots parse to numbers only; their comparison is that of the sequences, padded
  with zeros.\<close>

definition numeric :: "string \<Rightarrow> bool" where
  "numeric v \<longleftrightarrow> list_all (\<lambda>c. is_ascii_digit c \<or> c = CHR ''.'') v"

definition digit_at :: "nat list \<Rightarrow> nat \<Rightarrow> nat" where
  "digit_at xs i = (if i < length xs then xs ! i else 0)"

fun cmp_nats :: "nat list \<Rightarrow> nat list \<Rightarrow> ordering" where
  "cmp_nats [] [] = Equal"
| "cmp_nats (a # as) [] = (let c = nat_cmp a 0 in if c = Equal then cmp_nats as [] else c)"
| "cmp_nats [] (b # bs) = (let c = nat_cmp 0 b in if c = Equal then cmp_nats [] bs else c)"
| "cmp_nats (a # as) (b # bs) = (let c = nat_cmp a b in if c = Equal then cmp_nats as bs else c)"

lemma cmp_list_nats: "cmp_list (map IntItem xs) (map IntItem ys) = cmp_nats xs ys"
  by (induction xs ys rule: cmp_nats.induct) (simp_all add: Let_def nat_cmp_def)

definition first_less :: "nat list \<Rightarrow> nat list \<Rightarrow> bool" where
  "first_less xs ys \<longleftrightarrow> (\<exists>i. digit_at xs i < digit_at ys i \<and> (\<forall>j<i. digit_at xs j = digit_at ys j))"

lemma digit_at_Cons [simp]: "digit_at (x # xs) 0 = x" "digit_at (x # xs) (Suc i) = digit_at xs i"
  by (simp_all add: digit_at_def)

lemma digit_at_Nil [simp]: "digit_at [] i = 0"
  by (simp add: digit_at_def)

lemma first_less_Cons:
  "first_less (x # xs) (y # ys) \<longleftrightarrow> x < y \<or> (x = y \<and> first_less xs ys)"
proof -
  have ex: "(\<exists>i. P i) \<longleftrightarrow> P 0 \<or> (\<exists>i. P (Suc i))" for P :: "nat \<Rightarrow> bool" by (metis nat.exhaust)
  show ?thesis unfolding first_less_def by (subst ex) (auto simp: All_less_Suc2)
qed

lemma first_less_Cons_Nil: "first_less (x # xs) [] \<longleftrightarrow> x = 0 \<and> first_less xs []"
proof -
  have ex: "(\<exists>i. P i) \<longleftrightarrow> P 0 \<or> (\<exists>i. P (Suc i))" for P :: "nat \<Rightarrow> bool" by (metis nat.exhaust)
  show ?thesis unfolding first_less_def by (subst ex) (auto simp: All_less_Suc2)
qed

lemma first_less_Nil_Cons: "first_less [] (x # xs) \<longleftrightarrow> 0 < x \<or> first_less [] xs"
proof -
  have ex: "(\<exists>i. P i) \<longleftrightarrow> P 0 \<or> (\<exists>i. P (Suc i))" for P :: "nat \<Rightarrow> bool" by (metis nat.exhaust)
  show ?thesis unfolding first_less_def by (subst ex) (auto simp: All_less_Suc2)
qed

lemma cmp_nats_Less: "cmp_nats xs ys = Less \<longleftrightarrow> first_less xs ys"
proof (induction xs ys rule: cmp_nats.induct)
  case 1
  then show ?case by (simp add: first_less_def)
qed (auto simp: Let_def nat_cmp_def first_less_Cons first_less_Cons_Nil first_less_Nil_Cons)

lemma first_less_between:
  assumes "first_less zs xs"
  shows "first_less zs ys \<or> first_less ys xs"
proof -
  obtain i where i: "digit_at zs i < digit_at xs i" "\<forall>j<i. digit_at zs j = digit_at xs j"
    using assms by (auto simp: first_less_def)
  show ?thesis
  proof (cases "\<exists>j<i. digit_at ys j \<noteq> digit_at zs j")
    case True
    then obtain j where j: "j < i" "digit_at ys j \<noteq> digit_at zs j"
        "\<forall>k<j. \<not> (k < i \<and> digit_at ys k \<noteq> digit_at zs k)"
      using exists_least_iff [of "\<lambda>j. j < i \<and> digit_at ys j \<noteq> digit_at zs j"] by blast
    then have below: "\<forall>k<j. digit_at ys k = digit_at zs k" by simp
    have xs: "\<forall>k<j. digit_at ys k = digit_at xs k" "digit_at zs j = digit_at xs j"
      using i(2) j(1) below by simp_all
    show ?thesis
    proof (cases "digit_at ys j < digit_at zs j")
      case True
      then have "digit_at ys j < digit_at xs j" using xs(2) by simp
      with xs(1) show ?thesis unfolding first_less_def by blast
    next
      case False
      then have "digit_at zs j < digit_at ys j" using j(2) by simp
      moreover have "\<forall>k<j. digit_at zs k = digit_at ys k" using below by simp
      ultimately show ?thesis unfolding first_less_def by blast
    qed
  next
    case False
    then have "digit_at zs i < digit_at ys i \<and> (\<forall>j<i. digit_at zs j = digit_at ys j)
        \<or> digit_at ys i < digit_at xs i \<and> (\<forall>j<i. digit_at ys j = digit_at xs j)" using i by auto
    then show ?thesis unfolding first_less_def by blast
  qed
qed

lemma max_by_greatest:
  assumes rev: "\<And>a b. cmp b a = reverse (cmp a b)"
    and between: "\<And>a b c. a \<in> S \<Longrightarrow> b \<in> S \<Longrightarrow> c \<in> S \<Longrightarrow> cmp a b = Less \<Longrightarrow> cmp a c = Less \<or> cmp c b = Less"
  shows "x \<in> S \<Longrightarrow> set xs \<subseteq> S \<Longrightarrow>
    (let m = fold (\<lambda>y best. if cmp best y = Greater then best else y) xs x
     in m \<in> insert x (set xs) \<and> (\<forall>y \<in> insert x (set xs). cmp m y \<noteq> Less))"
proof (induction xs arbitrary: x)
  case Nil
  have "cmp x x \<noteq> Less" using rev [of x x] by (cases "cmp x x") auto
  then show ?case by simp
next
  case (Cons y ys)
  let ?b = "if cmp x y = Greater then x else y"
  let ?m = "fold (\<lambda>y best. if cmp best y = Greater then best else y) ys ?b"
  have b: "?b \<in> S" using Cons.prems by simp
  have ih: "?m \<in> insert ?b (set ys)" "\<forall>z \<in> insert ?b (set ys). cmp ?m z \<noteq> Less"
    using Cons.IH [OF b] Cons.prems(2) by (simp_all add: Let_def)
  have m: "?m \<in> S" using ih(1) Cons.prems b by auto
  have "cmp ?m x \<noteq> Less \<and> cmp ?m y \<noteq> Less"
  proof (cases "cmp x y = Greater")
    case True
    with ih(2) have "cmp ?m x \<noteq> Less" by simp
    then show ?thesis using between [of ?m y x] m Cons.prems True by auto
  next
    case False
    with ih(2) have "cmp ?m y \<noteq> Less" by simp
    moreover have "cmp y x \<noteq> Less" using False rev [of y x] by (cases "cmp x y") auto
    ultimately show ?thesis using between [of ?m x y] m Cons.prems by auto
  qed
  moreover have "?m \<in> insert x (set (y # ys))" using ih(1) by auto
  ultimately show ?case using ih(2) by (simp add: Let_def)
qed

section \<open>Numeric versions parse to numbers\<close>

lemma numeric_lowercase: "numeric v \<Longrightarrow> to_lowercase v = v"
  unfolding to_lowercase_def numeric_def list_all_iff
  by (intro map_idI) (auto simp: lower_char_def is_ascii_digit_def)

lemma fold_parse_numeric:
  "numeric v \<Longrightarrow> (current \<noteq> [] \<longrightarrow> d) \<Longrightarrow>
   \<exists>ys current' d'. fold parse_char v ([map IntItem xs], current, d) = ([map IntItem ys], current', d')
     \<and> (current' \<noteq> [] \<longrightarrow> d')"
proof (induction v arbitrary: xs current d)
  case Nil
  then show ?case by auto
next
  case (Cons c v)
  then have num: "numeric v" and c: "is_ascii_digit c \<or> c = CHR ''.''" by (simp_all add: numeric_def)
  show ?case
  proof (cases "c = CHR ''.''")
    case True
    obtain n where "(if current \<noteq> [] then make_item d current else IntItem 0) = IntItem n"
      using Cons.prems(2) by (cases "current = []") (auto simp: make_item_def)
    then have "parse_char c ([map IntItem xs], current, d) = ([map IntItem (xs @ [n])], [], d)"
      using True by simp
    then show ?thesis using Cons.IH [OF num, of "[]" d "xs @ [n]"] by simp
  next
    case False
    with c have dig: "is_ascii_digit c" "c \<noteq> CHR ''-''" by (auto simp: is_ascii_digit_def)
    then have "parse_char c ([map IntItem xs], current, d) = ([map IntItem xs], current @ [c], True)"
      using False Cons.prems(2) by (auto simp: Let_def)
    then show ?thesis using Cons.IH [OF num, of "current @ [c]" True xs] by simp
  qed
qed

lemma trim_numeric: "\<exists>ys. trim_trailing_nulls (map IntItem xs) = map IntItem ys"
proof -
  have "\<exists>ys. dropWhile is_null (map IntItem zs) = map IntItem ys" for zs
    by (induction zs) (auto intro: exI [of _ "_ # _"])
  then obtain ys where "dropWhile is_null (map IntItem (rev xs)) = map IntItem ys" by blast
  then show ?thesis
    by (intro exI [of _ "rev ys"]) (simp add: trim_trailing_nulls_def rev_map)
qed

lemma parse_numeric: "numeric v \<Longrightarrow> \<exists>ns. parse_items (to_lowercase v) = map IntItem ns"
proof -
  assume v: "numeric v"
  obtain ys current d where f: "fold parse_char v ([map IntItem []], [], False) = ([map IntItem ys], current, d)"
      "current \<noteq> [] \<longrightarrow> d"
    using fold_parse_numeric [OF v, of "[]" False "[]"] by blast
  obtain zs where zs: "(if current \<noteq> [] then push (make_item d current) [map IntItem ys] else [map IntItem ys])
      = [map IntItem zs]"
  proof (cases "current = []")
    case True
    then show ?thesis using that [of ys] by simp
  next
    case False
    obtain n where "make_item d current = IntItem n" using f(2) False by (auto simp: make_item_def)
    then show ?thesis using that [of "ys @ [n]"] False by simp
  qed
  obtain ns where ns: "trim_trailing_nulls (map IntItem zs) = map IntItem ns" using trim_numeric by blast
  have "parse_items (to_lowercase v) = close_lists
      (if current \<noteq> [] then push (make_item d current) [map IntItem ys] else [map IntItem ys])"
    using f(1) by (simp add: parse_items_def Let_def numeric_lowercase [OF v])
  also have "\<dots> = map IntItem ns" by (simp only: zs close_lists.simps ns)
  finally show ?thesis by blast
qed

lemma version_cmp_reverse: "version_cmp b a = reverse (version_cmp a b)"
  unfolding version_cmp_def by (rule cmp_reverse)

lemma version_cmp_between:
  assumes "numeric a" "numeric b" "numeric c" "version_cmp a b = Less"
  shows "version_cmp a c = Less \<or> version_cmp c b = Less"
proof -
  obtain xs ys zs where "parse_items (to_lowercase a) = map IntItem xs" "parse_items (to_lowercase b) = map IntItem ys"
      "parse_items (to_lowercase c) = map IntItem zs"
    using assms(1-3) parse_numeric by meson
  then have "version_cmp a b = cmp_nats xs ys" "version_cmp a c = cmp_nats xs zs" "version_cmp c b = cmp_nats zs ys"
    unfolding version_cmp_def by (simp_all only: cmp_list_nats)
  with assms(4) first_less_between [of xs ys zs] show ?thesis by (simp only: cmp_nats_Less)
qed

text \<open>On versions of digits and dots, \<open>latest_version\<close> returns one of them that is below none of them
  in the version order; there the comparison is that of the number sequences padded with zeros.\<close>

theorem latest_numeric_version:
  assumes "versions \<noteq> []" and "\<forall>v \<in> set versions. numeric v"
  shows "\<exists>v. latest_version versions = Some v \<and> v \<in> set versions
    \<and> (\<forall>w \<in> set versions. version_cmp v w \<noteq> Less)"
proof -
  obtain x xs where v: "versions = x # xs" using assms(1) by (cases versions) auto
  have "set xs \<subseteq> Collect numeric" "x \<in> Collect numeric" using assms(2) v by auto
  have "let m = fold (\<lambda>y best. if version_cmp best y = Greater then best else y) xs x
     in m \<in> insert x (set xs) \<and> (\<forall>y \<in> insert x (set xs). version_cmp m y \<noteq> Less)"
    using \<open>x \<in> _\<close> \<open>set xs \<subseteq> _\<close> version_cmp_between
    by (intro max_by_greatest [of version_cmp "Collect numeric"] version_cmp_reverse) auto
  then show ?thesis unfolding latest_version_def v max_by.simps Let_def list.set by blast
qed

lemmas version_eval = version_cmp_def parse_items_def to_lowercase_def lower_char_def is_ascii_digit_def Let_def
  make_item_def parse_unsigned_def parse_digits_def digit_value_def trim_trailing_nulls_def nat_cmp_def
  cmp_string_def qualifier_rank_def

lemma latest_numeric_version_witness:
  "\<exists>v. latest_version [''1.9'', ''1.10'', ''1.2''] = Some v \<and> v \<in> {''1.9'', ''1.10'', ''1.2''}
     \<and> version_cmp v ''1.10'' \<noteq> Less"
proof -
  have "\<forall>v \<in> set [''1.9'', ''1.10'', ''1.2'']. numeric v" by (simp add: numeric_def is_ascii_digit_def)
  from latest_numeric_version [OF _ this] show ?thesis by auto
qed

text \<open>With qualifiers the comparison is not an order: an inner zero equals a missing item and is above
  every qualifier, yet \<open>sp\<close> is above a missing item. So \<open>1.0.alpha\<close> is below \<open>1\<close>, which is below
  \<open>1.sp\<close>, which is below \<open>1.0.alpha\<close>, and the latest version of the three is the alpha.\<close>

theorem maven_order_cycle:
  "version_cmp ''1.0.alpha'' ''1'' = Less \<and> version_cmp ''1'' ''1.sp'' = Less
   \<and> version_cmp ''1.sp'' ''1.0.alpha'' = Less
   \<and> latest_version [''1'', ''1.sp'', ''1.0.alpha''] = Some ''1.0.alpha''"
  by (simp add: latest_version_def version_eval)

end
