(* ===== verification/Quality_Checks.thy ===== *)
theory Quality_Checks
  imports Prelude
begin

text \<open>
  The two quality checkers: the completeness of an artifact's metadata (\<open>services/metadata_checker.rs\<close>)
  and the structure of a Helm chart (\<open>services/helm_lint_checker.rs\<close>). Both add points for what is there
  and report an issue for what is not. The gzip, tar and YAML libraries are parameters: what they make of
  the bytes. The JSON \<open>details\<close> and the issues' explanatory descriptions, which repeat the outcome in
  prose, are left out.
\<close>

text \<open>\<open>serde_json::Value\<close>; a number is its text.\<close>

datatype json = JNull | JBool bool | JNumber string | JString string | JArray "json list"
  | JObject "(string \<times> json) list"

definition json_get :: "string \<Rightarrow> json \<Rightarrow> json option" where
  "json_get k v = (case v of JObject kvs \<Rightarrow> map_of kvs k | _ \<Rightarrow> None)"

record raw_quality_issue =
  issue_severity :: string
  issue_category :: string
  issue_title :: string
  issue_location :: "string option"

record quality_check_output =
  out_score :: int
  out_passed :: bool
  out_issues :: "raw_quality_issue list"

section \<open>Metadata completeness\<close>

definition points_version :: int where "points_version = 20"
definition points_description :: int where "points_description = 20"
definition points_license :: int where "points_license = 30"
definition points_author :: int where "points_author = 15"
definition points_docs :: int where "points_docs = 15"
definition passing_threshold :: int where "passing_threshold = 50"

fun is_non_empty_string :: "json \<Rightarrow> bool" where
  "is_non_empty_string (JString s) \<longleftrightarrow> trim s \<noteq> []"
| "is_non_empty_string _ \<longleftrightarrow> False"

definition has_non_empty_field :: "json \<Rightarrow> string \<Rightarrow> bool" where
  "has_non_empty_field obj key =
     (case json_get key obj of
        None \<Rightarrow> False
      | Some JNull \<Rightarrow> False
      | Some (JString s) \<Rightarrow> trim s \<noteq> []
      | Some (JArray xs) \<Rightarrow> xs \<noteq> []
      | Some (JObject _) \<Rightarrow> True
      | Some (JBool _) \<Rightarrow> True
      | Some (JNumber _) \<Rightarrow> True)"

definition any_field :: "json option \<Rightarrow> string list \<Rightarrow> bool" where
  "any_field meta keys = (case meta of None \<Rightarrow> False | Some m \<Rightarrow> list_ex (has_non_empty_field m) keys)"

definition missing_metadata :: "string \<Rightarrow> string \<Rightarrow> raw_quality_issue" where
  "missing_metadata severity title =
     \<lparr> issue_severity = severity, issue_category = ''missing-metadata'', issue_title = title,
       issue_location = None \<rparr>"

text \<open>A check that adds its points to the score or pushes its issue.\<close>

type_synonym tally = "int \<times> raw_quality_issue list"

definition award :: "bool \<Rightarrow> int \<Rightarrow> raw_quality_issue \<Rightarrow> tally \<Rightarrow> tally" where
  "award ok points issue acc = (if ok then (fst acc + points, snd acc) else (fst acc, snd acc @ [issue]))"

definition metadata_check :: "string option \<Rightarrow> json option \<Rightarrow> quality_check_output" where
  "metadata_check artifact_version meta =
     (let has_version = (case artifact_version of None \<Rightarrow> False | Some v \<Rightarrow> v \<noteq> []);
          has_description = (case Option.bind meta (json_get ''description'') of
              None \<Rightarrow> False | Some v \<Rightarrow> is_non_empty_string v);
          has_license = any_field meta [''license'', ''licenses''];
          has_author = any_field meta [''author'', ''maintainer'', ''authors'', ''maintainers''];
          has_docs = any_field meta [''readme'', ''homepage'', ''documentation'', ''home'', ''url''];
          acc = award has_docs points_docs (missing_metadata ''low'' ''Missing documentation or homepage link'')
               (award has_author points_author (missing_metadata ''low'' ''Missing author or maintainer'')
               (award has_license points_license (missing_metadata ''medium'' ''Missing license declaration'')
               (award has_description points_description (missing_metadata ''low'' ''Missing description'')
               (award has_version points_version (missing_metadata ''low'' ''Missing version'') (0, [])))))
      in \<lparr> out_score = fst acc, out_passed = passing_threshold \<le> fst acc, out_issues = snd acc \<rparr>)"

section \<open>Helm charts\<close>

text \<open>A YAML document as far as the checker looks: a mapping's texts and sequences.\<close>

datatype yaml = YString string | YSequence "yaml list" | YMapping "(string \<times> yaml) list" | YOther

definition as_mapping :: "yaml \<Rightarrow> (string \<times> yaml) list option" where
  "as_mapping v = (case v of YMapping kvs \<Rightarrow> Some kvs | _ \<Rightarrow> None)"

definition yaml_str_field :: "(string \<times> yaml) list option \<Rightarrow> string \<Rightarrow> string option" where
  "yaml_str_field m key =
     (case Option.bind m (\<lambda>kvs. map_of kvs key) of Some (YString s) \<Rightarrow> Some s | _ \<Rightarrow> None)"

definition is_valid_semver :: "string \<Rightarrow> bool" where
  "is_valid_semver version =
     (let version = trim version
      in version \<noteq> [] \<and>
         (let v = (case strip_prefix ''v'' version of Some r \<Rightarrow> r | None \<Rightarrow> version);
              before_build = (case split_once (CHR ''+'') v of Some (b, _) \<Rightarrow> b | None \<Rightarrow> v);
              core = (case split_once (CHR ''-'') before_build of Some (c, _) \<Rightarrow> c | None \<Rightarrow> before_build);
              parts = split_char (CHR ''.'') core
          in length parts = 3
             \<and> list_all (\<lambda>part. part \<noteq> [] \<and> \<not> (1 < length part \<and> starts_with ''0'' part)
                   \<and> list_all is_ascii_digit part) parts))"

text \<open>An entry of the archive: its path and its text, where each can be read.\<close>

record tar_inventory =
  chart_yaml_content :: "string option"
  has_values_yaml :: bool
  template_files :: "string list"

definition scan_entry :: "string option \<times> string option \<Rightarrow> tar_inventory \<Rightarrow> tar_inventory" where
  "scan_entry entry found =
     (case entry of
        (None, _) \<Rightarrow> found
      | (Some path, content) \<Rightarrow>
        (let found = (if (ends_with ''/Chart.yaml'' path \<or> path = ''Chart.yaml'') \<and> chart_yaml_content found = None
                 then found\<lparr> chart_yaml_content := content \<rparr> else found);
             found = (if ends_with ''/values.yaml'' path \<or> path = ''values.yaml''
                 then found\<lparr> has_values_yaml := True \<rparr> else found)
         in if (contains ''/templates/'' path \<or> starts_with ''templates/'' path)
               \<and> (ends_with ''.yaml'' path \<or> ends_with ''.tpl'' path)
            then found\<lparr> template_files := template_files found @ [path] \<rparr> else found))"

definition helm_issue :: "string \<Rightarrow> string \<Rightarrow> string \<Rightarrow> string option \<Rightarrow> raw_quality_issue" where
  "helm_issue severity category title location =
     \<lparr> issue_severity = severity, issue_category = category, issue_title = title,
       issue_location = location \<rparr>"

definition broken_archive :: "string \<Rightarrow> quality_check_output" where
  "broken_archive title = \<lparr> out_score = 0, out_passed = False,
     out_issues = [helm_issue ''critical'' ''helm-structure'' title None] \<rparr>"

text \<open>The tar library yields no reader, or a list whose unreadable entries are \<open>None\<close>.\<close>

definition scan_tar_entries ::
  "(string option \<times> string option) option list option \<Rightarrow> quality_check_output + tar_inventory" where
  "scan_tar_entries entries =
     (case entries of
        None \<Rightarrow> Inl (broken_archive ''Not a valid tar archive'')
      | Some es \<Rightarrow> Inr (fold (\<lambda>e found. case e of None \<Rightarrow> found | Some x \<Rightarrow> scan_entry x found) es
            \<lparr> chart_yaml_content = None, has_values_yaml = False, template_files = [] \<rparr>))"

definition evaluate_chart_yaml ::
  "(string \<Rightarrow> yaml option) \<Rightarrow> string option \<Rightarrow> tally \<Rightarrow> yaml option \<times> tally" where
  "evaluate_chart_yaml parse raw acc =
     (case raw of
        None \<Rightarrow> (None, award False 0 (helm_issue ''critical'' ''helm-structure'' ''Chart.yaml is missing'' None) acc)
      | Some r \<Rightarrow> (parse r, award (parse r \<noteq> None) 15
            (helm_issue ''critical'' ''helm-parse'' ''Chart.yaml contains invalid YAML'' (Some ''Chart.yaml'')) acc))"

type_synonym chart = "(string \<times> yaml) list option"

definition check_api_version :: "chart \<Rightarrow> tally \<Rightarrow> tally" where
  "check_api_version m acc =
     (case yaml_str_field m ''apiVersion'' of
        None \<Rightarrow> award False 0 (helm_issue ''high'' ''helm-required-field'' ''Chart.yaml missing apiVersion''
          (Some ''Chart.yaml'')) acc
      | Some av \<Rightarrow> award (av \<noteq> ''v1'') 10 (helm_issue ''medium'' ''helm-deprecation'' ''Deprecated apiVersion v1''
          (Some ''Chart.yaml:apiVersion'')) (fst acc + 5, snd acc))"

definition check_name :: "chart \<Rightarrow> tally \<Rightarrow> tally" where
  "check_name m acc =
     (case yaml_str_field m ''name'' of
        None \<Rightarrow> award False 0 (helm_issue ''high'' ''helm-required-field'' ''Chart.yaml missing name''
          (Some ''Chart.yaml'')) acc
      | Some n \<Rightarrow> award (n \<noteq> []) 5 (helm_issue ''high'' ''helm-required-field'' ''Chart.yaml has empty name''
          (Some ''Chart.yaml:name'')) acc)"

definition check_version :: "chart \<Rightarrow> tally \<Rightarrow> tally" where
  "check_version m acc =
     (case yaml_str_field m ''version'' of
        None \<Rightarrow> award False 0 (helm_issue ''high'' ''helm-required-field'' ''Chart.yaml missing version''
          (Some ''Chart.yaml'')) acc
      | Some ver \<Rightarrow> award (is_valid_semver ver) 10 (helm_issue ''high'' ''helm-required-field''
          ''Chart.yaml version is not valid semver'' (Some ''Chart.yaml:version'')) acc)"

definition check_description :: "chart \<Rightarrow> tally \<Rightarrow> tally" where
  "check_description m = award (yaml_str_field m ''description'' \<noteq> None) 5
     (helm_issue ''low'' ''helm-recommended-field'' ''Chart.yaml missing description'' (Some ''Chart.yaml''))"

definition check_app_version :: "chart \<Rightarrow> tally \<Rightarrow> tally" where
  "check_app_version m = award (yaml_str_field m ''appVersion'' \<noteq> None) 5
     (helm_issue ''low'' ''helm-recommended-field'' ''Chart.yaml missing appVersion'' (Some ''Chart.yaml''))"

definition check_maintainers :: "chart \<Rightarrow> tally \<Rightarrow> tally" where
  "check_maintainers m acc =
     (case Option.bind m (\<lambda>kvs. map_of kvs ''maintainers'') of
        Some (YSequence xs) \<Rightarrow> award (xs \<noteq> []) 5 (helm_issue ''low'' ''helm-recommended-field''
          ''Chart.yaml has empty maintainers list'' (Some ''Chart.yaml:maintainers'')) acc
      | _ \<Rightarrow> award False 0 (helm_issue ''low'' ''helm-recommended-field'' ''Chart.yaml missing maintainers''
          (Some ''Chart.yaml'')) acc)"

definition check_values_yaml :: "bool \<Rightarrow> tally \<Rightarrow> tally" where
  "check_values_yaml found = award found 20
     (helm_issue ''low'' ''helm-recommended-field'' ''values.yaml is missing'' None)"

definition check_template_files :: "string list \<Rightarrow> tally \<Rightarrow> tally" where
  "check_template_files files = award (files \<noteq> []) 20
     (helm_issue ''low'' ''helm-recommended-field'' ''No template files found'' (Some ''templates/''))"

text \<open>The libraries: decompression to the tar's bytes, its entries, YAML.\<close>

record 'bytes helm_libraries =
  gunzip :: "'bytes \<Rightarrow> 'bytes option"
  tar_entries :: "'bytes \<Rightarrow> (string option \<times> string option) option list option"
  parse_yaml :: "string \<Rightarrow> yaml option"

definition helm_check :: "'bytes helm_libraries \<Rightarrow> 'bytes \<Rightarrow> quality_check_output" where
  "helm_check libs content =
     (case gunzip libs content of
        None \<Rightarrow> broken_archive ''Not a valid gzip archive''
      | Some tar \<Rightarrow>
        (case scan_tar_entries (tar_entries libs tar) of
           Inl out \<Rightarrow> out
         | Inr found \<Rightarrow>
           (let (doc, acc) = evaluate_chart_yaml (parse_yaml libs) (chart_yaml_content found) (0, []);
                acc = (case doc of None \<Rightarrow> acc
                  | Some d \<Rightarrow> (let m = as_mapping d in
                      check_maintainers m (check_app_version m (check_description m
                        (check_version m (check_name m (check_api_version m acc)))))));
                acc = check_template_files (template_files found) (check_values_yaml (has_values_yaml found) acc)
            in \<lparr> out_score = fst acc, out_passed = 50 \<le> fst acc, out_issues = snd acc \<rparr>)))"

section \<open>Scores\<close>

text \<open>A tally against the points that could have been earned so far.\<close>

definition tally_of :: "int \<Rightarrow> tally \<Rightarrow> bool" where
  "tally_of best acc \<longleftrightarrow> 0 \<le> fst acc \<and> fst acc \<le> best \<and> (fst acc = best \<longleftrightarrow> snd acc = [])"

lemma tally_start: "tally_of 0 (0, [])"
  by (simp add: tally_of_def)

lemma tally_award: "tally_of best acc \<Longrightarrow> 0 < p \<Longrightarrow> tally_of (best + p) (award ok p issue acc)"
  by (auto simp: tally_of_def award_def)

lemma tally_missing: "tally_of best acc \<Longrightarrow> 0 < p \<Longrightarrow> tally_of (best + p) (award False q issue acc)"
  by (auto simp: tally_of_def award_def)

lemma tally_points: "tally_of best acc \<Longrightarrow> tally_of (best + p) (fst acc + p, snd acc)" if "0 < p"
  using that by (auto simp: tally_of_def)

lemma tally_api_version: "tally_of best acc \<Longrightarrow> tally_of (best + 15) (check_api_version m acc)"
  using tally_award [OF tally_points [of 5 best acc], of 10] tally_missing [of best acc 15]
  by (simp add: check_api_version_def add.commute split: option.split)

lemma tally_name: "tally_of best acc \<Longrightarrow> tally_of (best + 5) (check_name m acc)"
  by (simp add: check_name_def tally_award tally_missing split: option.split)

lemma tally_version: "tally_of best acc \<Longrightarrow> tally_of (best + 10) (check_version m acc)"
  by (simp add: check_version_def tally_award tally_missing split: option.split)

lemma tally_maintainers: "tally_of best acc \<Longrightarrow> tally_of (best + 5) (check_maintainers m acc)"
  by (simp add: check_maintainers_def tally_award tally_missing split: option.split yaml.split)

lemma tally_fields:
  assumes "tally_of best acc"
  shows "tally_of (best + 45) (check_maintainers m (check_app_version m (check_description m
    (check_version m (check_name m (check_api_version m acc))))))"
proof -
  have "tally_of (best + 30) (check_version m (check_name m (check_api_version m acc)))"
    using tally_version [OF tally_name [OF tally_api_version [OF assms]]] by (simp add: add.commute)
  then have "tally_of (best + 30 + 5 + 5) (check_app_version m (check_description m
      (check_version m (check_name m (check_api_version m acc)))))"
    unfolding check_app_version_def check_description_def by (intro tally_award) simp_all
  from tally_maintainers [OF this] show ?thesis by (simp add: add.assoc)
qed

text \<open>What a checker promises of its output.\<close>

definition sound_output :: "quality_check_output \<Rightarrow> bool" where
  "sound_output out \<longleftrightarrow> 0 \<le> out_score out \<and> out_score out \<le> 100
     \<and> (out_score out = 100 \<longleftrightarrow> out_issues out = []) \<and> (out_passed out \<longleftrightarrow> 50 \<le> out_score out)"

lemma sound_tally:
  "tally_of 100 acc \<Longrightarrow> sound_output \<lparr> out_score = fst acc, out_passed = 50 \<le> fst acc, out_issues = snd acc \<rparr>"
  by (simp add: sound_output_def tally_of_def)

lemma broken_archive_sound: "sound_output (broken_archive title)"
  by (simp add: sound_output_def broken_archive_def)

lemma metadata_check_sound: "sound_output (metadata_check v m)"
  unfolding metadata_check_def Let_def passing_threshold_def points_version_def points_description_def
    points_license_def points_author_def points_docs_def
  by (intro sound_tally tally_award [where best = 85 and p = 15, simplified]
      tally_award [where best = 70 and p = 15, simplified] tally_award [where best = 40 and p = 30, simplified]
      tally_award [where best = 20 and p = 20, simplified] tally_award [where best = 0 and p = 20, simplified]
      tally_start)

lemma helm_check_sound: "sound_output (helm_check libs content)"
proof (cases "\<exists>tar found. gunzip libs content = Some tar \<and> scan_tar_entries (tar_entries libs tar) = Inr found")
  case True
  then obtain tar found where t: "gunzip libs content = Some tar"
      "scan_tar_entries (tar_entries libs tar) = Inr found" by blast
  let ?e = "evaluate_chart_yaml (parse_yaml libs) (chart_yaml_content found) (0, [])"
  let ?acc = "case fst ?e of None \<Rightarrow> snd ?e | Some d \<Rightarrow> check_maintainers (as_mapping d)
    (check_app_version (as_mapping d) (check_description (as_mapping d) (check_version (as_mapping d)
    (check_name (as_mapping d) (check_api_version (as_mapping d) (snd ?e))))))"
  have e: "tally_of 15 (snd ?e)"
    using tally_award [OF tally_start, of 15] tally_missing [OF tally_start, of 15]
    by (simp add: evaluate_chart_yaml_def split: option.split)
  have "tally_of 60 ?acc"
  proof (cases "fst ?e")
    case None
    then have "snd (snd ?e) \<noteq> []" by (auto simp: evaluate_chart_yaml_def award_def split: option.splits)
    with e None show ?thesis by (auto simp: tally_of_def)
  next
    case (Some d)
    with tally_fields [OF e, of "as_mapping d"] show ?thesis by simp
  qed
  then have "tally_of 100 (check_template_files (template_files found) (check_values_yaml (has_values_yaml found) ?acc))"
    unfolding check_template_files_def check_values_yaml_def
    by (intro tally_award [where best = 80 and p = 20, simplified] tally_award [where best = 60 and p = 20, simplified])
  from sound_tally [OF this] show ?thesis
    using t by (simp add: helm_check_def split_beta Let_def cong: option.case_cong)
next
  case False
  then show ?thesis
    by (auto simp: helm_check_def scan_tar_entries_def broken_archive_sound split: option.split)
qed

text \<open>The quality checkers keep to the score's range, for every metadata document and every archive:
  between 0 and 100, 100 exactly when no issue is reported, and passed exactly from 50 on. The insertion of
  a result therefore never violates the table's constraint on the score.\<close>

theorem quality_scores_in_range: "sound_output (metadata_check v m) \<and> sound_output (helm_check libs content)"
  by (simp add: metadata_check_sound helm_check_sound)

end
