(* ===== verification/Db_Actions.thy ===== *)
theory Db_Actions
  imports App_Error
begin

text \<open>
  Handlers and services as the code writes them: a sequence of statements on a state, each of which may
  fail, with \<open>?\<close> after each. An action maps a state to a \<open>Result\<close> and the state it leaves; a failing
  statement changes nothing, and what the earlier ones did stays done, as there is no transaction.
  The faults say which statement fails, by name, with the driver's message.
\<close>

type_synonym ('s, 'a) action = "'s \<Rightarrow> 'a result \<times> 's"
type_synonym faults = "string \<Rightarrow> string option"

named_theorems action_simps "evaluation and inversion of actions"

definition give :: "'a \<Rightarrow> ('s, 'a) action" where
  "give a s = (Inr a, s)"

definition refuse :: "app_error \<Rightarrow> ('s, 'a) action" where
  "refuse e s = (Inl e, s)"

definition andthen :: "('s, 'a) action \<Rightarrow> ('a \<Rightarrow> ('s, 'b) action) \<Rightarrow> ('s, 'b) action" where
  "andthen m f s = (case m s of (Inl e, t) \<Rightarrow> (Inl e, t) | (Inr a, t) \<Rightarrow> f a t)"

definition of_result :: "'a result \<Rightarrow> ('s, 'a) action" where
  "of_result r s = (r, s)"

text \<open>A statement that reads, one that writes, and \<open>ok_or_else\<close> on what was read.\<close>

definition select :: "faults \<Rightarrow> string \<Rightarrow> ('s \<Rightarrow> 'a) \<Rightarrow> ('s, 'a) action" where
  "select fail name g s = (case fail name of Some e \<Rightarrow> (Inl (Database e), s) | None \<Rightarrow> (Inr (g s), s))"

definition execute :: "faults \<Rightarrow> string \<Rightarrow> ('s \<Rightarrow> 's) \<Rightarrow> ('s, unit) action" where
  "execute fail name h s = (case fail name of Some e \<Rightarrow> (Inl (Database e), s) | None \<Rightarrow> (Inr (), h s))"

definition some_or :: "app_error \<Rightarrow> 'a option \<Rightarrow> ('s, 'a) action" where
  "some_or e x = (case x of None \<Rightarrow> refuse e | Some a \<Rightarrow> give a)"

definition run_or :: "bool \<Rightarrow> app_error \<Rightarrow> ('s, unit) action" where
  "run_or ok e = (if ok then give () else refuse e)"

text \<open>A query whose error is converted by \<open>From<sqlx::Error>\<close>.\<close>

definition fetch :: "faults \<Rightarrow> string \<Rightarrow> ('s \<Rightarrow> 'a) \<Rightarrow> ('s, 'a) action" where
  "fetch fail name g s = (case fail name of
     Some e \<Rightarrow> (Inl (Sqlx (if e = ''PoolTimedOut'' then PoolTimedOut else OtherSqlx e)), s)
   | None \<Rightarrow> (Inr (g s), s))"

text \<open>An action on a part of the state.\<close>

definition on_part :: "('s \<Rightarrow> 'p) \<Rightarrow> ('p \<Rightarrow> 's \<Rightarrow> 's) \<Rightarrow> ('p, 'a) action \<Rightarrow> ('s, 'a) action" where
  "on_part get put m s = (let (r, p) = m (get s) in (r, put p s))"

text \<open>A failure that is only logged.\<close>

definition ignore_error :: "('s, 'a) action \<Rightarrow> ('s, unit) action" where
  "ignore_error m s = (Inr (), snd (m s))"

lemma action_ok [action_simps]:
  "give a s = (Inr b, t) \<longleftrightarrow> a = b \<and> s = t"
  "refuse e s = (Inr b, t) \<longleftrightarrow> False"
  "andthen m f s = (Inr b, t) \<longleftrightarrow> (\<exists>a u. m s = (Inr a, u) \<and> f a u = (Inr b, t))"
  "of_result r s = (Inr b, t) \<longleftrightarrow> r = Inr b \<and> s = t"
  "select fail name g s = (Inr b, t) \<longleftrightarrow> fail name = None \<and> b = g s \<and> s = t"
  "fetch fail name g s = (Inr b, t) \<longleftrightarrow> fail name = None \<and> b = g s \<and> s = t"
  "on_part get put mp s = (Inr b, t) \<longleftrightarrow> (\<exists>p. mp (get s) = (Inr b, p) \<and> t = put p s)"
  "execute fail name h s = (Inr u, t) \<longleftrightarrow> fail name = None \<and> t = h s"
  "some_or e x s = (Inr b, t) \<longleftrightarrow> x = Some b \<and> s = t"
  "run_or ok e s = (Inr u, t) \<longleftrightarrow> ok \<and> s = t"
  "ignore_error m' s = (Inr u, t) \<longleftrightarrow> t = snd (m' s)"
  by (auto simp: give_def refuse_def andthen_def of_result_def select_def execute_def some_or_def run_or_def
      ignore_error_def fetch_def on_part_def split: option.splits prod.splits sum.splits)

lemmas run_simps = andthen_def select_def fetch_def execute_def some_or_def run_or_def give_def refuse_def
  of_result_def ignore_error_def on_part_def

text \<open>What an action keeps, whatever its outcome.\<close>

definition keeps :: "('s \<Rightarrow> 's \<Rightarrow> bool) \<Rightarrow> ('s, 'a) action \<Rightarrow> bool" where
  "keeps R m \<longleftrightarrow> (\<forall>s. R s (snd (m s)))"

lemma keeps_silent [intro, simp]:
  assumes "reflp R"
  shows "keeps R (give a)" "keeps R (refuse e)" "keeps R (of_result r)" "keeps R (select fail name g)"
    "keeps R (fetch fail name g)" "keeps R (some_or e x)" "keeps R (run_or ok e)"
  using assms
  by (auto simp: keeps_def give_def refuse_def of_result_def select_def fetch_def some_or_def run_or_def reflp_def
      split: option.split)

lemma keeps_execute: "keeps R (execute fail name h)" if "reflp R" "\<And>s. R s (h s)"
  using that by (auto simp: keeps_def execute_def reflp_def split: option.split)

lemma keeps_andthen: "keeps R (andthen m f)" if "transp R" "keeps R m" "\<And>a. keeps R (f a)"
proof (unfold keeps_def, intro allI)
  fix s
  obtain r t where m: "m s = (r, t)" by (cases "m s")
  have "R s t" using that(2) m unfolding keeps_def by (metis snd_conv)
  moreover have "R t (snd (f a t))" for a using that(3) by (simp add: keeps_def)
  ultimately show "R s (snd (andthen m f s))"
    using m \<open>transp R\<close> by (auto simp: andthen_def split: sum.split elim: transpE)
qed

lemma keeps_ignore: "keeps R m \<Longrightarrow> keeps R (ignore_error m)"
  by (simp add: keeps_def ignore_error_def)

end
