(* ===== verification/Quality_Gate.thy ===== *)
theory Quality_Gate
  imports Quality_Checks Db_Actions Auth_Context
begin

text \<open>
  Health scores and quality gates (\<open>services/quality_check_service.rs\<close>): running the checkers on an
  artifact, the weighted health score with its grade, and the gate that compares the score and the counts
  of issues with its thresholds. \<open>i32\<close> arithmetic wraps, as in the release build. The checkers' JSON
  details and the listings for display are left out.
\<close>

section \<open>Data\<close>

record quality_check_result =
  chk_id :: uuid
  chk_artifact :: uuid
  chk_repository :: uuid
  chk_type :: string
  chk_status :: string
  chk_score :: "int option"
  chk_passed :: "bool option"
  chk_issues :: int
  chk_critical :: int
  chk_high :: int
  chk_medium :: int
  chk_low :: int
  chk_info :: int
  chk_created :: datetime

record quality_check_issue = raw_quality_issue +
  qi_id :: uuid
  qi_check :: uuid
  qi_artifact :: uuid
  qi_suppressed :: bool
  qi_suppressed_by :: "uuid option"
  qi_suppressed_reason :: "string option"
  qi_suppressed_at :: "datetime option"

record component_scores =
  sc_security :: "int option"
  sc_license :: "int option"
  sc_quality :: "int option"
  sc_metadata :: "int option"

record artifact_health_score =
  health_score :: int
  health_grade :: char
  health_components :: component_scores
  total_issues :: int
  critical_issues :: int
  checks_passed :: int
  checks_total :: int
  calculated_at :: datetime

record quality_gate =
  gate_id :: uuid
  gate_repository :: "uuid option"
  gate_name :: string
  gate_description :: "string option"
  min_health_score :: "int option"
  min_security_score :: "int option"
  min_quality_score :: "int option"
  min_metadata_score :: "int option"
  max_critical_issues :: "int option"
  max_high_issues :: "int option"
  max_medium_issues :: "int option"
  required_checks :: "string list"
  enforce_on_promotion :: bool
  enforce_on_download :: bool
  gate_action :: string
  gate_enabled :: bool
  gate_created :: datetime
  gate_updated :: datetime

record gate_violation =
  gv_rule :: string
  gv_expected :: string
  gv_actual :: string
  gv_message :: string

record gate_evaluation =
  ge_passed :: bool
  ge_action :: string
  ge_gate :: string
  ge_score :: int
  ge_grade :: char
  ge_violations :: "gate_violation list"
  ge_components :: component_scores

record quality_artifact =
  qa_id :: uuid
  qa_repository :: uuid
  qa_deleted :: bool
  qa_version :: "string option"
  qa_metadata :: "json option"
  qa_storage_key :: string

text \<open>The tables. \<open>repo_format\<close> and \<open>repo_storage_path\<close> are columns of \<open>repositories\<close>.\<close>

record quality_db =
  qa_artifacts :: "quality_artifact list"
  repo_format :: "uuid \<rightharpoonup> string"
  repo_storage_path :: "uuid \<rightharpoonup> string"
  repo_security_scores :: "uuid \<rightharpoonup> int"
  check_results :: "quality_check_result list"
  check_issues :: "quality_check_issue list"
  health :: "uuid \<rightharpoonup> artifact_health_score"
  gates :: "quality_gate list"
  gate_evaluations :: "(uuid \<times> uuid \<times> gate_evaluation) list"

section \<open>Scores\<close>

definition weight_security :: int where "weight_security = 40"
definition weight_license :: int where "weight_license = 20"
definition weight_quality :: int where "weight_quality = 25"
definition weight_metadata :: int where "weight_metadata = 15"

definition add_component :: "int option \<times> int \<Rightarrow> int \<times> int \<Rightarrow> int \<times> int" where
  "add_component c acc = (case fst c of
     Some s \<Rightarrow> (as_i32 (fst acc + as_i32 (s * snd c)), as_i32 (snd acc + snd c))
   | None \<Rightarrow> acc)"

definition components :: "component_scores \<Rightarrow> (int option \<times> int) list" where
  "components c = [(sc_security c, weight_security), (sc_license c, weight_license),
     (sc_quality c, weight_quality), (sc_metadata c, weight_metadata)]"

definition compute_weighted_health_score :: "component_scores \<Rightarrow> int" where
  "compute_weighted_health_score c =
     (let (weighted_sum, weight_sum) = fold add_component (components c) (0, 0)
      in if weight_sum = 0 then 100 else trunc_div weighted_sum weight_sum)"

definition grade_of_score :: "int \<Rightarrow> char" where
  "grade_of_score score = (if 90 \<le> score then CHR ''A'' else if 75 \<le> score then CHR ''B''
     else if 50 \<le> score then CHR ''C'' else if 25 \<le> score then CHR ''D'' else CHR ''F'')"

text \<open>\<open>DISTINCT ON (check_type)\<close>, newest first: the newest completed result of each type, in the types'
  order.\<close>

abbreviation newest :: "quality_check_result list \<Rightarrow> quality_check_result option" where
  "newest \<equiv> latest_on chk_created"

definition latest_by_type :: "uuid \<Rightarrow> quality_check_result list \<Rightarrow> quality_check_result list" where
  "latest_by_type aid rows =
     (let done = filter (\<lambda>r. chk_artifact r = aid \<and> chk_status r = ''completed'') rows
      in List.map_filter (\<lambda>t. newest (filter (\<lambda>r. chk_type r = t) done))
           (sort (remdups (map chk_type done))))"

definition sum_i32 :: "int list \<Rightarrow> int" where
  "sum_i32 xs = fold (\<lambda>x acc. as_i32 (acc + x)) xs 0"

definition quality_of :: "quality_check_result list \<Rightarrow> int option" where
  "quality_of rows =
     (let scores = List.map_filter chk_score (filter (\<lambda>r. chk_type r \<noteq> ''metadata_completeness'') rows)
      in if scores = [] then None else Some (trunc_div (sum_i32 scores) (as_i32 (int (length scores)))))"

definition metadata_of :: "quality_check_result list \<Rightarrow> int option" where
  "metadata_of rows = Option.bind (find (\<lambda>r. chk_type r = ''metadata_completeness'') rows) chk_score"

definition issues_of :: "quality_check_result \<Rightarrow> int" where
  "issues_of r = as_i32 (as_i32 (as_i32 (chk_critical r + chk_high r) + chk_medium r) + chk_low r)"

definition health_from :: "datetime \<Rightarrow> quality_check_result list \<Rightarrow> int option \<Rightarrow> artifact_health_score" where
  "health_from now rows security =
     (let c = \<lparr> sc_security = security, sc_license = None, sc_quality = quality_of rows,
                sc_metadata = metadata_of rows \<rparr>;
          score = compute_weighted_health_score c
      in \<lparr> health_score = score, health_grade = grade_of_score score, health_components = c,
           total_issues = sum_i32 (map issues_of rows), critical_issues = sum_i32 (map chk_critical rows),
           checks_passed = as_i32 (int (length (filter (\<lambda>r. chk_passed r = Some True) rows))),
           checks_total = as_i32 (int (length rows)), calculated_at = now \<rparr>)"

definition recalculate_artifact_health ::
  "faults \<Rightarrow> datetime \<Rightarrow> uuid \<Rightarrow> (quality_db, unit) action" where
  "recalculate_artifact_health fail now aid =
     andthen (select fail ''completed checks'' (\<lambda>db. latest_by_type aid (check_results db))) (\<lambda>rows.
     andthen (select fail ''security score'' (\<lambda>db.
         Option.bind (find (\<lambda>a. qa_id a = aid) (qa_artifacts db)) (\<lambda>a. repo_security_scores db (qa_repository a))))
       (\<lambda>security.
     execute fail ''upsert health'' (\<lambda>db. db\<lparr> health := (health db)(aid \<mapsto> health_from now rows security) \<rparr>)))"

section \<open>Running the checks\<close>

definition count_severity :: "string \<Rightarrow> raw_quality_issue list \<Rightarrow> int" where
  "count_severity severity issues =
     as_i32 (int (length (filter (\<lambda>i. to_lowercase (issue_severity i) = severity) issues)))"

definition check_row ::
  "datetime \<Rightarrow> uuid \<Rightarrow> uuid \<Rightarrow> uuid \<Rightarrow> string \<Rightarrow> quality_check_output \<Rightarrow> quality_check_result" where
  "check_row now cid aid rid type_name out =
     (let n = (\<lambda>s. count_severity s (out_issues out))
      in \<lparr> chk_id = cid, chk_artifact = aid, chk_repository = rid, chk_type = type_name,
           chk_status = ''completed'', chk_score = Some (out_score out), chk_passed = Some (out_passed out),
           chk_issues = as_i32 (int (length (out_issues out))), chk_critical = n ''critical'',
           chk_high = n ''high'', chk_medium = n ''medium'', chk_low = n ''low'',
           chk_info = as_i32 (int (length (filter (\<lambda>i. to_lowercase (issue_severity i) \<notin>
              {''critical'', ''high'', ''medium'', ''low''}) (out_issues out)))),
           chk_created = now \<rparr>)"

text \<open>Issues are inserted one by one; a failure leaves those before it. \<open>ids\<close> are the identifiers the
  database gives.\<close>

fun persist_issues ::
  "(nat \<Rightarrow> string option) \<Rightarrow> (nat \<Rightarrow> uuid) \<Rightarrow> uuid \<Rightarrow> uuid \<Rightarrow> nat \<Rightarrow> raw_quality_issue list
   \<Rightarrow> (quality_db, unit) action" where
  "persist_issues fail ids cid aid n [] = give ()"
| "persist_issues fail ids cid aid n (i # is) =
     andthen (execute (\<lambda>_. fail n) ''insert issue'' (\<lambda>db. db\<lparr> check_issues := check_issues db @
         [\<lparr> issue_severity = issue_severity i, issue_category = issue_category i, issue_title = issue_title i,
            issue_location = issue_location i, qi_id = ids n, qi_check = cid, qi_artifact = aid,
            qi_suppressed = False, qi_suppressed_by = None, qi_suppressed_reason = None,
            qi_suppressed_at = None \<rparr>] \<rparr>))
       (\<lambda>_. persist_issues fail ids cid aid (Suc n) is)"

text \<open>The environment: faults, clock, identifiers (of the check and of its issues), disk and libraries.\<close>

record 'bytes check_env =
  ce_fail :: faults
  ce_issue_fail :: "string \<Rightarrow> nat \<Rightarrow> string option"
  ce_now :: datetime
  ce_check_id :: "string \<Rightarrow> uuid"
  ce_issue_id :: "string \<Rightarrow> nat \<Rightarrow> uuid"
  ce_disk :: "string \<Rightarrow> string \<Rightarrow> string + 'bytes"
  ce_helm :: "'bytes helm_libraries"

definition persist_check_result ::
  "'bytes check_env \<Rightarrow> uuid \<Rightarrow> uuid \<Rightarrow> string \<Rightarrow> quality_check_output \<Rightarrow> (quality_db, uuid) action" where
  "persist_check_result env aid rid type_name out =
     (let cid = ce_check_id env type_name
      in andthen (execute (ce_fail env) (''insert '' @ type_name) (\<lambda>db. db\<lparr> check_results := check_results db @
             [check_row (ce_now env) cid aid rid type_name out] \<rparr>)) (\<lambda>_.
         andthen (persist_issues (ce_issue_fail env type_name) (ce_issue_id env type_name) cid aid 0 (out_issues out))
           (\<lambda>_. give cid)))"

text \<open>The content is always read from the file system, whatever the repository's storage backend.\<close>

definition fetch_artifact_content :: "'bytes check_env \<Rightarrow> quality_artifact \<Rightarrow> (quality_db, 'bytes) action" where
  "fetch_artifact_content env a =
     andthen (select (ce_fail env) ''storage path'' (\<lambda>db. repo_storage_path db (qa_repository a))) (\<lambda>path.
     andthen (some_or (Database ''Failed to fetch storage_path: no rows returned'') path) (\<lambda>p.
     of_result (case ce_disk env p (qa_storage_key a) of
        Inl e \<Rightarrow> Inl (Storage (''Failed to read artifact: '' @ e)) | Inr b \<Rightarrow> Inr b)))"

definition check_artifact :: "'bytes check_env \<Rightarrow> uuid \<Rightarrow> (quality_db, unit) action" where
  "check_artifact env aid =
     andthen (select (ce_fail env) ''artifact'' (\<lambda>db.
         find (\<lambda>a. qa_id a = aid \<and> \<not> qa_deleted a) (qa_artifacts db))) (\<lambda>row.
     andthen (some_or (NotFound ''Artifact not found'') row) (\<lambda>a.
     andthen (select (ce_fail env) ''metadata'' (\<lambda>_. qa_metadata a)) (\<lambda>meta.
     andthen (select (ce_fail env) ''format'' (\<lambda>db. repo_format db (qa_repository a))) (\<lambda>fmt.
     andthen (some_or (Database ''Failed to fetch format: no rows returned'') fmt) (\<lambda>format.
     andthen (fetch_artifact_content env a) (\<lambda>content.
     andthen (persist_check_result env aid (qa_repository a) ''metadata_completeness''
         (metadata_check (qa_version a) meta)) (\<lambda>_.
     andthen (if format = ''helm''
         then andthen (persist_check_result env aid (qa_repository a) ''helm_lint'' (helm_check (ce_helm env) content))
           (\<lambda>_. give ())
         else give ()) (\<lambda>_.
     recalculate_artifact_health (ce_fail env) (ce_now env) aid))))))))"

text \<open>Every artifact of a repository; each one's failure is only logged.\<close>

fun check_each :: "(uuid \<Rightarrow> 'bytes check_env) \<Rightarrow> uuid list \<Rightarrow> (quality_db, unit) action" where
  "check_each env [] = give ()"
| "check_each env (a # as) = andthen (ignore_error (check_artifact (env a) a)) (\<lambda>_. check_each env as)"

definition check_repository :: "faults \<Rightarrow> (uuid \<Rightarrow> 'bytes check_env) \<Rightarrow> uuid \<Rightarrow> (quality_db, nat) action" where
  "check_repository fail env rid =
     andthen (select fail ''artifacts of repository'' (\<lambda>db.
         map qa_id (filter (\<lambda>a. qa_repository a = rid \<and> \<not> qa_deleted a) (qa_artifacts db)))) (\<lambda>ids.
     andthen (check_each env ids) (\<lambda>_. give (length ids)))"

definition suppress_issue ::
  "faults \<Rightarrow> datetime \<Rightarrow> uuid \<Rightarrow> uuid \<Rightarrow> string \<Rightarrow> (quality_db, unit) action" where
  "suppress_issue fail now iid uid reason =
     andthen (select fail ''suppress'' (\<lambda>db. list_ex (\<lambda>i. qi_id i = iid) (check_issues db))) (\<lambda>hit.
     andthen (run_or hit (NotFound ''Quality check issue not found'')) (\<lambda>_.
     execute (\<lambda>_. None) ''suppress'' (\<lambda>db. db\<lparr> check_issues := map (\<lambda>i. if qi_id i = iid
        then i\<lparr> qi_suppressed := True, qi_suppressed_by := Some uid, qi_suppressed_reason := Some reason,
               qi_suppressed_at := Some now \<rparr> else i) (check_issues db) \<rparr>)))"

definition unsuppress_issue :: "faults \<Rightarrow> uuid \<Rightarrow> (quality_db, unit) action" where
  "unsuppress_issue fail iid =
     andthen (select fail ''unsuppress'' (\<lambda>db. list_ex (\<lambda>i. qi_id i = iid) (check_issues db))) (\<lambda>hit.
     andthen (run_or hit (NotFound ''Quality check issue not found'')) (\<lambda>_.
     execute (\<lambda>_. None) ''unsuppress'' (\<lambda>db. db\<lparr> check_issues := map (\<lambda>i. if qi_id i = iid
        then i\<lparr> qi_suppressed := False, qi_suppressed_by := None, qi_suppressed_reason := None,
               qi_suppressed_at := None \<rparr> else i) (check_issues db) \<rparr>)))"

section \<open>Gates\<close>

definition check_min_score ::
  "string \<Rightarrow> string \<Rightarrow> int option \<Rightarrow> int \<Rightarrow> gate_violation list \<Rightarrow> gate_violation list" where
  "check_min_score rule label threshold actual vs =
     (case threshold of
        None \<Rightarrow> vs
      | Some m \<Rightarrow> if actual < m
          then vs @ [\<lparr> gv_rule = rule, gv_expected = ''>= '' @ show_int m, gv_actual = show_int actual,
             gv_message = label @ '' score '' @ show_int actual @ '' is below minimum '' @ show_int m \<rparr>]
          else vs)"

definition check_max_issues ::
  "string \<Rightarrow> string \<Rightarrow> int option \<Rightarrow> int \<Rightarrow> gate_violation list \<Rightarrow> gate_violation list" where
  "check_max_issues rule label threshold actual vs =
     (case threshold of
        None \<Rightarrow> vs
      | Some m \<Rightarrow> if actual > m
          then vs @ [\<lparr> gv_rule = rule, gv_expected = ''<= '' @ show_int m, gv_actual = show_int actual,
             gv_message = label @ '' issues count '' @ show_int actual @ '' exceeds maximum '' @ show_int m \<rparr>]
          else vs)"

definition quote :: char where "quote = char_of (39 :: nat)"

definition check_required :: "string list \<Rightarrow> string list \<Rightarrow> gate_violation list" where
  "check_required completed required =
     map (\<lambda>r. \<lparr> gv_rule = ''required_checks'', gv_expected = ''check '' @ [quote] @ r @ [quote] @ '' completed'',
                 gv_actual = ''not found'',
                 gv_message = ''Required check '' @ [quote] @ r @ [quote] @ '' has not been completed'' \<rparr>)
       (filter (\<lambda>r. r \<notin> set completed) required)"

definition or_zero :: "int option \<Rightarrow> int" where
  "or_zero x = (case x of Some v \<Rightarrow> v | None \<Rightarrow> 0)"

text \<open>The thresholds in the order of the code.\<close>

definition threshold_violations :: "quality_gate \<Rightarrow> artifact_health_score \<Rightarrow> gate_violation list" where
  "threshold_violations g h =
     check_max_issues ''max_medium_issues'' ''Total'' (max_medium_issues g) (total_issues h)
     (check_max_issues ''max_high_issues'' ''High'' (max_high_issues g) (as_i32 (total_issues h - critical_issues h))
     (check_max_issues ''max_critical_issues'' ''Critical'' (max_critical_issues g) (critical_issues h)
     (check_min_score ''min_metadata_score'' ''Metadata'' (min_metadata_score g) (or_zero (sc_metadata (health_components h)))
     (check_min_score ''min_quality_score'' ''Quality'' (min_quality_score g) (or_zero (sc_quality (health_components h)))
     (check_min_score ''min_security_score'' ''Security'' (min_security_score g) (or_zero (sc_security (health_components h)))
     (check_min_score ''min_health_score'' ''Health'' (min_health_score g) (health_score h) []))))))"

definition gate_for :: "uuid \<Rightarrow> quality_gate list \<Rightarrow> quality_gate option" where
  "gate_for rid gs = own_or_global gate_repository rid (filter gate_enabled gs)"

definition completed_types :: "uuid \<Rightarrow> quality_db \<Rightarrow> string list" where
  "completed_types aid db = remdups (map chk_type
     (filter (\<lambda>r. chk_artifact r = aid \<and> chk_status r = ''completed'') (check_results db)))"

definition completed_for :: "faults \<Rightarrow> uuid \<Rightarrow> quality_gate \<Rightarrow> (quality_db, string list) action" where
  "completed_for fail aid g = (if required_checks g = [] then give []
     else select fail ''completed types'' (completed_types aid))"

definition evaluation_of :: "quality_gate \<Rightarrow> artifact_health_score \<Rightarrow> string list \<Rightarrow> gate_evaluation" where
  "evaluation_of g h completed =
     (let vs = threshold_violations g h @ check_required completed (required_checks g)
      in \<lparr> ge_passed = (vs = []), ge_action = gate_action g, ge_gate = gate_name g,
           ge_score = health_score h, ge_grade = health_grade h, ge_violations = vs,
           ge_components = health_components h \<rparr>)"

definition evaluate_quality_gate :: "faults \<Rightarrow> uuid \<Rightarrow> uuid \<Rightarrow> (quality_db, gate_evaluation) action" where
  "evaluate_quality_gate fail aid rid =
     andthen (select fail ''gate'' (\<lambda>db. gate_for rid (gates db))) (\<lambda>row.
     andthen (some_or (NotFound ''No enabled quality gate found for this repository'') row) (\<lambda>g.
     andthen (select fail ''health'' (\<lambda>db. health db aid)) (\<lambda>score.
     andthen (some_or (NotFound ''No health score found for artifact; run quality checks first'') score) (\<lambda>h.
     andthen (completed_for fail aid g) (\<lambda>completed.
     andthen (execute fail ''insert evaluation'' (\<lambda>db. db\<lparr> gate_evaluations := gate_evaluations db @
         [(aid, gate_id g, evaluation_of g h completed)] \<rparr>)) (\<lambda>_.
     give (evaluation_of g h completed)))))))"

definition get_gate :: "faults \<Rightarrow> uuid \<Rightarrow> (quality_db, quality_gate) action" where
  "get_gate fail gid =
     andthen (select fail ''get gate'' (\<lambda>db. find (\<lambda>g. gate_id g = gid) (gates db)))
       (some_or (NotFound ''Quality gate not found''))"

text \<open>The row comes from the request, with the identifier and the times of the database.\<close>

definition create_gate :: "faults \<Rightarrow> uuid \<Rightarrow> datetime \<Rightarrow> quality_gate \<Rightarrow> (quality_db, quality_gate) action" where
  "create_gate fail gid now input =
     (let g = input\<lparr> gate_id := gid, gate_enabled := True, gate_created := now, gate_updated := now \<rparr>
      in andthen (execute fail ''insert gate'' (\<lambda>db. db\<lparr> gates := gates db @ [g] \<rparr>)) (\<lambda>_. give g))"

record update_gate_input =
  ug_name :: "string option"
  ug_description :: "string option"
  ug_min_health :: "int option"
  ug_min_security :: "int option"
  ug_min_quality :: "int option"
  ug_min_metadata :: "int option"
  ug_max_critical :: "int option"
  ug_max_high :: "int option"
  ug_max_medium :: "int option"
  ug_required :: "string list option"
  ug_on_promotion :: "bool option"
  ug_on_download :: "bool option"
  ug_action :: "string option"
  ug_enabled :: "bool option"

definition or_else :: "'a option \<Rightarrow> 'a option \<Rightarrow> 'a option" where
  "or_else x y = (case x of Some _ \<Rightarrow> x | None \<Rightarrow> y)"

definition unwrap_or :: "'a option \<Rightarrow> 'a \<Rightarrow> 'a" where
  "unwrap_or x d = (case x of Some v \<Rightarrow> v | None \<Rightarrow> d)"

definition updated_gate :: "datetime \<Rightarrow> update_gate_input \<Rightarrow> quality_gate \<Rightarrow> quality_gate" where
  "updated_gate now u g = g\<lparr>
     gate_name := unwrap_or (ug_name u) (gate_name g),
     gate_description := or_else (ug_description u) (gate_description g),
     min_health_score := or_else (ug_min_health u) (min_health_score g),
     min_security_score := or_else (ug_min_security u) (min_security_score g),
     min_quality_score := or_else (ug_min_quality u) (min_quality_score g),
     min_metadata_score := or_else (ug_min_metadata u) (min_metadata_score g),
     max_critical_issues := or_else (ug_max_critical u) (max_critical_issues g),
     max_high_issues := or_else (ug_max_high u) (max_high_issues g),
     max_medium_issues := or_else (ug_max_medium u) (max_medium_issues g),
     required_checks := unwrap_or (ug_required u) (required_checks g),
     enforce_on_promotion := unwrap_or (ug_on_promotion u) (enforce_on_promotion g),
     enforce_on_download := unwrap_or (ug_on_download u) (enforce_on_download g),
     gate_action := unwrap_or (ug_action u) (gate_action g),
     gate_enabled := unwrap_or (ug_enabled u) (gate_enabled g),
     gate_updated := now \<rparr>"

definition update_gate :: "faults \<Rightarrow> datetime \<Rightarrow> uuid \<Rightarrow> update_gate_input \<Rightarrow> (quality_db, quality_gate) action" where
  "update_gate fail now gid u =
     andthen (get_gate fail gid) (\<lambda>old.
       (let g = updated_gate now u old
        in andthen (execute fail ''update gate'' (\<lambda>db. db\<lparr> gates :=
             map (\<lambda>x. if gate_id x = gid then g else x) (gates db) \<rparr>)) (\<lambda>_. give g)))"

definition delete_gate :: "faults \<Rightarrow> uuid \<Rightarrow> (quality_db, unit) action" where
  "delete_gate fail gid =
     andthen (select fail ''delete gate'' (\<lambda>db. list_ex (\<lambda>g. gate_id g = gid) (gates db))) (\<lambda>hit.
     andthen (execute (\<lambda>_. None) ''delete gate'' (\<lambda>db. db\<lparr> gates := filter (\<lambda>g. gate_id g \<noteq> gid) (gates db) \<rparr>))
       (\<lambda>_. run_or hit (NotFound ''Quality gate not found'')))"

section \<open>The health score is a weighted mean\<close>

definition present :: "component_scores \<Rightarrow> int list" where
  "present c = List.map_filter fst (components c)"

lemmas weights = weight_security_def weight_license_def weight_quality_def weight_metadata_def

text \<open>Partial sums stay between the weighted bounds, so nothing wraps.\<close>

definition between :: "int \<Rightarrow> int \<Rightarrow> int \<times> int \<Rightarrow> bool" where
  "between lo hi acc \<longleftrightarrow> lo * snd acc \<le> fst acc \<and> fst acc \<le> hi * snd acc \<and> 0 \<le> snd acc"

lemma add_component_between:
  assumes "between lo hi acc" and "0 \<le> lo" and "hi \<le> 100" and "0 < w" and "snd acc + w \<le> 100"
    and "\<forall>s. x = Some s \<longrightarrow> lo \<le> s \<and> s \<le> hi"
  shows "between lo hi (add_component (x, w) acc)
    \<and> snd (add_component (x, w) acc) = (if x = None then snd acc else snd acc + w)"
proof (cases x)
  case (Some s)
  have s: "lo \<le> s" "s \<le> hi" "0 \<le> s" "s \<le> 100" using assms(2,3,6) Some by auto
  have m: "lo * w \<le> s * w" "s * w \<le> hi * w" "0 \<le> s * w" "s * w \<le> 100 * w"
    using s assms(4) by (simp_all add: mult_right_mono)
  have a: "0 \<le> fst acc" "fst acc \<le> 100 * snd acc" "0 \<le> snd acc"
    using order_trans [OF mult_nonneg_nonneg [of lo "snd acc"]] assms(1-3)
      order_trans [OF _ mult_right_mono [of hi 100 "snd acc"]]
    by (simp_all add: between_def)
  have p: "s * w \<le> 10000" using mult_mono [of s 100 w 100] s a assms(4,5) by simp
  have "as_i32 (s * w) = s * w" "as_i32 (snd acc + w) = snd acc + w" "as_i32 (fst acc + s * w) = fst acc + s * w"
    using m(3) p a assms(4,5) by (auto intro!: as_i32_id)
  moreover have "lo * (snd acc + w) \<le> fst acc + s * w" "fst acc + s * w \<le> hi * (snd acc + w)"
    unfolding distrib_left using assms(1) m(1,2) by (auto simp: between_def intro!: add_mono)
  ultimately show ?thesis
    using Some a(3) assms(4) by (simp add: add_component_def between_def)
qed (simp add: assms(1) add_component_def)

lemma health_mean:
  assumes "\<forall>s \<in> set (present c). lo \<le> s \<and> s \<le> hi" and "0 \<le> lo" and "hi \<le> 100" and "present c \<noteq> []"
  shows "lo \<le> compute_weighted_health_score c \<and> compute_weighted_health_score c \<le> hi"
proof -
  let ?acc = "fold add_component (components c) (0, 0)"
  have in_range: "\<forall>s. x = Some s \<longrightarrow> lo \<le> s \<and> s \<le> hi" if "(x, w) \<in> set (components c)" for x w
    using assms(1) that by (force simp: present_def List.map_filter_def)
  have "between lo hi ?acc \<and> 0 < snd ?acc"
  proof -
    note step = add_component_between [OF _ assms(2,3)]
    have r: "\<forall>s. sc_security c = Some s \<longrightarrow> lo \<le> s \<and> s \<le> hi" "\<forall>s. sc_license c = Some s \<longrightarrow> lo \<le> s \<and> s \<le> hi"
        "\<forall>s. sc_quality c = Some s \<longrightarrow> lo \<le> s \<and> s \<le> hi" "\<forall>s. sc_metadata c = Some s \<longrightarrow> lo \<le> s \<and> s \<le> hi"
      using in_range [of "sc_security c" weight_security] in_range [of "sc_license c" weight_license]
        in_range [of "sc_quality c" weight_quality] in_range [of "sc_metadata c" weight_metadata]
      by (simp_all add: components_def)
    have start: "between lo hi (0, 0)" by (simp add: between_def)
    define a1 where "a1 = add_component (sc_security c, 40) (0, 0)"
    define a2 where "a2 = add_component (sc_license c, 20) a1"
    define a3 where "a3 = add_component (sc_quality c, 25) a2"
    define a4 where "a4 = add_component (sc_metadata c, 15) a3"
    have 1: "between lo hi a1 \<and> snd a1 = (if sc_security c = None then 0 else 40)"
      using step [OF start, of 40 "sc_security c"] r(1) by (simp add: a1_def)
    have 2: "between lo hi a2 \<and> snd a2 = (if sc_license c = None then snd a1 else snd a1 + 20)"
      using step [of a1 20 "sc_license c"] r(2) 1 by (simp add: a2_def split: if_splits)
    have 3: "between lo hi a3 \<and> snd a3 = (if sc_quality c = None then snd a2 else snd a2 + 25)"
      using step [of a2 25 "sc_quality c"] r(3) 1 2 by (simp add: a3_def split: if_splits)
    have 4: "between lo hi a4 \<and> snd a4 = (if sc_metadata c = None then snd a3 else snd a3 + 15)"
      using step [of a3 15 "sc_metadata c"] r(4) 1 2 3 by (simp add: a4_def split: if_splits)
    have "0 < snd a4"
      using 1 2 3 4 assms(4)
      by (auto simp: present_def components_def List.map_filter_def split: if_splits option.splits)
    moreover have "?acc = a4"
      by (simp add: components_def weights a1_def a2_def a3_def a4_def)
    ultimately show ?thesis using 4 by simp
  qed
  then have b: "lo * snd ?acc \<le> fst ?acc" "fst ?acc \<le> hi * snd ?acc" "0 < snd ?acc" "0 \<le> fst ?acc"
    using assms(2) order_trans [OF mult_nonneg_nonneg [of lo "snd ?acc"]] by (simp_all add: between_def)
  then have "lo \<le> fst ?acc div snd ?acc" "fst ?acc div snd ?acc \<le> hi"
    using zdiv_mono1 [OF b(1,3)] zdiv_mono1 [OF b(2,3)] by simp_all
  with b show ?thesis
    by (simp add: compute_weighted_health_score_def split_beta)
qed

text \<open>The health score is a mean of the components that have data: when each lies between \<open>lo\<close> and
  \<open>hi\<close> within 0 to 100, so does the score, in spite of the truncating division, and no \<open>i32\<close> operation
  wraps; without any data it is 100.\<close>

theorem health_between_components:
  assumes "\<forall>s \<in> set (present c). lo \<le> s \<and> s \<le> hi" and "0 \<le> lo" and "hi \<le> 100" and "present c \<noteq> []"
  shows "lo \<le> compute_weighted_health_score c \<and> compute_weighted_health_score c \<le> hi
    \<and> compute_weighted_health_score (c\<lparr> sc_security := None, sc_license := None, sc_quality := None,
         sc_metadata := None \<rparr>) = 100"
  using health_mean [OF assms] by (simp add: compute_weighted_health_score_def components_def add_component_def)

lemma health_between_components_witness:
  "\<exists>c. present c = [90, 55] \<and> compute_weighted_health_score c = 80
     \<and> 55 \<le> compute_weighted_health_score c \<and> compute_weighted_health_score c \<le> 90"
proof (intro exI conjI)
  let ?c = "\<lparr> sc_security = Some 90, sc_license = None, sc_quality = None, sc_metadata = Some 55 \<rparr>"
  show "present ?c = [90, 55]" "compute_weighted_health_score ?c = 80"
    by (simp_all add: present_def components_def List.map_filter_def weights compute_weighted_health_score_def
        add_component_def as_i32_def)
  have "\<forall>s \<in> set (present ?c). 55 \<le> s \<and> s \<le> 90"
    by (simp add: present_def components_def List.map_filter_def)
  moreover have "present ?c \<noteq> []" by (simp add: present_def components_def List.map_filter_def)
  ultimately show "55 \<le> compute_weighted_health_score ?c" "compute_weighted_health_score ?c \<le> 90"
    using health_between_components [of ?c 55 90] by simp_all
qed

section \<open>What a gate demands\<close>

definition at_least :: "int option \<Rightarrow> int \<Rightarrow> bool" where
  "at_least threshold x = (case threshold of None \<Rightarrow> True | Some m \<Rightarrow> m \<le> x)"

definition at_most :: "int option \<Rightarrow> int \<Rightarrow> bool" where
  "at_most threshold x = (case threshold of None \<Rightarrow> True | Some m \<Rightarrow> x \<le> m)"

definition gate_met :: "quality_gate \<Rightarrow> artifact_health_score \<Rightarrow> string list \<Rightarrow> bool" where
  "gate_met g h completed \<longleftrightarrow>
     at_least (min_health_score g) (health_score h)
     \<and> at_least (min_security_score g) (or_zero (sc_security (health_components h)))
     \<and> at_least (min_quality_score g) (or_zero (sc_quality (health_components h)))
     \<and> at_least (min_metadata_score g) (or_zero (sc_metadata (health_components h)))
     \<and> at_most (max_critical_issues g) (critical_issues h)
     \<and> at_most (max_high_issues g) (as_i32 (total_issues h - critical_issues h))
     \<and> at_most (max_medium_issues g) (total_issues h)
     \<and> set (required_checks g) \<subseteq> set completed"

lemma check_min_score_nil: "check_min_score rule label t x vs = [] \<longleftrightarrow> vs = [] \<and> at_least t x"
  by (auto simp: check_min_score_def at_least_def split: option.split)

lemma check_max_issues_nil: "check_max_issues rule label t x vs = [] \<longleftrightarrow> vs = [] \<and> at_most t x"
  by (auto simp: check_max_issues_def at_most_def split: option.split)

lemma gate_met_iff:
  "gate_met g h completed \<longleftrightarrow> threshold_violations g h @ check_required completed (required_checks g) = []"
  by (auto simp: gate_met_def threshold_violations_def check_min_score_nil check_max_issues_nil
      check_required_def filter_empty_conv)

lemma completed_for_ok:
  "completed_for fail aid g db = (Inr completed, t) \<Longrightarrow>
     t = db \<and> check_required completed (required_checks g) = check_required (completed_types aid db) (required_checks g)"
  by (auto simp: completed_for_def action_simps check_required_def split: if_splits)

lemma gate_for_Some:
  assumes "gate_for rid gs = Some g"
  shows "g \<in> set gs \<and> gate_enabled g \<and> gate_repository g \<in> {Some rid, None}
    \<and> (gate_repository g = None \<longleftrightarrow> (\<forall>x \<in> set gs. \<not> (gate_enabled x \<and> gate_repository x = Some rid)))"
  using own_or_global_Some [OF assms [unfolded gate_for_def]] by auto


definition sample_gate :: quality_gate where
  "sample_gate = \<lparr> gate_id = 1, gate_repository = Some 7, gate_name = ''release'', gate_description = None,
     min_health_score = Some 70, min_security_score = Some 10, min_quality_score = None,
     min_metadata_score = None, max_critical_issues = Some 0, max_high_issues = None, max_medium_issues = None,
     required_checks = [''metadata_completeness''], enforce_on_promotion = True, enforce_on_download = False,
     gate_action = ''block'', gate_enabled = True, gate_created = 0, gate_updated = 0 \<rparr>"

definition sample_quality_db :: quality_db where
  "sample_quality_db = \<lparr> qa_artifacts = [\<lparr> qa_id = 3, qa_repository = 7, qa_deleted = False,
       qa_version = Some ''1.0'', qa_metadata = None, qa_storage_key = ''k'' \<rparr>],
     repo_format = Map.empty(7 \<mapsto> ''npm''), repo_storage_path = Map.empty(7 \<mapsto> ''/data''),
     repo_security_scores = Map.empty, check_results = [], check_issues = [], health = Map.empty,
     gates = [sample_gate], gate_evaluations = [] \<rparr>"

definition sample_check_env :: "string check_env" where
  "sample_check_env = \<lparr> ce_fail = (\<lambda>_. None), ce_issue_fail = (\<lambda>_ _. None), ce_now = 0,
     ce_check_id = (\<lambda>_. 10), ce_issue_id = (\<lambda>_ n. 20 + n), ce_disk = (\<lambda>_ _. Inr []),
     ce_helm = \<lparr> gunzip = (\<lambda>_. None), tar_entries = (\<lambda>_. None), parse_yaml = (\<lambda>_. None) \<rparr> \<rparr>"

text \<open>The sample artifact has a version only: 20 points of 100, and four things missing.\<close>

definition sample_health :: artifact_health_score where
  "sample_health = \<lparr> health_score = 20, health_grade = CHR ''F'', health_components =
     \<lparr> sc_security = None, sc_license = None, sc_quality = None, sc_metadata = Some 20 \<rparr>,
     total_issues = 4, critical_issues = 0, checks_passed = 0, checks_total = 1, calculated_at = 0 \<rparr>"

definition sample_output :: quality_check_output where
  "sample_output = \<lparr> out_score = 20, out_passed = False, out_issues =
     [missing_metadata ''low'' ''Missing description'', missing_metadata ''medium'' ''Missing license declaration'',
      missing_metadata ''low'' ''Missing author or maintainer'',
      missing_metadata ''low'' ''Missing documentation or homepage link''] \<rparr>"

lemma sample_metadata_check: "metadata_check (Some ''1.0'') None = sample_output"
  by (simp add: metadata_check_def award_def any_field_def points_version_def passing_threshold_def sample_output_def)

definition sample_row :: quality_check_result where
  "sample_row = \<lparr> chk_id = 10, chk_artifact = 3, chk_repository = 7, chk_type = ''metadata_completeness'',
     chk_status = ''completed'', chk_score = Some 20, chk_passed = Some False, chk_issues = 4, chk_critical = 0,
     chk_high = 0, chk_medium = 1, chk_low = 3, chk_info = 0, chk_created = 0 \<rparr>"

lemma sample_check_row: "check_row 0 10 3 7 ''metadata_completeness'' sample_output = sample_row"
proof -
  have "to_lowercase ''low'' = ''low''" "to_lowercase ''medium'' = ''medium''"
    by (simp_all add: to_lowercase_def lower_char_def)
  then show ?thesis by (simp add: sample_output_def check_row_def sample_row_def count_severity_def missing_metadata_def)
qed

lemma sample_latest: "latest_by_type 3 [sample_row] = [sample_row]"
  by (simp add: latest_by_type_def sample_row_def List.map_filter_def)

lemma sample_health_from: "health_from 0 [sample_row] None = sample_health"
  by (simp add: sample_row_def List.map_filter_def health_from_def compute_weighted_health_score_def components_def
      add_component_def weights quality_of_def metadata_of_def sum_i32_def issues_of_def grade_of_score_def
      sample_health_def)

lemma sample_issues: "out_issues sample_output =
    [missing_metadata ''low'' ''Missing description'', missing_metadata ''medium'' ''Missing license declaration'',
     missing_metadata ''low'' ''Missing author or maintainer'',
     missing_metadata ''low'' ''Missing documentation or homepage link'']"
  by (simp add: sample_output_def)

lemma sample_check:
  "\<exists>db. check_artifact sample_check_env 3 sample_quality_db = (Inr (), db) \<and> health db 3 = Some sample_health
     \<and> gates db = [sample_gate] \<and> completed_types 3 db = [''metadata_completeness'']"
  by (simp add: check_artifact_def fetch_artifact_content_def persist_check_result_def sample_metadata_check
      recalculate_artifact_health_def run_simps sample_check_env_def sample_quality_db_def sample_check_row
      sample_latest sample_health_from sample_issues completed_types_def)
    (simp add: sample_row_def)


section \<open>The tables' constraints hold\<close>

definition score_ok :: "int option \<Rightarrow> bool" where
  "score_ok x = (case x of None \<Rightarrow> True | Some s \<Rightarrow> 0 \<le> s \<and> s \<le> 100)"

definition health_ok :: "artifact_health_score \<Rightarrow> bool" where
  "health_ok h \<longleftrightarrow> 0 \<le> health_score h \<and> health_score h \<le> 100
     \<and> health_grade h = grade_of_score (health_score h)
     \<and> list_all (\<lambda>(s, w). score_ok s) (components (health_components h))"

definition quality_tables_ok :: "quality_db \<Rightarrow> bool" where
  "quality_tables_ok db \<longleftrightarrow>
     (\<forall>r \<in> set (check_results db). score_ok (chk_score r)
        \<and> chk_type r \<in> {''metadata_completeness'', ''helm_lint''})
     \<and> (\<forall>rid. score_ok (repo_security_scores db rid))
     \<and> (\<forall>aid h. health db aid = Some h \<longrightarrow> health_ok h)"

lemma newest_the: "\<exists>x \<in> set rs. P x \<Longrightarrow> the (newest (filter P rs)) \<in> set rs"
  using latest_on_None [of chk_created "filter P rs"] latest_on_member [of chk_created "filter P rs"]
  by (cases "newest (filter P rs)") (auto simp: filter_empty_conv)

lemma latest_by_type_member: "r \<in> set (latest_by_type aid rows) \<Longrightarrow> r \<in> set rows"
  by (auto simp: latest_by_type_def Let_def List.map_filter_def intro!: newest_the)

lemma latest_types: "map chk_type (latest_by_type aid rows)
    = sort (remdups (map chk_type (filter (\<lambda>r. chk_artifact r = aid \<and> chk_status r = ''completed'') rows)))"
proof -
  define finished where "finished = filter (\<lambda>r. chk_artifact r = aid \<and> chk_status r = ''completed'') rows"
  have "map chk_type (List.map_filter (\<lambda>t. newest (filter (\<lambda>r. chk_type r = t) finished)) ts) = ts"
    if "set ts \<subseteq> chk_type ` set finished" for ts
    using that
  proof (induction ts)
    case (Cons t ts)
    then obtain r where r: "newest (filter (\<lambda>r. chk_type r = t) finished) = Some r"
      by (cases "newest (filter (\<lambda>r. chk_type r = t) finished)") (auto simp: latest_on_None filter_empty_conv)
    with latest_on_member [OF r] Cons show ?case by simp
  qed simp
  then show ?thesis by (simp add: latest_by_type_def finished_def Let_def)
qed

lemma mean_of_one: "0 \<le> s \<Longrightarrow> s \<le> 100 \<Longrightarrow> trunc_div (sum_i32 [s]) (as_i32 (int (length [s]))) = s"
  by (simp add: sum_i32_def)

lemma health_from_ok:
  assumes "quality_tables_ok db" and "score_ok security"
  shows "health_ok (health_from now (latest_by_type aid (check_results db)) security)"
proof -
  let ?rows = "latest_by_type aid (check_results db)"
  let ?c = "\<lparr> sc_security = security, sc_license = None, sc_quality = quality_of ?rows,
              sc_metadata = metadata_of ?rows \<rparr>"
  have rows: "\<forall>r \<in> set ?rows. score_ok (chk_score r) \<and> chk_type r \<in> {''metadata_completeness'', ''helm_lint''}"
    using assms(1) latest_by_type_member by (auto simp: quality_tables_ok_def)
  have quality: "score_ok (quality_of ?rows)"
  proof -
    let ?qs = "filter (\<lambda>r. chk_type r \<noteq> ''metadata_completeness'') ?rows"
    have "distinct (map chk_type ?rows)" by (simp add: latest_types)
    then have "distinct (map chk_type ?qs)" by (rule distinct_map_filter)
    moreover have "set (map chk_type ?qs) \<subseteq> {''helm_lint''}" using rows by auto
    ultimately have "length ?qs \<le> 1"
      using card_mono [of "{''helm_lint''}" "set (map chk_type ?qs)"] distinct_card [of "map chk_type ?qs"] by simp
    then consider "?qs = []" | r where "?qs = [r]" by (cases ?qs) auto
    then show ?thesis
    proof cases
      case 2
      have "r \<in> set ?qs" unfolding 2 by simp
      then have "r \<in> set ?rows" by (simp only: set_filter mem_Collect_eq)
      with rows have "score_ok (chk_score r)" by simp
      then show ?thesis
        unfolding quality_of_def 2 Let_def
        by (cases "chk_score r") (simp_all add: List.map_filter_def score_ok_def mean_of_one del: list.size)
    qed (simp add: quality_of_def List.map_filter_def score_ok_def)
  qed
  have meta: "score_ok (metadata_of ?rows)"
    using rows find_SomeD [of "\<lambda>r. chk_type r = ''metadata_completeness''" ?rows]
    by (cases "find (\<lambda>r. chk_type r = ''metadata_completeness'') ?rows") (auto simp: metadata_of_def score_ok_def)
  have comps: "list_all (\<lambda>(s, w). score_ok s) (components ?c)"
    using assms(2) quality meta by (simp add: components_def) (simp add: score_ok_def)
  have "0 \<le> compute_weighted_health_score ?c \<and> compute_weighted_health_score ?c \<le> 100"
  proof (cases "present ?c = []")
    case True
    then have "security = None" "quality_of ?rows = None" "metadata_of ?rows = None"
      by (auto simp: present_def components_def List.map_filter_def split: if_splits option.splits)
    then show ?thesis by (simp add: compute_weighted_health_score_def components_def add_component_def)
  next
    case False
    have "\<forall>s \<in> set (present ?c). 0 \<le> s \<and> s \<le> 100"
      using comps by (auto simp: present_def List.map_filter_def list_all_iff score_ok_def split: option.splits)
    from health_mean [OF this _ _ False] show ?thesis by simp
  qed
  with comps show ?thesis by (simp add: health_ok_def health_from_def Let_def)
qed

definition kept :: "quality_db \<Rightarrow> quality_db \<Rightarrow> bool" where
  "kept s t \<longleftrightarrow> (quality_tables_ok s \<longrightarrow> quality_tables_ok t)"

lemma kept_rel [intro, simp]: "reflp kept" "transp kept"
  by (auto simp: kept_def reflp_def transp_def)

named_theorems kept_intros "operations that keep the tables' constraints"

lemma kept_gates [kept_intros]: "keeps kept (execute fail name (\<lambda>db. db\<lparr> gates := f db \<rparr>))"
  by (rule keeps_execute) (simp_all add: kept_def quality_tables_ok_def)

lemma kept_issues [kept_intros]: "keeps kept (execute fail name (\<lambda>db. db\<lparr> check_issues := f db \<rparr>))"
  by (rule keeps_execute) (simp_all add: kept_def quality_tables_ok_def)

lemma kept_evaluations [kept_intros]: "keeps kept (execute fail name (\<lambda>db. db\<lparr> gate_evaluations := f db \<rparr>))"
  by (rule keeps_execute) (simp_all add: kept_def quality_tables_ok_def)

lemma kept_then [kept_intros]: "keeps kept m \<Longrightarrow> (\<And>a. keeps kept (f a)) \<Longrightarrow> keeps kept (andthen m f)"
  by (rule keeps_andthen) simp_all

lemma kept_persist_issues [kept_intros]: "keeps kept (persist_issues fail ids cid aid n is)"
  by (induction "is" arbitrary: n) (auto intro!: kept_intros)

lemma kept_persist_result [kept_intros]:
  assumes "sound_output out" and "t \<in> {''metadata_completeness'', ''helm_lint''}"
  shows "keeps kept (persist_check_result env aid rid t out)"
proof -
  have "kept db (db\<lparr> check_results := check_results db @ [check_row (ce_now env) cid aid rid t out] \<rparr>)" for db cid
    using assms by (auto simp: kept_def quality_tables_ok_def check_row_def score_ok_def sound_output_def Let_def)
  then show ?thesis
    unfolding persist_check_result_def Let_def by (auto intro!: kept_intros keeps_execute)
qed

lemma kept_recalculate [kept_intros]: "keeps kept (recalculate_artifact_health fail now aid)"
proof -
  have "kept s (s\<lparr> health := (health s)(aid \<mapsto> health_from now (latest_by_type aid (check_results s))
      (Option.bind (find (\<lambda>a. qa_id a = aid) (qa_artifacts s)) (\<lambda>a. repo_security_scores s (qa_repository a)))) \<rparr>)" for s
  proof -
    have "score_ok (Option.bind (find (\<lambda>a. qa_id a = aid) (qa_artifacts s)) (\<lambda>a. repo_security_scores s (qa_repository a)))"
      if "quality_tables_ok s"
      using that by (cases "find (\<lambda>a. qa_id a = aid) (qa_artifacts s)") (auto simp: quality_tables_ok_def score_ok_def)
    with health_from_ok show ?thesis by (auto simp: kept_def quality_tables_ok_def)
  qed
  then show ?thesis
    by (simp add: keeps_def recalculate_artifact_health_def run_simps kept_def split: option.split)
qed

lemma kept_check_artifact [kept_intros]: "keeps kept (check_artifact env aid)"
  unfolding check_artifact_def fetch_artifact_content_def
  using metadata_check_sound helm_check_sound by (auto intro!: kept_intros)

lemma kept_check_each [kept_intros]: "keeps kept (check_each env as)"
  by (induction "as") (auto intro!: kept_intros keeps_ignore)

text \<open>Any operation of the service, or the security score's service storing a score in its range.\<close>

inductive quality_step :: "quality_db \<Rightarrow> quality_db \<Rightarrow> bool" where
  check: "quality_step db (snd (check_artifact (env :: string check_env) aid db))"
| check_all: "quality_step db (snd (check_repository fail (envs :: uuid \<Rightarrow> string check_env) rid db))"
| recalculate: "quality_step db (snd (recalculate_artifact_health fail now aid db))"
| evaluate: "quality_step db (snd (evaluate_quality_gate fail aid rid db))"
| suppress: "quality_step db (snd (suppress_issue fail now iid uid reason db))"
| unsuppress: "quality_step db (snd (unsuppress_issue fail iid db))"
| create: "quality_step db (snd (create_gate fail gid now input db))"
| update: "quality_step db (snd (update_gate fail now gid upd db))"
| delete: "quality_step db (snd (delete_gate fail gid db))"
| score: "0 \<le> s \<Longrightarrow> s \<le> 100 \<Longrightarrow>
    quality_step db (db\<lparr> repo_security_scores := (repo_security_scores db)(rid \<mapsto> s) \<rparr>)"


text \<open>C19: Every operation of the service keeps what the tables' constraints ask for: scores of checks and
  of repositories between 0 and 100, and health scores in that range with the grade that belongs to them.
  The constraints therefore never make an insertion of a score fail.\<close>

theorem quality_tables_stay_ok:
  assumes "quality_step db db'" and "quality_tables_ok db"
  shows "quality_tables_ok db'"
proof -
  have "kept db db'"
    using assms(1)
  proof cases
    case (check env aid)
    then show ?thesis using kept_check_artifact [of env aid] by (simp add: keeps_def)
  next
    case (check_all fail envs rid)
    have "keeps kept (check_repository fail envs rid)"
      unfolding check_repository_def by (auto intro!: kept_intros)
    with check_all show ?thesis by (simp add: keeps_def)
  next
    case (recalculate fail now aid)
    then show ?thesis using kept_recalculate by (simp add: keeps_def)
  next
    case (evaluate fail aid rid)
    have "keeps kept (evaluate_quality_gate fail aid rid)"
      unfolding evaluate_quality_gate_def completed_for_def by (auto intro!: kept_intros)
    with evaluate show ?thesis by (simp add: keeps_def)
  next
    case (suppress fail now iid uid reason)
    have "keeps kept (suppress_issue fail now iid uid reason)"
      unfolding suppress_issue_def by (auto intro!: kept_intros)
    with suppress show ?thesis by (simp add: keeps_def)
  next
    case (unsuppress fail iid)
    have "keeps kept (unsuppress_issue fail iid)"
      unfolding unsuppress_issue_def by (auto intro!: kept_intros)
    with unsuppress show ?thesis by (simp add: keeps_def)
  next
    case (create fail gid now input)
    have "keeps kept (create_gate fail gid now input)"
      unfolding create_gate_def Let_def by (auto intro!: kept_intros)
    with create show ?thesis by (simp add: keeps_def)
  next
    case (update fail now gid upd)
    have "keeps kept (update_gate fail now gid upd)"
      unfolding update_gate_def get_gate_def Let_def by (auto intro!: kept_intros)
    with update show ?thesis by (simp add: keeps_def)
  next
    case (delete fail gid)
    have "keeps kept (delete_gate fail gid)"
      unfolding delete_gate_def by (auto intro!: kept_intros)
    with delete show ?thesis by (simp add: keeps_def)
  next
    case (score s rid)
    then show ?thesis by (auto simp: kept_def quality_tables_ok_def score_ok_def)
  qed
  with assms(2) show ?thesis by (simp add: kept_def)
qed

lemma sample_tables_ok: "quality_tables_ok sample_quality_db"
  by (simp add: quality_tables_ok_def sample_quality_db_def score_ok_def)

lemma quality_tables_stay_ok_witness:
  "\<exists>db. quality_step sample_quality_db db \<and> health db 3 = Some sample_health \<and> quality_tables_ok db"
proof -
  obtain db where "check_artifact sample_check_env 3 sample_quality_db = (Inr (), db)"
    and h: "health db 3 = Some sample_health" using sample_check by blast
  then have s: "quality_step sample_quality_db db"
    using quality_step.check [of sample_quality_db sample_check_env 3] by simp
  with h quality_tables_stay_ok [OF s sample_tables_ok] show ?thesis by blast
qed


text \<open>The limit on high issues counts every issue that is not critical: the sample artifact has three low
  issues, a medium one and none that is high, and violates a limit of three high issues.\<close>

lemma minor_issues_count_as_high:
  "chk_high sample_row = 0 \<and> health_from 0 [sample_row] None = sample_health
   \<and> gv_rule ` set (threshold_violations (sample_gate\<lparr> min_health_score := None, min_security_score := None,
        max_high_issues := Some 3 \<rparr>) sample_health) = {''max_high_issues''}"
  by (simp add: sample_health_from)
    (simp add: sample_row_def threshold_violations_def check_min_score_def check_max_issues_def sample_gate_def
      sample_health_def)

end
