(* ===== verification/Promotion_Policy.thy ===== *)
theory Promotion_Policy
  imports Db_Actions Auth_Context
begin

text \<open>
  The policies an artifact must meet to be promoted (\<open>services/promotion_policy_service.rs\<close>): limits on
  the vulnerabilities of its newest scan, licenses, age and signature. Each violation escalates the action
  from \<open>Allow\<close> over \<open>Warn\<close> to \<open>Block\<close>. Counts are \<open>i32\<close>, read from the database and never added. The JSON
  details of a violation are left out.
\<close>

section \<open>Actions\<close>

datatype policy_action = Allow | Warn | Block

fun policy_action_as_str :: "policy_action \<Rightarrow> string" where
  "policy_action_as_str Allow = ''allow''"
| "policy_action_as_str Warn = ''warn''"
| "policy_action_as_str Block = ''block''"

definition policy_action_parse :: "string \<Rightarrow> policy_action option" where
  "policy_action_parse s =
     (let l = to_lowercase s
      in if l = ''allow'' then Some Allow else if l = ''warn'' then Some Warn
         else if l = ''block'' then Some Block else None)"

text \<open>The order that escalation follows.\<close>

fun strictness :: "policy_action \<Rightarrow> nat" where
  "strictness Allow = 0"
| "strictness Warn = 1"
| "strictness Block = 2"

lemma strictness_inj [simp]: "strictness a = strictness b \<longleftrightarrow> a = b"
  by (cases a; cases b) simp_all

instantiation policy_action :: linorder
begin

definition less_eq_policy_action :: "policy_action \<Rightarrow> policy_action \<Rightarrow> bool" where
  "less_eq_policy_action a b \<longleftrightarrow> strictness a \<le> strictness b"

definition less_policy_action :: "policy_action \<Rightarrow> policy_action \<Rightarrow> bool" where
  "less_policy_action a b \<longleftrightarrow> strictness a < strictness b"

instance
  by standard (auto simp: less_eq_policy_action_def less_policy_action_def)

end

lemmas action_order = less_eq_policy_action_def less_policy_action_def max_def

section \<open>Violations\<close>

record policy_violation =
  pv_rule :: string
  pv_severity :: string
  pv_message :: string

record cve_summary =
  critical_count :: int
  high_count :: int
  medium_count :: int
  low_count :: int
  total_count :: int
  open_cves :: "string list"

record license_summary =
  licenses_found :: "string list"
  summary_denied :: "string list"
  summary_unknown :: "string list"

record scan_policy_config =
  max_severity :: string
  block_on_fail :: bool
  min_staging_hours :: "int option"
  max_artifact_age_days :: "int option"
  require_signature :: bool

record license_policy_config =
  lp_name :: string
  allowed_licenses :: "string list"
  denied_licenses :: "string list"
  allow_unknown :: bool
  lp_action :: policy_action

definition i32_max :: int where "i32_max = 2 ^ 31 - 1"

text \<open>The limits on critical, high and medium findings; \<open>low\<close> is read as \<open>medium\<close>.\<close>

definition severity_limits :: "string \<Rightarrow> int \<times> int \<times> int" where
  "severity_limits severity =
     (let s = to_lowercase severity
      in if s = ''critical'' then (0, i32_max, i32_max)
         else if s = ''high'' then (0, 0, i32_max)
         else if s = ''medium'' \<or> s = ''low'' then (0, 0, 0)
         else (0, 0, i32_max))"

definition threshold_violation :: "string \<times> int \<times> int \<Rightarrow> policy_violation" where
  "threshold_violation c = (case c of (severity, count, limit) \<Rightarrow>
     \<lparr> pv_rule = ''cve-severity-threshold'', pv_severity = severity,
       pv_message = ''Found '' @ show_int count @ '' ''
         @ (if severity = ''high'' then ''high severity'' else severity)
         @ '' vulnerabilities (max allowed: '' @ show_int limit @ '')'' \<rparr>)"

definition evaluate_cve_thresholds :: "cve_summary \<Rightarrow> string \<Rightarrow> bool \<Rightarrow> policy_violation list" where
  "evaluate_cve_thresholds summary severity on_fail =
     (case severity_limits severity of (max_critical, max_high, max_medium) \<Rightarrow>
        map threshold_violation (filter (\<lambda>(_, count, limit). limit < count)
          [(''critical'', critical_count summary, max_critical), (''high'', high_count summary, max_high),
           (''medium'', medium_count summary, max_medium)]))"

text \<open>\<open>num_hours\<close> and \<open>num_days\<close> of a difference of instants, truncated towards zero.\<close>

definition num_hours :: "int \<Rightarrow> int" where "num_hours d = trunc_div d 3600000000000"
definition num_days :: "int \<Rightarrow> int" where "num_days d = trunc_div d 86400000000000"

definition evaluate_age_gates ::
  "datetime \<Rightarrow> datetime \<Rightarrow> int option \<Rightarrow> int option \<Rightarrow> policy_violation list" where
  "evaluate_age_gates now created min_hours max_days =
     (case min_hours of
        None \<Rightarrow> []
      | Some m \<Rightarrow> if num_hours (now - created) < m
          then [\<lparr> pv_rule = ''min-staging-time'', pv_severity = ''high'',
                  pv_message = ''Artifact has only been in staging for '' @ show_int (num_hours (now - created))
                    @ '' hours (minimum: '' @ show_int m @ '' hours)'' \<rparr>]
          else [])
     @ (case max_days of
        None \<Rightarrow> []
      | Some m \<Rightarrow> if num_days (now - created) > m
          then [\<lparr> pv_rule = ''max-artifact-age'', pv_severity = ''medium'',
                  pv_message = ''Artifact is '' @ show_int (num_days (now - created)) @ '' days old (maximum: ''
                    @ show_int m @ '' days)'' \<rparr>]
          else [])"

definition evaluate_signature_requirement :: "bool \<Rightarrow> policy_violation list" where
  "evaluate_signature_requirement has_signature =
     (if has_signature then []
      else [\<lparr> pv_rule = ''require-signature'', pv_severity = ''high'',
              pv_message = ''Artifact does not have a valid signature'' \<rparr>])"

text \<open>One license: denied, not in the allow list, or neither.\<close>

definition listed :: "string \<Rightarrow> string list \<Rightarrow> bool" where
  "listed license names = list_ex (\<lambda>d. to_uppercase d = to_uppercase license) names"

definition denied_by :: "license_policy_config \<Rightarrow> string \<Rightarrow> bool" where
  "denied_by p license = listed license (denied_licenses p)"

definition unknown_to :: "license_policy_config \<Rightarrow> string \<Rightarrow> bool" where
  "unknown_to p license \<longleftrightarrow> \<not> denied_by p license \<and> allowed_licenses p \<noteq> []
     \<and> \<not> listed license (allowed_licenses p) \<and> \<not> allow_unknown p"

fun license_severity :: "policy_action \<Rightarrow> string" where
  "license_severity Block = ''critical''"
| "license_severity Warn = ''medium''"
| "license_severity Allow = ''low''"

definition evaluate_license_policy :: "license_summary \<Rightarrow> license_policy_config \<Rightarrow> policy_violation list" where
  "evaluate_license_policy summary p =
     (let denied_found = filter (denied_by p) (licenses_found summary);
          unknown_found = filter (unknown_to p) (licenses_found summary)
      in (if denied_found = [] then []
          else [\<lparr> pv_rule = ''license-compliance'', pv_severity = license_severity (lp_action p),
                  pv_message = ''Found '' @ show_nat (length denied_found) @ '' denied licenses: ''
                    @ join '', '' denied_found \<rparr>])
         @ (if unknown_found = [] then []
          else [\<lparr> pv_rule = ''license-compliance'', pv_severity = ''medium'',
                  pv_message = ''Found '' @ show_nat (length unknown_found) @ '' licenses not in allowed list: ''
                    @ join '', '' unknown_found \<rparr>]))"

section \<open>Escalation\<close>

definition escalate_action_by_severity :: "policy_action \<Rightarrow> string \<Rightarrow> policy_action" where
  "escalate_action_by_severity current severity =
     (if severity = ''critical'' \<or> severity = ''high'' then Block
      else if current \<noteq> Block then Warn
      else current)"

fun escalate_action_by_policy :: "policy_action \<Rightarrow> policy_action \<Rightarrow> policy_action" where
  "escalate_action_by_policy current Block = Block"
| "escalate_action_by_policy current Warn = (if current \<noteq> Block then Warn else current)"
| "escalate_action_by_policy current Allow = current"

text \<open>The violations so far and the action.\<close>

type_synonym verdict = "policy_violation list \<times> policy_action"

definition collect_with_severity_escalation :: "policy_violation list \<Rightarrow> verdict \<Rightarrow> verdict" where
  "collect_with_severity_escalation new acc =
     fold (\<lambda>v (vs, action). (vs @ [v], escalate_action_by_severity action (pv_severity v))) new acc"

definition evaluate_cves_against_policy ::
  "cve_summary \<Rightarrow> scan_policy_config option \<Rightarrow> verdict \<Rightarrow> verdict" where
  "evaluate_cves_against_policy summary scan_policy acc =
     (case scan_policy of
        Some p \<Rightarrow> collect_with_severity_escalation
                    (evaluate_cve_thresholds summary (max_severity p) (block_on_fail p)) acc
      | None \<Rightarrow>
          if 0 < critical_count summary
          then (fst acc @ [\<lparr> pv_rule = ''default-cve-policy'', pv_severity = ''critical'',
                  pv_message = ''Artifact has '' @ show_int (critical_count summary)
                    @ '' critical vulnerabilities'' \<rparr>], Block)
          else acc)"

definition evaluate_licenses_against_policy ::
  "license_summary \<Rightarrow> license_policy_config \<Rightarrow> verdict \<Rightarrow> verdict" where
  "evaluate_licenses_against_policy summary p acc =
     fold (\<lambda>v (vs, action). (vs @ [v], escalate_action_by_policy action (lp_action p)))
       (evaluate_license_policy summary p) acc"

section \<open>Tables and queries\<close>

record scan_row =
  sr_artifact :: uuid
  sr_type :: string
  sr_status :: string
  sr_critical :: int
  sr_high :: int
  sr_medium :: int
  sr_low :: int
  sr_findings :: int
  sr_created :: datetime

record cve_row =
  cv_artifact :: uuid
  cv_id :: "string option"
  cv_status :: string

record sbom_row =
  sb_artifact :: uuid
  sb_licenses :: "string list option"
  sb_created :: datetime

record signing_key =
  sk_id :: uuid
  sk_repository :: uuid
  sk_active :: bool

record scan_policy_row = scan_policy_config +
  sp_repository :: "uuid option"
  block_unscanned :: bool
  sp_enabled :: bool

record license_policy_row =
  lr_repository :: "uuid option"
  lr_name :: string
  lr_allowed :: "string list option"
  lr_denied :: "string list option"
  lr_allow_unknown :: bool
  lr_action :: string
  lr_enabled :: bool

text \<open>\<open>signing_configs\<close> are the pairs of a repository and its key, \<open>signing_audit\<close> the triples of key,
  action and artifact.\<close>

record policy_db =
  scan_results :: "scan_row list"
  cve_history :: "cve_row list"
  sbom_documents :: "sbom_row list"
  created_at :: "uuid \<rightharpoonup> datetime"
  signing_configs :: "(uuid \<times> uuid) list"
  signing_keys :: "signing_key list"
  signing_audit :: "(uuid \<times> string \<times> uuid) list"
  scan_policies :: "scan_policy_row list"
  license_policies :: "license_policy_row list"

definition newest_scan :: "uuid \<Rightarrow> policy_db \<Rightarrow> scan_row option" where
  "newest_scan aid db = latest_on sr_created
     (filter (\<lambda>r. sr_artifact r = aid \<and> sr_status r = ''completed'') (scan_results db))"

definition open_cves_of :: "uuid \<Rightarrow> policy_db \<Rightarrow> string list" where
  "open_cves_of aid db = remdups (List.map_filter cv_id
     (filter (\<lambda>c. cv_artifact c = aid \<and> cv_status c = ''open'') (cve_history db)))"

definition get_cve_summary :: "faults \<Rightarrow> uuid \<Rightarrow> (policy_db, cve_summary option) action" where
  "get_cve_summary fail aid =
     andthen (fetch fail ''newest scan'' (newest_scan aid)) (\<lambda>scan.
     case scan of
       None \<Rightarrow> give None
     | Some r \<Rightarrow> andthen (fetch fail ''open cves'' (open_cves_of aid)) (\<lambda>cves.
         give (Some \<lparr> critical_count = sr_critical r, high_count = sr_high r, medium_count = sr_medium r,
           low_count = sr_low r, total_count = sr_findings r, open_cves = cves \<rparr>)))"

definition get_license_summary :: "faults \<Rightarrow> uuid \<Rightarrow> (policy_db, license_summary option) action" where
  "get_license_summary fail aid =
     andthen (fetch fail ''newest sbom'' (\<lambda>db. latest_on sb_created
         (filter (\<lambda>r. sb_artifact r = aid) (sbom_documents db)))) (\<lambda>sbom.
     give (map_option (\<lambda>r. \<lparr> licenses_found = (case sb_licenses r of Some ls \<Rightarrow> ls | None \<Rightarrow> []),
       summary_denied = [], summary_unknown = [] \<rparr>) sbom))"

definition get_artifact_created_at :: "faults \<Rightarrow> uuid \<Rightarrow> (policy_db, datetime option) action" where
  "get_artifact_created_at fail aid = fetch fail ''created at'' (\<lambda>db. created_at db aid)"

definition has_signing_config :: "uuid \<Rightarrow> policy_db \<Rightarrow> bool" where
  "has_signing_config rid db \<longleftrightarrow> list_ex (\<lambda>(r, k). r = rid
     \<and> list_ex (\<lambda>sk. sk_id sk = k \<and> sk_active sk) (signing_keys db)) (signing_configs db)"

definition signed_in :: "uuid \<Rightarrow> uuid \<Rightarrow> policy_db \<Rightarrow> bool" where
  "signed_in aid rid db \<longleftrightarrow> list_ex (\<lambda>(k, action, a). action = ''used_for_signing'' \<and> a = aid
     \<and> list_ex (\<lambda>sk. sk_id sk = k \<and> sk_repository sk = rid) (signing_keys db)) (signing_audit db)"

definition check_artifact_signature :: "faults \<Rightarrow> uuid \<Rightarrow> uuid \<Rightarrow> (policy_db, bool) action" where
  "check_artifact_signature fail aid rid =
     andthen (fetch fail ''signing config'' (has_signing_config rid)) (\<lambda>has_sig.
     if \<not> has_sig then give False else fetch fail ''signed'' (signed_in aid rid))"

definition get_scan_policy :: "faults \<Rightarrow> uuid \<Rightarrow> (policy_db, scan_policy_config option) action" where
  "get_scan_policy fail rid = fetch fail ''scan policy'' (\<lambda>db.
     map_option scan_policy_config.truncate (own_or_global sp_repository rid (filter sp_enabled (scan_policies db))))"

definition license_config :: "license_policy_row \<Rightarrow> license_policy_config" where
  "license_config r =
     \<lparr> lp_name = lr_name r,
       allowed_licenses = (case lr_allowed r of Some ls \<Rightarrow> ls | None \<Rightarrow> []),
       denied_licenses = (case lr_denied r of Some ls \<Rightarrow> ls | None \<Rightarrow> []),
       allow_unknown = lr_allow_unknown r,
       lp_action = (case policy_action_parse (lr_action r) of Some a \<Rightarrow> a | None \<Rightarrow> Warn) \<rparr>"

definition get_license_policy :: "faults \<Rightarrow> uuid \<Rightarrow> (policy_db, license_policy_config option) action" where
  "get_license_policy fail rid = fetch fail ''license policy'' (\<lambda>db.
     map_option license_config (own_or_global lr_repository rid (filter lr_enabled (license_policies db))))"

section \<open>Evaluation\<close>

record policy_evaluation =
  pe_passed :: bool
  pe_action :: policy_action
  pe_violations :: "policy_violation list"
  pe_cves :: "cve_summary option"
  pe_licenses :: "license_summary option"

definition age_gate :: "faults \<Rightarrow> datetime \<Rightarrow> uuid \<Rightarrow> scan_policy_config \<Rightarrow> verdict \<Rightarrow> (policy_db, verdict) action" where
  "age_gate fail now aid p acc =
     (if min_staging_hours p \<noteq> None \<or> max_artifact_age_days p \<noteq> None
      then andthen (get_artifact_created_at fail aid) (\<lambda>created.
        give (case created of
            None \<Rightarrow> acc
          | Some c \<Rightarrow> collect_with_severity_escalation
              (evaluate_age_gates now c (min_staging_hours p) (max_artifact_age_days p)) acc))
      else give acc)"

definition signature_gate :: "faults \<Rightarrow> uuid \<Rightarrow> uuid \<Rightarrow> scan_policy_config \<Rightarrow> verdict \<Rightarrow> (policy_db, verdict) action" where
  "signature_gate fail aid rid p acc =
     (if require_signature p
      then andthen (check_artifact_signature fail aid rid) (\<lambda>has_sig.
        give (fold (\<lambda>v (vs, _). (vs @ [v], Block)) (evaluate_signature_requirement has_sig) acc))
      else give acc)"

definition evaluate_age_and_signature ::
  "faults \<Rightarrow> datetime \<Rightarrow> uuid \<Rightarrow> uuid \<Rightarrow> scan_policy_config \<Rightarrow> verdict \<Rightarrow> (policy_db, verdict) action" where
  "evaluate_age_and_signature fail now aid rid p acc =
     andthen (age_gate fail now aid p acc) (signature_gate fail aid rid p)"

definition check_cves :: "cve_summary option \<Rightarrow> scan_policy_config option \<Rightarrow> verdict \<Rightarrow> verdict" where
  "check_cves cves scan_policy acc =
     (case cves of None \<Rightarrow> acc | Some c \<Rightarrow> evaluate_cves_against_policy c scan_policy acc)"

definition check_licenses :: "license_summary option \<Rightarrow> license_policy_config option \<Rightarrow> verdict \<Rightarrow> verdict" where
  "check_licenses licenses license_policy acc =
     (case (licenses, license_policy) of
        (Some l, Some p) \<Rightarrow> evaluate_licenses_against_policy l p acc
      | _ \<Rightarrow> acc)"

definition check_scan_policy ::
  "faults \<Rightarrow> datetime \<Rightarrow> uuid \<Rightarrow> uuid \<Rightarrow> scan_policy_config option \<Rightarrow> verdict \<Rightarrow> (policy_db, verdict) action" where
  "check_scan_policy fail now aid rid scan_policy acc =
     (case scan_policy of None \<Rightarrow> give acc | Some p \<Rightarrow> evaluate_age_and_signature fail now aid rid p acc)"

definition evaluate_artifact :: "faults \<Rightarrow> datetime \<Rightarrow> uuid \<Rightarrow> uuid \<Rightarrow> (policy_db, policy_evaluation) action" where
  "evaluate_artifact fail now aid rid =
     andthen (get_cve_summary fail aid) (\<lambda>cves.
     andthen (get_license_summary fail aid) (\<lambda>licenses.
     andthen (get_scan_policy fail rid) (\<lambda>scan_policy.
     andthen (get_license_policy fail rid) (\<lambda>license_policy.
     andthen (check_scan_policy fail now aid rid scan_policy
         (check_licenses licenses license_policy (check_cves cves scan_policy ([], Allow)))) (\<lambda>acc.
     give \<lparr> pe_passed = (fst acc = []), pe_action = snd acc, pe_violations = fst acc,
            pe_cves = cves, pe_licenses = licenses \<rparr>)))))"

section \<open>Escalation is the maximum\<close>

definition severity_action :: "string \<Rightarrow> policy_action" where
  "severity_action s = (if s = ''critical'' \<or> s = ''high'' then Block else Warn)"

lemma max_Block [simp]: "max a Block = Block" "max Block a = Block"
    "max a b = Block \<longleftrightarrow> a = Block \<or> b = Block"
  by (cases a; cases b; simp add: action_order)+

lemma escalate_severity_max: "escalate_action_by_severity a s = max a (severity_action s)"
  by (cases a) (simp_all add: escalate_action_by_severity_def severity_action_def action_order)

lemma escalate_policy_max: "escalate_action_by_policy a p = max a p"
  by (cases a; cases p) (simp_all add: action_order)

lemma fold_collect:
  assumes "\<And>a v. step a v = max a (g v)"
  shows "fold (\<lambda>v (vs, a). (vs @ [v], step a v)) new acc = (fst acc @ new, foldl max (snd acc) (map g new))"
  by (induction new arbitrary: acc) (simp_all add: split_beta assms)

lemma foldl_max_Block:
  "foldl max a (map g xs) = Block \<longleftrightarrow> a = Block \<or> list_ex (\<lambda>x. g x = Block) xs"
  by (induction xs arbitrary: a) auto

lemma collect_eq: "collect_with_severity_escalation new acc
    = (fst acc @ new, foldl max (snd acc) (map (\<lambda>v. severity_action (pv_severity v)) new))"
  unfolding collect_with_severity_escalation_def by (rule fold_collect) (rule escalate_severity_max)

lemma licenses_eq: "evaluate_licenses_against_policy l p acc
    = (fst acc @ evaluate_license_policy l p,
       foldl max (snd acc) (map (\<lambda>_. lp_action p) (evaluate_license_policy l p)))"
  unfolding evaluate_licenses_against_policy_def by (rule fold_collect) (rule escalate_policy_max)

section \<open>When promotion is blocked\<close>

definition cve_blocks :: "scan_policy_config option \<Rightarrow> int \<Rightarrow> int \<Rightarrow> bool" where
  "cve_blocks scan_policy critical high \<longleftrightarrow> 0 < critical
     \<or> (case scan_policy of None \<Rightarrow> False | Some p \<Rightarrow> to_lowercase (max_severity p) \<noteq> ''critical'' \<and> 0 < high)"

definition license_blocks :: "license_policy_config \<Rightarrow> license_summary \<Rightarrow> bool" where
  "license_blocks p l \<longleftrightarrow> lp_action p = Block
     \<and> list_ex (\<lambda>x. denied_by p x \<or> unknown_to p x) (licenses_found l)"

definition age_blocks :: "datetime \<Rightarrow> scan_policy_config \<Rightarrow> datetime option \<Rightarrow> bool" where
  "age_blocks now p created = (case (min_staging_hours p, created) of
     (Some m, Some c) \<Rightarrow> num_hours (now - c) < m | _ \<Rightarrow> False)"

definition signature_blocks :: "uuid \<Rightarrow> uuid \<Rightarrow> policy_db \<Rightarrow> scan_policy_config \<Rightarrow> bool" where
  "signature_blocks aid rid db p \<longleftrightarrow> require_signature p \<and> \<not> (has_signing_config rid db \<and> signed_in aid rid db)"

definition scan_policy_of :: "uuid \<Rightarrow> policy_db \<Rightarrow> scan_policy_config option" where
  "scan_policy_of rid db =
     map_option scan_policy_config.truncate (own_or_global sp_repository rid (filter sp_enabled (scan_policies db)))"

definition license_policy_of :: "uuid \<Rightarrow> policy_db \<Rightarrow> license_policy_config option" where
  "license_policy_of rid db =
     map_option license_config (own_or_global lr_repository rid (filter lr_enabled (license_policies db)))"

definition licenses_of :: "uuid \<Rightarrow> policy_db \<Rightarrow> license_summary option" where
  "licenses_of aid db = map_option (\<lambda>r. \<lparr> licenses_found = (case sb_licenses r of Some ls \<Rightarrow> ls | None \<Rightarrow> []),
     summary_denied = [], summary_unknown = [] \<rparr>)
     (latest_on sb_created (filter (\<lambda>r. sb_artifact r = aid) (sbom_documents db)))"

definition must_block :: "datetime \<Rightarrow> uuid \<Rightarrow> uuid \<Rightarrow> policy_db \<Rightarrow> bool" where
  "must_block now aid rid db \<longleftrightarrow>
     (case newest_scan aid db of None \<Rightarrow> False
      | Some s \<Rightarrow> cve_blocks (scan_policy_of rid db) (sr_critical s) (sr_high s))
     \<or> (case (license_policy_of rid db, licenses_of aid db) of (Some p, Some l) \<Rightarrow> license_blocks p l | _ \<Rightarrow> False)
     \<or> (case scan_policy_of rid db of None \<Rightarrow> False
        | Some p \<Rightarrow> age_blocks now p (created_at db aid) \<or> signature_blocks aid rid db p)"

lemma cve_step:
  assumes "high_count c \<le> i32_max" and "medium_count c \<le> i32_max"
  shows "snd (evaluate_cves_against_policy c sp acc) = Block
    \<longleftrightarrow> snd acc = Block \<or> cve_blocks sp (critical_count c) (high_count c)"
proof (cases sp)
  case (Some p)
  have "list_ex (\<lambda>v. severity_action (pv_severity v) = Block) (evaluate_cve_thresholds c (max_severity p) (block_on_fail p))
      \<longleftrightarrow> cve_blocks sp (critical_count c) (high_count c)"
    using assms Some
    by (auto simp: evaluate_cve_thresholds_def severity_limits_def threshold_violation_def severity_action_def
        cve_blocks_def Let_def split: if_splits)
  with Some show ?thesis by (simp add: evaluate_cves_against_policy_def collect_eq foldl_max_Block)
qed (simp add: evaluate_cves_against_policy_def cve_blocks_def)

lemma license_step:
  "snd (evaluate_licenses_against_policy l p acc) = Block \<longleftrightarrow> snd acc = Block \<or> license_blocks p l"
proof -
  have "evaluate_license_policy l p = [] \<longleftrightarrow> \<not> list_ex (\<lambda>x. denied_by p x \<or> unknown_to p x) (licenses_found l)"
    by (auto simp: evaluate_license_policy_def filter_empty_conv list_ex_iff Let_def)
  moreover have "list_ex (\<lambda>_. lp_action p = Block) vs \<longleftrightarrow> lp_action p = Block \<and> vs \<noteq> []" for vs :: "policy_violation list"
    by (induction vs) auto
  ultimately show ?thesis by (simp only: licenses_eq foldl_max_Block license_blocks_def snd_conv) blast
qed

lemma age_step:
  "snd (collect_with_severity_escalation (evaluate_age_gates now c (min_staging_hours p) (max_artifact_age_days p)) acc)
     = Block \<longleftrightarrow> snd acc = Block \<or> age_blocks now p (Some c)"
  by (cases "min_staging_hours p"; cases "max_artifact_age_days p")
    (simp_all add: collect_eq foldl_max_Block evaluate_age_gates_def severity_action_def age_blocks_def)

text \<open>An action other than \<open>Allow\<close> has a violation behind it.\<close>

definition founded :: "verdict \<Rightarrow> bool" where
  "founded acc \<longleftrightarrow> (fst acc = [] \<longrightarrow> snd acc = Allow)"

lemma founded_collect: "founded acc \<Longrightarrow> founded (fst acc @ new, foldl max (snd acc) (map g new))"
  by (cases new) (auto simp: founded_def)

lemma founded_steps:
  assumes "founded acc"
  shows "founded (evaluate_cves_against_policy c sp acc)" "founded (evaluate_licenses_against_policy l p acc)"
    "founded (collect_with_severity_escalation new acc)"
  using assms founded_collect [OF assms]
  by (auto simp: evaluate_cves_against_policy_def licenses_eq collect_eq founded_def split: option.split)

lemma signature_ok:
  "check_artifact_signature fail aid rid db = (Inr b, db') \<Longrightarrow>
     db' = db \<and> b = (has_signing_config rid db \<and> signed_in aid rid db)"
  by (auto simp: check_artifact_signature_def action_simps split: if_splits)

lemma age_gate_ok:
  assumes "age_gate fail now aid p acc db = (Inr acc', db')"
  shows "db' = db \<and> (snd acc' = Block \<longleftrightarrow> snd acc = Block \<or> age_blocks now p (created_at db aid))
    \<and> (founded acc \<longrightarrow> founded acc')"
proof (cases "min_staging_hours p = None \<and> max_artifact_age_days p = None")
  case True
  with assms show ?thesis by (simp add: age_gate_def action_simps age_blocks_def)
next
  case False
  then have "db' = db" and acc': "acc' = (case created_at db aid of None \<Rightarrow> acc
      | Some c \<Rightarrow> collect_with_severity_escalation
          (evaluate_age_gates now c (min_staging_hours p) (max_artifact_age_days p)) acc)"
    using assms by (auto simp: age_gate_def action_simps get_artifact_created_at_def split: if_splits)
  then show ?thesis
    by (cases "created_at db aid") (simp_all add: age_step founded_steps age_blocks_def split: option.split)
qed

lemma signature_gate_ok:
  assumes "signature_gate fail aid rid p acc db = (Inr acc', db')"
  shows "db' = db \<and> (snd acc' = Block \<longleftrightarrow> snd acc = Block \<or> signature_blocks aid rid db p)
    \<and> (founded acc \<longrightarrow> founded acc')"
proof (cases "require_signature p")
  case True
  then obtain b where b: "check_artifact_signature fail aid rid db = (Inr b, db')"
    and "acc' = (if b then acc else (fst acc @ evaluate_signature_requirement False, Block))"
    using assms by (auto simp: signature_gate_def action_simps evaluate_signature_requirement_def split_beta)
  with signature_ok [OF b] True show ?thesis
    by (auto simp: signature_blocks_def founded_def evaluate_signature_requirement_def)
qed (use assms in \<open>auto simp: signature_gate_def action_simps signature_blocks_def\<close>)

lemma age_and_signature_ok:
  assumes "evaluate_age_and_signature fail now aid rid p acc db = (Inr acc', db')"
  shows "db' = db \<and> (snd acc' = Block \<longleftrightarrow> snd acc = Block \<or> age_blocks now p (created_at db aid)
      \<or> signature_blocks aid rid db p) \<and> (founded acc \<longrightarrow> founded acc')"
  using assms age_gate_ok [of fail now aid p acc db] signature_gate_ok [of fail aid rid p _ db]
  unfolding evaluate_age_and_signature_def action_ok(3) by blast

text \<open>The four reads.\<close>

lemma reads_ok:
  "get_cve_summary fail aid db = (Inr c, t) \<Longrightarrow> t = db \<and> c = map_option (\<lambda>r.
     \<lparr> critical_count = sr_critical r, high_count = sr_high r, medium_count = sr_medium r, low_count = sr_low r,
       total_count = sr_findings r, open_cves = open_cves_of aid db \<rparr>) (newest_scan aid db)"
  "get_license_summary fail aid db = (Inr l, t) \<Longrightarrow> t = db \<and> l = licenses_of aid db"
  "get_scan_policy fail rid db = (Inr sp, t) \<Longrightarrow> t = db \<and> sp = scan_policy_of rid db"
  "get_license_policy fail rid db = (Inr lp, t) \<Longrightarrow> t = db \<and> lp = license_policy_of rid db"
  by (auto simp: get_cve_summary_def get_license_summary_def get_scan_policy_def get_license_policy_def action_simps
      licenses_of_def scan_policy_of_def license_policy_of_def split: option.splits)

text \<open>The columns are \<open>i32\<close>.\<close>

definition counts_in_range :: "policy_db \<Rightarrow> bool" where
  "counts_in_range db \<longleftrightarrow> list_all (\<lambda>r. sr_high r \<le> i32_max \<and> sr_medium r \<le> i32_max) (scan_results db)"

lemma newest_scan_in_range:
  "counts_in_range db \<Longrightarrow> newest_scan aid db = Some r \<Longrightarrow> sr_high r \<le> i32_max \<and> sr_medium r \<le> i32_max"
  using latest_on_member by (fastforce simp: counts_in_range_def newest_scan_def list_all_iff)

lemma policy_verdict:
  assumes "evaluate_artifact fail now aid rid db = (Inr r, db')" and "counts_in_range db"
  shows "db' = db \<and> (pe_action r = Block \<longleftrightarrow> must_block now aid rid db)
    \<and> (pe_passed r \<longleftrightarrow> pe_violations r = []) \<and> (pe_passed r \<longrightarrow> pe_action r = Allow)"
proof -
  obtain c l sp lp acc t1 t2 t3 t4 where
    c: "get_cve_summary fail aid db = (Inr c, t1)" and l: "get_license_summary fail aid t1 = (Inr l, t2)"
    and sp: "get_scan_policy fail rid t2 = (Inr sp, t3)" and lp: "get_license_policy fail rid t3 = (Inr lp, t4)"
    and acc: "check_scan_policy fail now aid rid sp (check_licenses l lp (check_cves c sp ([], Allow))) t4 = (Inr acc, db')"
    and r: "r = \<lparr> pe_passed = (fst acc = []), pe_action = snd acc, pe_violations = fst acc,
      pe_cves = c, pe_licenses = l \<rparr>"
    using assms(1) unfolding evaluate_artifact_def action_ok by blast
  note c = reads_ok(1) [OF c] and l = reads_ok(2) [OF l] and sp = reads_ok(3) [OF sp] and lp = reads_ok(4) [OF lp]
  have t4: "t4 = db" and sp': "sp = scan_policy_of rid db" using c l sp lp by simp_all
  let ?cves = "check_cves c sp ([], Allow)"
  let ?both = "check_licenses l lp ?cves"
  have 1: "snd ?cves = Block \<longleftrightarrow> (case newest_scan aid db of None \<Rightarrow> False
      | Some s \<Rightarrow> cve_blocks (scan_policy_of rid db) (sr_critical s) (sr_high s))"
    using c l sp newest_scan_in_range [OF assms(2), of aid]
    by (cases "newest_scan aid db") (simp_all add: check_cves_def cve_step)
  have founded: "founded ?cves"
    using founded_steps(1) [of "([], Allow)"] by (simp add: check_cves_def founded_def split: option.split)
  have 2: "snd ?both = Block \<longleftrightarrow> snd ?cves = Block
      \<or> (case (license_policy_of rid db, licenses_of aid db) of (Some p, Some l) \<Rightarrow> license_blocks p l | _ \<Rightarrow> False)"
      "founded ?both"
    using c l sp lp founded by (auto simp: check_licenses_def license_step founded_steps split: option.split)
  have 3: "db' = db \<and> (snd acc = Block \<longleftrightarrow> snd ?both = Block
      \<or> (case scan_policy_of rid db of None \<Rightarrow> False
        | Some p \<Rightarrow> age_blocks now p (created_at db aid) \<or> signature_blocks aid rid db p)) \<and> founded acc"
  proof (cases sp)
    case None
    then have "acc = ?both" "db' = db" using acc t4 by (simp_all add: check_scan_policy_def action_simps)
    with None sp' 2(2) show ?thesis by simp
  next
    case (Some p)
    then have "evaluate_age_and_signature fail now aid rid p ?both db = (Inr acc, db')"
      using acc t4 by (simp add: check_scan_policy_def)
    moreover have "scan_policy_of rid db = Some p" using Some sp' by simp
    ultimately show ?thesis using age_and_signature_ok [of fail now aid rid p ?both db] 2(2) by simp
  qed
  then have "pe_action r = Block \<longleftrightarrow> must_block now aid rid db" using 1 2(1) by (simp add: r must_block_def)
  with 3 show ?thesis by (simp add: r founded_def)
qed

text \<open>C12: An evaluation that succeeds changes nothing and blocks exactly when the artifact's newest
  completed scan has critical findings, or high ones unless the policy stops at critical; or a blocking
  license policy denies or does not know one of its licenses; or it has not been in staging long enough; or
  a required signature is missing. It passes exactly without violations, and blocks only with one.\<close>

theorem policy_blocks_iff:
  assumes "evaluate_artifact fail now aid rid db = (Inr r, db')" and "counts_in_range db"
  shows "db' = db \<and> (pe_action r = Block \<longleftrightarrow> must_block now aid rid db)
    \<and> (pe_passed r \<longleftrightarrow> pe_violations r = []) \<and> (pe_passed r \<longrightarrow> pe_action r = Allow)"
  using policy_verdict [OF assms] .

definition sample_scan :: "string \<Rightarrow> int \<Rightarrow> datetime \<Rightarrow> scan_row" where
  "sample_scan type_name critical t = \<lparr> sr_artifact = 3, sr_type = type_name, sr_status = ''completed'',
     sr_critical = critical, sr_high = 0, sr_medium = 0, sr_low = 9, sr_findings = critical + 9, sr_created = t \<rparr>"

definition sample_policies :: "scan_row list \<Rightarrow> policy_db" where
  "sample_policies scans = \<lparr> scan_results = scans, cve_history = [], sbom_documents = [],
     created_at = Map.empty(3 \<mapsto> 0), signing_configs = [], signing_keys = [], signing_audit = [],
     scan_policies = [\<lparr> max_severity = ''low'', block_on_fail = True, min_staging_hours = None,
       max_artifact_age_days = None, require_signature = False, sp_repository = Some 7, block_unscanned = True,
       sp_enabled = True \<rparr>],
     license_policies = [] \<rparr>"

lemmas policy_eval = evaluate_artifact_def get_cve_summary_def get_license_summary_def get_scan_policy_def
  get_license_policy_def run_simps check_scan_policy_def check_licenses_def check_cves_def
  evaluate_age_and_signature_def age_gate_def signature_gate_def evaluate_cves_against_policy_def
  evaluate_cve_thresholds_def severity_limits_def to_lowercase_def lower_char_def own_or_global_def
  newest_scan_def open_cves_of_def List.map_filter_def sample_policies_def sample_scan_def
  scan_policy_config.defs

lemma policy_blocks_iff_witness:
  "\<exists>r. evaluate_artifact (\<lambda>_. None) 0 3 7 (sample_policies [sample_scan ''image'' 2 5])
      = (Inr r, sample_policies [sample_scan ''image'' 2 5])
    \<and> pe_action r = Block \<and> must_block 0 3 7 (sample_policies [sample_scan ''image'' 2 5])"
proof -
  let ?db = "sample_policies [sample_scan ''image'' 2 5]"
  obtain r db' where r: "evaluate_artifact (\<lambda>_. None) 0 3 7 ?db = (Inr r, db')"
    by (simp add: policy_eval)
  have "counts_in_range ?db" by (simp add: counts_in_range_def sample_policies_def sample_scan_def i32_max_def)
  note policy_blocks_iff [OF r this]
  moreover have "must_block 0 3 7 ?db"
    by (simp add: must_block_def newest_scan_def sample_policies_def sample_scan_def cve_blocks_def)
  ultimately show ?thesis using r by blast
qed

text \<open>What the evaluation does not look at. An artifact that was never scanned passes although the policy
  blocks unscanned ones; critical findings of one scan are forgotten when a scan of another type completes
  later; and low findings never count, though the policy's severity is \<open>low\<close>.\<close>

lemma scan_policy_gaps:
  "pe_passed (projr (fst (evaluate_artifact (\<lambda>_. None) 0 3 7 (sample_policies []))))
   \<and> pe_passed (projr (fst (evaluate_artifact (\<lambda>_. None) 0 3 7
       (sample_policies [sample_scan ''image'' 2 5, sample_scan ''license'' 0 6]))))"
  by (simp add: policy_eval collect_eq)

end
