(* ===== verification/Repositories.thy ===== *)
theory Repositories
  imports Db_Actions Quarantine Outbound
begin

text \<open>
  Repositories: their model (\<open>models/repository.rs\<close>) and the service over their table
  (\<open>services/repository_service.rs\<close>): creation, look-up, visible listing, update, deletion with its
  cascades, storage usage and quota. The graph of virtual repositories is the theory \<open>Virtual_Members\<close>.
  Search indexing and the columns of replication, promotion and curation are left out, and so are the
  quota warnings, which are only logged.
\<close>

section \<open>Model\<close>

datatype repository_type = LocalRepo | RemoteRepo | VirtualRepo | StagingRepo

fun repository_type_as_str :: "repository_type \<Rightarrow> string" where
  "repository_type_as_str LocalRepo = ''local''"
| "repository_type_as_str RemoteRepo = ''remote''"
| "repository_type_as_str VirtualRepo = ''virtual''"
| "repository_type_as_str StagingRepo = ''staging''"

fun is_hosted :: "repository_type \<Rightarrow> bool" where
  "is_hosted LocalRepo = True"
| "is_hosted StagingRepo = True"
| "is_hosted RemoteRepo = False"
| "is_hosted VirtualRepo = False"

datatype repository_format =
    Maven | Gradle | Npm | Pypi | Nuget | Go | Rubygems | Docker | Helm | Rpm | Debian | Conan |
    Cargo | Generic | Podman | Buildx | Oras | WasmOci | HelmOci | Poetry | Conda | Yarn | Bower |
    Pnpm | Chocolatey | Powershell | Terraform | Opentofu | Alpine | CondaNative | Composer | Hex |
    Cocoapods | Swift | Pub | Sbt | Chef | Puppet | Ansible | Gitlfs | Vscode | Jetbrains |
    Huggingface | Mlmodel | Cran | Vagrant | Opkg | P2 | Bazel | Protobuf | Incus | Lxc

fun derive_format_key :: "repository_format \<Rightarrow> string" where
  "derive_format_key Maven = ''maven''"
| "derive_format_key Gradle = ''gradle''"
| "derive_format_key Npm = ''npm''"
| "derive_format_key Pypi = ''pypi''"
| "derive_format_key Nuget = ''nuget''"
| "derive_format_key Go = ''go''"
| "derive_format_key Rubygems = ''rubygems''"
| "derive_format_key Docker = ''docker''"
| "derive_format_key Helm = ''helm''"
| "derive_format_key Rpm = ''rpm''"
| "derive_format_key Debian = ''debian''"
| "derive_format_key Conan = ''conan''"
| "derive_format_key Cargo = ''cargo''"
| "derive_format_key Generic = ''generic''"
| "derive_format_key Podman = ''podman''"
| "derive_format_key Buildx = ''buildx''"
| "derive_format_key Oras = ''oras''"
| "derive_format_key WasmOci = ''wasm_oci''"
| "derive_format_key HelmOci = ''helm_oci''"
| "derive_format_key Poetry = ''poetry''"
| "derive_format_key Conda = ''conda''"
| "derive_format_key Yarn = ''yarn''"
| "derive_format_key Bower = ''bower''"
| "derive_format_key Pnpm = ''pnpm''"
| "derive_format_key Chocolatey = ''chocolatey''"
| "derive_format_key Powershell = ''powershell''"
| "derive_format_key Terraform = ''terraform''"
| "derive_format_key Opentofu = ''opentofu''"
| "derive_format_key Alpine = ''alpine''"
| "derive_format_key CondaNative = ''conda_native''"
| "derive_format_key Composer = ''composer''"
| "derive_format_key Hex = ''hex''"
| "derive_format_key Cocoapods = ''cocoapods''"
| "derive_format_key Swift = ''swift''"
| "derive_format_key Pub = ''pub''"
| "derive_format_key Sbt = ''sbt''"
| "derive_format_key Chef = ''chef''"
| "derive_format_key Puppet = ''puppet''"
| "derive_format_key Ansible = ''ansible''"
| "derive_format_key Gitlfs = ''gitlfs''"
| "derive_format_key Vscode = ''vscode''"
| "derive_format_key Jetbrains = ''jetbrains''"
| "derive_format_key Huggingface = ''huggingface''"
| "derive_format_key Mlmodel = ''mlmodel''"
| "derive_format_key Cran = ''cran''"
| "derive_format_key Vagrant = ''vagrant''"
| "derive_format_key Opkg = ''opkg''"
| "derive_format_key P2 = ''p2''"
| "derive_format_key Bazel = ''bazel''"
| "derive_format_key Protobuf = ''protobuf''"
| "derive_format_key Incus = ''incus''"
| "derive_format_key Lxc = ''lxc''"

text \<open>The arms of \<open>parse_format_str\<close>, in its order.\<close>

definition format_arms :: "(string \<times> repository_format) list" where
  "format_arms = [
    (''maven'', Maven), (''gradle'', Gradle), (''npm'', Npm), (''pypi'', Pypi), (''nuget'', Nuget),
    (''go'', Go), (''rubygems'', Rubygems), (''docker'', Docker), (''helm'', Helm), (''rpm'', Rpm),
    (''debian'', Debian), (''conan'', Conan), (''cargo'', Cargo), (''generic'', Generic),
    (''podman'', Podman), (''buildx'', Buildx), (''oras'', Oras), (''wasm_oci'', WasmOci),
    (''helm_oci'', HelmOci), (''poetry'', Poetry), (''conda'', Conda), (''yarn'', Yarn),
    (''bower'', Bower), (''pnpm'', Pnpm), (''chocolatey'', Chocolatey),
    (''powershell'', Powershell), (''terraform'', Terraform), (''opentofu'', Opentofu),
    (''alpine'', Alpine), (''conda_native'', CondaNative), (''composer'', Composer),
    (''hex'', Hex), (''cocoapods'', Cocoapods), (''swift'', Swift), (''pub'', Pub), (''sbt'', Sbt),
    (''chef'', Chef), (''puppet'', Puppet), (''ansible'', Ansible), (''gitlfs'', Gitlfs),
    (''vscode'', Vscode), (''jetbrains'', Jetbrains), (''huggingface'', Huggingface),
    (''mlmodel'', Mlmodel), (''cran'', Cran), (''vagrant'', Vagrant), (''opkg'', Opkg),
    (''p2'', P2), (''bazel'', Bazel), (''protobuf'', Protobuf), (''incus'', Incus), (''lxc'', Lxc)
  ]"

definition parse_format_str :: "string \<Rightarrow> repository_format option" where
  "parse_format_str s = map_of format_arms (to_lowercase s)"

text \<open>What API responses and search documents show: the \<open>Debug\<close> name in lower case.\<close>

fun response_format :: "repository_format \<Rightarrow> string" where
  "response_format WasmOci = ''wasmoci''"
| "response_format HelmOci = ''helmoci''"
| "response_format CondaNative = ''condanative''"
| "response_format f = derive_format_key f"

text \<open>A storage location is a backend's name and a path.\<close>

type_synonym location = "string \<times> string"

record repo_row =
  rw_id :: uuid
  rw_key :: string
  rw_name :: string
  rw_description :: "string option"
  rw_format :: repository_format
  rw_type :: repository_type
  rw_backend :: string
  rw_path :: string
  rw_upstream :: "string option"
  rw_public :: bool
  rw_quota :: "int option"
  rw_format_key :: "string option"

definition storage_location :: "repo_row \<Rightarrow> location" where
  "storage_location r = (rw_backend r, rw_path r)"

record virtual_member =
  vm_virtual :: uuid
  vm_member :: uuid
  vm_priority :: int

text \<open>A row of \<open>artifacts\<close>: the columns of the quarantine and those an upload or a promotion writes.\<close>

record stored_artifact = artifact +
  art_path :: string
  art_name :: string
  art_version :: "string option"
  art_size :: int
  art_sha256 :: string
  art_md5 :: "string option"
  art_sha1 :: "string option"
  art_content_type :: string
  art_storage_key :: string
  art_uploaded_by :: "uuid option"

text \<open>The tables: repositories, members of virtual ones, format handlers and whether they are enabled,
  role assignments (user and repository, \<open>None\<close> being global), repository configuration, repository
  restrictions of API tokens, artifacts, and of the OCI registry the tagged manifests, the blobs and the
  edges from an image index to its children, each with its repository.\<close>

record repo_db =
  db_repos :: "repo_row list"
  db_members :: "virtual_member list"
  db_handlers :: "string \<rightharpoonup> bool"
  db_roles :: "(uuid \<times> uuid option) list"
  db_config :: "uuid \<times> string \<rightharpoonup> string"
  db_token_repos :: "(uuid \<times> uuid) list"
  db_artifacts :: "stored_artifact list"
  db_tags :: "(uuid \<times> string) list"
  db_blobs :: "(uuid \<times> string) list"
  db_refs :: "(uuid \<times> string \<times> string) list"

text \<open>The environment: faults, the identifier the database draws, the URL parser and the process
  environment, and the collation's order of rows by name.\<close>

record repo_env =
  ry_fail :: faults
  ry_new_id :: uuid
  ry_parse_url :: "string \<Rightarrow> url option"
  ry_vars :: env
  ry_by_name :: "repo_row list \<Rightarrow> repo_row list"

record create_request =
  cr_key :: string
  cr_name :: string
  cr_description :: "string option"
  cr_format :: repository_format
  cr_type :: repository_type
  cr_backend :: string
  cr_path :: string
  cr_upstream :: "string option"
  cr_public :: bool
  cr_quota :: "int option"
  cr_format_key :: "string option"

record update_request =
  up_key :: "string option"
  up_name :: "string option"
  up_description :: "string option"
  up_public :: "bool option"
  up_quota :: "int option option"
  up_upstream :: "string option"

datatype repo_visibility = PublicOnly | AllRepos | VisibleTo uuid

section \<open>Look-up\<close>

definition find_repo :: "uuid \<Rightarrow> repo_db \<Rightarrow> repo_row option" where
  "find_repo rid s = find (\<lambda>r. rw_id r = rid) (db_repos s)"

definition repo_by_id :: "repo_env \<Rightarrow> uuid \<Rightarrow> (repo_db, repo_row) action" where
  "repo_by_id env rid =
     andthen (select (ry_fail env) ''get by id'' (find_repo rid)) (some_or (NotFound ''Repository not found''))"

definition repo_by_key :: "repo_env \<Rightarrow> string \<Rightarrow> (repo_db, repo_row) action" where
  "repo_by_key env key =
     andthen (select (ry_fail env) ''get by key'' (\<lambda>s. find (\<lambda>r. rw_key r = key) (db_repos s)))
       (some_or (NotFound ''Repository not found''))"

definition get_format_key :: "repo_env \<Rightarrow> uuid \<Rightarrow> (repo_db, string option) action" where
  "get_format_key env rid = select (ry_fail env) ''format key''
     (\<lambda>s. case find_repo rid s of None \<Rightarrow> None | Some r \<Rightarrow> rw_format_key r)"

section \<open>Creation\<close>

definition validate_remote_upstream ::
  "repo_env \<Rightarrow> repository_type \<Rightarrow> string option \<Rightarrow> unit result" where
  "validate_remote_upstream env t upstream =
     (if t = RemoteRepo then
        (case upstream of
           None \<Rightarrow> Inl (Validation ''Remote repository must have an upstream URL'')
         | Some u \<Rightarrow> validate_outbound_url (ry_parse_url env) (ry_vars env) u ''Upstream URL'')
      else
        (case upstream of
           Some u \<Rightarrow> validate_outbound_url (ry_parse_url env) (ry_vars env) u ''Upstream URL''
         | None \<Rightarrow> Inr ()))"

definition should_reject_disabled_format :: "bool option \<Rightarrow> bool" where
  "should_reject_disabled_format enabled = (enabled = Some False)"

definition handler_disabled :: "string \<Rightarrow> app_error" where
  "handler_disabled k = Validation (''Format handler '' @ quoted k
     @ '' is disabled. Enable it before creating repositories.'')"

definition resolve_format ::
  "repo_env \<Rightarrow> string \<Rightarrow> (repo_db, repository_format \<times> string option) action" where
  "resolve_format env s =
     (case parse_format_str s of
        Some f \<Rightarrow> give (f, None)
      | None \<Rightarrow>
          andthen (select (ry_fail env) ''format handler'' (\<lambda>d. db_handlers d (to_lowercase s))) (\<lambda>enabled.
          case enabled of
            Some True \<Rightarrow> give (Generic, Some (to_lowercase s))
          | Some False \<Rightarrow> refuse (handler_disabled (to_lowercase s))
          | None \<Rightarrow> refuse (Validation (''Invalid format: '' @ s))))"

definition is_duplicate_key_error :: "string \<Rightarrow> bool" where
  "is_duplicate_key_error msg = contains ''duplicate key'' msg"

definition duplicate_key_message :: string where
  "duplicate_key_message = ''duplicate key value violates unique constraint''"

definition new_repo_row :: "repo_env \<Rightarrow> create_request \<Rightarrow> repo_row" where
  "new_repo_row env q =
     \<lparr> rw_id = ry_new_id env, rw_key = cr_key q, rw_name = cr_name q, rw_description = cr_description q,
       rw_format = cr_format q, rw_type = cr_type q, rw_backend = cr_backend q, rw_path = cr_path q,
       rw_upstream = cr_upstream q, rw_public = cr_public q, rw_quota = cr_quota q, rw_format_key = None \<rparr>"

text \<open>The key is unique, and a check constraint wants an upstream for a remote repository.\<close>

definition insert_repository :: "repo_env \<Rightarrow> create_request \<Rightarrow> repo_db \<Rightarrow> (string + repo_row) \<times> repo_db" where
  "insert_repository env q s =
     (case ry_fail env ''insert repository'' of
        Some e \<Rightarrow> (Inl e, s)
      | None \<Rightarrow>
          if cr_type q = RemoteRepo \<and> cr_upstream q = None
          then (Inl ''new row violates check constraint'', s)
          else if list_ex (\<lambda>r. rw_key r = cr_key q) (db_repos s) then (Inl duplicate_key_message, s)
          else (Inr (new_repo_row env q), s\<lparr> db_repos := db_repos s @ [new_repo_row env q] \<rparr>))"

definition update_repo :: "uuid \<Rightarrow> (repo_row \<Rightarrow> repo_row) \<Rightarrow> repo_db \<Rightarrow> repo_db" where
  "update_repo rid f s = s\<lparr> db_repos := map (\<lambda>r. if rw_id r = rid then f r else r) (db_repos s) \<rparr>"

text \<open>The statements of the transaction after a successful insert; any failure rolls everything back.\<close>

definition set_format_key :: "repo_env \<Rightarrow> uuid \<Rightarrow> string option \<Rightarrow> (repo_db, unit) action" where
  "set_format_key env rid fk =
     (case fk of
        None \<Rightarrow> give ()
      | Some k \<Rightarrow> execute (ry_fail env) ''set format key'' (update_repo rid (\<lambda>r. r\<lparr> rw_format_key := Some k \<rparr>)))"

text \<open>A transaction: its statements take effect together, at the commit, or not at all.\<close>

definition in_transaction :: "faults \<Rightarrow> ('s, 'a) action \<Rightarrow> ('s, 'a) action" where
  "in_transaction fail m s =
     (case fail ''begin'' of
        Some e \<Rightarrow> (Inl (Database e), s)
      | None \<Rightarrow>
          (case andthen m (\<lambda>a. andthen (execute fail ''commit'' id) (\<lambda>_. give a)) s of
             (Inl e, t) \<Rightarrow> (Inl e, s)
           | (Inr a, t) \<Rightarrow> (Inr a, t)))"

lemma in_transaction_ok [action_simps]:
  "in_transaction fail m s = (Inr a, t) \<longleftrightarrow> fail ''begin'' = None \<and> fail ''commit'' = None \<and> m s = (Inr a, t)"
  by (auto simp: in_transaction_def andthen_def execute_def give_def split: option.splits prod.splits sum.splits)

lemma in_transaction_atomic: "in_transaction fail m s = (Inl e, t) \<Longrightarrow> t = s"
  by (auto simp: in_transaction_def split: option.splits prod.splits sum.splits)

text \<open>A key that exists already makes the insert fail and the existing row the result.\<close>

definition insert_in_transaction :: "repo_env \<Rightarrow> create_request \<Rightarrow> (repo_db, repo_row) action" where
  "insert_in_transaction env q s =
     (case ry_fail env ''begin'' of
        Some e \<Rightarrow> (Inl (Database e), s)
      | None \<Rightarrow>
     (case insert_repository env q s of
        (Inl e, _) \<Rightarrow> if is_duplicate_key_error e then repo_by_key env (cr_key q) s else (Inl (Database e), s)
      | (Inr r, t) \<Rightarrow>
          (case andthen (set_format_key env (rw_id r) (cr_format_key q)) (\<lambda>_. execute (ry_fail env) ''commit'' id) t of
             (Inl e, _) \<Rightarrow> (Inl e, s)
           | (Inr _, u) \<Rightarrow> (Inr r, u))))"

definition create_repo :: "repo_env \<Rightarrow> create_request \<Rightarrow> (repo_db, repo_row) action" where
  "create_repo env q =
     andthen (of_result (validate_remote_upstream env (cr_type q) (cr_upstream q))) (\<lambda>_.
     let fk = (case cr_format_key q of Some k \<Rightarrow> k | None \<Rightarrow> derive_format_key (cr_format q)) in
     andthen (select (ry_fail env) ''format handler'' (\<lambda>s. db_handlers s fk)) (\<lambda>enabled.
     andthen (run_or (\<not> should_reject_disabled_format enabled) (handler_disabled fk)) (\<lambda>_.
     insert_in_transaction env q)))"

section \<open>Visible listing\<close>

text \<open>\<open>LIKE\<close> with \<open>%\<close>, \<open>_\<close> and the backslash as escape.\<close>

fun sql_like :: "string \<Rightarrow> string \<Rightarrow> bool" where
  "sql_like [] s = (s = [])"
| "sql_like (p # ps) s =
     (if p = CHR ''%'' then sql_like ps s \<or> (case s of [] \<Rightarrow> False | _ # cs \<Rightarrow> sql_like (p # ps) cs)
      else if p = CHR ''_'' then (case s of [] \<Rightarrow> False | _ # cs \<Rightarrow> sql_like ps cs)
      else if p = CHR 0x5C then
        (case ps of [] \<Rightarrow> False | q # qs \<Rightarrow> (case s of [] \<Rightarrow> False | c # cs \<Rightarrow> c = q \<and> sql_like qs cs))
      else (case s of [] \<Rightarrow> False | c # cs \<Rightarrow> c = p \<and> sql_like ps cs))"

definition build_search_pattern :: "string option \<Rightarrow> string option" where
  "build_search_pattern query = map_option (\<lambda>q. ''%'' @ to_lowercase q @ ''%'') query"

fun visible_to :: "repo_visibility \<Rightarrow> repo_db \<Rightarrow> repo_row \<Rightarrow> bool" where
  "visible_to PublicOnly s r = rw_public r"
| "visible_to AllRepos s r = True"
| "visible_to (VisibleTo u) s r =
     (rw_public r \<or> list_ex (\<lambda>(v, rid). v = u \<and> (rid = Some (rw_id r) \<or> rid = None)) (db_roles s))"

definition row_matches :: "repository_format option \<Rightarrow> repository_type option \<Rightarrow> string option \<Rightarrow> repo_row \<Rightarrow> bool" where
  "row_matches f t pattern r \<longleftrightarrow>
     (case f of None \<Rightarrow> True | Some x \<Rightarrow> rw_format r = x) \<and> (case t of None \<Rightarrow> True | Some x \<Rightarrow> rw_type r = x)
     \<and> (case pattern of None \<Rightarrow> True | Some p \<Rightarrow> sql_like p (to_lowercase (rw_key r)) \<or> sql_like p (to_lowercase (rw_name r))
           \<or> sql_like p (to_lowercase (case rw_description r of None \<Rightarrow> [] | Some d \<Rightarrow> d)))"

definition listed :: "repo_visibility \<Rightarrow> repository_format option \<Rightarrow> repository_type option \<Rightarrow> string option
    \<Rightarrow> repo_db \<Rightarrow> repo_row list" where
  "listed v f t pattern s = filter (\<lambda>r. row_matches f t pattern r \<and> visible_to v s r) (db_repos s)"

definition list_repos ::
  "repo_env \<Rightarrow> nat \<Rightarrow> nat \<Rightarrow> repository_format option \<Rightarrow> repository_type option \<Rightarrow> repo_visibility
   \<Rightarrow> string option \<Rightarrow> (repo_db, repo_row list \<times> nat) action" where
  "list_repos env offset limit f t v query =
     (let pattern = build_search_pattern query in
      andthen (select (ry_fail env) ''list'' (\<lambda>s. take limit (drop offset (ry_by_name env (listed v f t pattern s))))) (\<lambda>page.
      andthen (select (ry_fail env) ''count'' (\<lambda>s. length (listed v f t pattern s))) (\<lambda>total.
      give (page, total))))"

section \<open>Update and deletion\<close>

text \<open>\<open>COALESCE(new, old)\<close>.\<close>

definition coalesce :: "'a option \<Rightarrow> 'a option \<Rightarrow> 'a option" where
  "coalesce new old = (case new of Some a \<Rightarrow> Some a | None \<Rightarrow> old)"

definition updated_row :: "update_request \<Rightarrow> repo_row \<Rightarrow> repo_row" where
  "updated_row q r = r\<lparr>
     rw_key := (case up_key q of Some k \<Rightarrow> k | None \<Rightarrow> rw_key r),
     rw_name := (case up_name q of Some n \<Rightarrow> n | None \<Rightarrow> rw_name r),
     rw_description := coalesce (up_description q) (rw_description r),
     rw_public := (case up_public q of Some b \<Rightarrow> b | None \<Rightarrow> rw_public r),
     rw_quota := coalesce (Option.bind (up_quota q) id) (rw_quota r),
     rw_upstream := coalesce (up_upstream q) (rw_upstream r) \<rparr>"

definition key_taken :: "uuid \<Rightarrow> string option \<Rightarrow> repo_db \<Rightarrow> bool" where
  "key_taken rid key s = (case key of None \<Rightarrow> False
     | Some k \<Rightarrow> find_repo rid s \<noteq> None \<and> list_ex (\<lambda>r. rw_id r \<noteq> rid \<and> rw_key r = k) (db_repos s))"

definition update_error :: "string \<Rightarrow> app_error" where
  "update_error e = (if is_duplicate_key_error e then Conflict ''Repository with that key already exists'' else Database e)"

definition update_repository_row :: "repo_env \<Rightarrow> uuid \<Rightarrow> update_request \<Rightarrow> (repo_db, repo_row) action" where
  "update_repository_row env rid q s =
     (case ry_fail env ''update repository'' of
        Some e \<Rightarrow> (Inl (update_error e), s)
      | None \<Rightarrow>
          if key_taken rid (up_key q) s then (Inl (update_error duplicate_key_message), s)
          else (case find_repo rid s of
                  None \<Rightarrow> (Inl (NotFound ''Repository not found''), s)
                | Some r \<Rightarrow> (Inr (updated_row q r), update_repo rid (updated_row q) s)))"

definition update_repository :: "repo_env \<Rightarrow> uuid \<Rightarrow> update_request \<Rightarrow> (repo_db, repo_row) action" where
  "update_repository env rid q =
     andthen (of_result (case up_upstream q of
         None \<Rightarrow> Inr () | Some u \<Rightarrow> validate_outbound_url (ry_parse_url env) (ry_vars env) u ''Upstream URL'')) (\<lambda>_.
     update_repository_row env rid q)"

text \<open>Deleting the row deletes what refers to it (\<open>ON DELETE CASCADE\<close>); references without a cascade
  (promotion records, upload sessions) make the statement fail.\<close>

definition drop_repo :: "uuid \<Rightarrow> repo_db \<Rightarrow> repo_db" where
  "drop_repo rid s = s\<lparr>
     db_repos := filter (\<lambda>r. rw_id r \<noteq> rid) (db_repos s),
     db_members := filter (\<lambda>m. vm_virtual m \<noteq> rid \<and> vm_member m \<noteq> rid) (db_members s),
     db_roles := filter (\<lambda>(_, r). r \<noteq> Some rid) (db_roles s),
     db_config := (\<lambda>(r, k). if r = rid then None else db_config s (r, k)),
     db_token_repos := filter (\<lambda>(_, r). r \<noteq> rid) (db_token_repos s),
     db_artifacts := filter (\<lambda>a. art_repository a \<noteq> rid) (db_artifacts s),
     db_tags := filter (\<lambda>(r, _). r \<noteq> rid) (db_tags s),
     db_blobs := filter (\<lambda>(r, _). r \<noteq> rid) (db_blobs s),
     db_refs := filter (\<lambda>(r, _). r \<noteq> rid) (db_refs s) \<rparr>"

definition delete_repo :: "repo_env \<Rightarrow> uuid \<Rightarrow> (repo_db, unit) action" where
  "delete_repo env rid s =
     (case ry_fail env ''delete repository'' of
        Some e \<Rightarrow> (Inl (Database e), s)
      | None \<Rightarrow> if find_repo rid s = None then (Inl (NotFound ''Repository not found''), s)
                else (Inr (), drop_repo rid s))"

section \<open>Usage and quota\<close>

definition live_size :: "uuid \<Rightarrow> repo_db \<Rightarrow> int" where
  "live_size rid s = sum_list (map art_size (filter (\<lambda>a. art_repository a = rid \<and> \<not> art_deleted a) (db_artifacts s)))"

definition get_storage_usage :: "repo_env \<Rightarrow> uuid \<Rightarrow> (repo_db, int) action" where
  "get_storage_usage env rid = select (ry_fail env) ''storage usage'' (live_size rid)"

text \<open>The addition is on \<open>i64\<close> and wraps in a release build.\<close>

definition check_quota :: "repo_env \<Rightarrow> uuid \<Rightarrow> int \<Rightarrow> (repo_db, bool) action" where
  "check_quota env rid additional =
     andthen (repo_by_id env rid) (\<lambda>r.
     case rw_quota r of
       Some quota \<Rightarrow> andthen (get_storage_usage env rid) (\<lambda>usage. give (as_i64 (usage + additional) \<le> quota))
     | None \<Rightarrow> give True)"

section \<open>Format keys\<close>

lemma format_arms_distinct: "distinct (map fst format_arms)"
  by (simp add: format_arms_def)

lemma format_arms_derive: "(derive_format_key f, f) \<in> set format_arms"
  by (cases f) (simp_all add: format_arms_def)

lemma format_arms_only: "(k, f) \<in> set format_arms \<Longrightarrow> k = derive_format_key f"
proof -
  have "list_all (\<lambda>(k, f). k = derive_format_key f) format_arms" by (simp add: format_arms_def)
  then show "(k, f) \<in> set format_arms \<Longrightarrow> k = derive_format_key f" by (auto simp: list_all_iff)
qed

text \<open>\<open>parse_format_str\<close> is the inverse of \<open>derive_format_key\<close> up to letter case: a text names a
  built-in format exactly when its lower-case form is the format's key.\<close>

theorem format_keys_roundtrip:
  "parse_format_str s = Some f \<longleftrightarrow> to_lowercase s = derive_format_key f"
  using format_arms_derive format_arms_only
  by (auto simp: parse_format_str_def map_of_eq_Some_iff[OF format_arms_distinct])

lemma response_format_unusable:
  "parse_format_str (response_format f) = None \<longleftrightarrow> f \<in> {WasmOci, HelmOci, CondaNative}"
  by (cases f) (simp_all add: parse_format_str_def format_arms_def to_lowercase_def lower_char_def)

section \<open>The table's invariant\<close>

text \<open>Identifiers and keys are unique, and a remote repository has an upstream.\<close>

definition repos_ok :: "repo_db \<Rightarrow> bool" where
  "repos_ok s \<longleftrightarrow> distinct (map rw_id (db_repos s)) \<and> distinct (map rw_key (db_repos s))
     \<and> (\<forall>r \<in> set (db_repos s). rw_type r = RemoteRepo \<longrightarrow> rw_upstream r \<noteq> None)"

lemma map_if_id: "(\<And>x. g (f x) = g x) \<Longrightarrow> map g (map (\<lambda>x. if P x then f x else x) xs) = map g xs"
  by (induction xs) auto

lemma repos_ok_update_repo:
  assumes "repos_ok s" "\<And>r. rw_id (f r) = rw_id r" "\<And>r. rw_key (f r) = rw_key r" "\<And>r. rw_type (f r) = rw_type r"
    "\<And>r. rw_upstream r \<noteq> None \<Longrightarrow> rw_upstream (f r) \<noteq> None"
  shows "repos_ok (update_repo rid f s)"
proof -
  let ?g = "\<lambda>r. if rw_id r = rid then f r else r"
  have "map rw_id (map ?g (db_repos s)) = map rw_id (db_repos s)" "map rw_key (map ?g (db_repos s)) = map rw_key (db_repos s)"
    by (rule map_if_id, simp add: assms)+
  then show ?thesis using assms(1,4,5) by (auto simp: repos_ok_def update_repo_def simp del: map_map)
qed

lemma repos_ok_insert:
  assumes "repos_ok s" "insert_repository env q s = (Inr r, t)" "ry_new_id env \<notin> rw_id ` set (db_repos s)"
  shows "repos_ok t"
proof -
  have t: "t = s\<lparr> db_repos := db_repos s @ [new_repo_row env q] \<rparr>" "cr_key q \<notin> rw_key ` set (db_repos s)"
    "\<not> (cr_type q = RemoteRepo \<and> cr_upstream q = None)"
    using assms(2) by (auto simp: insert_repository_def list_ex_iff split: option.splits if_splits)
  then show ?thesis using assms(1,3) by (auto simp: repos_ok_def new_repo_row_def)
qed

lemma silent_state:
  "snd (select fail name g s) = s" "snd (some_or e x s) = s" "snd (repo_by_key env key s) = s" "snd (repo_by_id env rid s) = s"
  by (auto simp: repo_by_key_def repo_by_id_def run_simps split: option.split)

lemma repos_ok_set_format_key:
  "repos_ok s \<Longrightarrow> set_format_key env rid fk s = (Inr u, t) \<Longrightarrow> repos_ok t"
  by (cases fk) (auto simp: set_format_key_def action_simps intro!: repos_ok_update_repo)

lemma repos_ok_create:
  assumes "repos_ok s" "ry_new_id env \<notin> rw_id ` set (db_repos s)"
  shows "repos_ok (snd (create_repo env q s))"
proof -
  have "repos_ok (snd (insert_in_transaction env q s))"
  proof (cases "insert_repository env q s")
    case (Pair r t)
    then show ?thesis
    proof (cases r)
      case (Inr row)
      then have "repos_ok t" using assms repos_ok_insert Pair by blast
      then have "repos_ok u" if "andthen (set_format_key env (rw_id row) (cr_format_key q)) (\<lambda>_. execute (ry_fail env) ''commit'' id) t
          = (Inr x, u)" for x u
        using that repos_ok_set_format_key by (auto simp: action_simps)
      then show ?thesis using assms(1) Pair Inr
        by (auto simp: insert_in_transaction_def split: option.split prod.split sum.split)
    qed (use assms(1) Pair in \<open>auto simp: insert_in_transaction_def silent_state split: option.split\<close>)
  qed
  then show ?thesis using assms(1)
    by (auto simp: create_repo_def Let_def run_simps split: option.splits sum.splits prod.splits)
qed

lemma find_repo_some: "find_repo rid s = Some r \<Longrightarrow> r \<in> set (db_repos s) \<and> rw_id r = rid"
  unfolding find_repo_def by (auto dest: find_SomeD)

lemma find_repo_unique: "repos_ok s \<Longrightarrow> r \<in> set (db_repos s) \<Longrightarrow> find_repo (rw_id r) s = Some r"
  unfolding repos_ok_def find_repo_def by (simp add: find_distinct)

end
