(* ===== verification/Promotion.thy ===== *)
theory Promotion
  imports Promotion_Policy Quality_Gate Repositories
begin

text \<open>
  Promotion of artifacts from a hosted repository to a release repository
  (\<open>api/handlers/promotion.rs\<close>) and its approval workflow (\<open>api/handlers/approval.rs\<close>): the single and the
  bulk promotion, the rejection, the link of a staging repository to its release repository, and the
  request, approval and rejection of a promotion. They call the quality gate and the promotion policy, copy
  the content in storage and insert the row of the new artifact. The paged listings are left out.
\<close>

section \<open>State\<close>

record repository =
  rp_id :: uuid
  rp_key :: string
  rp_format :: string
  rp_type :: repository_type
  rp_backend :: string
  rp_path :: string
  rp_require_approval :: "bool option"

text \<open>What a promotion records of its policy check: none was made, its outcome, or the approval.\<close>

datatype policy_result = Unchecked | Checked policy_evaluation | ApprovedVia uuid

record history_row =
  h_id :: uuid
  h_artifact :: uuid
  h_source :: uuid
  h_target :: uuid
  h_by :: uuid
  h_status :: string
  h_reason :: "string option"
  h_policy :: "policy_result option"
  h_notes :: "string option"

record approval_row =
  ap_id :: uuid
  ap_artifact :: uuid
  ap_source :: uuid
  ap_target :: uuid
  ap_requested_by :: uuid
  ap_requested_at :: datetime
  ap_status :: string
  ap_reviewed_by :: "uuid option"
  ap_reviewed_at :: "datetime option"
  ap_review_notes :: "string option"
  ap_policy :: "policy_evaluation option"
  ap_skip :: bool
  ap_notes :: "string option"

text \<open>Content lives under a storage location (backend and path) and a key. \<open>pol\<close> and \<open>qual\<close> are the tables
  of the policy and of the quality service, whose views of \<open>artifacts\<close> follow the insertions.\<close>

record promo_db =
  repos :: "repository list"
  config :: "uuid \<times> string \<rightharpoonup> string"
  arts :: "stored_artifact list"
  history :: "history_row list"
  approvals :: "approval_row list"
  store :: "location \<times> string \<rightharpoonup> string"
  pol :: policy_db
  qual :: quality_db

text \<open>The environment: faults of the statements here, of the policy's and of the gate's; the clock; fresh
  identifiers; the text form of a UUID; whether the quality service is wired; and whether the storage
  registry knows a location.\<close>

record promo_env =
  pv_fail :: faults
  pv_policy_fail :: faults
  pv_gate_fail :: faults
  pv_now :: datetime
  pv_artifact_id :: uuid
  pv_record_id :: uuid
  pv_parse_uuid :: "string \<Rightarrow> uuid option"
  pv_show_uuid :: "uuid \<Rightarrow> string"
  pv_gate_wired :: bool
  pv_storage :: "location \<Rightarrow> app_error option"

section \<open>Repositories\<close>

definition validate_promotion_source_is_staging :: "repository \<Rightarrow> unit result" where
  "validate_promotion_source_is_staging source =
     (if \<not> is_hosted (rp_type source)
      then Inl (Validation ''Source repository must be a hosted (local or staging) repository'')
      else Inr ())"

definition validate_promotion_target_and_format :: "repository \<Rightarrow> repository \<Rightarrow> unit result" where
  "validate_promotion_target_and_format source target =
     (if rp_type target \<noteq> LocalRepo then Inl (Validation ''Target repository must be a local (release) repository'')
      else if rp_format source \<noteq> rp_format target then Inl (Validation ''Repository format mismatch'')
      else Inr ())"

definition validate_promotion_repos :: "repository \<Rightarrow> repository \<Rightarrow> unit result" where
  "validate_promotion_repos source target =
     bind_result (validate_promotion_source_is_staging source)
       (\<lambda>_. validate_promotion_target_and_format source target)"

definition validate_release_target_link :: "repository \<Rightarrow> repository \<Rightarrow> unit result" where
  "validate_release_target_link staging release =
     (if rp_type release \<noteq> LocalRepo then Inl (Validation ''Release target must be a local repository'')
      else if rp_format staging \<noteq> rp_format release then Inl (Validation ''Format mismatch'')
      else if rp_id staging = rp_id release then Inl (Validation ''A staging repository cannot be linked to itself'')
      else Inr ())"

definition get_by_key :: "promo_env \<Rightarrow> string \<Rightarrow> (promo_db, repository) action" where
  "get_by_key env key =
     andthen (select (pv_fail env) ''repository'' (\<lambda>s. find (\<lambda>r. rp_key r = key) (repos s)))
       (some_or (NotFound ''Repository not found''))"

definition key_of :: "uuid \<Rightarrow> promo_db \<Rightarrow> string option" where
  "key_of rid s = map_option rp_key (find (\<lambda>r. rp_id r = rid) (repos s))"

definition resolve_release_target_key :: "promo_env \<Rightarrow> uuid \<Rightarrow> (promo_db, string option) action" where
  "resolve_release_target_key env rid =
     andthen (select (pv_fail env) ''release target'' (\<lambda>s. config s (rid, ''release_repository_id''))) (\<lambda>row.
     case row of
       None \<Rightarrow> give None
     | Some v \<Rightarrow>
         andthen (some_or (Internal (''Invalid UUID in release_repository_id config: '' @ v)) (pv_parse_uuid env v)) (\<lambda>i.
         select (pv_fail env) ''release key'' (key_of i)))"

definition resolve_effective_target :: "promo_env \<Rightarrow> string option \<Rightarrow> uuid \<Rightarrow> (promo_db, string) action" where
  "resolve_effective_target env explicit rid =
     (case explicit of
        Some target \<Rightarrow> give target
      | None \<Rightarrow> andthen (resolve_release_target_key env rid)
          (some_or (Validation ''No target_repository specified and no linked release repository configured'')))"

definition enforce_release_target_link :: "promo_env \<Rightarrow> uuid \<Rightarrow> string \<Rightarrow> (promo_db, unit) action" where
  "enforce_release_target_link env rid actual =
     andthen (resolve_release_target_key env rid) (\<lambda>linked.
     run_or (case linked of None \<Rightarrow> True | Some k \<Rightarrow> k = actual)
       (Validation ''This staging repository is linked to another release repository''))"

definition check_approval_required :: "promo_env \<Rightarrow> uuid \<Rightarrow> (promo_db, bool) action" where
  "check_approval_required env rid =
     select (pv_fail env) ''require approval'' (\<lambda>s.
       case find (\<lambda>r. rp_id r = rid) (repos s) of None \<Rightarrow> False | Some r \<Rightarrow> rp_require_approval r = Some True)"

section \<open>The quality gate\<close>

datatype gate_outcome = GateBlock gate_evaluation | GateWarn "gate_violation list" | NotEvaluated

definition classify_gate_evaluation :: "gate_evaluation \<Rightarrow> gate_outcome" where
  "classify_gate_evaluation e =
     (if ge_passed e then NotEvaluated else if ge_action e = ''block'' then GateBlock e
      else GateWarn (ge_violations e))"

text \<open>An evaluation that fails counts as none.\<close>

definition evaluate_gate_once :: "promo_env \<Rightarrow> uuid \<Rightarrow> uuid \<Rightarrow> bool \<Rightarrow> (promo_db, gate_outcome) action" where
  "evaluate_gate_once env aid rid skip s =
     (if skip \<or> \<not> pv_gate_wired env then (Inr NotEvaluated, s)
      else (case evaluate_quality_gate (pv_gate_fail env) aid rid (qual s) of
              (Inr e, q) \<Rightarrow> (Inr (classify_gate_evaluation e), s\<lparr> qual := q \<rparr>)
            | (Inl _, q) \<Rightarrow> (Inr NotEvaluated, s\<lparr> qual := q \<rparr>)))"

definition gate_block_error :: "gate_evaluation \<Rightarrow> app_error" where
  "gate_block_error e = Conflict (''Promotion blocked by quality gate '' @ [quote] @ ge_gate e @ [quote]
     @ '' (health score: '' @ show_int (ge_score e) @ '', grade: '' @ [ge_grade e] @ '', violations: ''
     @ show_nat (length (ge_violations e)) @ '')'')"

section \<open>Copying an artifact\<close>

definition location_of :: "repository \<Rightarrow> location" where
  "location_of r = (rp_backend r, rp_path r)"

definition storage_for_repo :: "promo_env \<Rightarrow> repository \<Rightarrow> (promo_db, unit) action" where
  "storage_for_repo env r = (case pv_storage env (location_of r) of Some e \<Rightarrow> refuse e | None \<Rightarrow> give ())"

text \<open>The backends' operations with the texts of their errors.\<close>

definition storage_get :: "promo_env \<Rightarrow> repository \<Rightarrow> string \<Rightarrow> promo_db \<Rightarrow> string + string" where
  "storage_get env r key s =
     (case pv_fail env ''storage get'' of
        Some e \<Rightarrow> Inl e
      | None \<Rightarrow> (case store s (location_of r, key) of None \<Rightarrow> Inl ''not found'' | Some c \<Rightarrow> Inr c))"

definition storage_put :: "promo_env \<Rightarrow> repository \<Rightarrow> string \<Rightarrow> string \<Rightarrow> promo_db \<Rightarrow> (string + unit) \<times> promo_db" where
  "storage_put env r key c s =
     (case pv_fail env ''storage put'' of
        Some e \<Rightarrow> (Inl e, s)
      | None \<Rightarrow> (Inr (), s\<lparr> store := (store s)((location_of r, key) \<mapsto> c) \<rparr>))"

definition cleanup_soft_deleted_artifact :: "promo_env \<Rightarrow> uuid \<Rightarrow> string \<Rightarrow> promo_db \<Rightarrow> promo_db" where
  "cleanup_soft_deleted_artifact env rid path s =
     (if pv_fail env ''cleanup'' \<noteq> None then s
      else (let gone = (\<lambda>a. art_repository a = rid \<and> art_path a = path \<and> art_deleted a);
                ids = map art_id (filter gone (arts s))
            in s\<lparr> arts := filter (\<lambda>a. \<not> gone a) (arts s),
                  qual := (qual s)\<lparr> qa_artifacts := filter (\<lambda>a. qa_id a \<notin> set ids) (qa_artifacts (qual s)) \<rparr> \<rparr>))"

text \<open>The row of the copy: the columns the statement lists, the defaults for the others.\<close>

definition promoted_row :: "promo_env \<Rightarrow> uuid \<Rightarrow> uuid \<Rightarrow> stored_artifact \<Rightarrow> stored_artifact" where
  "promoted_row env rid uid a = a\<lparr> art_id := pv_artifact_id env, art_repository := rid, art_deleted := False,
     art_quarantine := None, art_until := None, art_uploaded_by := Some uid \<rparr>"

text \<open>The path is unique in a repository.\<close>

definition insert_artifact :: "promo_env \<Rightarrow> uuid \<Rightarrow> uuid \<Rightarrow> stored_artifact \<Rightarrow> promo_db \<Rightarrow> (string + unit) \<times> promo_db" where
  "insert_artifact env rid uid a s =
     (case pv_fail env ''insert artifact'' of
        Some e \<Rightarrow> (Inl e, s)
      | None \<Rightarrow>
          if list_ex (\<lambda>b. art_repository b = rid \<and> art_path b = art_path a) (arts s)
          then (Inl ''duplicate key value violates unique constraint'', s)
          else (Inr (), s\<lparr> arts := arts s @ [promoted_row env rid uid a],
                 pol := (pol s)\<lparr> created_at := (created_at (pol s))(pv_artifact_id env \<mapsto> pv_now env) \<rparr>,
                 qual := (qual s)\<lparr> qa_artifacts := qa_artifacts (qual s) @
                   [\<lparr> qa_id = pv_artifact_id env, qa_repository = rid, qa_deleted = False,
                      qa_version = art_version a, qa_metadata = None, qa_storage_key = art_storage_key a \<rparr>] \<rparr> \<rparr>))"

definition promotion_record ::
  "promo_env \<Rightarrow> uuid \<Rightarrow> uuid \<Rightarrow> uuid \<Rightarrow> uuid \<Rightarrow> policy_result \<Rightarrow> string option \<Rightarrow> history_row" where
  "promotion_record env aid source target uid result notes =
     \<lparr> h_id = pv_record_id env, h_artifact = aid, h_source = source, h_target = target, h_by = uid,
       h_status = ''promoted'', h_reason = None, h_policy = Some result, h_notes = notes \<rparr>"

text \<open>The steps of the copy as the single promotion and the approval make them, with their errors.\<close>

definition read_source :: "promo_env \<Rightarrow> repository \<Rightarrow> string \<Rightarrow> (promo_db, string) action" where
  "read_source env r key s = (case storage_get env r key s of
     Inl e \<Rightarrow> (Inl (Internal (''Failed to read source artifact: '' @ e)), s) | Inr c \<Rightarrow> (Inr c, s))"

definition write_target :: "promo_env \<Rightarrow> repository \<Rightarrow> string \<Rightarrow> string \<Rightarrow> (promo_db, unit) action" where
  "write_target env r key c s = (case storage_put env r key c s of
     (Inl e, t) \<Rightarrow> (Inl (Internal (''Failed to write promoted artifact: '' @ e)), t) | (Inr _, t) \<Rightarrow> (Inr (), t))"

definition insert_copy :: "promo_env \<Rightarrow> uuid \<Rightarrow> uuid \<Rightarrow> stored_artifact \<Rightarrow> (promo_db, unit) action" where
  "insert_copy env rid uid a s =
     (case insert_artifact env rid uid a (cleanup_soft_deleted_artifact env rid (art_path a) s) of
        (Inl e, t) \<Rightarrow> (Inl (if contains ''duplicate key'' e
             then Conflict (''Artifact already exists in target repository: '' @ art_path a) else Database e), t)
      | (Inr _, t) \<Rightarrow> (Inr (), t))"

definition copy_artifact ::
  "promo_env \<Rightarrow> repository \<Rightarrow> repository \<Rightarrow> stored_artifact \<Rightarrow> uuid \<Rightarrow> policy_result \<Rightarrow> string option
   \<Rightarrow> (promo_db, unit) action" where
  "copy_artifact env source target a uid result notes =
     andthen (storage_for_repo env source) (\<lambda>_.
     andthen (storage_for_repo env target) (\<lambda>_.
     andthen (read_source env source (art_storage_key a)) (\<lambda>content.
     andthen (write_target env target (art_storage_key a) content) (\<lambda>_.
     andthen (insert_copy env (rp_id target) uid a) (\<lambda>_.
     execute (pv_fail env) ''insert history'' (\<lambda>s. s\<lparr> history := history s @
       [promotion_record env (art_id a) (rp_id source) (rp_id target) uid result notes] \<rparr>))))))"

lemma copy_steps_ok:
  "storage_for_repo env r s = (Inr u, t) \<longleftrightarrow> pv_storage env (location_of r) = None \<and> t = s"
  "read_source env r key s = (Inr c, t) \<longleftrightarrow> storage_get env r key s = Inr c \<and> t = s"
  "write_target env r key c s = (Inr u, t) \<longleftrightarrow> storage_put env r key c s = (Inr (), t)"
  "insert_copy env rid uid a s = (Inr u, t) \<longleftrightarrow>
     insert_artifact env rid uid a (cleanup_soft_deleted_artifact env rid (art_path a) s) = (Inr (), t)"
  by (auto simp: storage_for_repo_def read_source_def write_target_def insert_copy_def refuse_def give_def
      split: option.split sum.split prod.split)

section \<open>Promotion\<close>

record promote_request =
  rq_target :: "string option"
  rq_skip :: bool
  rq_notes :: "string option"

record response_violation =
  rv_rule :: string
  rv_severity :: string
  rv_message :: string

record promotion_response =
  pr_promoted :: bool
  pr_source :: string
  pr_target :: string
  pr_id :: "uuid option"
  pr_violations :: "response_violation list"
  pr_message :: "string option"

definition slash :: "string \<Rightarrow> string \<Rightarrow> string" where
  "slash a b = a @ ''/'' @ b"

definition live_in :: "uuid \<Rightarrow> uuid \<Rightarrow> promo_db \<Rightarrow> stored_artifact option" where
  "live_in aid rid s = find (\<lambda>a. art_id a = aid \<and> art_repository a = rid \<and> \<not> art_deleted a) (arts s)"

definition to_response_violation :: "policy_violation \<Rightarrow> response_violation" where
  "to_response_violation v = \<lparr> rv_rule = pv_rule v, rv_severity = pv_severity v, rv_message = pv_message v \<rparr>"

definition not_promoted :: "string \<Rightarrow> string \<Rightarrow> response_violation list \<Rightarrow> string \<Rightarrow> promotion_response" where
  "not_promoted source target vs msg = \<lparr> pr_promoted = False, pr_source = source, pr_target = target,
     pr_id = None, pr_violations = vs, pr_message = Some msg \<rparr>"

text \<open>The policy check: \<open>None\<close> when the request skips it.\<close>

definition evaluate_policy :: "promo_env \<Rightarrow> uuid \<Rightarrow> uuid \<Rightarrow> bool \<Rightarrow> (promo_db, policy_evaluation option) action" where
  "evaluate_policy env aid rid skip =
     (if skip then give None
      else andthen (on_part pol (\<lambda>p s. s\<lparr> pol := p \<rparr>) (evaluate_artifact (pv_policy_fail env) (pv_now env) aid rid))
        (\<lambda>e. give (Some e)))"

definition policy_refuses :: "policy_evaluation option \<Rightarrow> bool" where
  "policy_refuses e = (case e of None \<Rightarrow> False | Some r \<Rightarrow> \<not> pe_passed r \<and> pe_action r = Block)"

definition approval_hint :: string where
  "approval_hint = ''This repository requires approval for promotions. Use POST /api/v1/approval/request to submit an approval request.''"

text \<open>After the policy check. The violations of a warning gate join a list that the response of a success
  no longer contains.\<close>

definition promote_unless_refused ::
  "promo_env \<Rightarrow> auth_extension \<Rightarrow> repository \<Rightarrow> repository \<Rightarrow> stored_artifact \<Rightarrow> promote_request
   \<Rightarrow> policy_evaluation option \<Rightarrow> (promo_db, promotion_response) action" where
  "promote_unless_refused env auth source target a req e =
     (let src = slash (rp_key source) (art_path a); tgt = slash (rp_key target) (art_path a)
      in if policy_refuses e
         then give (not_promoted src tgt (case e of None \<Rightarrow> [] | Some r \<Rightarrow> map to_response_violation (pe_violations r))
                ''Promotion blocked by policy violations'')
         else
           andthen (copy_artifact env source target a (user_id auth)
               (case e of None \<Rightarrow> Unchecked | Some r \<Rightarrow> Checked r) (rq_notes req)) (\<lambda>_.
           give \<lparr> pr_promoted = True, pr_source = src, pr_target = tgt, pr_id = Some (pv_record_id env),
                  pr_violations = [], pr_message = Some ''Artifact promoted successfully'' \<rparr>))"

text \<open>From the gate's outcome on.\<close>

definition promote_checked ::
  "promo_env \<Rightarrow> auth_extension \<Rightarrow> repository \<Rightarrow> repository \<Rightarrow> stored_artifact \<Rightarrow> promote_request
   \<Rightarrow> (promo_db, promotion_response) action" where
  "promote_checked env auth source target a req =
     andthen (of_result (validate_promotion_repos source target)) (\<lambda>_.
     andthen (check_approval_required env (rp_id source)) (\<lambda>required.
     if required
     then give (not_promoted (slash (rp_key source) (pv_show_uuid env (art_id a))) (rp_key target) [] approval_hint)
     else andthen (evaluate_policy env (art_id a) (rp_id source) (rq_skip req))
            (promote_unless_refused env auth source target a req)))"

definition promote_artifact ::
  "promo_env \<Rightarrow> auth_extension \<Rightarrow> string \<Rightarrow> uuid \<Rightarrow> promote_request \<Rightarrow> (promo_db, promotion_response) action" where
  "promote_artifact env auth key aid req =
     andthen (get_by_key env key) (\<lambda>source.
     andthen (resolve_effective_target env (rq_target req) (rp_id source)) (\<lambda>target_key.
     andthen (enforce_release_target_link env (rp_id source) target_key) (\<lambda>_.
     andthen (get_by_key env target_key) (\<lambda>target.
     andthen (select (pv_fail env) ''artifact'' (live_in aid (rp_id source))) (\<lambda>row.
     andthen (some_or (NotFound ''Artifact not found in source repository'') row) (\<lambda>a.
     andthen (evaluate_gate_once env aid (rp_id source) (rq_skip req)) (\<lambda>gate.
     case gate of
       GateBlock e \<Rightarrow> refuse (gate_block_error e)
     | _ \<Rightarrow> promote_checked env auth source target a req)))))))"

section \<open>Bulk promotion\<close>

text \<open>One artifact of a bulk promotion. An error of the storage registry ends the whole request; any other
  failure is an entry of the response, and a history row that cannot be inserted is ignored.\<close>

definition promote_one ::
  "promo_env \<Rightarrow> auth_extension \<Rightarrow> repository \<Rightarrow> repository \<Rightarrow> string option \<Rightarrow> uuid
   \<Rightarrow> (promo_db, promotion_response) action" where
  "promote_one env auth source target notes aid s =
     (case pv_fail env ''artifact'' of
        Some e \<Rightarrow> (Inr (not_promoted (slash (rp_key source) (pv_show_uuid env aid)) (rp_key target) []
                     (''Database error: '' @ e)), s)
      | None \<Rightarrow>
     (case live_in aid (rp_id source) s of
        None \<Rightarrow> (Inr (not_promoted (slash (rp_key source) (pv_show_uuid env aid)) (rp_key target) []
                   ''Artifact not found''), s)
      | Some a \<Rightarrow>
     (let src = slash (rp_key source) (art_path a); tgt = slash (rp_key target) (art_path a);
          failed = (\<lambda>msg. Inr (not_promoted src tgt [] msg))
      in case pv_storage env (location_of source) of
           Some e \<Rightarrow> (Inl e, s)
         | None \<Rightarrow>
      (case pv_storage env (location_of target) of
           Some e \<Rightarrow> (Inl e, s)
         | None \<Rightarrow>
      (case storage_get env source (art_storage_key a) s of
           Inl e \<Rightarrow> (failed (''Failed to read source artifact: '' @ e), s)
         | Inr c \<Rightarrow>
      (case storage_put env target (art_storage_key a) c s of
           (Inl e, s1) \<Rightarrow> (failed (''Failed to write promoted artifact: '' @ e), s1)
         | (Inr _, s1) \<Rightarrow>
      (case insert_artifact env (rp_id target) (user_id auth) a
              (cleanup_soft_deleted_artifact env (rp_id target) (art_path a) s1) of
           (Inl e, s2) \<Rightarrow> (failed (if contains ''duplicate key'' e then ''Artifact already exists in target''
                                 else ''Database error: '' @ e), s2)
         | (Inr _, s2) \<Rightarrow>
             (Inr \<lparr> pr_promoted = True, pr_source = src, pr_target = tgt, pr_id = Some (pv_record_id env),
                    pr_violations = [], pr_message = Some ''Promoted successfully'' \<rparr>,
              if pv_fail env ''insert history'' \<noteq> None then s2
              else s2\<lparr> history := history s2 @
                [promotion_record env aid (rp_id source) (rp_id target) (user_id auth) Unchecked notes] \<rparr>))))))))"

fun promote_each ::
  "(nat \<Rightarrow> promo_env) \<Rightarrow> auth_extension \<Rightarrow> repository \<Rightarrow> repository \<Rightarrow> string option \<Rightarrow> nat \<Rightarrow> uuid list
   \<Rightarrow> (promo_db, promotion_response list) action" where
  "promote_each envs auth source target notes n [] = give []"
| "promote_each envs auth source target notes n (aid # aids) =
     andthen (promote_one (envs n) auth source target notes aid) (\<lambda>r.
     andthen (promote_each envs auth source target notes (Suc n) aids) (\<lambda>rs. give (r # rs)))"

record bulk_response =
  br_total :: nat
  br_promoted :: nat
  br_failed :: nat
  br_results :: "promotion_response list"

definition promote_artifacts_bulk ::
  "promo_env \<Rightarrow> (nat \<Rightarrow> promo_env) \<Rightarrow> auth_extension \<Rightarrow> string \<Rightarrow> uuid list \<Rightarrow> promote_request
   \<Rightarrow> (promo_db, bulk_response) action" where
  "promote_artifacts_bulk env envs auth key aids req =
     andthen (get_by_key env key) (\<lambda>source.
     andthen (resolve_effective_target env (rq_target req) (rp_id source)) (\<lambda>target_key.
     andthen (enforce_release_target_link env (rp_id source) target_key) (\<lambda>_.
     andthen (get_by_key env target_key) (\<lambda>target.
     andthen (of_result (validate_promotion_repos source target)) (\<lambda>_.
     andthen (promote_each envs auth source target (rq_notes req) 0 aids) (\<lambda>rs.
     give \<lparr> br_total = length aids, br_promoted = length (filter pr_promoted rs),
            br_failed = length (filter (\<lambda>r. \<not> pr_promoted r) rs), br_results = rs \<rparr>))))))"

section \<open>Rejection and the release link\<close>

definition promotion_reject_artifact ::
  "promo_env \<Rightarrow> auth_extension \<Rightarrow> string \<Rightarrow> uuid \<Rightarrow> string \<Rightarrow> string option \<Rightarrow> (promo_db, uuid) action" where
  "promotion_reject_artifact env auth key aid reason notes =
     andthen (get_by_key env key) (\<lambda>source.
     andthen (run_or (rp_type source = StagingRepo)
       (Validation ''Artifacts can only be rejected from staging repositories'')) (\<lambda>_.
     andthen (select (pv_fail env) ''exists'' (\<lambda>s. live_in aid (rp_id source) s \<noteq> None)) (\<lambda>ex.
     andthen (run_or ex (NotFound ''Artifact not found in staging repository'')) (\<lambda>_.
     andthen (execute (pv_fail env) ''insert rejection'' (\<lambda>s. s\<lparr> history := history s @
       [\<lparr> h_id = pv_record_id env, h_artifact = aid, h_source = rp_id source, h_target = rp_id source,
          h_by = user_id auth, h_status = ''rejected'', h_reason = Some reason, h_policy = None,
          h_notes = notes \<rparr>] \<rparr>)) (\<lambda>_.
     give (pv_record_id env))))))"

text \<open>The linked key and identifier, if any.\<close>

definition get_release_target :: "promo_env \<Rightarrow> string \<Rightarrow> (promo_db, (string \<times> uuid) option) action" where
  "get_release_target env key =
     andthen (get_by_key env key) (\<lambda>r.
     andthen (run_or (rp_type r = StagingRepo)
       (Validation ''Release target linking is only available for staging repositories'')) (\<lambda>_.
     andthen (select (pv_fail env) ''release target'' (\<lambda>s. config s (rp_id r, ''release_repository_id''))) (\<lambda>row.
     case row of
       None \<Rightarrow> give None
     | Some v \<Rightarrow>
         andthen (some_or (Internal (''Invalid UUID in release_repository_id config: '' @ v)) (pv_parse_uuid env v)) (\<lambda>i.
         andthen (select (pv_fail env) ''release key'' (key_of i)) (\<lambda>k. give (map_option (\<lambda>k. (k, i)) k))))))"

definition set_release_target ::
  "promo_env \<Rightarrow> auth_extension \<Rightarrow> string \<Rightarrow> string option \<Rightarrow> (promo_db, (string \<times> uuid) option) action" where
  "set_release_target env auth key release =
     andthen (of_result (require_scope auth ''write'')) (\<lambda>_.
     andthen (get_by_key env key) (\<lambda>staging.
     andthen (run_or (rp_type staging = StagingRepo)
       (Validation ''Release target linking is only available for staging repositories'')) (\<lambda>_.
     case release of
       Some rk \<Rightarrow>
         andthen (\<lambda>s. (case get_by_key env rk s of
             (Inl _, t) \<Rightarrow> (Inl (Validation (''Release repository '' @ rk @ '' not found'')), t)
           | (Inr r, t) \<Rightarrow> (Inr r, t))) (\<lambda>target.
         andthen (of_result (validate_release_target_link staging target)) (\<lambda>_.
         andthen (execute (pv_fail env) ''upsert config'' (\<lambda>s. s\<lparr> config := (config s)
             ((rp_id staging, ''release_repository_id'') \<mapsto> pv_show_uuid env (rp_id target)) \<rparr>)) (\<lambda>_.
         give (Some (rk, rp_id target)))))
     | None \<Rightarrow>
         andthen (execute (pv_fail env) ''delete config'' (\<lambda>s. s\<lparr> config := (config s)
             ((rp_id staging, ''release_repository_id'') := None) \<rparr>)) (\<lambda>_.
         give None))))"

section \<open>Approval\<close>

record approval_request =
  aq_source :: string
  aq_target :: string
  aq_artifact :: uuid
  aq_skip :: bool
  aq_notes :: "string option"

text \<open>A policy evaluation that fails is recorded as none.\<close>

definition request_approval :: "promo_env \<Rightarrow> auth_extension \<Rightarrow> approval_request \<Rightarrow> (promo_db, approval_row) action" where
  "request_approval env auth req =
     andthen (get_by_key env (aq_source req)) (\<lambda>source.
     andthen (get_by_key env (aq_target req)) (\<lambda>target.
     andthen (of_result (validate_promotion_repos source target)) (\<lambda>_.
     andthen (select (pv_fail env) ''artifact'' (live_in (aq_artifact req) (rp_id source))) (\<lambda>row.
     andthen (some_or (NotFound ''Artifact not found in source repository'') row) (\<lambda>_.
     andthen (select (pv_fail env) ''pending'' (\<lambda>s. list_ex (\<lambda>p. ap_artifact p = aq_artifact req
         \<and> ap_source p = rp_id source \<and> ap_target p = rp_id target \<and> ap_status p = ''pending'') (approvals s)))
       (\<lambda>pending.
     andthen (run_or (\<not> pending)
         (Conflict ''A pending approval request already exists for this artifact and repository pair'')) (\<lambda>_.
     andthen (\<lambda>s. (case evaluate_policy env (aq_artifact req) (rp_id source) (aq_skip req) s of
         (Inl _, t) \<Rightarrow> (Inr None, t) | (Inr e, t) \<Rightarrow> (Inr e, t))) (\<lambda>e.
     (let p = \<lparr> ap_id = pv_record_id env, ap_artifact = aq_artifact req, ap_source = rp_id source,
                ap_target = rp_id target, ap_requested_by = user_id auth, ap_requested_at = pv_now env,
                ap_status = ''pending'', ap_reviewed_by = None, ap_reviewed_at = None, ap_review_notes = None,
                ap_policy = e, ap_skip = aq_skip req, ap_notes = aq_notes req \<rparr>
      in andthen (execute (pv_fail env) ''insert approval'' (\<lambda>s. s\<lparr> approvals := approvals s @ [p] \<rparr>))
           (\<lambda>_. give p))))))))))"

definition approval_of :: "uuid \<Rightarrow> promo_db \<Rightarrow> approval_row option" where
  "approval_of pid s = find (\<lambda>p. ap_id p = pid) (approvals s)"

definition review ::
  "promo_env \<Rightarrow> uuid \<Rightarrow> string \<Rightarrow> uuid \<Rightarrow> string option \<Rightarrow> promo_db \<Rightarrow> promo_db" where
  "review env pid outcome uid notes s = s\<lparr> approvals := map (\<lambda>p. if ap_id p = pid
     then p\<lparr> ap_status := outcome, ap_reviewed_by := Some uid, ap_reviewed_at := Some (pv_now env),
            ap_review_notes := notes \<rparr> else p) (approvals s) \<rparr>"

definition answer_row :: "promo_env \<Rightarrow> uuid \<Rightarrow> (promo_db, approval_row) action" where
  "answer_row env pid = andthen (select (pv_fail env) ''approval answer'' (approval_of pid))
     (some_or (Database ''no rows returned''))"

text \<open>The status is read, and written after the promotion without looking at it again.\<close>

definition pending_approval :: "promo_env \<Rightarrow> uuid \<Rightarrow> (promo_db, approval_row) action" where
  "pending_approval env pid =
     andthen (select (pv_fail env) ''approval'' (approval_of pid)) (\<lambda>row.
     andthen (some_or (NotFound ''Approval request not found'') row) (\<lambda>p.
     andthen (run_or (ap_status p = ''pending'')
       (Conflict (''Approval request has already been '' @ ap_status p))) (\<lambda>_. give p)))"

definition execute_approval ::
  "promo_env \<Rightarrow> auth_extension \<Rightarrow> approval_row \<Rightarrow> string option \<Rightarrow> (promo_db, approval_row) action" where
  "execute_approval env auth p notes =
     andthen (select (pv_fail env) ''source key'' (key_of (ap_source p))) (\<lambda>k1.
     andthen (some_or (Database ''no rows returned'') k1) (\<lambda>source_key.
     andthen (select (pv_fail env) ''target key'' (key_of (ap_target p))) (\<lambda>k2.
     andthen (some_or (Database ''no rows returned'') k2) (\<lambda>target_key.
     andthen (get_by_key env source_key) (\<lambda>source.
     andthen (get_by_key env target_key) (\<lambda>target.
     andthen (select (pv_fail env) ''artifact'' (live_in (ap_artifact p) (rp_id source))) (\<lambda>row.
     andthen (some_or (NotFound ''Artifact not found in source repository'') row) (\<lambda>a.
     andthen (copy_artifact env source target a (user_id auth) (ApprovedVia (ap_id p)) notes) (\<lambda>_.
     andthen (execute (pv_fail env) ''update approval'' (review env (ap_id p) ''approved'' (user_id auth) notes)) (\<lambda>_.
     answer_row env (ap_id p)))))))))))"

definition approve_promotion ::
  "promo_env \<Rightarrow> auth_extension \<Rightarrow> uuid \<Rightarrow> string option \<Rightarrow> (promo_db, approval_row) action" where
  "approve_promotion env auth pid notes =
     andthen (run_or (is_admin auth) (Authorization ''Only admins can approve promotions'')) (\<lambda>_.
     andthen (pending_approval env pid) (\<lambda>p.
     execute_approval env auth p notes))"

definition reject_promotion ::
  "promo_env \<Rightarrow> auth_extension \<Rightarrow> uuid \<Rightarrow> string option \<Rightarrow> (promo_db, approval_row) action" where
  "reject_promotion env auth pid notes =
     andthen (run_or (is_admin auth) (Authorization ''Only admins can reject promotions'')) (\<lambda>_.
     andthen (pending_approval env pid) (\<lambda>_.
     andthen (execute (pv_fail env) ''update approval'' (review env pid ''rejected'' (user_id auth) notes)) (\<lambda>_.
     answer_row env pid)))"

section \<open>What a promotion requires and leaves\<close>

text \<open>What the copy leaves: the content under the target's location, one new row, one record.\<close>

definition copied ::
  "promo_env \<Rightarrow> repository \<Rightarrow> repository \<Rightarrow> stored_artifact \<Rightarrow> uuid \<Rightarrow> promo_db \<Rightarrow> promo_db \<Rightarrow> bool" where
  "copied env source target a uid s t \<longleftrightarrow>
     store s (location_of source, art_storage_key a) \<noteq> None
     \<and> store t = (store s)((location_of target, art_storage_key a) := store s (location_of source, art_storage_key a))
     \<and> promoted_row env (rp_id target) uid a \<in> set (arts t)
     \<and> set (arts t) \<subseteq> insert (promoted_row env (rp_id target) uid a) (set (arts s))"

lemma cleanup_parts:
  "store (cleanup_soft_deleted_artifact env rid path s) = store s"
  "set (arts (cleanup_soft_deleted_artifact env rid path s)) \<subseteq> set (arts s)"
  by (auto simp: cleanup_soft_deleted_artifact_def Let_def)

lemma insert_artifact_ok:
  "insert_artifact env rid uid a s = (Inr u, t) \<Longrightarrow>
     store t = store s \<and> arts t = arts s @ [promoted_row env rid uid a]"
  by (auto simp: insert_artifact_def split: option.splits if_splits)

lemma storage_ok:
  "storage_get env r k s = Inr c \<Longrightarrow> store s (location_of r, k) = Some c"
  "storage_put env r k c s = (Inr u, t) \<Longrightarrow> t = s\<lparr> store := (store s)((location_of r, k) \<mapsto> c) \<rparr>"
  by (auto simp: storage_get_def storage_put_def split: option.splits)

lemma insert_after_put:
  assumes "storage_get env source (art_storage_key a) s = Inr c"
    and "storage_put env target (art_storage_key a) c s = (Inr u, s1)"
    and "insert_artifact env (rp_id target) uid a
      (cleanup_soft_deleted_artifact env (rp_id target) (art_path a) s1) = (Inr v, s2)"
    and "store t = store s2" and "arts t = arts s2"
  shows "copied env source target a uid s t"
  using storage_ok(1) [OF assms(1)] storage_ok(2) [OF assms(2)] insert_artifact_ok [OF assms(3)]
    cleanup_parts [of env "rp_id target" "art_path a" s1] assms(4,5)
  by (auto simp: copied_def)

lemma copy_artifact_ok:
  assumes "copy_artifact env source target a uid result notes s = (Inr u, t)"
  shows "copied env source target a uid s t"
proof -
  obtain c s1 s2 where "storage_get env source (art_storage_key a) s = Inr c"
    "storage_put env target (art_storage_key a) c s = (Inr (), s1)"
    "insert_artifact env (rp_id target) uid a
      (cleanup_soft_deleted_artifact env (rp_id target) (art_path a) s1) = (Inr (), s2)"
    "t = s2\<lparr> history := history s2 @
       [promotion_record env (art_id a) (rp_id source) (rp_id target) uid result notes] \<rparr>"
    using assms unfolding copy_artifact_def action_ok copy_steps_ok by blast
  then show ?thesis by (intro insert_after_put) simp_all
qed

lemma get_by_key_ok: "get_by_key env key s = (Inr r, t) \<Longrightarrow> t = s \<and> r \<in> set (repos s) \<and> rp_key r = key"
  by (auto simp: get_by_key_def action_simps dest: find_SomeD)

definition linked_key :: "promo_env \<Rightarrow> uuid \<Rightarrow> promo_db \<Rightarrow> string option" where
  "linked_key env rid s = (case config s (rid, ''release_repository_id'') of None \<Rightarrow> None
     | Some v \<Rightarrow> Option.bind (pv_parse_uuid env v) (\<lambda>i. key_of i s))"

lemma release_key_ok:
  assumes "resolve_release_target_key env rid s = (Inr k, t)"
  shows "t = s \<and> k = linked_key env rid s"
proof (cases "config s (rid, ''release_repository_id'')")
  case None
  with assms show ?thesis by (simp add: resolve_release_target_key_def linked_key_def run_simps split: option.split_asm)
next
  case (Some v)
  with assms show ?thesis
    by (cases "pv_parse_uuid env v")
      (auto simp: resolve_release_target_key_def linked_key_def run_simps split: option.split_asm)
qed

lemma effective_target_ok:
  assumes "resolve_effective_target env x rid s = (Inr k, t)" shows "t = s"
  using assms by (cases x) (auto simp: resolve_effective_target_def action_ok dest: release_key_ok)

lemma enforce_link_ok:
  assumes "enforce_release_target_link env rid actual s = (Inr u, t)"
  shows "t = s \<and> linked_key env rid s \<in> {None, Some actual}"
proof -
  obtain k where "resolve_release_target_key env rid s = (Inr k, t)" "case k of None \<Rightarrow> True | Some k \<Rightarrow> k = actual"
    using assms unfolding enforce_release_target_link_def action_ok by blast
  moreover from this have "t = s" "linked_key env rid s = k" using release_key_ok by auto
  ultimately show ?thesis by (cases k) simp_all
qed

lemma validate_promotion_repos_ok:
  "validate_promotion_repos source target = Inr u \<longleftrightarrow>
     is_hosted (rp_type source) \<and> rp_type target = LocalRepo \<and> rp_format source = rp_format target"
  by (simp add: validate_promotion_repos_def validate_promotion_source_is_staging_def
      validate_promotion_target_and_format_def)

lemma gate_once_ok:
  "evaluate_gate_once env aid rid skip s = (Inr g, t) \<Longrightarrow>
     (\<exists>q. t = s\<lparr> qual := q \<rparr>) \<and> (\<not> skip \<longrightarrow> pv_gate_wired env \<longrightarrow>
       (\<forall>e q. evaluate_quality_gate (pv_gate_fail env) aid rid (qual s) = (Inr e, q) \<longrightarrow> g = classify_gate_evaluation e))"
  by (auto simp: evaluate_gate_once_def split: if_splits sum.splits prod.splits intro: exI [of _ "qual s"])

text \<open>The policy's evaluation leaves its tables and, where it does not refuse, does not have to block.\<close>

lemma evaluate_policy_ok:
  assumes "evaluate_policy env aid rid skip s = (Inr e, t)" and "counts_in_range (pol s)"
  shows "t = s \<and> (\<not> skip \<longrightarrow> \<not> policy_refuses e \<longrightarrow> \<not> must_block (pv_now env) aid rid (pol s))"
proof (cases skip)
  case False
  then obtain r p where r: "evaluate_artifact (pv_policy_fail env) (pv_now env) aid rid (pol s) = (Inr r, p)"
    and e: "e = Some r" "t = s\<lparr> pol := p \<rparr>"
    using assms(1) by (auto simp: evaluate_policy_def action_simps)
  from policy_verdict [OF r assms(2)] e show ?thesis by (auto simp: policy_refuses_def)
qed (use assms in \<open>simp add: evaluate_policy_def action_simps\<close>)

lemma promote_checked_ok:
  assumes "promote_checked env auth source target a req s = (Inr r, t)" and "pr_promoted r"
  shows "is_hosted (rp_type source) \<and> rp_type target = LocalRepo \<and> rp_format source = rp_format target
    \<and> check_approval_required env (rp_id source) s = (Inr False, s)
    \<and> copied env source target a (user_id auth) s t \<and> pr_violations r = []
    \<and> (counts_in_range (pol s) \<longrightarrow> \<not> rq_skip req \<longrightarrow>
         \<not> must_block (pv_now env) (art_id a) (rp_id source) (pol s))"
proof -
  obtain u required where v: "validate_promotion_repos source target = Inr u"
    and req: "check_approval_required env (rp_id source) s = (Inr required, s)"
    and m: "(if required
        then give (not_promoted (slash (rp_key source) (pv_show_uuid env (art_id a))) (rp_key target) [] approval_hint)
        else andthen (evaluate_policy env (art_id a) (rp_id source) (rq_skip req))
          (promote_unless_refused env auth source target a req)) s = (Inr r, t)"
    using assms(1) unfolding promote_checked_def check_approval_required_def action_ok by auto
  then have "\<not> required" using assms(2) by (auto simp: action_ok not_promoted_def)
  with m obtain e s1 where e: "evaluate_policy env (art_id a) (rp_id source) (rq_skip req) s = (Inr e, s1)"
    and p: "promote_unless_refused env auth source target a req e s1 = (Inr r, t)"
    by (auto simp: action_ok)
  from e have "s1 = s" if "counts_in_range (pol s)" using evaluate_policy_ok that by blast
  moreover have "store s1 = store s" "arts s1 = arts s"
    using e by (auto simp: evaluate_policy_def action_ok split: if_splits)
  moreover have "\<not> policy_refuses e" "copied env source target a (user_id auth) s1 t" "pr_violations r = []"
    using p assms(2) by (auto simp: promote_unless_refused_def action_ok not_promoted_def Let_def
        split: if_splits dest: copy_artifact_ok)
  ultimately show ?thesis
    using v req \<open>\<not> required\<close> evaluate_policy_ok [OF e] by (auto simp: validate_promotion_repos_ok copied_def)
qed


section \<open>Samples\<close>

definition sample_promo_env :: promo_env where
  "sample_promo_env = \<lparr> pv_fail = (\<lambda>_. None), pv_policy_fail = (\<lambda>_. None), pv_gate_fail = (\<lambda>_. None),
     pv_now = 0, pv_artifact_id = 100, pv_record_id = 200, pv_parse_uuid = (\<lambda>_. None),
     pv_show_uuid = (\<lambda>_. ''id''), pv_gate_wired = True, pv_storage = (\<lambda>_. None) \<rparr>"

definition sample_repository :: "uuid \<Rightarrow> string \<Rightarrow> repository_type \<Rightarrow> bool option \<Rightarrow> repository" where
  "sample_repository i key type_of approval = \<lparr> rp_id = i, rp_key = key, rp_format = ''npm'', rp_type = type_of,
     rp_backend = ''fs'', rp_path = key, rp_require_approval = approval \<rparr>"

definition sample_stored :: stored_artifact where
  "sample_stored = \<lparr> art_id = 3, art_repository = 7, art_deleted = False, art_quarantine = Some ''rejected'',
     art_until = None, art_path = ''p'', art_name = ''n'', art_version = None, art_size = 1, art_sha256 = ''h'',
     art_md5 = None, art_sha1 = None, art_content_type = ''t'', art_storage_key = ''k'', art_uploaded_by = None \<rparr>"

definition sample_promo_db :: "bool option \<Rightarrow> scan_row list \<Rightarrow> quality_gate list \<Rightarrow> promo_db" where
  "sample_promo_db approval scans gs = \<lparr>
     repos = [sample_repository 7 ''dev'' StagingRepo approval, sample_repository 8 ''prod'' LocalRepo None],
     config = Map.empty, arts = [sample_stored], history = [], approvals = [],
     store = Map.empty(((''fs'', ''dev''), ''k'') \<mapsto> ''bytes''), pol = sample_policies scans,
     qual = sample_quality_db\<lparr> gates := gs, health := Map.empty(3 \<mapsto> sample_health) \<rparr> \<rparr>"

text \<open>A token that may only read, and no repository.\<close>

definition sample_reader :: auth_extension where
  "sample_reader = \<lparr> user_id = 5, username = ''bot'', email = [], is_admin = False, is_api_token = True,
     is_service_account = False, scopes = Some [''read''], allowed_repo_ids = Some [] \<rparr>"

definition to_prod :: "bool \<Rightarrow> promote_request" where
  "to_prod skip = \<lparr> rq_target = Some ''prod'', rq_skip = skip, rq_notes = None \<rparr>"

lemmas promo_setup = sample_promo_env_def sample_repository_def sample_promo_db_def to_prod_def sample_reader_def

lemmas promo_eval = promote_artifact_def get_by_key_def resolve_effective_target_def enforce_release_target_link_def
  resolve_release_target_key_def evaluate_gate_once_def promote_checked_def promote_unless_refused_def
  validate_promotion_repos_def validate_promotion_source_is_staging_def validate_promotion_target_and_format_def
  check_approval_required_def evaluate_policy_def policy_refuses_def copy_artifact_def storage_for_repo_def
  read_source_def write_target_def insert_copy_def storage_get_def storage_put_def insert_artifact_def
  cleanup_soft_deleted_artifact_def live_in_def run_simps

lemma sample_promotion:
  "\<exists>r t. promote_artifact sample_promo_env sample_reader ''dev'' 3 (to_prod False) (sample_promo_db None [] [])
       = (Inr r, t) \<and> pr_promoted r
     \<and> arts t = [sample_stored, promoted_row sample_promo_env 8 5 sample_stored]"
proof -
  have "evaluate_quality_gate (\<lambda>_. None) 3 7 (sample_quality_db\<lparr> gates := [], health := Map.empty(3 \<mapsto> sample_health) \<rparr>)
      = (Inl (NotFound ''No enabled quality gate found for this repository''),
         sample_quality_db\<lparr> gates := [], health := Map.empty(3 \<mapsto> sample_health) \<rparr>)"
    by (simp add: evaluate_quality_gate_def gate_for_def own_or_global_def run_simps)
  moreover have "\<exists>e. evaluate_artifact (\<lambda>_. None) 0 3 7 (sample_policies []) = (Inr e, sample_policies []) \<and> pe_passed e"
    by (simp add: policy_eval collect_eq)
  ultimately show ?thesis
    by (auto simp: promo_eval promo_setup sample_stored_def location_of_def Let_def)
qed


section \<open>What a promotion does not check\<close>


text \<open>An artifact the gate blocks, in a repository whose promotions need an approval, with critical findings.\<close>

abbreviation blocked_db :: promo_db where
  "blocked_db \<equiv> sample_promo_db (Some True) [sample_scan ''image'' 2 5] [sample_gate]"

lemma sample_gate_blocks:
  "\<exists>q. evaluate_quality_gate (\<lambda>_. None) 3 7 (qual blocked_db) = (Inr (evaluation_of sample_gate sample_health []), q)"
  "classify_gate_evaluation (evaluation_of sample_gate sample_health [])
     = GateBlock (evaluation_of sample_gate sample_health [])"
proof -
  have "completed_types 3 (qual blocked_db) = []"
    by (simp add: completed_types_def sample_promo_db_def sample_quality_db_def)
  then show "\<exists>q. evaluate_quality_gate (\<lambda>_. None) 3 7 (qual blocked_db)
      = (Inr (evaluation_of sample_gate sample_health []), q)"
    by (simp add: evaluate_quality_gate_def completed_for_def run_simps gate_for_def own_or_global_def sample_promo_db_def)
      (simp add: sample_gate_def)
  have "gv_rule (last (ge_violations (evaluation_of sample_gate sample_health []))) = ''required_checks''
      \<and> ge_violations (evaluation_of sample_gate sample_health []) \<noteq> []"
    by (simp add: evaluation_of_def check_required_def sample_gate_def Let_def)
  then show "classify_gate_evaluation (evaluation_of sample_gate sample_health [])
     = GateBlock (evaluation_of sample_gate sample_health [])"
    by (simp add: classify_gate_evaluation_def evaluation_of_def Let_def sample_gate_def check_required_def)
qed

lemma gate_refuses_sample:
  "\<exists>e. fst (promote_artifact sample_promo_env sample_reader ''dev'' 3 (to_prod False) blocked_db) = Inl (Conflict e)"
proof -
  obtain q where "evaluate_quality_gate (\<lambda>_. None) 3 7 (qual blocked_db)
      = (Inr (evaluation_of sample_gate sample_health []), q)" using sample_gate_blocks(1) by blast
  then have "\<exists>s. evaluate_gate_once sample_promo_env 3 7 False blocked_db
      = (Inr (GateBlock (evaluation_of sample_gate sample_health [])), s)"
    by (simp add: evaluate_gate_once_def sample_promo_env_def sample_gate_blocks(2))
  then obtain s where g: "evaluate_gate_once sample_promo_env 3 7 False blocked_db
      = (Inr (GateBlock (evaluation_of sample_gate sample_health [])), s)" by blast
  have "get_by_key sample_promo_env ''dev'' blocked_db = (Inr (sample_repository 7 ''dev'' StagingRepo (Some True)), blocked_db)"
    "get_by_key sample_promo_env ''prod'' blocked_db = (Inr (sample_repository 8 ''prod'' LocalRepo None), blocked_db)"
    "resolve_release_target_key sample_promo_env 7 blocked_db = (Inr None, blocked_db)"
    "live_in 3 7 blocked_db = Some sample_stored"
    by (simp_all add: get_by_key_def run_simps sample_promo_env_def sample_promo_db_def sample_repository_def
        resolve_release_target_key_def live_in_def sample_stored_def)
  moreover have "pv_fail sample_promo_env = (\<lambda>_. None)" "rp_id (sample_repository i k ty ap) = i" for i k ty ap
    by (simp_all add: sample_promo_env_def sample_repository_def)
  ultimately show ?thesis
    by (simp add: promote_artifact_def resolve_effective_target_def to_prod_def enforce_release_target_link_def
        run_simps g gate_block_error_def)
qed

text \<open>The bulk promotion makes none of the checks. The single promotion refuses the artifact by the
  quality gate, which blocks it; its repository requires an approval; and the policy must block it; but the
  bulk promotion of the same artifact by the same caller copies it.\<close>

theorem bulk_promotion_is_unchecked:
  "\<exists>e out t. fst (promote_artifact sample_promo_env sample_reader ''dev'' 3 (to_prod False) blocked_db) = Inl (Conflict e)
     \<and> check_approval_required sample_promo_env 7 blocked_db = (Inr True, blocked_db)
     \<and> must_block 0 3 7 (pol blocked_db)
     \<and> promote_artifacts_bulk sample_promo_env (\<lambda>_. sample_promo_env) sample_reader ''dev'' [3] (to_prod False) blocked_db
         = (Inr out, t)
     \<and> br_promoted out = 1 \<and> live_in 100 8 t \<noteq> None"
proof -
  have "\<exists>out t. promote_artifacts_bulk sample_promo_env (\<lambda>_. sample_promo_env) sample_reader ''dev'' [3] (to_prod False)
      blocked_db = (Inr out, t) \<and> br_promoted out = 1 \<and> live_in 100 8 t \<noteq> None"
    by (simp add: promote_artifacts_bulk_def promote_one_def promo_eval promo_setup sample_stored_def location_of_def
        not_promoted_def promoted_row_def Let_def)
  moreover have "check_approval_required sample_promo_env 7 blocked_db = (Inr True, blocked_db)"
    by (simp add: check_approval_required_def run_simps promo_setup)
  moreover have "must_block 0 3 7 (pol blocked_db)"
    by (simp add: must_block_def newest_scan_def sample_promo_db_def sample_policies_def sample_scan_def cve_blocks_def)
  ultimately show ?thesis using gate_refuses_sample by blast
qed

section \<open>Reviews\<close>

lemma pending_approval_ok:
  "pending_approval env pid s = (Inr p, t) \<longleftrightarrow>
     t = s \<and> pv_fail env ''approval'' = None \<and> approval_of pid s = Some p \<and> ap_status p = ''pending''"
  unfolding pending_approval_def action_ok by auto

lemma approval_of_review:
  "approval_of pid (review env pid outcome uid notes s) = map_option (\<lambda>p. p\<lparr> ap_status := outcome,
     ap_reviewed_by := Some uid, ap_reviewed_at := Some (pv_now env), ap_review_notes := notes \<rparr>) (approval_of pid s)"
proof -
  have "find (\<lambda>p. ap_id p = pid) (map (\<lambda>p. if ap_id p = pid then f p else p) xs)
      = map_option f (find (\<lambda>p. ap_id p = pid) xs)" if "\<And>p. ap_id (f p) = ap_id p" for f and xs :: "approval_row list"
    using that by (induction xs) auto
  then show ?thesis by (simp add: approval_of_def review_def)
qed

text \<open>A reviewed request is not reviewed again.\<close>

definition settled :: "uuid \<Rightarrow> promo_db \<Rightarrow> bool" where
  "settled pid s \<longleftrightarrow> (\<exists>p. approval_of pid s = Some p \<and> ap_status p \<noteq> ''pending'')"

lemma settled_refused:
  assumes "settled pid s"
  shows "\<exists>e. approve_promotion env auth pid notes s = (Inl e, s)" "\<exists>e. reject_promotion env auth pid notes s = (Inl e, s)"
proof -
  have "\<exists>e. pending_approval env pid s = (Inl e, s)"
    using assms by (auto simp: settled_def pending_approval_def run_simps split: option.split)
  then show "\<exists>e. approve_promotion env auth pid notes s = (Inl e, s)" "\<exists>e. reject_promotion env auth pid notes s = (Inl e, s)"
    by (auto simp: approve_promotion_def reject_promotion_def run_simps)
qed

lemma copied_approvals:
  "copy_artifact env source target a uid result notes s = (Inr u, t) \<Longrightarrow> approvals t = approvals s"
  by (auto simp: copy_artifact_def action_ok copy_steps_ok storage_put_def insert_artifact_def
      cleanup_soft_deleted_artifact_def Let_def split: option.splits if_splits)

text \<open>C27: An approval that succeeds was given by an administrator to a pending request, copied the live
  artifact from the request's source to its target, and left the request approved by that administrator;
  from then on the request can be neither approved again nor rejected.\<close>

theorem approval_executes_once:
  assumes "approve_promotion env auth pid notes s = (Inr row, t)"
  shows "is_admin auth \<and> (\<exists>p source target a. approval_of pid s = Some p \<and> ap_status p = ''pending''
      \<and> key_of (ap_source p) s = Some (rp_key source) \<and> key_of (ap_target p) s = Some (rp_key target)
      \<and> live_in (ap_artifact p) (rp_id source) s = Some a
      \<and> copied env source target a (user_id auth) s t)
    \<and> ap_status row = ''approved'' \<and> ap_reviewed_by row = Some (user_id auth)
    \<and> (\<forall>env' auth' notes'. (\<exists>e. approve_promotion env' auth' pid notes' t = (Inl e, t))
         \<and> (\<exists>e. reject_promotion env' auth' pid notes' t = (Inl e, t)))"
proof -
  obtain p where admin: "is_admin auth" and p: "approval_of pid s = Some p" "ap_status p = ''pending''"
    and x: "execute_approval env auth p notes s = (Inr row, t)"
    using assms unfolding approve_promotion_def action_ok pending_approval_ok by auto
  have pid: "ap_id p = pid" using p(1) find_SomeD by (fastforce simp: approval_of_def)
  obtain source target a u where keys: "key_of (ap_source p) s = Some (rp_key source)"
      "key_of (ap_target p) s = Some (rp_key target)" "live_in (ap_artifact p) (rp_id source) s = Some a"
    and c: "copy_artifact env source target a (user_id auth) (ApprovedVia (ap_id p)) notes s = (Inr (), u)"
    and t: "t = review env pid ''approved'' (user_id auth) notes u" "approval_of pid t = Some row"
    using x pid unfolding execute_approval_def answer_row_def action_ok by (auto dest!: get_by_key_ok)
  have "approval_of pid u = Some p" using p(1) copied_approvals [OF c] by (simp add: approval_of_def)
  with t have row: "row = p\<lparr> ap_status := ''approved'', ap_reviewed_by := Some (user_id auth),
      ap_reviewed_at := Some (pv_now env), ap_review_notes := notes \<rparr>"
    by (simp add: approval_of_review)
  then have "settled pid t" using t(2) by (simp add: settled_def)
  moreover have "copied env source target a (user_id auth) s t"
    using copy_artifact_ok [OF c] t(1) by (simp add: copied_def review_def)
  ultimately show ?thesis using admin p keys row settled_refused by auto
qed

definition sample_approval :: approval_row where
  "sample_approval = \<lparr> ap_id = 50, ap_artifact = 3, ap_source = 7, ap_target = 8, ap_requested_by = 5,
     ap_requested_at = 0, ap_status = ''pending'', ap_reviewed_by = None, ap_reviewed_at = None,
     ap_review_notes = None, ap_policy = None, ap_skip = True, ap_notes = None \<rparr>"

abbreviation approval_db :: promo_db where
  "approval_db \<equiv> sample_promo_db (Some True) [] []\<lparr> approvals := [sample_approval] \<rparr>"

lemmas approval_eval = execute_approval_def answer_row_def approval_of_def key_of_def review_def promo_eval
  promo_setup sample_approval_def sample_stored_def location_of_def promotion_record_def

lemma sample_approve: "\<exists>row t. approve_promotion sample_promo_env sample_admin 50 None approval_db = (Inr row, t)"
  by (simp add: approve_promotion_def pending_approval_def sample_admin_def approval_eval Let_def)

lemma approval_executes_once_witness:
  "\<exists>row t. approve_promotion sample_promo_env sample_admin 50 None approval_db = (Inr row, t)
     \<and> ap_status row = ''approved'' \<and> (\<exists>e. reject_promotion sample_promo_env sample_admin 50 None t = (Inl e, t))"
proof -
  obtain row t where r: "approve_promotion sample_promo_env sample_admin 50 None approval_db = (Inr row, t)"
    using sample_approve by blast
  with approval_executes_once [OF r] show ?thesis by blast
qed

text \<open>The status that was read is not part of the update: a rejection that comes between the check of an
  approval and its execution is overwritten, and the artifact is promoted.\<close>

lemma approval_overtakes_rejection:
  "\<exists>p u row t. pending_approval sample_promo_env 50 approval_db = (Inr p, approval_db)
     \<and> reject_promotion sample_promo_env sample_admin 50 None approval_db = (Inr (p\<lparr> ap_status := ''rejected'',
          ap_reviewed_by := Some 1, ap_reviewed_at := Some 0 \<rparr>), u)
     \<and> execute_approval sample_promo_env sample_admin p None u = (Inr row, t)
     \<and> ap_status row = ''approved'' \<and> live_in 100 8 t \<noteq> None"
  by (simp add: reject_promotion_def pending_approval_def sample_admin_def approval_eval promoted_row_def Let_def)

end
