(* ===== verification/Virtual_Members.thy ===== *)
theory Virtual_Members
  imports Repositories "HOL-Library.Multiset"
begin

text \<open>
  The graph of virtual repositories (\<open>services/repository_service.rs\<close>): the breadth-first walk that looks
  for a cycle, and the statements on \<open>virtual_repo_members\<close>. The walk is a loop over a queue, so it is a
  partial function; that it always returns is a theorem. Every change of the graph runs in a transaction
  under one advisory lock, so the operations here are atomic steps of each other.
\<close>

section \<open>The walk\<close>

definition max_virtual_depth :: nat where "max_virtual_depth = 32"

text \<open>The inner loop over the children of a node at \<open>depth\<close>; \<open>None\<close> is the early return \<open>Ok(true)\<close>.\<close>

fun scan_children ::
  "uuid \<Rightarrow> nat \<Rightarrow> uuid list \<Rightarrow> (uuid \<times> nat) list \<Rightarrow> uuid list \<Rightarrow> ((uuid \<times> nat) list \<times> uuid list) option" where
  "scan_children target depth [] frontier visited = Some (frontier, visited)"
| "scan_children target depth (c # cs) frontier visited =
     (if c = target then None
      else if c \<in> set visited then scan_children target depth cs frontier visited
      else scan_children target depth cs (frontier @ [(c, depth + 1)]) (c # visited))"

partial_function (option) cycle_walk ::
  "uuid \<Rightarrow> (uuid \<Rightarrow> uuid list result) \<Rightarrow> (uuid \<times> nat) list \<Rightarrow> uuid list \<Rightarrow> bool result option" where
  "cycle_walk target children frontier visited =
     (case frontier of
        [] \<Rightarrow> Some (Inr False)
      | (node, depth) # rest \<Rightarrow>
          if max_virtual_depth \<le> depth then Some (Inr True)
          else (case children node of
                  Inl e \<Rightarrow> Some (Inl e)
                | Inr cs \<Rightarrow>
                    (case scan_children target depth cs rest visited of
                       None \<Rightarrow> Some (Inr True)
                     | Some (frontier', visited') \<Rightarrow> cycle_walk target children frontier' visited')))"

definition would_create_cycle_in_graph ::
  "uuid \<Rightarrow> uuid \<Rightarrow> (uuid \<Rightarrow> uuid list result) \<Rightarrow> bool result option" where
  "would_create_cycle_in_graph virtual_id candidate children =
     (if virtual_id = candidate then Some (Inr True)
      else cycle_walk virtual_id children [(candidate, 0)] [candidate])"

subsection \<open>It returns\<close>

text \<open>Each turn takes a node out of the queue and puts only deeper ones in, so the multiset of the
  distances to the depth limit decreases.\<close>

definition remaining :: "(uuid \<times> nat) list \<Rightarrow> nat multiset" where
  "remaining frontier = image_mset (\<lambda>(_, d). max_virtual_depth - d) (mset frontier)"

lemma scan_children_remaining:
  assumes "scan_children target d cs frontier visited = Some (f, v)"
  shows "\<exists>k. remaining f = remaining frontier + replicate_mset k (max_virtual_depth - (d + 1))"
  using assms
proof (induction target d cs frontier visited rule: scan_children.induct)
  case (2 target depth c cs frontier visited)
  show ?case
  proof (cases "c \<in> set visited")
    case False
    with 2 obtain k where
      "remaining f = remaining (frontier @ [(c, depth + 1)]) + replicate_mset k (max_virtual_depth - (depth + 1))"
      by (auto split: if_splits)
    then have "remaining f = remaining frontier + replicate_mset (Suc k) (max_virtual_depth - (depth + 1))"
      by (simp add: remaining_def)
    then show ?thesis by blast
  qed (use 2 in \<open>auto split: if_splits\<close>)
qed (auto intro: exI[of _ 0])

lemma scan_children_decreases:
  assumes "scan_children target d cs rest visited = Some (f, v)" "d < max_virtual_depth"
  shows "(remaining f, remaining ((n, d) # rest)) \<in> mult {(x, y). x < y}"
proof -
  obtain k where k: "remaining f = remaining rest + replicate_mset k (max_virtual_depth - (d + 1))"
    using scan_children_remaining[OF assms(1)] by blast
  moreover have "remaining ((n, d) # rest) = remaining rest + {#max_virtual_depth - d#}"
    by (simp add: remaining_def)
  moreover have "(remaining rest + replicate_mset k (max_virtual_depth - (d + 1)), remaining rest + {#max_virtual_depth - d#})
      \<in> mult {(x, y). x < y}"
    by (rule one_step_implies_mult) (use assms(2) in auto)
  ultimately show ?thesis by simp
qed

text \<open>Induction over the queue, and the cases of a turn.\<close>

lemma frontier_induct [case_names turn]:
  assumes "\<And>frontier visited.
      (\<And>n d rest cs f v. frontier = (n, d) # rest \<Longrightarrow> d < max_virtual_depth
         \<Longrightarrow> scan_children target d cs rest visited = Some (f, v) \<Longrightarrow> P f v) \<Longrightarrow> P frontier visited"
  shows "P frontier visited"
proof -
  have "wf (inv_image (mult {(x :: nat, y). x < y}) remaining)" by (intro wf_inv_image wf_mult wf_less)
  then show ?thesis
  proof (induction frontier arbitrary: visited rule: wf_induct_rule)
    case (less frontier)
    show ?case by (rule assms) (use less scan_children_decreases in auto)
  qed
qed

lemma cycle_walk_cases:
  obtains (finished) "frontier = []" "cycle_walk target children frontier visited = Some (Inr False)"
  | (deep) n d rest where "frontier = (n, d) # rest" "max_virtual_depth \<le> d"
      "cycle_walk target children frontier visited = Some (Inr True)"
  | (failed) n d rest e where "frontier = (n, d) # rest" "cycle_walk target children frontier visited = Some (Inl e)"
  | (found) n d rest cs where "frontier = (n, d) # rest" "d < max_virtual_depth" "children n = Inr cs"
      "scan_children target d cs rest visited = None" "cycle_walk target children frontier visited = Some (Inr True)"
  | (on) n d rest cs f v where "frontier = (n, d) # rest" "d < max_virtual_depth" "children n = Inr cs"
      "scan_children target d cs rest visited = Some (f, v)"
      "cycle_walk target children frontier visited = cycle_walk target children f v"
proof (cases frontier)
  case Nil
  then show ?thesis using finished cycle_walk.simps[of target children frontier visited] by simp
next
  case (Cons p rest)
  then obtain n d where f: "frontier = (n, d) # rest" by (cases p) auto
  note walk = cycle_walk.simps[of target children frontier visited]
  show ?thesis
  proof (cases "max_virtual_depth \<le> d")
    case False
    show ?thesis
    proof (cases "children n")
      case (Inr cs)
      then show ?thesis
        using f walk False found on by (cases "scan_children target d cs rest visited") auto
    qed (use f walk False failed in auto)
  qed (use f walk deep in auto)
qed

lemma cycle_walk_returns: "\<exists>r. cycle_walk target children frontier visited = Some r"
proof (induction frontier visited rule: frontier_induct[of target])
  case (turn frontier visited)
  then show ?case by (cases rule: cycle_walk_cases[of frontier target children visited]) auto
qed

lemma cycle_check_returns: "\<exists>r. would_create_cycle_in_graph virtual_id candidate children = Some r"
  using cycle_walk_returns[of virtual_id children] by (simp add: would_create_cycle_in_graph_def)

text \<open>C17: The cycle check always returns: whatever graph the look-ups show, even one with cycles or with
  infinitely many repositories, the walk over it ends with an answer or with the error of a look-up.\<close>

theorem cycle_check_terminates:
  "\<exists>r. would_create_cycle_in_graph virtual_id candidate children = Some r"
  by (rule cycle_check_returns)

subsection \<open>What its answer means\<close>

definition child_edges :: "(uuid \<Rightarrow> uuid list result) \<Rightarrow> (uuid \<times> uuid) set" where
  "child_edges children = {(n, c). \<exists>cs. children n = Inr cs \<and> c \<in> set cs}"

lemma scan_children_Some:
  assumes "scan_children target d cs frontier visited = Some (f, v)"
  shows "target \<notin> set cs" "set v = set visited \<union> set cs"
    "set f \<subseteq> set frontier \<union> {(c, d + 1) |c. c \<in> set cs}" "set frontier \<subseteq> set f"
    "set cs - set visited \<subseteq> fst ` set f"
proof -
  have "target \<notin> set cs \<and> set v = set visited \<union> set cs
    \<and> set f \<subseteq> set frontier \<union> {(c, d + 1) |c. c \<in> set cs} \<and> set frontier \<subseteq> set f \<and> set cs - set visited \<subseteq> fst ` set f"
    using assms
  proof (induction target d cs frontier visited rule: scan_children.induct)
    case (2 target depth c cs frontier visited)
    then have c: "c \<noteq> target" by auto
    show ?case
    proof (cases "c \<in> set visited")
      case True
      then show ?thesis using 2 c by auto
    next
      case False
      with 2 c have ih: "target \<notin> set cs" "set v = set (c # visited) \<union> set cs"
        "set f \<subseteq> set (frontier @ [(c, depth + 1)]) \<union> {(c, depth + 1) |c. c \<in> set cs}"
        "set (frontier @ [(c, depth + 1)]) \<subseteq> set f" "set cs - set (c # visited) \<subseteq> fst ` set f" by auto
      then have "(c, depth + 1) \<in> set f" by simp
      then have "c \<in> fst ` set f" by (metis fst_conv imageI)
      then show ?thesis using ih c by auto
    qed
  qed auto
  then show "target \<notin> set cs" "set v = set visited \<union> set cs"
    "set f \<subseteq> set frontier \<union> {(c, d + 1) |c. c \<in> set cs}" "set frontier \<subseteq> set f"
    "set cs - set visited \<subseteq> fst ` set f" by auto
qed

lemma scan_children_None: "scan_children target d cs frontier visited = None \<Longrightarrow> target \<in> set cs"
  by (induction target d cs frontier visited rule: scan_children.induct) (auto split: if_splits)

text \<open>A negative answer leaves a set of visited nodes that is closed under the edges.\<close>

lemma cycle_walk_False:
  assumes "cycle_walk target children frontier visited = Some (Inr False)" "target \<notin> set visited"
    "fst ` set frontier \<subseteq> set visited"
    "\<And>n. n \<in> set visited \<Longrightarrow> n \<notin> fst ` set frontier \<Longrightarrow> child_edges children `` {n} \<subseteq> set visited"
  shows "\<exists>closed. set visited \<subseteq> closed \<and> target \<notin> closed \<and> child_edges children `` closed \<subseteq> closed"
  using assms
proof (induction frontier visited rule: frontier_induct[of target])
  case (turn frontier visited)
  show ?case
  proof (cases rule: cycle_walk_cases[of frontier target children visited])
    case finished
    then show ?thesis using turn.prems by (intro exI[of _ "set visited"]) auto
  next
    case (on n d rest cs f v)
    note facts = scan_children_Some[OF on(4)]
    have closed: "child_edges children `` {m} \<subseteq> set v" if "m \<in> set v" "m \<notin> fst ` set f" for m
    proof (cases "m = n")
      case False
      have "m \<in> set visited" using that facts(2,5) by blast
      moreover have "m \<notin> fst ` set frontier" using False that(2) facts(4) on(1) by auto
      ultimately show ?thesis using turn.prems(4) facts(2) by blast
    qed (use on(3) facts(2) in \<open>auto simp: child_edges_def\<close>)
    have sub: "fst ` set f \<subseteq> set v"
    proof (rule image_subsetI)
      fix x assume "x \<in> set f"
      then have "x \<in> set rest \<or> fst x \<in> set cs" using facts(3) by auto
      then show "fst x \<in> set v" using facts(2) turn.prems(3) on(1) by auto
    qed
    have tgt: "target \<notin> set v" using facts(1,2) turn.prems(2) by auto
    have walk: "cycle_walk target children f v = Some (Inr False)" using turn.prems(1) on(5) by simp
    have "\<exists>closed. set v \<subseteq> closed \<and> target \<notin> closed \<and> child_edges children `` closed \<subseteq> closed"
      by (intro turn.IH[OF on(1,2,4)] walk tgt sub closed)
    then show ?thesis using facts(2) by auto
  qed (use turn.prems in auto)
qed

lemma cycle_walk_True:
  assumes "cycle_walk target children frontier visited = Some (Inr True)"
    "\<And>n d. (n, d) \<in> set frontier \<Longrightarrow> (c, n) \<in> child_edges children ^^ d \<and> d \<le> max_virtual_depth"
  shows "(c, target) \<in> (child_edges children)\<^sup>* \<or> (\<exists>n. (c, n) \<in> child_edges children ^^ max_virtual_depth)"
  using assms
proof (induction frontier visited rule: frontier_induct[of target])
  case (turn frontier visited)
  have step: "(c, m) \<in> child_edges children ^^ (d + 1)"
    if "frontier = (n, d) # rest" "children n = Inr cs" "m \<in> set cs" for n d rest cs m
    using turn.prems(2)[of n d] that by (auto simp: child_edges_def)
  show ?case
  proof (cases rule: cycle_walk_cases[of frontier target children visited])
    case (deep n d rest)
    then show ?thesis using turn.prems(2)[of n d] by auto
  next
    case (found n d rest cs)
    have "(c, target) \<in> child_edges children ^^ (d + 1)" using step[OF found(1,3)] scan_children_None[OF found(4)] .
    then show ?thesis using relpow_imp_rtrancl by blast
  next
    case (on n d rest cs f v)
    have "(c, m) \<in> child_edges children ^^ k \<and> k \<le> max_virtual_depth" if "(m, k) \<in> set f" for m k
      using that scan_children_Some(3)[OF on(4)] step[OF on(1,3)] turn.prems(2)[of m k] on(1,2) by auto
    moreover have "cycle_walk target children f v = Some (Inr True)" using turn.prems(1) on(5) by simp
    ultimately show ?thesis using turn.IH[OF on(1,2,4)] by blast
  qed (use turn.prems in auto)
qed

lemma cycle_check_no:
  assumes "would_create_cycle_in_graph v c children = Some (Inr False)"
  shows "(c, v) \<notin> (child_edges children)\<^sup>*"
proof -
  have "v \<noteq> c" and walk: "cycle_walk v children [(c, 0)] [c] = Some (Inr False)"
    using assms by (auto simp: would_create_cycle_in_graph_def split: if_splits)
  then obtain closed where "c \<in> closed" "v \<notin> closed" "child_edges children `` closed \<subseteq> closed"
    using cycle_walk_False[OF walk] by auto
  then show ?thesis using Image_closed_trancl by blast
qed

text \<open>The cycle check is exact up to its depth limit: it says no only when the virtual repository cannot
  be reached from the candidate along memberships of any length, and it says yes only when it can be
  reached or when memberships nest to the limit below the candidate.\<close>

theorem cycle_check_meaning:
  "(would_create_cycle_in_graph v c children = Some (Inr False) \<longrightarrow> (c, v) \<notin> (child_edges children)\<^sup>*)
   \<and> (would_create_cycle_in_graph v c children = Some (Inr True) \<longrightarrow>
        (c, v) \<in> (child_edges children)\<^sup>* \<or> (\<exists>n. (c, n) \<in> child_edges children ^^ max_virtual_depth))"
  using cycle_check_no[of v c children] cycle_walk_True[of v children "[(c, 0)]" "[c]" c]
  by (auto simp: would_create_cycle_in_graph_def split: if_splits)

section \<open>Members\<close>

definition is_virtual :: "uuid \<Rightarrow> repo_db \<Rightarrow> bool" where
  "is_virtual rid s = (case find_repo rid s of None \<Rightarrow> False | Some r \<Rightarrow> rw_type r = VirtualRepo)"

definition virtual_children :: "uuid \<Rightarrow> repo_db \<Rightarrow> uuid list" where
  "virtual_children rid s =
     map vm_member (filter (\<lambda>m. vm_virtual m = rid \<and> is_virtual (vm_member m) s) (db_members s))"

definition virtual_member_children :: "repo_env \<Rightarrow> uuid \<Rightarrow> (repo_db, uuid list) action" where
  "virtual_member_children env rid = select (ry_fail env) ''virtual members'' (virtual_children rid)"

text \<open>The walk over the table; it returns (\<open>cycle_check_terminates\<close>), so \<open>the\<close> is never asked for
  the value of a walk that does not.\<close>

definition would_create_cycle :: "repo_env \<Rightarrow> uuid \<Rightarrow> uuid \<Rightarrow> (repo_db, bool) action" where
  "would_create_cycle env v m s =
     (the (would_create_cycle_in_graph v m (\<lambda>n. fst (virtual_member_children env n s))), s)"

fun max_of :: "int list \<Rightarrow> int option" where
  "max_of [] = None"
| "max_of (x # xs) = (case max_of xs of None \<Rightarrow> Some x | Some y \<Rightarrow> Some (max x y))"

definition members_of :: "uuid \<Rightarrow> repo_db \<Rightarrow> virtual_member list" where
  "members_of v s = filter (\<lambda>m. vm_virtual m = v) (db_members s)"

text \<open>The addition is on \<open>i32\<close> and wraps in a release build.\<close>

definition next_priority :: "int option \<Rightarrow> int" where
  "next_priority mx = as_i32 ((case mx of None \<Rightarrow> 0 | Some p \<Rightarrow> p) + 1)"

definition already_member :: "repo_row \<Rightarrow> repo_row \<Rightarrow> app_error" where
  "already_member v m = Conflict (''repository '' @ quoted (rw_key m) @ '' is already a member of '' @ quoted (rw_key v))"

definition insert_member :: "repo_env \<Rightarrow> repo_row \<Rightarrow> repo_row \<Rightarrow> int \<Rightarrow> (repo_db, unit) action" where
  "insert_member env v m p s =
     (case ry_fail env ''insert member'' of
        Some e \<Rightarrow> (Inl (Database e), s)
      | None \<Rightarrow>
          if list_ex (\<lambda>x. vm_virtual x = rw_id v \<and> vm_member x = rw_id m) (db_members s)
          then (Inl (already_member v m), s)
          else (Inr (), s\<lparr> db_members := db_members s @
                 [\<lparr> vm_virtual = rw_id v, vm_member = rw_id m, vm_priority = p \<rparr>] \<rparr>))"

definition resolve_priority :: "repo_env \<Rightarrow> uuid \<Rightarrow> int option \<Rightarrow> (repo_db, int) action" where
  "resolve_priority env v priority =
     (case priority of
        Some p \<Rightarrow> give p
      | None \<Rightarrow> andthen (select (ry_fail env) ''max priority'' (\<lambda>s. max_of (map vm_priority (members_of v s))))
                  (\<lambda>mx. give (next_priority mx)))"

definition add_member_locked :: "repo_env \<Rightarrow> uuid \<Rightarrow> uuid \<Rightarrow> int option \<Rightarrow> (repo_db, int) action" where
  "add_member_locked env v m priority =
     andthen (execute (ry_fail env) ''advisory lock'' id) (\<lambda>_.
     andthen (repo_by_id env v) (\<lambda>vr.
     andthen (run_or (rw_type vr = VirtualRepo) (Validation ''Target repository must be a virtual repository'')) (\<lambda>_.
     andthen (repo_by_id env m) (\<lambda>mr.
     andthen (run_or (rw_format vr = rw_format mr)
       (Validation ''Member repository format must match virtual repository format'')) (\<lambda>_.
     andthen (if rw_type mr = VirtualRepo then would_create_cycle env v m else give False) (\<lambda>cyclic.
     andthen (run_or (\<not> cyclic) (Validation (''Adding repository '' @ rw_key mr
       @ '' as a member of virtual repository '' @ rw_key vr @ '' would create a cycle''))) (\<lambda>_.
     andthen (resolve_priority env v priority) (\<lambda>p.
     andthen (insert_member env vr mr p) (\<lambda>_. give p)))))))))"

definition add_virtual_member :: "repo_env \<Rightarrow> uuid \<Rightarrow> uuid \<Rightarrow> int option \<Rightarrow> (repo_db, int) action" where
  "add_virtual_member env v m priority =
     (if v = m then refuse (Validation ''A virtual repository cannot be a member of itself'')
      else in_transaction (ry_fail env) (add_member_locked env v m priority))"

definition remove_virtual_member :: "repo_env \<Rightarrow> uuid \<Rightarrow> uuid \<Rightarrow> (repo_db, unit) action" where
  "remove_virtual_member env v m s =
     (case ry_fail env ''remove member'' of
        Some e \<Rightarrow> (Inl (Database e), s)
      | None \<Rightarrow>
          if list_ex (\<lambda>x. vm_virtual x = v \<and> vm_member x = m) (db_members s)
          then (Inr (), s\<lparr> db_members := filter (\<lambda>x. \<not> (vm_virtual x = v \<and> vm_member x = m)) (db_members s) \<rparr>)
          else (Inl (NotFound ''Member not found in virtual repository''), s))"

text \<open>The bulk update of priorities; where the request names a member twice the database may take either
  pair, and the model takes the first.\<close>

definition set_priorities :: "uuid \<Rightarrow> (uuid \<times> int) list \<Rightarrow> repo_db \<Rightarrow> repo_db" where
  "set_priorities v pairs s = s\<lparr> db_members := map (\<lambda>x.
     if vm_virtual x = v then (case map_of pairs (vm_member x) of
       None \<Rightarrow> x | Some p \<Rightarrow> x\<lparr> vm_priority := p \<rparr>) else x) (db_members s) \<rparr>"

definition update_virtual_member_priorities ::
  "repo_env \<Rightarrow> uuid \<Rightarrow> (uuid \<times> int) list \<Rightarrow> (repo_db, uuid list) action" where
  "update_virtual_member_priorities env v pairs =
     in_transaction (ry_fail env)
       (andthen (execute (ry_fail env) ''advisory lock'' id) (\<lambda>_.
        andthen (select (ry_fail env) ''update priorities''
          (\<lambda>s. filter (\<lambda>m. m \<in> fst ` set pairs) (map vm_member (members_of v s)))) (\<lambda>updated.
        andthen (execute (ry_fail env) ''update priorities'' (set_priorities v pairs)) (\<lambda>_.
        give updated))))"

text \<open>Members in the order of their priority; the order of equal priorities is the database's, and the
  model takes that of the table.\<close>

definition get_virtual_members :: "repo_env \<Rightarrow> uuid \<Rightarrow> (repo_db, repo_row list) action" where
  "get_virtual_members env v = select (ry_fail env) ''get members''
     (\<lambda>s. List.map_filter (\<lambda>m. find_repo (vm_member m) s) (sort_key vm_priority (members_of v s)))"

section \<open>The graph stays acyclic\<close>

definition member_edges :: "repo_db \<Rightarrow> (uuid \<times> uuid) set" where
  "member_edges s = {(vm_virtual m, vm_member m) |m. m \<in> set (db_members s)}"

lemma member_edges_image: "member_edges s = (\<lambda>m. (vm_virtual m, vm_member m)) ` set (db_members s)"
  by (auto simp: member_edges_def)

text \<open>Only virtual repositories have members, members exist, no pair is listed twice, and no repository is
  a member of itself, directly or through others.\<close>

definition members_ok :: "repo_db \<Rightarrow> bool" where
  "members_ok s \<longleftrightarrow> acyclic (member_edges s) \<and> (\<forall>(v, m) \<in> member_edges s. is_virtual v s \<and> find_repo m s \<noteq> None)
     \<and> distinct (map (\<lambda>x. (vm_virtual x, vm_member x)) (db_members s))"

lemma child_edges_members:
  assumes "ry_fail env ''virtual members'' = None"
  shows "child_edges (\<lambda>n. fst (virtual_member_children env n s)) = {(v, m) \<in> member_edges s. is_virtual m s}"
  using assms
  by (auto simp: child_edges_def virtual_member_children_def select_def virtual_children_def member_edges_def)

text \<open>A path to a virtual repository runs through virtual repositories only.\<close>

lemma path_to_virtual:
  assumes "(m, v) \<in> (member_edges s)\<^sup>*" "is_virtual v s" "\<forall>(v, m) \<in> member_edges s. is_virtual v s"
  shows "(m, v) \<in> {(v, m) \<in> member_edges s. is_virtual m s}\<^sup>*"
  using assms
proof (induction rule: converse_rtrancl_induct)
  case (step m n)
  then have ih: "(n, v) \<in> {(v, m) \<in> member_edges s. is_virtual m s}\<^sup>*" by simp
  have "is_virtual n s"
    using ih step.prems(1) by (cases rule: converse_rtranclE) (use step.prems(2) in auto)
  then have "(m, n) \<in> {(v, m) \<in> member_edges s. is_virtual m s}" using step.hyps(1) by simp
  then show ?case using ih by (rule converse_rtrancl_into_rtrancl)
qed simp

lemma cycle_free_edge:
  assumes "members_ok s" "is_virtual v s" "v \<noteq> m" "ry_fail env ''virtual members'' = None"
    "is_virtual m s \<Longrightarrow> would_create_cycle env v m s = (Inr False, s)"
  shows "(m, v) \<notin> (member_edges s)\<^sup>*"
proof
  assume path: "(m, v) \<in> (member_edges s)\<^sup>*"
  then obtain x where "(m, x) \<in> member_edges s" using assms(3) by (auto elim: converse_rtranclE)
  then have virtual: "is_virtual m s" using assms(1) by (auto simp: members_ok_def)
  obtain r where r: "would_create_cycle_in_graph v m (\<lambda>n. fst (virtual_member_children env n s)) = Some r"
    using cycle_check_returns by blast
  then have "r = Inr False" using assms(5)[OF virtual] by (simp add: would_create_cycle_def)
  then have "(m, v) \<notin> {(v, m) \<in> member_edges s. is_virtual m s}\<^sup>*"
    using r cycle_check_no[of v m "\<lambda>n. fst (virtual_member_children env n s)"] child_edges_members[OF assms(4)] by simp
  then show False using path_to_virtual[OF path assms(2)] assms(1) by (auto simp: members_ok_def)
qed

text \<open>What an added row means for the state.\<close>

lemma add_virtual_member_adds:
  assumes "add_virtual_member env v m priority s = (Inr p, t)" "members_ok s" "repos_ok s"
  shows "t = s\<lparr> db_members := db_members s @ [\<lparr> vm_virtual = v, vm_member = m, vm_priority = p \<rparr>] \<rparr>"
    "is_virtual v s" "find_repo m s \<noteq> None" "(m, v) \<notin> (member_edges s)\<^sup>*"
    "\<forall>x \<in> set (db_members s). (vm_virtual x, vm_member x) \<noteq> (v, m)"
proof -
  have locked: "v \<noteq> m" "add_member_locked env v m priority s = (Inr p, t)"
    using assms(1) by (auto simp: add_virtual_member_def action_simps split: if_splits)
  then obtain vr mr cyclic where
    vr: "find_repo v s = Some vr" "rw_type vr = VirtualRepo" and mr: "find_repo m s = Some mr"
    and check: "(if rw_type mr = VirtualRepo then would_create_cycle env v m else give False) s = (Inr False, s)"
    and prio: "resolve_priority env v priority s = (Inr p, s)"
    and ins: "insert_member env vr mr p s = (Inr (), t)"
    by (auto simp: add_member_locked_def action_simps repo_by_id_def resolve_priority_def would_create_cycle_def
        split: if_splits option.splits)
  have ids: "rw_id vr = v" "rw_id mr = m" using vr mr find_repo_some by auto
  show "t = s\<lparr> db_members := db_members s @ [\<lparr> vm_virtual = v, vm_member = m, vm_priority = p \<rparr>] \<rparr>"
    "\<forall>x \<in> set (db_members s). (vm_virtual x, vm_member x) \<noteq> (v, m)"
    using ins ids by (auto simp: insert_member_def list_ex_iff split: option.splits if_splits)
  show virtual: "is_virtual v s" using vr by (simp add: is_virtual_def)
  show "find_repo m s \<noteq> None" using mr by simp
  show "(m, v) \<notin> (member_edges s)\<^sup>*"
  proof (cases "rw_type mr = VirtualRepo")
    case True
    then have cyc: "would_create_cycle env v m s = (Inr False, s)" using check by simp
    show ?thesis
    proof (cases "ry_fail env ''virtual members''")
      case None
      then show ?thesis using cycle_free_edge[OF assms(2) virtual locked(1)] cyc by blast
    next
      case (Some e)
      then have "would_create_cycle_in_graph v m (\<lambda>n. fst (virtual_member_children env n s)) = Some (Inl (Database e))"
        using locked(1) cycle_walk.simps[of v "\<lambda>n. fst (virtual_member_children env n s)" "[(m, 0)]" "[m]"]
        by (simp add: would_create_cycle_in_graph_def virtual_member_children_def select_def max_virtual_depth_def)
      then show ?thesis using cyc by (simp add: would_create_cycle_def)
    qed
  next
    case False
    then have "\<not> is_virtual m s" using mr by (simp add: is_virtual_def)
    then have "(m, x) \<notin> member_edges s" for x using assms(2) by (auto simp: members_ok_def)
    then show ?thesis using locked(1) by (auto elim: converse_rtranclE)
  qed
qed

text \<open>Operations that keep identifiers and types keep the graph's invariant.\<close>

lemma members_ok_weaken:
  assumes "members_ok s" "member_edges t \<subseteq> member_edges s"
    "distinct (map (\<lambda>x. (vm_virtual x, vm_member x)) (db_members t))"
    "\<And>v m. (v, m) \<in> member_edges t \<Longrightarrow> map_option rw_type (find_repo v t) = map_option rw_type (find_repo v s)"
    "\<And>v m. (v, m) \<in> member_edges t \<Longrightarrow> find_repo m s \<noteq> None \<Longrightarrow> find_repo m t \<noteq> None"
  shows "members_ok t"
proof -
  have "is_virtual v t \<and> find_repo m t \<noteq> None" if e: "(v, m) \<in> member_edges t" for v m
  proof -
    have "is_virtual v s" "find_repo m s \<noteq> None" using assms(1,2) e by (auto simp: members_ok_def)
    then show ?thesis using assms(4,5)[OF e] by (auto simp: is_virtual_def split: option.splits)
  qed
  moreover have "acyclic (member_edges t)" using assms(1,2) acyclic_subset by (auto simp: members_ok_def)
  ultimately show ?thesis using assms(3) by (auto simp: members_ok_def)
qed

lemma find_repo_update_repo:
  assumes "\<And>r. rw_id (f r) = rw_id r"
  shows "find_repo rid (update_repo k f s) = map_option (\<lambda>r. if rw_id r = k then f r else r) (find_repo rid s)"
proof -
  have "find (\<lambda>r. rw_id r = rid) (map (\<lambda>r. if rw_id r = k then f r else r) rs)
      = map_option (\<lambda>r. if rw_id r = k then f r else r) (find (\<lambda>r. rw_id r = rid) rs)" for rs
    by (induction rs) (auto simp: assms)
  then show ?thesis by (simp add: find_repo_def update_repo_def)
qed

lemma find_repo_drop: "find_repo rid (drop_repo k s) = (if rid = k then None else find_repo rid s)"
proof -
  have h: "find (\<lambda>r. rw_id r = rid) (filter (\<lambda>r. rw_id r \<noteq> k) rs) = (if rid = k then None else find (\<lambda>r. rw_id r = rid) rs)" for rs
    by (induction rs) auto
  show ?thesis using h[of "db_repos s"] by (simp add: find_repo_def drop_repo_def)
qed

text \<open>The operations of the service on the tables of repositories and members. Each runs in one statement
  or in a transaction, and those that add edges or change priorities under the advisory lock.\<close>

inductive catalog_step :: "repo_db \<Rightarrow> repo_db \<Rightarrow> bool" where
  create: "ry_new_id env \<notin> rw_id ` set (db_repos s) \<Longrightarrow> create_repo env q s = (r, t) \<Longrightarrow> catalog_step s t"
| update: "update_repository env rid u s = (r, t) \<Longrightarrow> catalog_step s t"
| delete: "delete_repo env rid s = (x, t) \<Longrightarrow> catalog_step s t"
| add: "add_virtual_member env v m priority s = (p, t) \<Longrightarrow> catalog_step s t"
| remove: "remove_virtual_member env v m s = (x, t) \<Longrightarrow> catalog_step s t"
| reorder: "update_virtual_member_priorities env v pairs s = (ids, t) \<Longrightarrow> catalog_step s t"

definition catalog_ok :: "repo_db \<Rightarrow> bool" where
  "catalog_ok s \<longleftrightarrow> repos_ok s \<and> members_ok s"

definition no_repos :: repo_db where
  "no_repos = \<lparr> db_repos = [], db_members = [], db_handlers = Map.empty, db_roles = [], db_config = Map.empty,
     db_token_repos = [], db_artifacts = [], db_tags = [], db_blobs = [], db_refs = [] \<rparr>"

lemma no_repos_ok: "catalog_ok no_repos"
  by (simp add: catalog_ok_def no_repos_def repos_ok_def members_ok_def member_edges_def acyclic_def)

text \<open>How each operation changes the two tables.\<close>

lemma set_format_key_shape:
  assumes "set_format_key env rid fk s = (Inr u, t)"
  shows "t = s \<or> (\<exists>k. t = update_repo rid (\<lambda>r. r\<lparr> rw_format_key := Some k \<rparr>) s)"
  using assms by (auto simp: set_format_key_def action_simps split: option.splits)

lemma create_repo_shape:
  assumes "create_repo env q s = (r, t)"
  shows "t = s \<or> (\<exists>u. insert_repository env q s = (Inr (new_repo_row env q), u)
      \<and> (t = u \<or> (\<exists>k. t = update_repo (ry_new_id env) (\<lambda>r. r\<lparr> rw_format_key := Some k \<rparr>) u)))"
proof -
  have "insert_in_transaction env q s = (r, t) \<or> t = s"
    using assms by (auto simp: create_repo_def Let_def run_simps split: option.splits sum.splits prod.splits if_splits)
  moreover have "\<exists>u. insert_repository env q s = (Inr (new_repo_row env q), u)
      \<and> (t = u \<or> (\<exists>k. t = update_repo (ry_new_id env) (\<lambda>r. r\<lparr> rw_format_key := Some k \<rparr>) u))"
    if ins: "insert_in_transaction env q s = (r, t)" and ne: "t \<noteq> s"
  proof -
    have row: "x = new_repo_row env q" if "insert_repository env q s = (Inr x, u)" for x u
      using that by (auto simp: insert_repository_def split: option.splits if_splits)
    have silent: "snd (repo_by_key env (cr_key q) s) = s" by (rule silent_state)
    obtain y u where y: "insert_repository env q s = (y, u)" by (cases "insert_repository env q s")
    then obtain x' where x': "y = Inr x'"
      using ins ne silent by (cases y) (auto simp: insert_in_transaction_def split: option.splits if_splits)
    then have x'_row: "x' = new_repo_row env q" using row y by blast
    obtain o' w where "andthen (set_format_key env (ry_new_id env) (cr_format_key q)) (\<lambda>_. execute (ry_fail env) ''commit'' id) u = (o', w)"
      by (cases "andthen (set_format_key env (ry_new_id env) (cr_format_key q)) (\<lambda>_. execute (ry_fail env) ''commit'' id) u")
    then have "insert_repository env q s = (Inr (new_repo_row env q), u)"
      "\<exists>x. andthen (set_format_key env (ry_new_id env) (cr_format_key q)) (\<lambda>_. execute (ry_fail env) ''commit'' id) u = (Inr x, t)"
      using ins ne y x' x'_row
      by (auto simp: insert_in_transaction_def new_repo_row_def split: option.splits sum.splits)
    then show ?thesis using set_format_key_shape by (fastforce simp: action_simps)
  qed
  ultimately show ?thesis by blast
qed

lemma find_repo_append: "find_repo rid (s\<lparr> db_repos := db_repos s @ rs \<rparr>) =
    (case find_repo rid s of None \<Rightarrow> find (\<lambda>r. rw_id r = rid) rs | Some r \<Rightarrow> Some r)"
  by (simp add: find_repo_def find_append)

lemma member_edges_same [simp]:
  "member_edges (s\<lparr> db_repos := x \<rparr>) = member_edges s" "member_edges (update_repo rid f s) = member_edges s"
  "db_members (update_repo rid f s) = db_members s"
  "db_members (drop_repo rid s) = filter (\<lambda>m. vm_virtual m \<noteq> rid \<and> vm_member m \<noteq> rid) (db_members s)"
  by (simp_all add: member_edges_def update_repo_def drop_repo_def)

lemma distinct_map_filterI: "distinct (map f xs) \<Longrightarrow> distinct (map f (filter P xs))"
  by (simp add: distinct_map_filter)

lemma members_ok_distinct: "members_ok s \<Longrightarrow> distinct (map (\<lambda>x. (vm_virtual x, vm_member x)) (db_members s))"
  by (simp add: members_ok_def)

lemma members_ok_update_repo:
  assumes "members_ok s" "\<And>r. rw_id (f r) = rw_id r" "\<And>r. rw_type (f r) = rw_type r"
  shows "members_ok (update_repo rid f s)"
  by (rule members_ok_weaken[OF assms(1)])
    (use members_ok_distinct[OF assms(1)] assms(2,3) in
      \<open>auto simp: find_repo_update_repo option.map_comp o_def split: option.split intro!: option.map_cong0\<close>)

lemma members_ok_insert:
  assumes "members_ok s" "insert_repository env q s = (Inr r, t)" "ry_new_id env \<notin> rw_id ` set (db_repos s)"
  shows "members_ok t"
proof -
  have t: "t = s\<lparr> db_repos := db_repos s @ [new_repo_row env q] \<rparr>"
    using assms(2) by (auto simp: insert_repository_def split: option.splits if_splits)
  have "find_repo v t = find_repo v s" if "(v, m) \<in> member_edges s" for v m
    using assms(1) that by (auto simp: t find_repo_append members_ok_def is_virtual_def split: option.splits)
  then show ?thesis
    by (intro members_ok_weaken[OF assms(1)])
      (use members_ok_distinct[OF assms(1)] in \<open>auto simp: t find_repo_append split: option.splits\<close>)
qed

lemma update_repository_shape:
  assumes "update_repository env rid u s = (r, t)"
  shows "t = s \<or> (\<not> key_taken rid (up_key u) s \<and> t = update_repo rid (updated_row u) s)"
  using assms by (auto simp: update_repository_def update_repository_row_def run_simps
      split: option.splits sum.splits prod.splits if_splits)

lemma repos_ok_updated_row:
  assumes "repos_ok s" "\<not> key_taken rid (up_key u) s"
  shows "repos_ok (update_repo rid (updated_row u) s)"
proof (cases "up_key u")
  case None
  then show ?thesis
    by (intro repos_ok_update_repo[OF assms(1)]) (auto simp: updated_row_def coalesce_def split: option.split)
next
  case (Some k)
  let ?g = "\<lambda>r. if rw_id r = rid then updated_row u r else r"
  have ids: "map rw_id (map ?g (db_repos s)) = map rw_id (db_repos s)" by (rule map_if_id) (simp add: updated_row_def)
  have "distinct (map rw_key (map ?g rs))"
    if "distinct (map rw_id rs)" "distinct (map rw_key rs)" "rw_id ` set rs \<subseteq> rw_id ` set (db_repos s)"
       "\<forall>r \<in> set rs. rw_id r \<noteq> rid \<longrightarrow> rid \<in> rw_id ` set (db_repos s) \<longrightarrow> rw_key r \<noteq> k" for rs
    using that
  proof (induction rs)
    case (Cons r rs)
    have "rw_key (?g r) \<notin> rw_key ` set (map ?g rs)"
    proof (cases "rw_id r = rid")
      case True
      then have other: "rw_id x \<noteq> rid" if "x \<in> set rs" for x using Cons.prems(1) that by (auto simp: image_iff)
      have "rid \<in> rw_id ` set (db_repos s)" using Cons.prems(3) True by auto
      then show ?thesis using Cons.prems(4) other True Some by (auto simp: updated_row_def)
    next
      case False
      have "rw_key r \<noteq> rw_key (?g x)" if x: "x \<in> set rs" for x
      proof (cases "rw_id x = rid")
        case True
        then have "rid \<in> rw_id ` set (db_repos s)" using Cons.prems(3) x by auto
        then show ?thesis using Cons.prems(4) False True Some by (auto simp: updated_row_def)
      qed (use Cons.prems(2) x in \<open>auto simp: image_iff\<close>)
      then have "rw_key r \<notin> (\<lambda>x. rw_key (?g x)) ` set rs" by blast
      then show ?thesis using False by (simp add: image_image del: if_image_distrib)
    qed
    then show ?case using Cons by auto
  qed simp
  moreover have "\<forall>r \<in> set (db_repos s). rw_id r \<noteq> rid \<longrightarrow> rid \<in> rw_id ` set (db_repos s) \<longrightarrow> rw_key r \<noteq> k"
    using assms(2) Some by (auto simp: key_taken_def find_repo_def find_None_iff list_ex_iff)
  ultimately have "distinct (map rw_key (map ?g (db_repos s)))" using assms(1) by (auto simp: repos_ok_def)
  moreover have "rw_type (updated_row u r) = rw_type r \<and> (rw_upstream r \<noteq> None \<longrightarrow> rw_upstream (updated_row u r) \<noteq> None)" for r
    by (auto simp: updated_row_def coalesce_def split: option.split)
  ultimately show ?thesis using assms(1) ids by (auto simp: repos_ok_def update_repo_def simp del: map_map)
qed

lemma catalog_step_ok: "catalog_step s t \<Longrightarrow> catalog_ok s \<Longrightarrow> catalog_ok t"
proof (induction rule: catalog_step.induct)
  case (create env s q r t)
  then have ok: "repos_ok s" "members_ok s" by (auto simp: catalog_ok_def)
  have "repos_ok t" using repos_ok_create[OF ok(1) create.hyps(1), of q] create.hyps(2) by simp
  moreover have "members_ok t"
    using create_repo_shape[OF create.hyps(2)] ok(2) members_ok_insert[OF ok(2) _ create.hyps(1)]
    by (auto intro: members_ok_update_repo)
  ultimately show ?case by (simp add: catalog_ok_def)
next
  case (update env rid u s r t)
  then show ?case using update_repository_shape[OF update.hyps] repos_ok_updated_row[of s rid u]
    by (auto simp: catalog_ok_def updated_row_def intro!: members_ok_update_repo)
next
  case (delete env rid s x t)
  then have "t = s \<or> t = drop_repo rid s" by (auto simp: delete_repo_def split: option.splits if_splits)
  moreover have "members_ok (drop_repo rid s)" if "members_ok s"
    by (rule members_ok_weaken[OF that])
      (use members_ok_distinct[OF that] in \<open>auto simp: find_repo_drop member_edges_def intro: distinct_map_filterI\<close>)
  moreover have "repos_ok (drop_repo rid s)" if "repos_ok s"
    using that by (auto simp: repos_ok_def drop_repo_def distinct_map_filter)
  ultimately show ?case using delete.prems by (auto simp: catalog_ok_def)
next
  case (add env v m priority s p t)
  show ?case
  proof (cases p)
    case (Inl e)
    then show ?thesis using add in_transaction_atomic by (fastforce simp: add_virtual_member_def refuse_def split: if_splits)
  next
    case (Inr q)
    note facts = add_virtual_member_adds[OF add.hyps[unfolded Inr]]
    have ok: "members_ok s" "repos_ok s" using add.prems by (auto simp: catalog_ok_def)
    have edges: "member_edges t = insert (v, m) (member_edges s)" using facts(1)[OF ok] by (simp add: member_edges_image)
    have same: "find_repo x t = find_repo x s" "is_virtual x t = is_virtual x s" for x
      using facts(1)[OF ok] by (simp_all add: find_repo_def is_virtual_def)
    have "acyclic (member_edges t)" using facts(4)[OF ok] ok edges by (simp add: members_ok_def)
    then have "members_ok t"
      using ok facts[OF ok] edges same by (auto simp: members_ok_def)
    moreover have "repos_ok t" using ok facts(1)[OF ok] by (simp add: repos_ok_def)
    ultimately show ?thesis by (simp add: catalog_ok_def)
  qed
next
  case (remove env v m s x t)
  then have t: "t = s \<or> t = s\<lparr> db_members := filter (\<lambda>x. \<not> (vm_virtual x = v \<and> vm_member x = m)) (db_members s) \<rparr>"
    by (auto simp: remove_virtual_member_def split: option.splits if_splits)
  have "members_ok (s\<lparr> db_members := filter (\<lambda>x. \<not> (vm_virtual x = v \<and> vm_member x = m)) (db_members s) \<rparr>)" if "members_ok s"
    by (rule members_ok_weaken[OF that])
      (use members_ok_distinct[OF that] in \<open>auto simp: member_edges_def find_repo_def intro: distinct_map_filterI\<close>)
  then show ?case using t remove.prems by (auto simp: catalog_ok_def repos_ok_def)
next
  case (reorder env v pairs s ids t)
  then have t: "t = s \<or> t = set_priorities v pairs s"
    by (cases ids) (auto simp: update_virtual_member_priorities_def action_simps dest: in_transaction_atomic)
  have pairs: "map (\<lambda>x. (vm_virtual x, vm_member x)) (db_members (set_priorities v pairs s))
      = map (\<lambda>x. (vm_virtual x, vm_member x)) (db_members s)"
    by (auto simp: set_priorities_def split: option.split)
  then have edges: "member_edges (set_priorities v pairs s) = member_edges s"
    unfolding member_edges_image by (metis list.set_map)
  have same: "find_repo x (set_priorities v pairs s) = find_repo x s" for x
    by (simp add: find_repo_def set_priorities_def)
  have "members_ok (set_priorities v pairs s)" if ok: "members_ok s"
  proof (rule members_ok_weaken[OF ok])
    show "distinct (map (\<lambda>x. (vm_virtual x, vm_member x)) (db_members (set_priorities v pairs s)))"
      using members_ok_distinct[OF ok] by (simp only: pairs)
  qed (simp_all add: same edges)
  then show ?case using t reorder.prems by (auto simp: catalog_ok_def repos_ok_def set_priorities_def)
qed

lemma catalog_steps_ok: "catalog_step\<^sup>*\<^sup>* s t \<Longrightarrow> catalog_ok s \<Longrightarrow> catalog_ok t"
  by (induction rule: rtranclp_induct) (auto intro: catalog_step_ok)

text \<open>C11: Whatever sequence of creations, updates, deletions and membership changes led to the tables, no
  repository contains itself, directly or through other virtual repositories; only virtual repositories
  have members, and every member exists.\<close>

theorem memberships_stay_acyclic:
  assumes "catalog_step\<^sup>*\<^sup>* no_repos s"
  shows "acyclic (member_edges s) \<and> (\<forall>(v, m) \<in> member_edges s. is_virtual v s \<and> find_repo m s \<noteq> None)"
  using catalog_steps_ok[OF assms no_repos_ok] by (simp add: catalog_ok_def members_ok_def)

definition sample_repo_env :: "uuid \<Rightarrow> repo_env" where
  "sample_repo_env i = \<lparr> ry_fail = Map.empty, ry_new_id = i, ry_parse_url = Map.empty, ry_vars = Map.empty, ry_by_name = id \<rparr>"

definition sample_create :: "string \<Rightarrow> create_request" where
  "sample_create k = \<lparr> cr_key = k, cr_name = k, cr_description = None, cr_format = Npm, cr_type = VirtualRepo,
     cr_backend = ''filesystem'', cr_path = ''/data/'' @ k, cr_upstream = None, cr_public = False, cr_quota = None,
     cr_format_key = None \<rparr>"

definition two_virtual :: repo_db where
  "two_virtual = snd (create_repo (sample_repo_env 2) (sample_create ''b'')
     (snd (create_repo (sample_repo_env 1) (sample_create ''a'') no_repos)))"

definition nested_virtual :: repo_db where
  "nested_virtual = snd (add_virtual_member (sample_repo_env 0) 1 2 None two_virtual)"

lemmas catalog_eval = two_virtual_def nested_virtual_def sample_repo_env_def sample_create_def no_repos_def
  create_repo_def Let_def run_simps validate_remote_upstream_def should_reject_disabled_format_def
  insert_in_transaction_def insert_repository_def new_repo_row_def set_format_key_def
  add_virtual_member_def in_transaction_def add_member_locked_def repo_by_id_def find_repo_def
  would_create_cycle_def would_create_cycle_in_graph_def cycle_walk.simps virtual_member_children_def
  virtual_children_def max_virtual_depth_def resolve_priority_def members_of_def next_priority_def insert_member_def
  is_virtual_def

lemma nested_virtual_edges: "member_edges nested_virtual = {(1, 2)}"
  by (simp add: member_edges_image catalog_eval)

lemma nested_virtual_reached: "catalog_step\<^sup>*\<^sup>* no_repos nested_virtual"
proof -
  let ?one = "snd (create_repo (sample_repo_env 1) (sample_create ''a'') no_repos)"
  have "catalog_step no_repos ?one"
    by (rule catalog_step.create[OF _ prod.collapse[symmetric]]) (simp add: no_repos_def)
  moreover have "catalog_step ?one two_virtual" unfolding two_virtual_def
    by (rule catalog_step.create[OF _ prod.collapse[symmetric]]) (simp add: catalog_eval)
  moreover have "catalog_step two_virtual nested_virtual" unfolding nested_virtual_def
    by (rule catalog_step.add[OF prod.collapse[symmetric]])
  ultimately show ?thesis by (auto intro: rtranclp_trans)
qed

text \<open>Closing the cycle is refused.\<close>

theorem memberships_stay_acyclic_witness:
  "acyclic (member_edges nested_virtual) \<and> (1, 2) \<in> member_edges nested_virtual
   \<and> \<not> is_ok (fst (add_virtual_member (sample_repo_env 0) 2 1 None nested_virtual))"
proof -
  have "\<not> is_ok (fst (add_virtual_member (sample_repo_env 0) 2 1 None nested_virtual))"
    by (simp add: catalog_eval)
  then show ?thesis using memberships_stay_acyclic[OF nested_virtual_reached] nested_virtual_edges by simp
qed

end
