(* ===== verification/Object_Store.thy ===== *)
theory Object_Store
  imports Repositories "HOL-Library.Sublist"
begin

text \<open>
  Where content is kept: the registry of backends (\<open>storage/registry.rs\<close>), the file-system backend
  (\<open>storage/filesystem.rs\<close>), the one of the proxy cache (\<open>services/storage_service.rs\<close>) and the layouts of
  content-addressed keys (\<open>storage/path_format.rs\<close>). Cloud backends keep an object under its key in one
  name space per backend; their protocols are not modelled. A path is the list of its components; that a
  directory may stand where a file is expected is left out.
\<close>

section \<open>Keys and paths\<close>

text \<open>The \<open>Normal\<close> components of \<open>Path::components\<close>.\<close>

definition normal_components :: "string \<Rightarrow> string list" where
  "normal_components key = filter (\<lambda>c. c \<noteq> [] \<and> c \<noteq> ''.'' \<and> c \<noteq> ''..'') (split_char (CHR ''/'') key)"

definition key_to_path :: "string list \<Rightarrow> string \<Rightarrow> string list" where
  "key_to_path base key =
     (case normal_components key of
        [] \<Rightarrow> base
      | [c] \<Rightarrow> base @ [take 2 c, c]
      | cs \<Rightarrow> base @ cs)"

definition cache_key_to_path :: "string list \<Rightarrow> string \<Rightarrow> string list" where
  "cache_key_to_path base key = base @ normal_components key"

text \<open>What the operating system makes of a path with \<open>..\<close> in it.\<close>

fun resolve_path :: "string list \<Rightarrow> string list \<Rightarrow> string list" where
  "resolve_path acc [] = acc"
| "resolve_path acc (c # cs) = resolve_path (if c = ''..'' then butlast acc else acc @ [c]) cs"

definition storage_key_from_checksum :: "string \<Rightarrow> string" where
  "storage_key_from_checksum c = take 2 c @ ''/'' @ take 2 (drop 2 c) @ ''/'' @ c"

datatype storage_path_format = NativeFormat | ArtifactoryFormat | MigrationFormat

definition storage_path_format_from_env :: "string option \<Rightarrow> storage_path_format" where
  "storage_path_format_from_env v =
     (let s = to_lowercase (case v of None \<Rightarrow> [] | Some x \<Rightarrow> x)
      in if s = ''artifactory'' \<or> s = ''jfrog'' then ArtifactoryFormat
         else if s = ''migration'' \<or> s = ''migrate'' \<or> s = ''fallback'' then MigrationFormat
         else NativeFormat)"

fun format_storage_key :: "storage_path_format \<Rightarrow> string \<Rightarrow> string" where
  "format_storage_key ArtifactoryFormat c = take 2 c @ ''/'' @ c"
| "format_storage_key _ c = take 2 c @ ''/'' @ take 2 (drop 2 c) @ ''/'' @ c"

fun fallback_key :: "storage_path_format \<Rightarrow> string \<Rightarrow> string option" where
  "fallback_key MigrationFormat c = Some (take 2 c @ ''/'' @ c)"
| "fallback_key _ c = None"

fun all_paths :: "storage_path_format \<Rightarrow> string \<Rightarrow> string list" where
  "all_paths NativeFormat c = [take 2 c @ ''/'' @ take 2 (drop 2 c) @ ''/'' @ c]"
| "all_paths ArtifactoryFormat c = [take 2 c @ ''/'' @ c]"
| "all_paths MigrationFormat c = [take 2 c @ ''/'' @ take 2 (drop 2 c) @ ''/'' @ c, take 2 c @ ''/'' @ c]"

fun show_path_format :: "storage_path_format \<Rightarrow> string" where
  "show_path_format NativeFormat = ''native''"
| "show_path_format ArtifactoryFormat = ''artifactory''"
| "show_path_format MigrationFormat = ''migration''"

definition parse_path_format :: "string \<Rightarrow> storage_path_format option" where
  "parse_path_format s =
     (let l = to_lowercase s
      in if l = ''native'' \<or> l = ''default'' then Some NativeFormat
         else if l = ''artifactory'' \<or> l = ''jfrog'' then Some ArtifactoryFormat
         else if l = ''migration'' \<or> l = ''migrate'' \<or> l = ''fallback'' then Some MigrationFormat
         else None)"

section \<open>Backends\<close>

text \<open>An address is a name space with a path in it: the file system's with the path of the file, or a cloud
  backend's with the key.\<close>

type_synonym address = "string \<times> string list"
type_synonym objects = "address \<rightharpoonup> string"

definition backend_for :: "(string \<Rightarrow> bool) \<Rightarrow> location \<Rightarrow> unit result" where
  "backend_for registered loc =
     (if fst loc = ''filesystem'' then Inr ()
      else if registered (fst loc) then Inr ()
      else Inl (Storage (''storage backend '' @ quoted (fst loc) @ '' is not registered'')))"

definition is_available :: "(string \<Rightarrow> bool) \<Rightarrow> string \<Rightarrow> bool" where
  "is_available registered backend = (backend = ''filesystem'' \<or> registered backend)"

definition address_of :: "location \<Rightarrow> string \<Rightarrow> address" where
  "address_of loc key =
     (if fst loc = ''filesystem'' then (''filesystem'', key_to_path (normal_components (snd loc)) key)
      else (fst loc, [key]))"

definition store_put :: "string option \<Rightarrow> address \<Rightarrow> string \<Rightarrow> objects \<Rightarrow> unit result \<times> objects" where
  "store_put fault a c m = (case fault of Some e \<Rightarrow> (Inl (Io e), m) | None \<Rightarrow> (Inr (), m(a \<mapsto> c)))"

definition store_get :: "string option \<Rightarrow> string \<Rightarrow> address \<Rightarrow> objects \<Rightarrow> string result" where
  "store_get fault key a m =
     (case fault of
        Some e \<Rightarrow> Inl (Storage (''Failed to read '' @ key @ '': '' @ e))
      | None \<Rightarrow> (case m a of None \<Rightarrow> Inl (NotFound (''Storage key not found: '' @ key)) | Some c \<Rightarrow> Inr c))"

definition store_exists :: "address \<Rightarrow> objects \<Rightarrow> bool result" where
  "store_exists a m = Inr (m a \<noteq> None)"

text \<open>Deleting what is not there is an error of the file system only; the cloud backends accept it.\<close>

definition store_delete :: "string option \<Rightarrow> string \<Rightarrow> address \<Rightarrow> objects \<Rightarrow> unit result \<times> objects" where
  "store_delete fault key a m =
     (case fault of
        Some e \<Rightarrow> (Inl (Storage (''Failed to delete '' @ key @ '': '' @ e)), m)
      | None \<Rightarrow>
          if m a = None \<and> fst a = ''filesystem'' then (Inl (NotFound (''Storage key not found: '' @ key)), m)
          else (Inr (), m(a := None)))"

section \<open>Containment\<close>

lemma normal_components_normal: "c \<in> set (normal_components key) \<Longrightarrow> c \<noteq> [] \<and> c \<noteq> ''.'' \<and> c \<noteq> ''..''"
  by (simp add: normal_components_def)

lemma resolve_path_plain: "''..'' \<notin> set cs \<Longrightarrow> resolve_path acc cs = acc @ cs"
  by (induction cs arbitrary: acc) auto

lemma resolve_path_append: "resolve_path acc (xs @ ys) = resolve_path (resolve_path acc xs) ys"
  by (induction xs arbitrary: acc) simp_all

lemma starts_with_dots: "starts_with ''..'' c \<longleftrightarrow> take 2 c = ''..''"
  by (simp add: starts_with_def numeral_2_eq_2)

lemma strict_prefix_append: "strict_prefix xs (xs @ ys) \<longleftrightarrow> ys \<noteq> []"
  by (auto simp: strict_prefix_def)

text \<open>Whatever the storage key, the file the backend reads, writes or deletes lies strictly under the
  repository's directory, except for a key without any ordinary component, which means the directory
  itself, and for a key of one component that begins with two dots: its shard prefix is the parent
  directory, so the file lies beside the repository's directory.\<close>

theorem key_path_containment:
  assumes "''..'' \<notin> set base" "base \<noteq> []"
  shows "strict_prefix base (resolve_path [] (key_to_path base key))
    \<longleftrightarrow> normal_components key \<noteq> [] \<and> (\<forall>c. normal_components key = [c] \<longrightarrow> \<not> starts_with ''..'' c)"
proof -
  let ?cs = "normal_components key"
  have plain: "''..'' \<notin> set ?cs" using normal_components_normal by blast
  have base: "resolve_path [] (base @ xs) = resolve_path base xs" for xs
    using assms(1) by (simp add: resolve_path_append resolve_path_plain)
  consider "?cs = []" | c where "?cs = [c]" | "length ?cs > 1" by (cases ?cs rule: remdups_adj.cases) auto
  then show ?thesis
  proof cases
    case 1
    then show ?thesis using base[of "[]"] by (simp add: key_to_path_def)
  next
    case (2 c)
    then have c: "c \<noteq> ''..''" using plain by simp
    have "\<not> strict_prefix base (butlast base @ [c])"
      using assms(2) prefix_length_less[of base "butlast base @ [c]"] by auto
    then show ?thesis using 2 c by (auto simp: key_to_path_def base starts_with_dots strict_prefix_append)
  next
    case 3
    then have "key_to_path base key = base @ ?cs" by (auto simp: key_to_path_def split: list.split)
    then show ?thesis using 3 plain by (auto simp: base resolve_path_plain strict_prefix_append)
  qed
qed

theorem key_path_containment_witness:
  "\<not> strict_prefix [''data'', ''private''] (resolve_path [] (key_to_path [''data'', ''private''] ''..x''))
   \<and> resolve_path [] (key_to_path [''data'', ''private''] ''..x'') = [''data'', ''..x'']"
  using key_path_containment[of "[''data'', ''private'']" "''..x''"]
  by (simp add: key_to_path_def normal_components_def starts_with_def)

text \<open>The backend of the repositories and that of the proxy cache keep a key in the same file exactly when
  the key is not flat.\<close>

lemma layouts_agree: "key_to_path base key = cache_key_to_path base key \<longleftrightarrow> length (normal_components key) \<noteq> 1"
  by (auto simp: key_to_path_def cache_key_to_path_def split: list.split)

section \<open>Content-addressed keys\<close>

text \<open>What \<open>format!("{:x}")\<close> makes of a SHA-256 digest.\<close>

definition is_hex_digit :: "char \<Rightarrow> bool" where
  "is_hex_digit c \<longleftrightarrow> is_ascii_digit c \<or> (97 \<le> (of_char c :: nat) \<and> (of_char c :: nat) \<le> 102)"

definition hex_digest :: "string \<Rightarrow> bool" where
  "hex_digest h \<longleftrightarrow> length h = 64 \<and> list_all is_hex_digit h"

lemma hex_not_special: "is_hex_digit c \<Longrightarrow> c \<noteq> CHR ''/'' \<and> c \<noteq> CHR ''.''"
  by (auto simp: is_hex_digit_def is_ascii_digit_def)

lemma dots_not_hex [simp]: "\<not> is_hex_digit CHR ''.''" "\<not> is_hex_digit CHR ''/''"
  using hex_not_special by blast+

lemma split_char_plain: "d \<notin> set s \<Longrightarrow> split_char d s = [s]"
  by (induction s) auto

lemma split_char_append: "d \<notin> set s \<Longrightarrow> split_char d (s @ d # t) = s # split_char d t"
  by (induction s) auto

lemma components_of_three:
  assumes "\<And>x. x \<in> {a, b, c} \<Longrightarrow> x \<noteq> [] \<and> list_all is_hex_digit x"
  shows "normal_components (a @ ''/'' @ b @ ''/'' @ c) = [a, b, c]"
proof -
  have "CHR ''/'' \<notin> set x \<and> x \<noteq> [] \<and> x \<noteq> ''.'' \<and> x \<noteq> ''..''" if "x \<in> {a, b, c}" for x
    using assms[OF that] hex_not_special by (auto simp: list_all_iff)
  then show ?thesis by (simp add: normal_components_def split_char_append split_char_plain)
qed

lemma content_key_components:
  assumes "hex_digest h"
  shows "normal_components (storage_key_from_checksum h) = [take 2 h, take 2 (drop 2 h), h]"
  unfolding storage_key_from_checksum_def
proof (rule components_of_three)
  fix x assume "x \<in> {take 2 h, take 2 (drop 2 h), h}"
  then have "set x \<subseteq> set h" "x \<noteq> []"
    using assms by (auto simp: hex_digest_def take_eq_Nil dest: in_set_takeD in_set_dropD)
  then show "x \<noteq> [] \<and> list_all is_hex_digit x" using assms by (auto simp: hex_digest_def list_all_iff)
qed

lemma content_key_path:
  "hex_digest h \<Longrightarrow> key_to_path base (storage_key_from_checksum h) = base @ [take 2 h, take 2 (drop 2 h), h]"
  by (simp add: key_to_path_def content_key_components)

text \<open>Equal addresses of content-addressed keys come from equal locations and equal checksums; on a cloud
  backend the path of the location plays no part.\<close>

definition same_store :: "location \<Rightarrow> location \<Rightarrow> bool" where
  "same_store l k \<longleftrightarrow> fst l = fst k \<and> (fst l = ''filesystem'' \<longrightarrow> normal_components (snd l) = normal_components (snd k))"

lemma content_key_inj: "storage_key_from_checksum g = storage_key_from_checksum h \<Longrightarrow> g = h" if "hex_digest g" "hex_digest h"
  using content_key_components[OF that(1)] content_key_components[OF that(2)] by (metis list.inject)

lemma content_address_inj:
  assumes "hex_digest g" "hex_digest h"
    "address_of l (storage_key_from_checksum g) = address_of k (storage_key_from_checksum h)"
  shows "g = h" "same_store l k"
  using assms content_key_inj[OF assms(1,2)]
  by (auto simp: address_of_def content_key_path same_store_def split: if_splits)

lemma same_store_address: "same_store l k \<Longrightarrow> address_of l key = address_of k key"
  by (auto simp: same_store_def address_of_def)

lemma formats_first: "hd (all_paths f c) = format_storage_key f c" "set (all_paths f c) = {format_storage_key f c} \<union> set_option (fallback_key f c)"
  by (cases f; auto)+

lemma path_format_roundtrip: "parse_path_format (show_path_format f) = Some f"
  by (cases f) (simp_all add: parse_path_format_def to_lowercase_def lower_char_def)

lemma native_key: "format_storage_key NativeFormat c = storage_key_from_checksum c"
  by (simp add: storage_key_from_checksum_def)

end
