(* ===== verification/Artifact_Service.thy ===== *)
theory Artifact_Service
  imports Object_Store
begin

text \<open>
  The artifact service (\<open>services/artifact_service.rs\<close>): checksums, the upload with its quota check,
  deduplicated content and upserted row, the download behind the quarantine, and the soft deletion. An
  upload consists of three parts between which other requests run; \<open>upload\<close> composes them. Hash functions
  and plugin hooks are parameters. What happens after the row is written and cannot fail the upload
  (package tables, peer replication, scans, quality checks, search) is left out, as is the paged listing.
\<close>

section \<open>State\<close>

datatype hook_event = BeforeUpload | BeforeDownload | BeforeDelete

record artifact_info =
  ai_repository :: uuid
  ai_path :: string
  ai_name :: string
  ai_version :: "string option"
  ai_size :: int
  ai_sha256 :: string
  ai_content_type :: string
  ai_uploaded_by :: "uuid option"

record content_env =
  cv_fail :: faults
  cv_repo :: repo_env
  cv_sha256 :: "string \<Rightarrow> string"
  cv_sha1 :: "string \<Rightarrow> string"
  cv_md5 :: "string \<Rightarrow> string"
  cv_hook :: "hook_event \<Rightarrow> artifact_info \<Rightarrow> unit result"
  cv_now :: datetime
  cv_var :: "string \<Rightarrow> string option"
  cv_new_id :: uuid

record registry =
  rg_db :: repo_db
  rg_objects :: objects
  rg_downloads :: "(uuid \<times> uuid option) list"
  rg_approvals :: "uuid list"

abbreviation on_db :: "(repo_db, 'a) action \<Rightarrow> (registry, 'a) action" where
  "on_db \<equiv> on_part rg_db (\<lambda>d s. s\<lparr> rg_db := d \<rparr>)"

text \<open>\<open>rg_approvals\<close> lists the artifacts that rows of \<open>promotion_approvals\<close> refer to.\<close>

record upload_params =
  pm_repository :: uuid
  pm_path :: string
  pm_name :: string
  pm_version :: "string option"
  pm_content_type :: string
  pm_data :: string
  pm_uploaded_by :: "uuid option"

section \<open>Checksums\<close>

definition checksum_mismatch :: "string \<Rightarrow> string \<Rightarrow> string \<Rightarrow> app_error" where
  "checksum_mismatch algorithm declared actual = Validation (algorithm @ '' checksum mismatch: declared ''
     @ declared @ '' but actual content hashes to '' @ actual)"

definition verify_one :: "string \<Rightarrow> string \<Rightarrow> string option \<Rightarrow> unit result" where
  "verify_one algorithm actual declared =
     (case declared of
        None \<Rightarrow> Inr ()
      | Some d \<Rightarrow> if eq_ignore_ascii_case d actual then Inr () else Inl (checksum_mismatch algorithm d actual))"

definition verify_checksums ::
  "content_env \<Rightarrow> string \<Rightarrow> string option \<Rightarrow> string option \<Rightarrow> string option \<Rightarrow> unit result" where
  "verify_checksums env data sha256 sha1 md5 =
     bind_result (verify_one ''SHA-256'' (cv_sha256 env data) sha256) (\<lambda>_.
     bind_result (verify_one ''SHA-1'' (cv_sha1 env data) sha1) (\<lambda>_.
     verify_one ''MD5'' (cv_md5 env data) md5))"

section \<open>Upload\<close>

definition live_at :: "uuid \<Rightarrow> string \<Rightarrow> repo_db \<Rightarrow> stored_artifact option" where
  "live_at rid path s = find (\<lambda>a. art_repository a = rid \<and> art_path a = path \<and> \<not> art_deleted a) (db_artifacts s)"

definition size_of :: "string \<Rightarrow> int" where
  "size_of data = int (length data)"

definition info_of_upload :: "content_env \<Rightarrow> upload_params \<Rightarrow> artifact_info" where
  "info_of_upload env p = \<lparr> ai_repository = pm_repository p, ai_path = pm_path p, ai_name = pm_name p,
     ai_version = pm_version p, ai_size = size_of (pm_data p), ai_sha256 = cv_sha256 env (pm_data p),
     ai_content_type = pm_content_type p, ai_uploaded_by = pm_uploaded_by p \<rparr>"

definition info_of_artifact :: "stored_artifact \<Rightarrow> artifact_info" where
  "info_of_artifact a = \<lparr> ai_repository = art_repository a, ai_path = art_path a, ai_name = art_name a,
     ai_version = art_version a, ai_size = art_size a, ai_sha256 = art_sha256 a,
     ai_content_type = art_content_type a, ai_uploaded_by = art_uploaded_by a \<rparr>"

text \<open>The first part: quota, hook, and the immutability of a version that is there.\<close>

definition upload_checks :: "content_env \<Rightarrow> upload_params \<Rightarrow> (registry, unit) action" where
  "upload_checks env p =
     andthen (on_db (check_quota (cv_repo env) (pm_repository p) (size_of (pm_data p)))) (\<lambda>ok.
     andthen (run_or ok (QuotaExceeded ''Repository storage quota exceeded'')) (\<lambda>_.
     andthen (of_result (cv_hook env BeforeUpload (info_of_upload env p))) (\<lambda>_.
     andthen (select (cv_fail env) ''existing'' (\<lambda>s. live_at (pm_repository p) (pm_path p) (rg_db s))) (\<lambda>existing.
     run_or (case existing of None \<Rightarrow> True | Some a \<Rightarrow> art_version a \<noteq> pm_version p)
       (Conflict ''Artifact version already exists and is immutable'')))))"

text \<open>The second part: content that exists is not written again.\<close>

definition content_key :: "content_env \<Rightarrow> string \<Rightarrow> string" where
  "content_key env data = storage_key_from_checksum (cv_sha256 env data)"

definition put_object :: "content_env \<Rightarrow> address \<Rightarrow> string \<Rightarrow> (registry, unit) action" where
  "put_object env a c s =
     (case store_put (cv_fail env ''storage put'') a c (rg_objects s) of (r, m) \<Rightarrow> (r, s\<lparr> rg_objects := m \<rparr>))"

definition object_exists :: "content_env \<Rightarrow> address \<Rightarrow> (registry, bool) action" where
  "object_exists env a s =
     (case cv_fail env ''storage exists'' of
        Some e \<Rightarrow> (Inl (Storage e), s)
      | None \<Rightarrow> (store_exists a (rg_objects s), s))"

definition upload_content :: "content_env \<Rightarrow> location \<Rightarrow> string \<Rightarrow> (registry, unit) action" where
  "upload_content env loc data =
     (let a = address_of loc (content_key env data) in
      andthen (object_exists env a) (\<lambda>there. if there then give () else put_object env a data))"

text \<open>The third part: the row. A row at the path, live or not, is overwritten and revived; its
  quarantine columns stay.\<close>

definition written_row :: "content_env \<Rightarrow> upload_params \<Rightarrow> stored_artifact \<Rightarrow> stored_artifact" where
  "written_row env p a = a\<lparr> art_deleted := False, art_name := pm_name p, art_version := pm_version p,
     art_size := size_of (pm_data p), art_sha256 := cv_sha256 env (pm_data p),
     art_md5 := Some (cv_md5 env (pm_data p)), art_sha1 := Some (cv_sha1 env (pm_data p)),
     art_content_type := pm_content_type p, art_storage_key := content_key env (pm_data p),
     art_uploaded_by := pm_uploaded_by p \<rparr>"

definition fresh_row :: "content_env \<Rightarrow> upload_params \<Rightarrow> stored_artifact" where
  "fresh_row env p = \<lparr> art_id = cv_new_id env, art_repository = pm_repository p, art_deleted = False,
     art_quarantine = None, art_until = None, art_path = pm_path p, art_name = pm_name p,
     art_version = pm_version p, art_size = size_of (pm_data p), art_sha256 = cv_sha256 env (pm_data p),
     art_md5 = Some (cv_md5 env (pm_data p)), art_sha1 = Some (cv_sha1 env (pm_data p)),
     art_content_type = pm_content_type p, art_storage_key = content_key env (pm_data p),
     art_uploaded_by = pm_uploaded_by p \<rparr>"

definition at_path :: "uuid \<Rightarrow> string \<Rightarrow> stored_artifact \<Rightarrow> bool" where
  "at_path rid path a \<longleftrightarrow> art_repository a = rid \<and> art_path a = path"

definition upsert_rows :: "content_env \<Rightarrow> upload_params \<Rightarrow> stored_artifact list \<Rightarrow> stored_artifact list" where
  "upsert_rows env p rows =
     (if list_ex (at_path (pm_repository p) (pm_path p)) rows
      then map (\<lambda>a. if at_path (pm_repository p) (pm_path p) a then written_row env p a else a) rows
      else rows @ [fresh_row env p])"

definition upsert_artifact :: "content_env \<Rightarrow> upload_params \<Rightarrow> (repo_db, stored_artifact) action" where
  "upsert_artifact env p s =
     (case cv_fail env ''upsert artifact'' of
        Some e \<Rightarrow> (Inl (Database e), s)
      | None \<Rightarrow>
          if find_repo (pm_repository p) s = None then (Inl (Database ''violates foreign key constraint''), s)
          else (let t = s\<lparr> db_artifacts := upsert_rows env p (db_artifacts s) \<rparr>
                in (case live_at (pm_repository p) (pm_path p) t of
                      None \<Rightarrow> (Inl (Database ''no row''), t) | Some a \<Rightarrow> (Inr a, t))))"

definition quarantine_rows :: "uuid \<Rightarrow> repo_db \<Rightarrow> (string \<times> string option) list" where
  "quarantine_rows rid s = List.map_filter (\<lambda>k. map_option (\<lambda>v. (k, Some v)) (db_config s (rid, k)))
     [''quarantine_enabled'', ''quarantine_duration_minutes'']"

definition hold_artifact :: "content_env \<Rightarrow> uuid \<Rightarrow> uuid \<Rightarrow> (repo_db, unit) action" where
  "hold_artifact env rid aid s =
     (Inr (), s\<lparr> db_artifacts := apply_quarantine_hold (cv_var env)
        (case cv_fail env ''quarantine config'' of Some e \<Rightarrow> Inl e | None \<Rightarrow> Inr (quarantine_rows rid s))
        (cv_fail env ''set quarantine'') aid (cv_now env) (db_artifacts s) \<rparr>)"

definition upload_record :: "content_env \<Rightarrow> upload_params \<Rightarrow> (registry, stored_artifact) action" where
  "upload_record env p =
     andthen (on_db (upsert_artifact env p)) (\<lambda>a.
     andthen (on_db (hold_artifact env (pm_repository p) (art_id a))) (\<lambda>_. give a))"

definition upload :: "content_env \<Rightarrow> location \<Rightarrow> upload_params \<Rightarrow> (registry, stored_artifact) action" where
  "upload env loc p =
     andthen (upload_checks env p) (\<lambda>_.
     andthen (upload_content env loc (pm_data p)) (\<lambda>_.
     upload_record env p))"

section \<open>Download and deletion\<close>

definition get_object :: "content_env \<Rightarrow> string \<Rightarrow> address \<Rightarrow> (registry, string) action" where
  "get_object env key a s = (store_get (cv_fail env ''storage get'') key a (rg_objects s), s)"

definition download ::
  "content_env \<Rightarrow> location \<Rightarrow> uuid \<Rightarrow> string \<Rightarrow> uuid option \<Rightarrow> (registry, stored_artifact \<times> string) action" where
  "download env loc rid path uid =
     andthen (select (cv_fail env) ''find artifact'' (\<lambda>s. live_at rid path (rg_db s))) (\<lambda>found.
     andthen (some_or (NotFound ''Artifact not found'') found) (\<lambda>a.
     andthen (of_result (check_download_allowed (art_quarantine a) (art_until a) (cv_now env))) (\<lambda>_.
     andthen (of_result (cv_hook env BeforeDownload (info_of_artifact a))) (\<lambda>_.
     andthen (get_object env (art_storage_key a) (address_of loc (art_storage_key a))) (\<lambda>content.
     andthen (ignore_error (execute (cv_fail env) ''download statistics''
        (\<lambda>s. s\<lparr> rg_downloads := rg_downloads s @ [(art_id a, uid)] \<rparr>))) (\<lambda>_.
     give (a, content)))))))"

definition get_artifact :: "content_env \<Rightarrow> uuid \<Rightarrow> (registry, stored_artifact) action" where
  "get_artifact env aid =
     andthen (select (cv_fail env) ''get artifact'' (\<lambda>s. live_artifact aid (db_artifacts (rg_db s))))
       (some_or (NotFound ''Artifact not found''))"

definition mark_deleted :: "uuid \<Rightarrow> registry \<Rightarrow> registry" where
  "mark_deleted aid s = s\<lparr> rg_db := (rg_db s)\<lparr> db_artifacts :=
     map (\<lambda>a. if art_id a = aid then a\<lparr> art_deleted := True \<rparr> else a) (db_artifacts (rg_db s)) \<rparr> \<rparr>"

definition delete_artifact :: "content_env \<Rightarrow> uuid \<Rightarrow> (registry, unit) action" where
  "delete_artifact env aid =
     andthen (get_artifact env aid) (\<lambda>a.
     andthen (of_result (cv_hook env BeforeDelete (info_of_artifact a))) (\<lambda>_.
     execute (cv_fail env) ''delete artifact'' (mark_deleted aid)))"

section \<open>Live artifacts have their content\<close>

text \<open>What is stored under a content-addressed key hashes to the key's checksum, and the content of every
  live artifact is stored, at the location of its repository, under the key of its checksum.\<close>

definition objects_hash :: "(string \<Rightarrow> string) \<Rightarrow> registry \<Rightarrow> bool" where
  "objects_hash sha s \<longleftrightarrow> (\<forall>loc h c. hex_digest h
     \<longrightarrow> rg_objects s (address_of loc (storage_key_from_checksum h)) = Some c \<longrightarrow> sha c = h)"

definition has_content :: "registry \<Rightarrow> stored_artifact \<Rightarrow> bool" where
  "has_content s a \<longleftrightarrow> hex_digest (art_sha256 a) \<and> art_storage_key a = storage_key_from_checksum (art_sha256 a)
     \<and> (case find_repo (art_repository a) (rg_db s) of None \<Rightarrow> False
        | Some r \<Rightarrow> rg_objects s (address_of (storage_location r) (art_storage_key a)) \<noteq> None)"

definition content_ok :: "(string \<Rightarrow> string) \<Rightarrow> registry \<Rightarrow> bool" where
  "content_ok sha s \<longleftrightarrow> objects_hash sha s
     \<and> (\<forall>a \<in> set (db_artifacts (rg_db s)). \<not> art_deleted a \<longrightarrow> has_content s a)"

text \<open>At most one row per repository and path, and per identifier.\<close>

definition paths_ok :: "repo_db \<Rightarrow> bool" where
  "paths_ok s \<longleftrightarrow> distinct (map (\<lambda>a. (art_repository a, art_path a)) (db_artifacts s))
     \<and> distinct (map art_id (db_artifacts s))"

lemma stored_hash:
  "content_ok sha s \<Longrightarrow> hex_digest h
    \<Longrightarrow> rg_objects s (address_of loc (storage_key_from_checksum h)) = Some c \<Longrightarrow> sha c = h"
  unfolding content_ok_def objects_hash_def by blast

lemma content_hash:
  assumes "content_ok sha s" "a \<in> set (db_artifacts (rg_db s))" "\<not> art_deleted a"
    "find_repo (art_repository a) (rg_db s) = Some r"
  shows "\<exists>c. rg_objects s (address_of (storage_location r) (art_storage_key a)) = Some c \<and> sha c = art_sha256 a"
proof -
  have "has_content s a" using assms(1-3) by (simp add: content_ok_def)
  then obtain c where h: "hex_digest (art_sha256 a)" and k: "art_storage_key a = storage_key_from_checksum (art_sha256 a)"
    and c: "rg_objects s (address_of (storage_location r) (art_storage_key a)) = Some c"
    using assms(4) by (auto simp: has_content_def)
  have "sha c = art_sha256 a"
    using stored_hash[OF assms(1) h] c k by simp
  then show ?thesis using c by blast
qed

text \<open>Each part of an upload keeps what it does not write.\<close>

lemma check_quota_silent: "snd (check_quota env rid n s) = s"
  by (auto simp: check_quota_def repo_by_id_def get_storage_usage_def run_simps
      split: option.splits sum.splits prod.splits)

lemma upload_checks_silent: "snd (upload_checks env p s) = s"
proof -
  have "snd (on_db (check_quota (cv_repo env) (pm_repository p) (size_of (pm_data p))) s) = s"
    using check_quota_silent[of "cv_repo env" "pm_repository p" "size_of (pm_data p)" "rg_db s"]
    by (auto simp: on_part_def split: prod.split)
  then show ?thesis
    by (auto simp: upload_checks_def andthen_def select_def of_result_def run_or_def give_def refuse_def
        split: sum.splits prod.splits option.splits)
qed

lemma upload_content_cases:
  assumes "upload_content env loc data s = (r, t)"
  shows "t = s \<or> t = s\<lparr> rg_objects := (rg_objects s)(address_of loc (content_key env data) \<mapsto> data) \<rparr>"
    "r = Inr () \<Longrightarrow> rg_objects t (address_of loc (content_key env data)) \<noteq> None"
  using assms
  by (auto simp: upload_content_def Let_def object_exists_def store_exists_def put_object_def store_put_def run_simps
      split: option.splits if_splits sum.splits)

lemma upload_content_ok:
  assumes "upload_content env loc data s = (r, t)" "content_ok (cv_sha256 env) s" "hex_digest (cv_sha256 env data)"
  shows "content_ok (cv_sha256 env) t" "rg_db t = rg_db s" "dom (rg_objects s) \<subseteq> dom (rg_objects t)"
proof -
  let ?a = "address_of loc (content_key env data)"
  note t = upload_content_cases(1)[OF assms(1)]
  show "rg_db t = rg_db s" "dom (rg_objects s) \<subseteq> dom (rg_objects t)" using t by auto
  have "objects_hash (cv_sha256 env) (s\<lparr> rg_objects := (rg_objects s)(?a \<mapsto> data) \<rparr>)"
    unfolding objects_hash_def
  proof (intro allI impI)
    fix l h c assume h: "hex_digest h"
      and c: "rg_objects (s\<lparr> rg_objects := (rg_objects s)(?a \<mapsto> data) \<rparr>) (address_of l (storage_key_from_checksum h)) = Some c"
    show "cv_sha256 env c = h"
    proof (cases "address_of l (storage_key_from_checksum h) = ?a")
      case True
      then show ?thesis using c content_address_inj(1)[OF h assms(3), of l loc] by (simp add: content_key_def)
    next
      case False
      then have "rg_objects s (address_of l (storage_key_from_checksum h)) = Some c" using c by simp
      then show ?thesis using stored_hash[OF assms(2) h] by simp
    qed
  qed
  moreover have "has_content (s\<lparr> rg_objects := (rg_objects s)(?a \<mapsto> data) \<rparr>) a" if "has_content s a" for a
    using that by (auto simp: has_content_def split: option.splits)
  ultimately show "content_ok (cv_sha256 env) t" using t assms(2) by (auto simp: content_ok_def)
qed

lemma set_quarantine_rows:
  "snd (set_quarantine err aid st u rows) = rows \<or> snd (set_quarantine err aid st u rows)
     = map (\<lambda>a. if art_id a = aid then a\<lparr> art_quarantine := Some st, art_until := u \<rparr> else a) rows"
  by (auto simp: set_quarantine_def split: option.split)

text \<open>A hold changes no column the content depends on.\<close>

definition same_columns :: "stored_artifact \<Rightarrow> stored_artifact \<Rightarrow> bool" where
  "same_columns a b \<longleftrightarrow> art_id a = art_id b \<and> art_repository a = art_repository b \<and> art_deleted a = art_deleted b
     \<and> art_path a = art_path b \<and> art_sha256 a = art_sha256 b \<and> art_storage_key a = art_storage_key b
     \<and> art_size a = art_size b \<and> art_version a = art_version b"

lemma hold_rows: "list_all2 same_columns (apply_quarantine_hold v c e aid now rows) rows"
proof -
  have "list_all2 same_columns (snd (set_quarantine e aid st u rows)) rows" for st u
  proof -
    have "list_all2 same_columns rows rows" by (simp add: list_all2_same same_columns_def)
    moreover have "list_all2 same_columns
        (map (\<lambda>a. if art_id a = aid then a\<lparr> art_quarantine := Some st, art_until := u \<rparr> else a) rows) rows"
      unfolding list_all2_map1 list_all2_same by (simp add: same_columns_def)
    ultimately show ?thesis
      using set_quarantine_rows[of e aid st u rows] by (elim disjE) (simp_all only:)
  qed
  moreover have "list_all2 same_columns rows rows" by (simp add: list_all2_same same_columns_def)
  ultimately show ?thesis by (simp only: apply_quarantine_hold_def Let_def split: if_split) blast
qed

lemma has_content_same: "same_columns a b \<Longrightarrow> has_content s a = has_content s b"
  by (auto simp: has_content_def same_columns_def split: option.splits)

lemma content_ok_replace:
  assumes "content_ok sha s" "\<And>a. a \<in> set rows \<Longrightarrow> \<not> art_deleted a \<Longrightarrow> has_content s a"
  shows "content_ok sha (s\<lparr> rg_db := (rg_db s)\<lparr> db_artifacts := rows \<rparr> \<rparr>)"
proof -
  have "has_content (s\<lparr> rg_db := (rg_db s)\<lparr> db_artifacts := rows \<rparr> \<rparr>) a = has_content s a" for a
    unfolding has_content_def find_repo_def by (simp split: option.split)
  then show ?thesis using assms by (simp add: content_ok_def objects_hash_def)
qed

lemma content_ok_rows:
  assumes "content_ok sha s" "list_all2 same_columns rows (db_artifacts (rg_db s))"
  shows "content_ok sha (s\<lparr> rg_db := (rg_db s)\<lparr> db_artifacts := rows \<rparr> \<rparr>)"
proof (rule content_ok_replace[OF assms(1)])
  fix a assume "a \<in> set rows" and live: "\<not> art_deleted a"
  then obtain i where i: "i < length rows" "rows ! i = a" by (auto simp: in_set_conv_nth)
  let ?b = "db_artifacts (rg_db s) ! i"
  have same: "same_columns a ?b" and mem: "?b \<in> set (db_artifacts (rg_db s))"
    using assms(2) i by (auto simp: list_all2_conv_all_nth)
  have "\<not> art_deleted ?b" using same live by (simp add: same_columns_def)
  then have "has_content s ?b" using assms(1) mem by (simp add: content_ok_def)
  then show "has_content s a" using has_content_same[OF same] by simp
qed

text \<open>The row an upload writes has its content when the object is there.\<close>

lemma upsert_artifact_ok:
  assumes "upsert_artifact env p (rg_db s) = (r, d)" "content_ok (cv_sha256 env) s"
    "find_repo (pm_repository p) (rg_db s) = Some row" "hex_digest (cv_sha256 env (pm_data p))"
    "rg_objects s (address_of (storage_location row) (content_key env (pm_data p))) \<noteq> None"
  shows "content_ok (cv_sha256 env) (s\<lparr> rg_db := d \<rparr>)"
proof -
  have "has_content s a" if "art_repository a = pm_repository p" "art_sha256 a = cv_sha256 env (pm_data p)"
    "art_storage_key a = content_key env (pm_data p)" for a
    using that assms(3-5) by (simp add: has_content_def content_key_def)
  then have new: "has_content s (written_row env p a)" "has_content s (fresh_row env p)"
    if "at_path (pm_repository p) (pm_path p) a" for a
    using that by (simp_all add: written_row_def fresh_row_def at_path_def)
  have "has_content s (fresh_row env p)"
    using assms(3-5) by (simp add: has_content_def content_key_def fresh_row_def)
  then have "content_ok (cv_sha256 env) (s\<lparr> rg_db := (rg_db s)\<lparr> db_artifacts := upsert_rows env p (db_artifacts (rg_db s)) \<rparr> \<rparr>)"
    using assms(2) new(1) by (intro content_ok_replace) (auto simp: upsert_rows_def content_ok_def split: if_splits)
  moreover have "d = rg_db s \<or> d = (rg_db s)\<lparr> db_artifacts := upsert_rows env p (db_artifacts (rg_db s)) \<rparr>"
    using assms(1) by (auto simp: upsert_artifact_def Let_def split: option.splits if_splits)
  ultimately show ?thesis using assms(2) by auto
qed

lemma hold_artifact_ok:
  assumes "hold_artifact env rid aid (rg_db s) = (r, d)" "content_ok sha s"
  shows "content_ok sha (s\<lparr> rg_db := d \<rparr>)"
proof -
  have "d = (rg_db s)\<lparr> db_artifacts := apply_quarantine_hold (cv_var env)
        (case cv_fail env ''quarantine config'' of Some e \<Rightarrow> Inl e | None \<Rightarrow> Inr (quarantine_rows rid (rg_db s)))
        (cv_fail env ''set quarantine'') aid (cv_now env) (db_artifacts (rg_db s)) \<rparr>"
    using assms(1) by (simp add: hold_artifact_def)
  then show ?thesis using content_ok_rows[OF assms(2) hold_rows] by simp
qed

lemma paths_ok_rows:
  "paths_ok s \<Longrightarrow> list_all2 same_columns rows (db_artifacts s) \<Longrightarrow> paths_ok (s\<lparr> db_artifacts := rows \<rparr>)"
proof -
  assume ok: "paths_ok s" and rows: "list_all2 same_columns rows (db_artifacts s)"
  have "map f rows = map f (db_artifacts s)" if "\<And>a b. same_columns a b \<Longrightarrow> f a = f b" for f :: "stored_artifact \<Rightarrow> 'b"
    using rows that by (auto simp: list_all2_conv_all_nth intro: nth_equalityI)
  from this[of "\<lambda>a. (art_repository a, art_path a)"] this[of art_id] show ?thesis
    using ok by (auto simp: paths_ok_def same_columns_def)
qed

lemma upload_record_ok:
  assumes "content_ok (cv_sha256 env) s"
    "find_repo (pm_repository p) (rg_db s) = Some row" "hex_digest (cv_sha256 env (pm_data p))"
    "rg_objects s (address_of (storage_location row) (content_key env (pm_data p))) \<noteq> None"
  shows "content_ok (cv_sha256 env) (snd (upload_record env p s))"
    "rg_objects (snd (upload_record env p s)) = rg_objects s"
    "db_repos (rg_db (snd (upload_record env p s))) = db_repos (rg_db s)"
proof -
  obtain r d where u: "upsert_artifact env p (rg_db s) = (r, d)" by (cases "upsert_artifact env p (rg_db s)")
  have d: "content_ok (cv_sha256 env) (s\<lparr> rg_db := d \<rparr>)" by (rule upsert_artifact_ok[OF u assms])
  have repos: "db_repos d = db_repos (rg_db s)"
    using u by (auto simp: upsert_artifact_def Let_def split: option.splits if_splits)
  have "content_ok (cv_sha256 env) (snd (upload_record env p s))
      \<and> rg_objects (snd (upload_record env p s)) = rg_objects s \<and> db_repos (rg_db (snd (upload_record env p s))) = db_repos d"
  proof (cases r)
    case (Inl e)
    then show ?thesis using u d by (simp add: upload_record_def andthen_def on_part_def)
  next
    case (Inr a)
    obtain h where h: "hold_artifact env (pm_repository p) (art_id a) d = (Inr (), h)" by (simp add: hold_artifact_def)
    then have "db_repos h = db_repos d" by (auto simp: hold_artifact_def)
    moreover have "content_ok (cv_sha256 env) (s\<lparr> rg_db := h \<rparr>)"
      using hold_artifact_ok[of env "pm_repository p" "art_id a" "s\<lparr> rg_db := d \<rparr>" _ h] h d by simp
    ultimately show ?thesis using u h Inr by (simp add: upload_record_def andthen_def on_part_def give_def)
  qed
  then show "content_ok (cv_sha256 env) (snd (upload_record env p s))"
    "rg_objects (snd (upload_record env p s)) = rg_objects s"
    "db_repos (rg_db (snd (upload_record env p s))) = db_repos (rg_db s)" using repos by simp_all
qed

text \<open>Whatever an upload returns, every live artifact still has its content.\<close>

lemma upload_ok:
  assumes "content_ok (cv_sha256 env) s" "find_repo (pm_repository p) (rg_db s) = Some row"
    "hex_digest (cv_sha256 env (pm_data p))"
  shows "content_ok (cv_sha256 env) (snd (upload env (storage_location row) p s))"
proof (cases "fst (upload_checks env p s)")
  case (Inl e)
  then have "upload_checks env p s = (Inl e, s)" using upload_checks_silent[of env p s] by (metis prod.collapse)
  then show ?thesis using assms(1) by (simp add: upload_def andthen_def)
next
  case (Inr u)
  then have checks: "upload_checks env p s = (Inr u, s)" using upload_checks_silent[of env p s] by (metis prod.collapse)
  obtain r t where c: "upload_content env (storage_location row) (pm_data p) s = (r, t)" by fastforce
  note t = upload_content_ok[OF c assms(1,3)]
  show ?thesis
  proof (cases r)
    case (Inl e)
    then show ?thesis using checks c t(1) by (simp add: upload_def andthen_def)
  next
    case (Inr u)
    then have "rg_objects t (address_of (storage_location row) (content_key env (pm_data p))) \<noteq> None"
      using upload_content_cases(2)[OF c] by simp
    then show ?thesis using checks c Inr upload_record_ok(1)[OF t(1)] t(2) assms(2,3)
      by (simp add: upload_def andthen_def)
  qed
qed

lemma delete_artifact_ok: "content_ok sha s \<Longrightarrow> content_ok sha (snd (delete_artifact env aid s))"
proof -
  assume ok: "content_ok sha s"
  have "snd (delete_artifact env aid s) = s \<or> snd (delete_artifact env aid s) = mark_deleted aid s"
    by (auto simp: delete_artifact_def get_artifact_def run_simps split: option.split sum.split)
  moreover have "content_ok sha (mark_deleted aid s)"
    unfolding mark_deleted_def using ok
    by (intro content_ok_replace) (auto simp: content_ok_def split: if_splits)
  ultimately show ?thesis using ok by metis
qed

section \<open>Uniqueness of paths\<close>

lemma written_row_same [simp]:
  "art_id (written_row env p a) = art_id a" "art_repository (written_row env p a) = art_repository a"
  "art_path (written_row env p a) = art_path a"
  by (simp_all add: written_row_def)

lemma upsert_rows_paths:
  assumes "distinct (map (\<lambda>a. (art_repository a, art_path a)) rows)" "distinct (map art_id rows)"
    "cv_new_id env \<notin> art_id ` set rows"
  shows "distinct (map (\<lambda>a. (art_repository a, art_path a)) (upsert_rows env p rows))"
    "distinct (map art_id (upsert_rows env p rows))"
proof -
  let ?f = "\<lambda>a. if at_path (pm_repository p) (pm_path p) a then written_row env p a else a"
  have "map g (map ?f rows) = map g rows" if "\<And>a. g (written_row env p a) = g a" for g :: "stored_artifact \<Rightarrow> 'z"
    using that by (auto)
  from this[of "\<lambda>a. (art_repository a, art_path a)"] this[of art_id] assms
  show "distinct (map (\<lambda>a. (art_repository a, art_path a)) (upsert_rows env p rows))"
    "distinct (map art_id (upsert_rows env p rows))"
    by (auto simp: upsert_rows_def list_ex_iff at_path_def fresh_row_def simp del: map_map)
qed

section \<open>Upload, then download\<close>

lemma find_list_all2:
  "list_all2 R xs ys \<Longrightarrow> (\<And>x y. R x y \<Longrightarrow> P x = Q y) \<Longrightarrow> rel_option R (find P xs) (find Q ys)"
  by (induction rule: list_all2_induct) auto

lemma upserted:
  assumes "upsert_artifact env p s = (Inr a, t)"
  shows "live_at (pm_repository p) (pm_path p) t = Some a" "art_sha256 a = cv_sha256 env (pm_data p)"
    "art_storage_key a = content_key env (pm_data p)" "art_size a = size_of (pm_data p)"
    "art_version a = pm_version p" "db_repos t = db_repos s"
proof -
  have t: "t = s\<lparr> db_artifacts := upsert_rows env p (db_artifacts s) \<rparr>"
    and live: "live_at (pm_repository p) (pm_path p) t = Some a"
    using assms by (auto simp: upsert_artifact_def Let_def split: option.splits if_splits)
  show "live_at (pm_repository p) (pm_path p) t = Some a" by (rule live)
  show "db_repos t = db_repos s" by (simp add: t)
  have "a \<in> set (upsert_rows env p (db_artifacts s)) \<and> at_path (pm_repository p) (pm_path p) a"
    using find_SomeD[OF live[unfolded live_at_def]] t by (simp add: at_path_def)
  then have "(\<exists>b. a = written_row env p b) \<or> a = fresh_row env p"
    by (auto simp: upsert_rows_def list_ex_iff split: if_splits)
  then show "art_sha256 a = cv_sha256 env (pm_data p)" "art_storage_key a = content_key env (pm_data p)"
    "art_size a = size_of (pm_data p)" "art_version a = pm_version p"
    by (auto simp: written_row_def fresh_row_def)
qed

lemma live_at_held:
  assumes "hold_artifact env rid aid d = (r, h)" "live_at rid' path d = Some a"
  shows "\<exists>b. live_at rid' path h = Some b \<and> same_columns b a"
proof -
  have "list_all2 same_columns (db_artifacts h) (db_artifacts d)"
    using assms(1) hold_rows by (auto simp: hold_artifact_def)
  then have "rel_option same_columns (live_at rid' path h) (live_at rid' path d)"
    unfolding live_at_def by (rule find_list_all2) (auto simp: same_columns_def)
  then show ?thesis using assms(2) by (auto simp: option_rel_Some2)
qed

lemma recorded:
  assumes "upload_record env p u = (Inr a, t)"
  obtains b where "live_at (pm_repository p) (pm_path p) (rg_db t) = Some b" "same_columns b a"
    "art_sha256 b = cv_sha256 env (pm_data p)" "art_storage_key b = content_key env (pm_data p)"
    "art_size b = size_of (pm_data p)" "art_version b = pm_version p" "rg_objects t = rg_objects u"
proof -
  obtain d h where d: "upsert_artifact env p (rg_db u) = (Inr a, d)"
    and h: "hold_artifact env (pm_repository p) (art_id a) d = (Inr (), h)" "t = u\<lparr> rg_db := h \<rparr>"
    using assms by (auto simp: upload_record_def action_simps)
  obtain b where b: "live_at (pm_repository p) (pm_path p) h = Some b" "same_columns b a"
    using live_at_held[OF h(1) upserted(1)[OF d]] by blast
  have "art_sha256 b = art_sha256 a" "art_storage_key b = art_storage_key a" "art_size b = art_size a"
    "art_version b = art_version a"
    using b(2) by (simp_all add: same_columns_def)
  then show thesis using h(2) upserted[OF d] b by (intro that[of b]) simp_all
qed

lemma upload_parts:
  assumes "upload env loc p s = (Inr a, t)"
  obtains u where "upload_checks env p s = (Inr (), s)" "upload_content env loc (pm_data p) s = (Inr (), u)"
    "upload_record env p u = (Inr a, t)"
proof -
  obtain s' u where parts: "upload_checks env p s = (Inr (), s')" "upload_content env loc (pm_data p) s' = (Inr (), u)"
    "upload_record env p u = (Inr a, t)"
    using assms by (auto simp: upload_def action_simps)
  then have "s' = s" using upload_checks_silent[of env p s] by simp
  then show thesis using parts that by blast
qed

lemma uploaded_content:
  assumes "upload env (storage_location row) p s = (Inr a, t)"
    "content_ok (cv_sha256 env) s" "find_repo (pm_repository p) (rg_db s) = Some row"
    "hex_digest (cv_sha256 env (pm_data p))"
  obtains b c where "live_at (pm_repository p) (pm_path p) (rg_db t) = Some b" "art_id b = art_id a"
    "rg_objects t (address_of (storage_location row) (art_storage_key b)) = Some c"
    "cv_sha256 env c = cv_sha256 env (pm_data p)" "db_repos (rg_db t) = db_repos (rg_db s)"
proof -
  obtain v where v: "upload_content env (storage_location row) (pm_data p) s = (Inr (), v)"
    "upload_record env p v = (Inr a, t)"
    using upload_parts[OF assms(1)] by blast
  obtain b where b: "live_at (pm_repository p) (pm_path p) (rg_db t) = Some b" "same_columns b a"
    "art_storage_key b = content_key env (pm_data p)" "rg_objects t = rg_objects v"
    using recorded[OF v(2)] by blast
  note ok = upload_content_ok[OF v(1) assms(2,4)]
  obtain c where c: "rg_objects v (address_of (storage_location row) (content_key env (pm_data p))) = Some c"
    using upload_content_cases(2)[OF v(1)] by fastforce
  then have "cv_sha256 env c = cv_sha256 env (pm_data p)"
    using stored_hash[OF ok(1) assms(4)] by (simp add: content_key_def)
  moreover have "db_repos (rg_db t) = db_repos (rg_db s)"
    using upload_record_ok(3)[OF ok(1) _ assms(4), of row] v(2) ok(2) assms(3) c by (simp add: content_key_def)
  ultimately show thesis using that b c by (simp add: same_columns_def)
qed

text \<open>After a successful upload, a download of the same repository and path answers the refusal of the
  quarantine gate when the row is held, and otherwise content with the digest of the uploaded data,
  whatever was stored before and whether or not the upload found the content already there.\<close>

theorem upload_download_roundtrip:
  assumes "upload env (storage_location row) p s = (Inr a, t)"
    "content_ok (cv_sha256 env) s" "find_repo (pm_repository p) (rg_db s) = Some row"
    "hex_digest (cv_sha256 env (pm_data p))"
    "\<And>stmt. cv_fail denv stmt = None" "\<And>info. cv_hook denv BeforeDownload info = Inr ()"
  shows "\<exists>b c. cv_sha256 env c = cv_sha256 env (pm_data p) \<and> art_id b = art_id a
    \<and> fst (download denv (storage_location row) (pm_repository p) (pm_path p) uid t)
      = (case check_download_allowed (art_quarantine b) (art_until b) (cv_now denv) of
           Inl e \<Rightarrow> Inl e | Inr _ \<Rightarrow> Inr (b, c))"
proof -
  obtain b c where b: "live_at (pm_repository p) (pm_path p) (rg_db t) = Some b" "art_id b = art_id a"
    "rg_objects t (address_of (storage_location row) (art_storage_key b)) = Some c"
    "cv_sha256 env c = cv_sha256 env (pm_data p)"
    using uploaded_content[OF assms(1-4)] by metis
  then have "fst (download denv (storage_location row) (pm_repository p) (pm_path p) uid t)
      = (case check_download_allowed (art_quarantine b) (art_until b) (cv_now denv) of
           Inl e \<Rightarrow> Inl e | Inr _ \<Rightarrow> Inr (b, c))"
    by (simp add: download_def run_simps get_object_def store_get_def assms(5,6) split: sum.split)
  then show ?thesis using b by blast
qed

text \<open>A registry with one hosted repository, as the witnesses use it.\<close>

definition hosted_sample :: repo_row where
  "hosted_sample = \<lparr> rw_id = 1, rw_key = ''maven-local'', rw_name = ''maven-local'', rw_description = None,
     rw_format = Maven, rw_type = LocalRepo, rw_backend = ''filesystem'', rw_path = ''/data/maven-local'',
     rw_upstream = None, rw_public = False, rw_quota = Some 10, rw_format_key = None \<rparr>"

definition sample_registry :: registry where
  "sample_registry = \<lparr> rg_db = \<lparr> db_repos = [hosted_sample], db_members = [], db_handlers = Map.empty, db_roles = [],
     db_config = Map.empty, db_token_repos = [], db_artifacts = [], db_tags = [], db_blobs = [], db_refs = [] \<rparr>,
     rg_objects = Map.empty, rg_downloads = [], rg_approvals = [] \<rparr>"

text \<open>A stand-in for the digest, with the shape of one.\<close>

definition sample_digest :: "string \<Rightarrow> string" where
  "sample_digest data = (if data = ''one'' then CHR ''b'' else CHR ''a'') # replicate 63 (CHR ''a'')"

definition content_sample :: content_env where
  "content_sample = \<lparr> cv_fail = (\<lambda>_. None), cv_repo = \<lparr> ry_fail = (\<lambda>_. None), ry_new_id = 9, ry_parse_url = (\<lambda>_. None),
     ry_vars = (\<lambda>_. None), ry_by_name = id \<rparr>, cv_sha256 = sample_digest, cv_sha1 = id, cv_md5 = id,
     cv_hook = (\<lambda>_ _. Inr ()), cv_now = 100, cv_var = (\<lambda>_. None), cv_new_id = 5 \<rparr>"

definition jar_params :: "string \<Rightarrow> upload_params" where
  "jar_params data = \<lparr> pm_repository = 1, pm_path = ''lib/1.0/lib.jar'', pm_name = ''lib'', pm_version = Some ''1.0'',
     pm_content_type = ''application/java-archive'', pm_data = data, pm_uploaded_by = Some 7 \<rparr>"

lemma sample_digest_hex: "hex_digest (sample_digest d)"
  by (simp add: sample_digest_def hex_digest_def is_hex_digit_def list_all_iff)

lemma sample_content_ok: "content_ok sample_digest sample_registry"
  by (simp add: content_ok_def objects_hash_def sample_registry_def)

lemma sample_find: "find_repo 1 (rg_db sample_registry) = Some hosted_sample"
  by (simp add: find_repo_def sample_registry_def hosted_sample_def)

lemmas sample_defs = content_sample_def jar_params_def sample_registry_def hosted_sample_def

lemma sample_checks: "upload_checks content_sample (jar_params data) sample_registry = (Inr (), sample_registry)"
  if "length data \<le> 10"
  using that by (simp add: upload_checks_def run_simps check_quota_def repo_by_id_def find_repo_def get_storage_usage_def
      live_size_def live_at_def as_i64_def sample_defs size_of_def)

definition sample_uploaded :: registry where
  "sample_uploaded = sample_registry\<lparr>
     rg_db := (rg_db sample_registry)\<lparr> db_artifacts := [fresh_row content_sample (jar_params ''one'')] \<rparr>,
     rg_objects := [address_of (storage_location hosted_sample) (content_key content_sample ''one'') \<mapsto> ''one''] \<rparr>"

lemma sample_content:
  "upload_content content_sample (storage_location hosted_sample) ''one'' sample_registry = (Inr (), sample_registry\<lparr>
     rg_objects := [address_of (storage_location hosted_sample) (content_key content_sample ''one'') \<mapsto> ''one''] \<rparr>)"
proof -
  have "cv_fail content_sample = (\<lambda>_. None)" "rg_objects sample_registry = Map.empty"
    by (simp_all add: content_sample_def sample_registry_def)
  then show ?thesis
    by (simp add: upload_content_def Let_def run_simps object_exists_def store_exists_def put_object_def store_put_def)
qed

lemma sample_record:
  "upload_record content_sample (jar_params ''one'') (sample_registry\<lparr> rg_objects := m \<rparr>)
     = (Inr (fresh_row content_sample (jar_params ''one'')), sample_registry\<lparr>
     rg_db := (rg_db sample_registry)\<lparr> db_artifacts := [fresh_row content_sample (jar_params ''one'')] \<rparr>, rg_objects := m \<rparr>)"
  by (simp add: upload_record_def run_simps upsert_artifact_def find_repo_def upsert_rows_def live_at_def fresh_row_def
      hold_artifact_def apply_quarantine_hold_def resolve_config_def quarantine_rows_def should_quarantine_def
      List.map_filter_def sample_defs)

lemma sample_upload_result:
  "upload content_sample (storage_location hosted_sample) (jar_params ''one'') sample_registry
     = (Inr (fresh_row content_sample (jar_params ''one'')), sample_uploaded)"
proof -
  have "pm_data (jar_params ''one'') = ''one''" by (simp add: jar_params_def)
  then show ?thesis
    by (simp add: upload_def andthen_def sample_checks sample_content sample_record sample_uploaded_def)
qed

theorem upload_download_roundtrip_witness:
  "\<exists>b c. sample_digest c = sample_digest ''one''
    \<and> fst (download content_sample (storage_location hosted_sample) 1 ''lib/1.0/lib.jar'' None sample_uploaded)
      = (case check_download_allowed (art_quarantine b) (art_until b) 100 of Inl e \<Rightarrow> Inl e | Inr _ \<Rightarrow> Inr (b, c))"
proof -
  have "\<exists>b c. cv_sha256 content_sample c = cv_sha256 content_sample (pm_data (jar_params ''one''))
      \<and> art_id b = art_id (fresh_row content_sample (jar_params ''one''))
      \<and> fst (download content_sample (storage_location hosted_sample) (pm_repository (jar_params ''one''))
          (pm_path (jar_params ''one'')) None sample_uploaded)
      = (case check_download_allowed (art_quarantine b) (art_until b) (cv_now content_sample) of
           Inl e \<Rightarrow> Inl e | Inr _ \<Rightarrow> Inr (b, c))"
    by (rule upload_download_roundtrip[OF sample_upload_result])
      (use sample_content_ok sample_find sample_digest_hex in \<open>simp_all add: content_sample_def jar_params_def\<close>)
  then show ?thesis by (simp add: content_sample_def jar_params_def) blast
qed

section \<open>The quota\<close>

lemma live_size_sum:
  "live_size rid d = (\<Sum>a\<leftarrow>db_artifacts d. if art_repository a = rid \<and> \<not> art_deleted a then art_size a else 0)"
  by (simp add: live_size_def sum_list_map_filter')

lemma upsert_rows_size:
  assumes "distinct (map (\<lambda>a. (art_repository a, art_path a)) rows)" "\<forall>a \<in> set rows. 0 \<le> art_size a" "r = pm_repository p"
  shows "(\<Sum>a\<leftarrow>upsert_rows env p rows. if art_repository a = r \<and> \<not> art_deleted a then art_size a else 0)
    \<le> (\<Sum>a\<leftarrow>rows. if art_repository a = r \<and> \<not> art_deleted a then art_size a else 0) + size_of (pm_data p)"
proof -
  let ?g = "\<lambda>a. if art_repository a = r \<and> \<not> art_deleted a then art_size a else 0"
  let ?f = "\<lambda>a. if at_path r (pm_path p) a then written_row env p a else a"
  have "sum_list (map ?g (map ?f rows)) \<le> sum_list (map ?g rows) + size_of (pm_data p)"
    using assms(1,2)
  proof (induction rows)
    case (Cons a rows)
    show ?case
    proof (cases "at_path r (pm_path p) a")
      case True
      then have key: "(art_repository a, art_path a) = (r, pm_path p)" by (simp add: at_path_def)
      have "(r, pm_path p) \<notin> (\<lambda>a. (art_repository a, art_path a)) ` set rows"
        using Cons.prems(1) key by auto
      then have "\<not> at_path r (pm_path p) b" if "b \<in> set rows" for b
        using that by (metis (mono_tags, lifting) at_path_def image_eqI)
      then have "map ?f rows = rows" by (intro map_idI) simp
      then show ?thesis using True Cons.prems(2) assms(3) by (auto simp: written_row_def at_path_def size_of_def)
    next
      case False
      then show ?thesis using Cons by auto
    qed
  qed (simp add: size_of_def)
  then show ?thesis using assms(3) by (auto simp: upsert_rows_def fresh_row_def size_of_def)
qed

text \<open>C15: An upload that is accepted leaves the repository within its quota, when no two rows share a path
  and no other request runs in between: a row that is overwritten does not count twice. The 64-bit sum must
  not overflow.\<close>

theorem upload_within_quota:
  assumes "upload env loc p s = (Inr a, t)" "find_repo (pm_repository p) (rg_db s) = Some row" "rw_quota row = Some q"
    "paths_ok (rg_db s)" "\<forall>a \<in> set (db_artifacts (rg_db s)). 0 \<le> art_size a"
    "live_size (pm_repository p) (rg_db s) + size_of (pm_data p) < 2 ^ 63"
  shows "live_size (pm_repository p) (rg_db t) \<le> q"
proof -
  let ?live = "live_size (pm_repository p)"
  have "0 \<le> ?live (rg_db s)" unfolding live_size_def using assms(5) by (intro sum_list_nonneg) auto
  then have wide: "as_i64 (?live (rg_db s) + size_of (pm_data p)) = ?live (rg_db s) + size_of (pm_data p)"
    using assms(6) by (simp add: size_of_def)
  obtain u where checks: "upload_checks env p s = (Inr (), s)"
    and c: "upload_content env loc (pm_data p) s = (Inr (), u)" and rec: "upload_record env p u = (Inr a, t)"
    using upload_parts[OF assms(1)] by blast
  obtain d h where d: "upsert_artifact env p (rg_db u) = (Inr a, d)"
    and h: "hold_artifact env (pm_repository p) (art_id a) d = (Inr (), h)" "t = u\<lparr> rg_db := h \<rparr>"
    using rec by (auto simp: upload_record_def action_simps)
  have "fst (check_quota (cv_repo env) (pm_repository p) (size_of (pm_data p)) (rg_db s)) = Inr True"
    using checks by (auto simp: upload_checks_def action_simps)
  then have fits: "?live (rg_db s) + size_of (pm_data p) \<le> q"
    using assms(2,3) wide
    by (simp add: check_quota_def repo_by_id_def get_storage_usage_def run_simps split: option.splits)
  have "rg_db u = rg_db s"
    using upload_content_cases(1)[OF c] by auto
  then have "db_artifacts d = upsert_rows env p (db_artifacts (rg_db s))"
    using d by (auto simp: upsert_artifact_def Let_def split: option.splits if_splits)
  then have "?live d \<le> ?live (rg_db s) + size_of (pm_data p)"
    using upsert_rows_size assms(4,5) by (simp add: live_size_sum paths_ok_def)
  moreover have "?live h = ?live d"
  proof -
    have "list_all2 same_columns (db_artifacts h) (db_artifacts d)" using h(1) hold_rows by (auto simp: hold_artifact_def)
    then have "map (\<lambda>a. if art_repository a = pm_repository p \<and> \<not> art_deleted a then art_size a else 0) (db_artifacts h)
        = map (\<lambda>a. if art_repository a = pm_repository p \<and> \<not> art_deleted a then art_size a else 0) (db_artifacts d)"
      by (induction rule: list_all2_induct) (auto simp: same_columns_def)
    then show ?thesis by (simp add: live_size_sum)
  qed
  ultimately show ?thesis using fits h(2) by simp
qed

theorem upload_within_quota_witness: "live_size 1 (rg_db sample_uploaded) \<le> 10"
proof -
  have "live_size (pm_repository (jar_params ''one'')) (rg_db sample_uploaded) \<le> 10"
    by (rule upload_within_quota[OF sample_upload_result, where row = hosted_sample])
      (simp_all add: find_repo_def live_size_def paths_ok_def size_of_def sample_defs)
  then show ?thesis by (simp add: jar_params_def)
qed

section \<open>Immutable versions\<close>

lemma upload_refused:
  assumes "live_at (pm_repository p) (pm_path p) (rg_db s) = Some b" "art_version b = pm_version p"
  shows "\<exists>e. upload env loc p s = (Inl e, s)"
proof (cases "upload env loc p s")
  case (Pair r t)
  have "upload_checks env p s \<noteq> (Inr (), s')" for s'
  proof
    assume "upload_checks env p s = (Inr (), s')"
    then obtain d where "check_quota (cv_repo env) (pm_repository p) (size_of (pm_data p)) (rg_db s) = (Inr True, d)"
      "case live_at (pm_repository p) (pm_path p) d of None \<Rightarrow> True | Some a \<Rightarrow> art_version a \<noteq> pm_version p"
      by (auto simp: upload_checks_def action_simps)
    then show False
      using assms check_quota_silent[of "cv_repo env" "pm_repository p" "size_of (pm_data p)" "rg_db s"] by simp
  qed
  moreover obtain r t where "upload_checks env p s = (r, t)" by fastforce
  ultimately show ?thesis
    using upload_checks_silent[of env p s] by (cases r) (auto simp: upload_def andthen_def)
qed

text \<open>The check that a version is immutable and the write of its row are separate statements, and the
  write replaces whatever row the path has: of two uploads of the same version that both passed the check
  before either wrote, the second is accepted too and replaces the content of the first.\<close>

theorem racing_upload_replaces_version:
  assumes "upload_checks env p s = (Inr (), s)" "upload_checks env q s = (Inr (), s)"
    "pm_repository p = pm_repository q" "pm_path p = pm_path q" "pm_version p = pm_version q"
    "andthen (upload_content env loc (pm_data p)) (\<lambda>_. upload_record env p) s = (Inr a, t)"
    "andthen (upload_content env loc (pm_data q)) (\<lambda>_. upload_record env q) t = (Inr b, u)"
  shows "\<exists>c. live_at (pm_repository p) (pm_path p) (rg_db u) = Some c \<and> art_version c = pm_version p
    \<and> art_sha256 c = cv_sha256 env (pm_data q)"
proof -
  obtain v where "upload_record env q v = (Inr b, u)" using assms(7) by (auto simp: action_simps)
  then show ?thesis by (rule recorded) (use assms(3-5) in auto)
qed

lemma sample_content_second:
  "upload_content content_sample (storage_location hosted_sample) ''two'' sample_uploaded = (Inr (), sample_uploaded\<lparr>
     rg_objects := (rg_objects sample_uploaded)(address_of (storage_location hosted_sample) (content_key content_sample ''two'') \<mapsto> ''two'') \<rparr>)"
proof -
  have "sample_digest ''two'' \<noteq> sample_digest ''one''" by (simp add: sample_digest_def)
  then have "address_of (storage_location hosted_sample) (content_key content_sample ''two'')
      \<noteq> address_of (storage_location hosted_sample) (content_key content_sample ''one'')"
    using content_address_inj(1)[OF sample_digest_hex sample_digest_hex]
    unfolding content_key_def content_sample_def content_env.simps by blast
  moreover have "cv_fail content_sample = (\<lambda>_. None)" by (simp add: content_sample_def)
  ultimately show ?thesis
    by (simp add: upload_content_def Let_def run_simps object_exists_def store_exists_def put_object_def store_put_def
        sample_uploaded_def)
qed

lemma sample_record_second:
  "\<exists>b u. upload_record content_sample (jar_params ''two'') (sample_uploaded\<lparr> rg_objects := m \<rparr>) = (Inr b, u)"
  by (simp add: upload_record_def run_simps upsert_artifact_def find_repo_def upsert_rows_def live_at_def fresh_row_def
      hold_artifact_def at_path_def written_row_def Let_def sample_uploaded_def sample_defs)

theorem racing_upload_replaces_version_witness:
  "\<exists>c. live_at 1 ''lib/1.0/lib.jar'' (rg_db (snd (andthen (upload_content content_sample (storage_location hosted_sample) ''two'')
        (\<lambda>_. upload_record content_sample (jar_params ''two'')) sample_uploaded))) = Some c
     \<and> art_version c = Some ''1.0'' \<and> art_sha256 c = sample_digest ''two''"
proof -
  let ?p = "jar_params ''one''" and ?q = "jar_params ''two''" and ?loc = "storage_location hosted_sample"
  have data [simp]: "pm_data (jar_params d) = d" for d by (simp add: jar_params_def)
  have first: "andthen (upload_content content_sample ?loc (pm_data ?p)) (\<lambda>_. upload_record content_sample ?p) sample_registry
      = (Inr (fresh_row content_sample ?p), sample_uploaded)"
    by (simp add: andthen_def sample_content sample_record sample_uploaded_def)
  obtain b u where second: "andthen (upload_content content_sample ?loc (pm_data ?q)) (\<lambda>_. upload_record content_sample ?q)
      sample_uploaded = (Inr b, u)"
    using sample_record_second by (simp add: andthen_def sample_content_second) blast
  have "\<exists>c. live_at (pm_repository ?p) (pm_path ?p) (rg_db u) = Some c \<and> art_version c = pm_version ?p
      \<and> art_sha256 c = cv_sha256 content_sample (pm_data ?q)"
    by (rule racing_upload_replaces_version[OF sample_checks sample_checks _ _ _ first second])
      (simp_all add: jar_params_def)
  then show ?thesis using second by (simp add: jar_params_def content_sample_def)
qed

end
