(* ===== verification/Storage_GC.thy ===== *)
theory Storage_GC
  imports Artifact_Service
begin

text \<open>
  Garbage collection of storage keys (\<open>services/storage_gc_service.rs\<close>): the orphan predicate, the scan
  for candidates, the re-check of each, and the deletion of its object and rows. One key is one
  transaction; the deletion of the object is not part of it. The second half relates the collection to the
  uploads of the artifact service.
\<close>

section \<open>The orphan predicate\<close>

text \<open>Whether a repository shares the storage of a location: the path counts on the file system only.\<close>

definition in_scope :: "location \<Rightarrow> repo_row \<Rightarrow> bool" where
  "in_scope loc r \<longleftrightarrow> rw_backend r = fst loc \<and> (rw_backend r \<noteq> ''filesystem'' \<or> rw_path r = snd loc)"

definition repo_in_scope :: "repo_db \<Rightarrow> location \<Rightarrow> uuid \<Rightarrow> bool" where
  "repo_in_scope s loc rid = list_ex (\<lambda>r. rw_id r = rid \<and> in_scope loc r) (db_repos s)"

definition tag_protects :: "repo_db \<Rightarrow> location \<Rightarrow> string \<Rightarrow> bool" where
  "tag_protects s loc key =
     (case strip_prefix ''oci-manifests/'' key of
        None \<Rightarrow> False
      | Some digest \<Rightarrow> list_ex (\<lambda>(rid, d). d = digest \<and> repo_in_scope s loc rid) (db_tags s))"

definition blob_protects :: "repo_db \<Rightarrow> location \<Rightarrow> string \<Rightarrow> bool" where
  "blob_protects s loc key =
     (case strip_prefix ''oci-blobs/'' key of
        None \<Rightarrow> False
      | Some digest \<Rightarrow> list_ex (\<lambda>(rid, d). d = digest \<and> repo_in_scope s loc rid) (db_blobs s))"

definition index_protects :: "repo_db \<Rightarrow> location \<Rightarrow> string \<Rightarrow> bool" where
  "index_protects s loc key =
     (case strip_prefix ''oci-manifests/'' key of
        None \<Rightarrow> False
      | Some digest \<Rightarrow> list_ex (\<lambda>(rid, parent, child). child = digest \<and> (rid, parent) \<in> set (db_tags s)
          \<and> repo_in_scope s loc rid) (db_refs s))"

definition live_key :: "repo_db \<Rightarrow> string \<Rightarrow> bool" where
  "live_key s key = list_ex (\<lambda>a. art_storage_key a = key \<and> \<not> art_deleted a) (db_artifacts s)"

definition orphan :: "repo_db \<Rightarrow> stored_artifact \<Rightarrow> repo_row \<Rightarrow> bool" where
  "orphan s a r \<longleftrightarrow> art_deleted a \<and> \<not> live_key s (art_storage_key a)
     \<and> \<not> tag_protects s (storage_location r) (art_storage_key a)
     \<and> \<not> blob_protects s (storage_location r) (art_storage_key a)
     \<and> \<not> index_protects s (storage_location r) (art_storage_key a)"

definition joined :: "repo_db \<Rightarrow> (stored_artifact \<times> repo_row) list" where
  "joined s = [(a, r). a \<leftarrow> db_artifacts s, r \<leftarrow> db_repos s, rw_id r = art_repository a]"

section \<open>Candidates\<close>

record gc_env =
  ge_fail :: faults
  ge_registered :: "string \<Rightarrow> bool"
  ge_numeric :: "int \<Rightarrow> int option"
  ge_pool_text :: string

text \<open>\<open>ge_numeric\<close> is how the driver reads a \<open>NUMERIC\<close> column, as which the database returns the sum of a
  \<open>BIGINT\<close> one, into an \<open>i64\<close>.\<close>

record gc_candidate =
  gk_key :: string
  gk_location :: location
  gk_bytes :: int
  gk_count :: int

definition group_rows :: "repo_db \<Rightarrow> string \<Rightarrow> location \<Rightarrow> stored_artifact list" where
  "group_rows s key loc =
     map fst (filter (\<lambda>(a, r). orphan s a r \<and> art_storage_key a = key \<and> storage_location r = loc) (joined s))"

definition gc_candidates :: "(int \<Rightarrow> int option) \<Rightarrow> repo_db \<Rightarrow> gc_candidate list" where
  "gc_candidates numeric s =
     map (\<lambda>(key, loc). \<lparr> gk_key = key, gk_location = loc,
         gk_bytes = (case numeric (sum_list (map art_size (group_rows s key loc))) of None \<Rightarrow> 0 | Some n \<Rightarrow> n),
         gk_count = int (length (group_rows s key loc)) \<rparr>)
       (remdups (map (\<lambda>(a, r). (art_storage_key a, storage_location r)) (filter (\<lambda>(a, r). orphan s a r) (joined s))))"

definition select_orphans :: "gc_env \<Rightarrow> (registry, gc_candidate list) action" where
  "select_orphans env = select (ge_fail env) ''select orphans'' (\<lambda>s. gc_candidates (ge_numeric env) (rg_db s))"

text \<open>The re-check of one key: first the locks, then the predicate over every row in scope.\<close>

definition still_orphan :: "string \<Rightarrow> location \<Rightarrow> repo_db \<Rightarrow> bool" where
  "still_orphan key loc s =
     (let rows = filter (\<lambda>(a, r). art_storage_key a = key \<and> in_scope loc r) (joined s)
      in rows \<noteq> [] \<and> list_all (\<lambda>(a, r). orphan s a r) rows)"

definition is_still_orphan :: "gc_env \<Rightarrow> string \<Rightarrow> location \<Rightarrow> repo_db \<Rightarrow> string + bool" where
  "is_still_orphan env key loc s =
     (case ge_fail env (''lock rows '' @ key) of
        Some e \<Rightarrow> Inl e
      | None \<Rightarrow> (case ge_fail env (''re-check '' @ key) of Some e \<Rightarrow> Inl e | None \<Rightarrow> Inr (still_orphan key loc s)))"

section \<open>Results\<close>

record gc_result =
  gr_dry_run :: bool
  gr_keys :: int
  gr_removed :: int
  gr_bytes :: int
  gr_errors :: "string list"

definition empty_gc_result :: "bool \<Rightarrow> gc_result" where
  "empty_gc_result dry = \<lparr> gr_dry_run = dry, gr_keys = 0, gr_removed = 0, gr_bytes = 0, gr_errors = [] \<rparr>"

definition accumulate_dry_run :: "int \<Rightarrow> int \<Rightarrow> gc_result \<Rightarrow> gc_result" where
  "accumulate_dry_run bytes count r = r\<lparr> gr_keys := as_i64 (gr_keys r + 1), gr_removed := as_i64 (gr_removed r + count),
     gr_bytes := as_i64 (gr_bytes r + bytes) \<rparr>"

definition record_gc_success :: "int \<Rightarrow> int \<Rightarrow> gc_result \<Rightarrow> gc_result" where
  "record_gc_success bytes count r = r\<lparr> gr_keys := as_i64 (gr_keys r + 1), gr_removed := as_i64 (gr_removed r + count),
     gr_bytes := as_i64 (gr_bytes r + bytes) \<rparr>"

definition format_gc_error :: "string \<Rightarrow> string \<Rightarrow> string \<Rightarrow> string" where
  "format_gc_error operation key e = ''Failed to '' @ operation @ '' for key '' @ key @ '': '' @ e"

section \<open>Collection\<close>

datatype gc_outcome = Freed | Skipped | Failed string

definition purge_key :: "string \<Rightarrow> registry \<Rightarrow> registry" where
  "purge_key key s =
     (let dead = (\<lambda>a. art_storage_key a = key \<and> art_deleted a)
      in s\<lparr> rg_approvals := filter (\<lambda>i. \<not> list_ex (\<lambda>a. art_id a = i \<and> dead a) (db_artifacts (rg_db s))) (rg_approvals s),
         rg_db := (rg_db s)\<lparr> db_artifacts := filter (\<lambda>a. \<not> dead a) (db_artifacts (rg_db s)) \<rparr> \<rparr>)"

text \<open>One candidate. The statements after the deletion of the object are one transaction, so a failure in
  it leaves the rows; the object is gone all the same.\<close>

definition gc_statement :: "gc_env \<Rightarrow> string \<Rightarrow> string option" where
  "gc_statement env key =
     (case ge_fail env (''delete approvals '' @ key) of
        Some e \<Rightarrow> Some (format_gc_error ''delete promotion_approvals'' key e)
      | None \<Rightarrow> (case ge_fail env (''hard-delete '' @ key) of
          Some e \<Rightarrow> Some (format_gc_error ''hard-delete artifacts'' key e)
        | None \<Rightarrow> (case ge_fail env (''commit '' @ key) of
            Some e \<Rightarrow> Some (format_gc_error ''commit gc tx'' key e)
          | None \<Rightarrow> None)))"

definition gc_delete :: "gc_env \<Rightarrow> gc_candidate \<Rightarrow> registry \<Rightarrow> gc_outcome \<times> registry" where
  "gc_delete env c s =
     (case store_delete (ge_fail env (''delete object '' @ gk_key c)) (gk_key c)
         (address_of (gk_location c) (gk_key c)) (rg_objects s) of
        (Inl e, _) \<Rightarrow> (Failed (format_gc_error ''delete storage key'' (gk_key c) (show_app_error (ge_pool_text env) e)), s)
      | (Inr _, m) \<Rightarrow> (case gc_statement env (gk_key c) of
          Some e \<Rightarrow> (Failed e, s\<lparr> rg_objects := m \<rparr>)
        | None \<Rightarrow> (Freed, purge_key (gk_key c) (s\<lparr> rg_objects := m \<rparr>))))"

definition gc_key :: "gc_env \<Rightarrow> gc_candidate \<Rightarrow> registry \<Rightarrow> gc_outcome \<times> registry" where
  "gc_key env c s =
     (case backend_for (ge_registered env) (gk_location c) of
        Inl e \<Rightarrow> (Failed (format_gc_error ''resolve storage'' (gk_key c) (show_app_error (ge_pool_text env) e)), s)
      | Inr _ \<Rightarrow> (case ge_fail env (''begin '' @ gk_key c) of
          Some e \<Rightarrow> (Failed (format_gc_error ''begin gc tx'' (gk_key c) e), s)
        | None \<Rightarrow> (case is_still_orphan env (gk_key c) (gk_location c) (rg_db s) of
            Inl e \<Rightarrow> (Failed (format_gc_error ''re-check orphan'' (gk_key c) e), s)
          | Inr False \<Rightarrow> (Skipped, s)
          | Inr True \<Rightarrow> gc_delete env c s)))"

fun gc_keys :: "gc_env \<Rightarrow> gc_candidate list \<Rightarrow> gc_result \<Rightarrow> registry \<Rightarrow> gc_result \<times> registry" where
  "gc_keys env [] res s = (res, s)"
| "gc_keys env (c # cs) res s =
     (case gc_key env c s of
        (Freed, t) \<Rightarrow> gc_keys env cs (record_gc_success (gk_bytes c) (gk_count c) res) t
      | (Skipped, t) \<Rightarrow> gc_keys env cs res t
      | (Failed m, t) \<Rightarrow> gc_keys env cs (res\<lparr> gr_errors := gr_errors res @ [m] \<rparr>) t)"

definition run_gc :: "gc_env \<Rightarrow> bool \<Rightarrow> (registry, gc_result) action" where
  "run_gc env dry_run =
     andthen (select_orphans env) (\<lambda>cs.
     if dry_run then give (fold (\<lambda>c. accumulate_dry_run (gk_bytes c) (gk_count c)) cs (empty_gc_result True))
     else (\<lambda>s. case gc_keys env cs (empty_gc_result False) s of (r, t) \<Rightarrow> (Inr r, t)))"

section \<open>What one candidate can change\<close>

lemma purge_key_simps [simp]:
  "rg_objects (purge_key key s) = rg_objects s" "db_repos (rg_db (purge_key key s)) = db_repos (rg_db s)"
  "db_artifacts (rg_db (purge_key key s))
     = filter (\<lambda>a. \<not> (art_storage_key a = key \<and> art_deleted a)) (db_artifacts (rg_db s))"
  "db_tags (rg_db (purge_key key s)) = db_tags (rg_db s)" "db_blobs (rg_db (purge_key key s)) = db_blobs (rg_db s)"
  "db_refs (rg_db (purge_key key s)) = db_refs (rg_db s)"
  by (simp_all add: purge_key_def Let_def)

lemma store_delete_cases:
  assumes "store_delete f key at m = (r, m')"
  shows "m' = (if is_ok r then m(at := None) else m)"
  using assms by (auto simp: store_delete_def split: option.splits if_splits)

text \<open>The outcomes of one candidate: nothing, the object alone, or the object and the rows; the last two
  only behind the re-check.\<close>

lemma gc_key_cases:
  assumes "gc_key env c s = (r, t)"
  obtains "t = s" "r \<noteq> Freed"
  | "still_orphan (gk_key c) (gk_location c) (rg_db s)" "r \<noteq> Freed"
    "t = s\<lparr> rg_objects := (rg_objects s)(address_of (gk_location c) (gk_key c) := None) \<rparr>"
  | "still_orphan (gk_key c) (gk_location c) (rg_db s)" "r = Freed"
    "t = purge_key (gk_key c) (s\<lparr> rg_objects := (rg_objects s)(address_of (gk_location c) (gk_key c) := None) \<rparr>)"
proof -
  note split = sum.splits option.splits bool.splits prod.splits
  let ?at = "address_of (gk_location c) (gk_key c)"
  have "t = s \<and> r \<noteq> Freed \<or> still_orphan (gk_key c) (gk_location c) (rg_db s) \<and> gc_delete env c s = (r, t)"
    using assms by (auto simp: gc_key_def is_still_orphan_def split: split)
  moreover have "t = s \<and> r \<noteq> Freed \<or> r \<noteq> Freed \<and> t = s\<lparr> rg_objects := (rg_objects s)(?at := None) \<rparr>
      \<or> r = Freed \<and> t = purge_key (gk_key c) (s\<lparr> rg_objects := (rg_objects s)(?at := None) \<rparr>)"
    if "gc_delete env c s = (r, t)"
    using that by (auto simp: gc_delete_def split: split dest!: store_delete_cases)
  ultimately have "t = s \<and> r \<noteq> Freed \<or> still_orphan (gk_key c) (gk_location c) (rg_db s)
      \<and> (r \<noteq> Freed \<and> t = s\<lparr> rg_objects := (rg_objects s)(?at := None) \<rparr>
      \<or> r = Freed \<and> t = purge_key (gk_key c) (s\<lparr> rg_objects := (rg_objects s)(?at := None) \<rparr>))" by blast
  then show thesis using that by blast
qed

lemma still_orphan_row:
  assumes "still_orphan key loc s"
  obtains a r where "(a, r) \<in> set (joined s)" "art_storage_key a = key" "in_scope loc r" "orphan s a r"
proof -
  obtain x where "x \<in> set (joined s)" "case x of (a, r) \<Rightarrow> art_storage_key a = key \<and> in_scope loc r"
    "case x of (a, r) \<Rightarrow> orphan s a r"
    using assms by (auto simp: still_orphan_def Let_def list_all_iff filter_empty_conv)
  then show thesis using that by (cases x) auto
qed

lemma protects_same:
  assumes "repo_in_scope s l = repo_in_scope t k" "db_tags s = db_tags t" "db_blobs s = db_blobs t" "db_refs s = db_refs t"
  shows "tag_protects s l key = tag_protects t k key" "blob_protects s l key = blob_protects t k key"
    "index_protects s l key = index_protects t k key"
  unfolding tag_protects_def blob_protects_def index_protects_def assms by (rule refl)+

lemma still_orphan_facts:
  assumes "still_orphan key loc s"
  shows "\<not> live_key s key" "\<not> tag_protects s loc key" "\<not> blob_protects s loc key" "\<not> index_protects s loc key"
proof -
  obtain a r where row: "(a, r) \<in> set (joined s)" "art_storage_key a = key" "in_scope loc r" "orphan s a r"
    using still_orphan_row[OF assms] by blast
  have scope: "in_scope (storage_location r) q = in_scope loc q" for q
    using row(3) by (auto simp: in_scope_def storage_location_def)
  then have same: "repo_in_scope s (storage_location r) = repo_in_scope s loc"
    by (intro ext) (simp add: repo_in_scope_def)
  show "\<not> live_key s key" "\<not> tag_protects s loc key" "\<not> blob_protects s loc key" "\<not> index_protects s loc key"
    using row(2,4) protects_same[OF same] by (simp_all add: orphan_def)
qed

text \<open>C18: A key that a live artifact uses, or that a tag, a named blob or the index of a tagged image in the
  same storage refers to, is left alone, however old the candidate list is: no object is deleted and no row
  removed, whatever fails.\<close>

theorem gc_spares_referenced_keys:
  assumes "live_key (rg_db s) (gk_key c) \<or> tag_protects (rg_db s) (gk_location c) (gk_key c)
    \<or> blob_protects (rg_db s) (gk_location c) (gk_key c) \<or> index_protects (rg_db s) (gk_location c) (gk_key c)"
  shows "snd (gc_key env c s) = s \<and> fst (gc_key env c s) \<noteq> Freed"
proof -
  obtain r t where run: "gc_key env c s = (r, t)" by fastforce
  have "\<not> still_orphan (gk_key c) (gk_location c) (rg_db s)" using still_orphan_facts assms by blast
  then show ?thesis using run by (cases rule: gc_key_cases[OF run]) simp_all
qed

section \<open>Live artifacts keep their content\<close>

text \<open>Every row was written by the artifact service, under the key of a digest.\<close>

definition keys_ok :: "repo_db \<Rightarrow> bool" where
  "keys_ok s \<longleftrightarrow> (\<forall>a \<in> set (db_artifacts s). hex_digest (art_sha256 a)
     \<and> art_storage_key a = storage_key_from_checksum (art_sha256 a))"

lemma still_orphan_key:
  assumes "still_orphan key loc s" "keys_ok s"
  shows "\<exists>h. hex_digest h \<and> key = storage_key_from_checksum h"
proof -
  obtain a r where "(a, r) \<in> set (joined s)" "art_storage_key a = key"
    using still_orphan_row[OF assms(1)] by blast
  then show ?thesis using assms(2) by (auto simp: joined_def keys_ok_def)
qed

lemma has_content_without:
  assumes "has_content s a" "hex_digest h" "art_storage_key a \<noteq> storage_key_from_checksum h"
  shows "has_content (s\<lparr> rg_objects := (rg_objects s)(address_of loc (storage_key_from_checksum h) := None) \<rparr>) a"
proof -
  have "address_of l (art_storage_key a) \<noteq> address_of loc (storage_key_from_checksum h)" for l
    using content_address_inj(1)[of "art_sha256 a" h l loc] assms by (auto simp: has_content_def)
  then show ?thesis using assms(1) by (auto simp: has_content_def split: option.splits)
qed

lemma content_ok_delete_object:
  assumes "content_ok sha s" "still_orphan key loc (rg_db s)" "keys_ok (rg_db s)"
  shows "content_ok sha (s\<lparr> rg_objects := (rg_objects s)(address_of loc key := None) \<rparr>)"
proof -
  obtain h where h: "hex_digest h" and key: "key = storage_key_from_checksum h"
    using still_orphan_key[OF assms(2,3)] by blast
  have "has_content (s\<lparr> rg_objects := (rg_objects s)(address_of loc key := None) \<rparr>) a"
    if "a \<in> set (db_artifacts (rg_db s))" "\<not> art_deleted a" for a
  proof -
    have "art_storage_key a \<noteq> key"
      using still_orphan_facts(1)[OF assms(2)] that by (auto simp: live_key_def list_ex_iff)
    then show ?thesis using has_content_without h assms(1) that unfolding key content_ok_def by blast
  qed
  moreover have "objects_hash sha (s\<lparr> rg_objects := (rg_objects s)(address_of loc key := None) \<rparr>)"
    unfolding objects_hash_def
  proof (intro allI impI)
    fix l g c assume "hex_digest g" and
      "rg_objects (s\<lparr> rg_objects := (rg_objects s)(address_of loc key := None) \<rparr>)
         (address_of l (storage_key_from_checksum g)) = Some c"
    then show "sha c = g" using stored_hash[OF assms(1), of g l c] by (simp split: if_splits)
  qed
  ultimately show ?thesis by (simp add: content_ok_def)
qed

lemma content_ok_purge: "content_ok sha s \<Longrightarrow> content_ok sha (purge_key key s)"
proof -
  assume ok: "content_ok sha s"
  have "has_content (purge_key key s) a = has_content s a" for a
    by (simp add: has_content_def find_repo_def split: option.split)
  then show ?thesis using ok by (simp add: content_ok_def objects_hash_def)
qed

lemma keys_ok_purge: "keys_ok (rg_db s) \<Longrightarrow> keys_ok (rg_db (purge_key key s))"
  by (auto simp: keys_ok_def)

lemma gc_key_ok:
  assumes "content_ok sha s" "keys_ok (rg_db s)"
  shows "content_ok sha (snd (gc_key env c s))" "keys_ok (rg_db (snd (gc_key env c s)))"
    "db_repos (rg_db (snd (gc_key env c s))) = db_repos (rg_db s)"
proof -
  obtain r t where run: "gc_key env c s = (r, t)" by fastforce
  have "content_ok sha t \<and> keys_ok (rg_db t) \<and> db_repos (rg_db t) = db_repos (rg_db s)"
    by (cases rule: gc_key_cases[OF run])
      (use assms in \<open>auto intro!: content_ok_delete_object content_ok_purge keys_ok_purge\<close>)
  then show "content_ok sha (snd (gc_key env c s))" "keys_ok (rg_db (snd (gc_key env c s)))"
    "db_repos (rg_db (snd (gc_key env c s))) = db_repos (rg_db s)" using run by simp_all
qed

lemma gc_keys_ok:
  "content_ok sha s \<Longrightarrow> keys_ok (rg_db s) \<Longrightarrow> content_ok sha (snd (gc_keys env cs res s))"
proof (induction env cs res s rule: gc_keys.induct)
  case (2 env c cs res s)
  obtain r t where run: "gc_key env c s = (r, t)" by fastforce
  then have "content_ok sha t" "keys_ok (rg_db t)" using gc_key_ok[OF 2(4,5), of env c] by simp_all
  then show ?case using 2 run by (cases r) auto
qed simp

section \<open>Requests in any order\<close>

text \<open>The registry with the uploads that have stored their content and not yet written their row. Steps of
  different requests interleave, and any statement may fail. The collector must not take a key that such
  an upload counts on; the code does not make sure of that (below).\<close>

type_synonym registry_state = "registry \<times> upload_params list"

definition sound_upload :: "(string \<Rightarrow> string) \<Rightarrow> content_env \<Rightarrow> upload_params \<Rightarrow> bool" where
  "sound_upload sha env p \<longleftrightarrow> cv_sha256 env = sha \<and> hex_digest (sha (pm_data p))"

inductive registry_step :: "(string \<Rightarrow> string) \<Rightarrow> registry_state \<Rightarrow> registry_state \<Rightarrow> bool" for sha where
  store: "registry_step sha (s, pending) (t, p # pending)"
    if "sound_upload sha env p" "find_repo (pm_repository p) (rg_db s) = Some row"
       "upload_content env (storage_location row) (pm_data p) s = (Inr (), t)"
| store_failed: "registry_step sha (s, pending) (t, pending)"
    if "sound_upload sha env p" "upload_content env loc (pm_data p) s = (Inl e, t)"
| record_row: "registry_step sha (s, pending) (snd (upload_record env p s), remove1 p pending)"
    if "p \<in> set pending" "sound_upload sha env p"
| give_up: "registry_step sha (s, pending) (s, remove1 p pending)"
| delete: "registry_step sha (s, pending) (snd (delete_artifact env aid s), pending)"
| collect: "registry_step sha (s, pending) (snd (gc_key genv c s), pending)"
    if "\<forall>p \<in> set pending. gk_key c \<noteq> storage_key_from_checksum (sha (pm_data p))"

inductive_cases registry_step_cases: "registry_step sha (s, pending) u"

definition pending_ok :: "(string \<Rightarrow> string) \<Rightarrow> registry \<Rightarrow> upload_params \<Rightarrow> bool" where
  "pending_ok sha s p \<longleftrightarrow> hex_digest (sha (pm_data p))
     \<and> (case find_repo (pm_repository p) (rg_db s) of
          None \<Rightarrow> False
        | Some row \<Rightarrow> rg_objects s (address_of (storage_location row) (storage_key_from_checksum (sha (pm_data p)))) \<noteq> None)"

definition registry_ok :: "(string \<Rightarrow> string) \<Rightarrow> registry_state \<Rightarrow> bool" where
  "registry_ok sha u \<longleftrightarrow> content_ok sha (fst u) \<and> keys_ok (rg_db (fst u))
     \<and> (\<forall>p \<in> set (snd u). pending_ok sha (fst u) p)"

lemma pending_ok_mono:
  assumes "pending_ok sha s p" "db_repos (rg_db t) = db_repos (rg_db s)"
    "\<And>loc. rg_objects s (address_of loc (storage_key_from_checksum (sha (pm_data p)))) \<noteq> None
      \<Longrightarrow> rg_objects t (address_of loc (storage_key_from_checksum (sha (pm_data p)))) \<noteq> None"
  shows "pending_ok sha t p"
proof -
  have "find_repo rid (rg_db t) = find_repo rid (rg_db s)" for rid using assms(2) by (simp add: find_repo_def)
  then show ?thesis using assms(1,3) unfolding pending_ok_def by (auto split: option.splits simp del: not_None_eq)
qed

lemma keys_ok_list_all2:
  assumes "keys_ok s" "list_all2 same_columns rows (db_artifacts s)"
  shows "keys_ok (s\<lparr> db_artifacts := rows \<rparr>)"
proof -
  let ?ok = "\<lambda>a. hex_digest (art_sha256 a) \<and> art_storage_key a = storage_key_from_checksum (art_sha256 a)"
  have "list_all ?ok rows" if "list_all ?ok xs" "list_all2 same_columns rows xs" for xs
    using that(2,1) by (induction rule: list_all2_induct) (auto simp: same_columns_def)
  from this[OF _ assms(2)] show ?thesis using assms(1) unfolding keys_ok_def list_all_iff by simp
qed

lemma keys_ok_upload_record:
  assumes "keys_ok (rg_db s)" "hex_digest (cv_sha256 env (pm_data p))"
  shows "keys_ok (rg_db (snd (upload_record env p s)))"
proof -
  obtain r d where u: "upsert_artifact env p (rg_db s) = (r, d)" by (cases "upsert_artifact env p (rg_db s)")
  have "keys_ok ((rg_db s)\<lparr> db_artifacts := upsert_rows env p (db_artifacts (rg_db s)) \<rparr>)"
    using assms by (auto simp: keys_ok_def upsert_rows_def written_row_def fresh_row_def content_key_def)
  then have d: "keys_ok d"
    using u assms(1) by (auto simp: upsert_artifact_def Let_def split: option.splits if_splits)
  show ?thesis
  proof (cases r)
    case (Inl e)
    then show ?thesis using u d by (simp add: upload_record_def andthen_def on_part_def)
  next
    case (Inr a)
    have "keys_ok (snd (hold_artifact env (pm_repository p) (art_id a) d))"
      using keys_ok_list_all2[OF d hold_rows] by (simp add: hold_artifact_def)
    moreover obtain h where "hold_artifact env (pm_repository p) (art_id a) d = (Inr (), h)" by (simp add: hold_artifact_def)
    ultimately show ?thesis using u Inr by (simp add: upload_record_def andthen_def on_part_def give_def)
  qed
qed

lemma delete_artifact_frame:
  "rg_objects (snd (delete_artifact env aid s)) = rg_objects s"
  "db_repos (rg_db (snd (delete_artifact env aid s))) = db_repos (rg_db s)"
  "keys_ok (rg_db s) \<Longrightarrow> keys_ok (rg_db (snd (delete_artifact env aid s)))"
  by (auto simp: delete_artifact_def get_artifact_def run_simps mark_deleted_def keys_ok_def split: option.split sum.split)

lemma gc_key_frame:
  assumes "hex_digest h" "gk_key c \<noteq> storage_key_from_checksum h" "keys_ok (rg_db s)"
  shows "rg_objects (snd (gc_key env c s)) (address_of loc (storage_key_from_checksum h))
    = rg_objects s (address_of loc (storage_key_from_checksum h))"
proof -
  obtain r t where run: "gc_key env c s = (r, t)" by fastforce
  have "address_of (gk_location c) (gk_key c) \<noteq> address_of loc (storage_key_from_checksum h)"
    if "still_orphan (gk_key c) (gk_location c) (rg_db s)"
    using still_orphan_key[OF that assms(3)] content_address_inj(1) assms(1,2) by metis
  then have "rg_objects t (address_of loc (storage_key_from_checksum h)) = rg_objects s (address_of loc (storage_key_from_checksum h))"
    by (cases rule: gc_key_cases[OF run]) auto
  then show ?thesis using run by simp
qed

lemma registry_step_ok: "registry_step sha u v \<Longrightarrow> registry_ok sha u \<Longrightarrow> registry_ok sha v"
proof (induction rule: registry_step.induct)
  case (store env p s row t pending)
  note sha = store(1)[unfolded sound_upload_def]
  have s: "content_ok (cv_sha256 env) s" "hex_digest (cv_sha256 env (pm_data p))" "keys_ok (rg_db s)"
    using store(4) sha by (auto simp: registry_ok_def)
  note t = upload_content_ok[OF store(3) s(1,2)]
  have "pending_ok sha t p"
    using upload_content_cases(2)[OF store(3)] store(2) sha t(2) by (simp add: pending_ok_def content_key_def)
  moreover have "pending_ok sha t q" if "q \<in> set pending" for q
  proof (rule pending_ok_mono[of sha s])
    show "pending_ok sha s q" using that store(4) by (simp add: registry_ok_def)
  qed (use t(2,3) in \<open>auto simp: dom_def\<close>)
  ultimately show ?case using t s sha by (simp add: registry_ok_def)
next
  case (store_failed env p loc s e t pending)
  have "t = s"
    using store_failed(2) by (auto simp: upload_content_def Let_def object_exists_def store_exists_def put_object_def
        store_put_def run_simps split: option.splits if_splits)
  then show ?case using store_failed(3) by simp
next
  case (record_row p pending env s)
  note sha = record_row(2)[unfolded sound_upload_def]
  have ok: "content_ok (cv_sha256 env) s" "hex_digest (cv_sha256 env (pm_data p))" "keys_ok (rg_db s)"
    using record_row(3) sha by (auto simp: registry_ok_def)
  have pend: "pending_ok sha s q" if "q \<in> set pending" for q
    using record_row(3) that by (simp add: registry_ok_def)
  obtain row where row: "find_repo (pm_repository p) (rg_db s) = Some row"
    "rg_objects s (address_of (storage_location row) (content_key env (pm_data p))) \<noteq> None"
    using pend[OF record_row(1)] sha by (auto simp: pending_ok_def content_key_def split: option.splits)
  note t = upload_record_ok[OF ok(1) row(1) ok(2) row(2)]
  have "pending_ok sha (snd (upload_record env p s)) q" if "q \<in> set pending" for q
    by (rule pending_ok_mono[of sha s]) (use pend[OF that] t(2,3) in auto)
  then show ?case
    using t(1) keys_ok_upload_record[OF ok(3,2)] sha by (auto simp: registry_ok_def dest: notin_set_remove1)
next
  case (give_up s pending p)
  then show ?case by (auto simp: registry_ok_def dest: notin_set_remove1)
next
  case (delete s pending env aid)
  have "pending_ok sha (snd (delete_artifact env aid s)) q" if "q \<in> set pending" for q
    by (rule pending_ok_mono[of sha s]) (use that delete delete_artifact_frame(1,2)[of env aid s] in \<open>auto simp: registry_ok_def\<close>)
  then show ?case using delete delete_artifact_frame(3) by (auto simp: registry_ok_def delete_artifact_ok)
next
  case (collect pending c s genv)
  have ok: "content_ok sha s" "keys_ok (rg_db s)" using collect(2) by (auto simp: registry_ok_def)
  have "pending_ok sha (snd (gc_key genv c s)) q" if "q \<in> set pending" for q
  proof (rule pending_ok_mono[of sha s])
    show "pending_ok sha s q" using that collect(2) by (simp add: registry_ok_def)
    then have "hex_digest (sha (pm_data q))" by (simp add: pending_ok_def)
    then show "rg_objects (snd (gc_key genv c s)) (address_of loc (storage_key_from_checksum (sha (pm_data q)))) \<noteq> None"
      if "rg_objects s (address_of loc (storage_key_from_checksum (sha (pm_data q)))) \<noteq> None" for loc
      using gc_key_frame[of "sha (pm_data q)" c s genv loc] that collect(1) \<open>q \<in> set pending\<close> ok(2) by simp
  qed (rule gc_key_ok(3)[OF ok])
  then show ?case using gc_key_ok(1,2)[OF ok, of genv c] by (simp add: registry_ok_def)
qed

text \<open>C7: However uploads, deletions and collections interleave and whatever statements fail, every live
  artifact keeps its content, stored at its repository's location under the key of its checksum, and that
  content hashes to the checksum, as long as the collector takes no key of an upload in flight.\<close>

theorem live_artifacts_keep_their_content:
  assumes "(registry_step sha)\<^sup>*\<^sup>* (s, pending) (t, pending')" "content_ok sha s" "keys_ok (rg_db s)" "pending = []"
    "a \<in> set (db_artifacts (rg_db t))" "\<not> art_deleted a" "find_repo (art_repository a) (rg_db t) = Some r"
  shows "\<exists>c. rg_objects t (address_of (storage_location r) (art_storage_key a)) = Some c \<and> sha c = art_sha256 a"
proof -
  have "registry_ok sha u \<Longrightarrow> registry_ok sha v" if "(registry_step sha)\<^sup>*\<^sup>* u v" for u v
    using that by (induction rule: rtranclp_induct) (auto intro: registry_step_ok)
  from this[OF assms(1)] have "content_ok sha t" using assms(2-4) by (simp add: registry_ok_def)
  then show ?thesis by (rule content_hash) (use assms in auto)
qed

theorem live_artifacts_keep_their_content_witness:
  "\<exists>t a c. (registry_step sample_digest)\<^sup>*\<^sup>* (sample_registry, []) (t, []) \<and> a \<in> set (db_artifacts (rg_db t))
     \<and> rg_objects t (address_of (storage_location hosted_sample) (art_storage_key a)) = Some c \<and> sample_digest c = art_sha256 a"
proof -
  let ?p = "jar_params ''one''"
  have p: "pm_data ?p = ''one''" "pm_repository ?p = 1" by (simp_all add: jar_params_def)
  have sound: "sound_upload sample_digest content_sample ?p"
    using sample_digest_hex by (simp add: sound_upload_def content_sample_def)
  let ?m = "[address_of (storage_location hosted_sample) (content_key content_sample ''one'') \<mapsto> ''one'']"
  have "registry_step sample_digest (sample_registry, []) (sample_registry\<lparr> rg_objects := ?m \<rparr>, [?p])"
    by (rule store[OF sound, of _ hosted_sample]) (use sample_find in \<open>simp_all add: p sample_content\<close>)
  moreover have "registry_step sample_digest (sample_registry\<lparr> rg_objects := ?m \<rparr>, [?p]) (sample_uploaded, [])"
    using record_row[of ?p "[?p]" sample_digest content_sample "sample_registry\<lparr> rg_objects := ?m \<rparr>"] sound
    by (simp add: sample_record sample_uploaded_def)
  ultimately have run: "(registry_step sample_digest)\<^sup>*\<^sup>* (sample_registry, []) (sample_uploaded, [])" by simp
  let ?a = "fresh_row content_sample ?p"
  have a: "?a \<in> set (db_artifacts (rg_db sample_uploaded))" by (simp add: sample_uploaded_def)
  have "\<exists>c. rg_objects sample_uploaded (address_of (storage_location hosted_sample) (art_storage_key ?a)) = Some c
      \<and> sample_digest c = art_sha256 ?a"
    by (rule live_artifacts_keep_their_content[OF run sample_content_ok _ _ a])
      (simp_all add: keys_ok_def fresh_row_def p sample_uploaded_def find_repo_def sample_registry_def, simp add: hosted_sample_def)
  then show ?thesis using run a by blast
qed

section \<open>What goes wrong\<close>

text \<open>A registry whose only row is deleted, with its object.\<close>

definition sample_orphaned :: registry where
  "sample_orphaned = sample_uploaded\<lparr> rg_db := (rg_db sample_uploaded)\<lparr>
     db_artifacts := [(fresh_row content_sample (jar_params ''one''))\<lparr> art_deleted := True \<rparr>] \<rparr> \<rparr>"

definition sample_gc :: gc_env where
  "sample_gc = \<lparr> ge_fail = (\<lambda>_. None), ge_registered = (\<lambda>_. False), ge_numeric = (\<lambda>_. None), ge_pool_text = [] \<rparr>"

definition sample_candidate :: gc_candidate where
  "sample_candidate = \<lparr> gk_key = content_key content_sample ''one'', gk_location = storage_location hosted_sample,
     gk_bytes = 0, gk_count = 1 \<rparr>"

lemma content_key_unprotected:
  "\<not> tag_protects s loc (content_key content_sample d)" "\<not> blob_protects s loc (content_key content_sample d)"
  "\<not> index_protects s loc (content_key content_sample d)"
  by (simp_all add: tag_protects_def blob_protects_def index_protects_def content_key_def storage_key_from_checksum_def
      content_sample_def sample_digest_def strip_prefix_def starts_with_def)

lemma sample_still_orphan: "still_orphan (content_key content_sample ''one'') (storage_location hosted_sample) (rg_db sample_orphaned)"
proof -
  let ?a = "(fresh_row content_sample (jar_params ''one''))\<lparr> art_deleted := True \<rparr>"
  have key: "art_storage_key ?a = content_key content_sample ''one''" by (simp add: fresh_row_def jar_params_def)
  have rows: "joined (rg_db sample_orphaned) = [(?a, hosted_sample)]"
    by (simp add: joined_def sample_orphaned_def sample_uploaded_def sample_registry_def hosted_sample_def fresh_row_def
        jar_params_def)
  have "orphan (rg_db sample_orphaned) ?a hosted_sample"
    using key content_key_unprotected by (simp add: orphan_def live_key_def sample_orphaned_def)
  moreover have "in_scope (storage_location hosted_sample) hosted_sample" by (simp add: in_scope_def storage_location_def)
  ultimately show ?thesis using rows key by (simp add: still_orphan_def Let_def)
qed

lemma sample_collected:
  "gc_key sample_gc sample_candidate sample_orphaned
     = (Freed, sample_registry\<lparr> rg_objects := Map.empty \<rparr>)"
proof -
  let ?at = "address_of (storage_location hosted_sample) (content_key content_sample ''one'')"
  have sim: "gk_key sample_candidate = content_key content_sample ''one''" "gk_location sample_candidate = storage_location hosted_sample"
    "ge_fail sample_gc = (\<lambda>_. None)" "fst (storage_location hosted_sample) = ''filesystem''"
    by (simp_all add: sample_candidate_def sample_gc_def storage_location_def hosted_sample_def)
  have objs: "rg_objects sample_orphaned = [?at \<mapsto> ''one'']" by (simp add: sample_orphaned_def sample_uploaded_def)
  have "gc_key sample_gc sample_candidate sample_orphaned
      = (Freed, purge_key (content_key content_sample ''one'') (sample_orphaned\<lparr> rg_objects := Map.empty \<rparr>))"
    using sample_still_orphan objs
    by (simp add: gc_key_def backend_for_def is_still_orphan_def gc_delete_def gc_statement_def store_delete_def sim)
  moreover have "purge_key (content_key content_sample ''one'') (sample_orphaned\<lparr> rg_objects := Map.empty \<rparr>)
      = sample_registry\<lparr> rg_objects := Map.empty \<rparr>"
    by (simp add: purge_key_def Let_def sample_orphaned_def sample_uploaded_def sample_registry_def fresh_row_def jar_params_def)
  ultimately show ?thesis by simp
qed

text \<open>C36: An upload writes no content when the key exists, and writes its row later; the lock of the
  collector's re-check is on the rows of deleted artifacts and holds nothing back. When the collector frees
  the key between the two, the upload is still accepted, its artifact is live, and no download of it ever
  succeeds.\<close>

theorem gc_takes_content_of_an_upload_in_flight:
  assumes "upload_content env (storage_location row) (pm_data p) s = (Inr (), s)"
    "gc_key genv c s = (Freed, t)" "gk_key c = content_key env (pm_data p)" "gk_location c = storage_location row"
    "upload_record env p t = (Inr a, u)"
  shows "\<exists>b. live_at (pm_repository p) (pm_path p) (rg_db u) = Some b \<and> art_sha256 b = cv_sha256 env (pm_data p)
    \<and> (\<forall>denv uid. \<not> is_ok (fst (download denv (storage_location row) (pm_repository p) (pm_path p) uid u)))"
proof -
  obtain b where b: "live_at (pm_repository p) (pm_path p) (rg_db u) = Some b" "art_sha256 b = cv_sha256 env (pm_data p)"
    "art_storage_key b = content_key env (pm_data p)" "rg_objects u = rg_objects t"
    using recorded[OF assms(5)] by metis
  have "rg_objects t (address_of (storage_location row) (content_key env (pm_data p))) = None"
    using assms(3,4) by (cases rule: gc_key_cases[OF assms(2)]) auto
  then have "\<not> is_ok (fst (download denv (storage_location row) (pm_repository p) (pm_path p) uid u))" for denv uid
    using b by (auto simp: download_def run_simps get_object_def store_get_def is_ok_def
        split: option.splits sum.splits)
  then show ?thesis using b by blast
qed

theorem gc_takes_content_of_an_upload_in_flight_witness:
  "\<exists>u. upload_record content_sample (jar_params ''one'') (sample_registry\<lparr> rg_objects := Map.empty \<rparr>)
       = (Inr (fresh_row content_sample (jar_params ''one'')), u)
     \<and> (\<forall>denv uid. \<not> is_ok (fst (download denv (storage_location hosted_sample) 1 ''lib/1.0/lib.jar'' uid u)))"
proof -
  let ?p = "jar_params ''one''"
  have there: "upload_content content_sample (storage_location hosted_sample) (pm_data ?p) sample_orphaned = (Inr (), sample_orphaned)"
    by (simp add: upload_content_def Let_def run_simps object_exists_def store_exists_def content_sample_def
        sample_orphaned_def sample_uploaded_def jar_params_def)
  obtain u where u: "upload_record content_sample ?p (sample_registry\<lparr> rg_objects := Map.empty \<rparr>)
      = (Inr (fresh_row content_sample ?p), u)"
    using sample_record by blast
  have "\<exists>b. live_at (pm_repository ?p) (pm_path ?p) (rg_db u) = Some b \<and> art_sha256 b = cv_sha256 content_sample (pm_data ?p)
    \<and> (\<forall>denv uid. \<not> is_ok (fst (download denv (storage_location hosted_sample) (pm_repository ?p) (pm_path ?p) uid u)))"
    by (rule gc_takes_content_of_an_upload_in_flight[OF there sample_collected _ _ u])
      (simp_all add: sample_candidate_def jar_params_def)
  then show ?thesis using u by (auto simp: jar_params_def)
qed

text \<open>On the file system a key whose object is already gone is an error for the collector, not a key to
  finish: when the object was deleted and the transaction then failed, no later run removes the rows,
  whatever else succeeds.\<close>

theorem gc_never_finishes_a_missing_object:
  assumes "fst (gk_location c) = ''filesystem''" "rg_objects s (address_of (gk_location c) (gk_key c)) = None"
  shows "snd (gc_key env c s) = s \<and> fst (gc_key env c s) \<noteq> Freed"
proof -
  have "fst (address_of (gk_location c) (gk_key c)) = ''filesystem''" using assms(1) by (simp add: address_of_def)
  then have "\<exists>e. gc_delete env c s = (Failed e, s)"
    using assms(2) by (auto simp: gc_delete_def store_delete_def split: option.split)
  then show ?thesis
    by (auto simp: gc_key_def split: sum.split option.split bool.split)
qed

text \<open>The collector removes the deleted rows of a key in every repository, but the object at one location
  only: an object of the same key in the directory of another repository stays, and no row refers to it any
  more, so that no later scan finds it.\<close>

theorem gc_leaks_other_locations:
  assumes "gc_key env c s = (Freed, t)" "hex_digest h" "gk_key c = storage_key_from_checksum h"
    "\<not> same_store (gk_location c) loc" "rg_objects s (address_of loc (gk_key c)) = Some d"
  shows "rg_objects t (address_of loc (gk_key c)) = Some d
    \<and> (\<forall>a \<in> set (db_artifacts (rg_db t)). art_storage_key a \<noteq> gk_key c)
    \<and> (\<forall>x \<in> set (gc_candidates numeric (rg_db t)). gk_key x \<noteq> gk_key c)"
proof -
  let ?at = "address_of (gk_location c) (gk_key c)"
  have orphan: "still_orphan (gk_key c) (gk_location c) (rg_db s)"
    and t: "t = purge_key (gk_key c) (s\<lparr> rg_objects := (rg_objects s)(?at := None) \<rparr>)"
    using gc_key_cases[OF assms(1)] by blast+
  have "address_of loc (gk_key c) \<noteq> ?at"
    using content_address_inj(2)[OF assms(2,2), of "gk_location c" loc] assms(3,4) by metis
  then have "rg_objects t (address_of loc (gk_key c)) = Some d" using assms(5) t by simp
  moreover have gone: "\<forall>a \<in> set (db_artifacts (rg_db t)). art_storage_key a \<noteq> gk_key c"
    using still_orphan_facts(1)[OF orphan] by (auto simp: t live_key_def list_ex_iff)
  moreover have "\<forall>x \<in> set (gc_candidates numeric (rg_db t)). gk_key x \<noteq> gk_key c"
    using gone by (auto simp: gc_candidates_def joined_def)
  ultimately show ?thesis by blast
qed

text \<open>The bytes a run reports as freed are always zero: the sum of a \<open>BIGINT\<close> column is a \<open>NUMERIC\<close>,
  which the driver does not decode into an \<open>i64\<close>, and the error is replaced by zero.\<close>

theorem gc_reports_no_bytes:
  assumes "\<And>n. ge_numeric env n = None" "run_gc env dry_run s = (Inr r, t)"
  shows "gr_bytes r = 0"
proof -
  have zero: "gk_bytes c = 0" if "c \<in> set (gc_candidates (ge_numeric env) d)" for c d
    using that assms(1) by (auto simp: gc_candidates_def)
  have dry: "gr_bytes (fold (\<lambda>c. accumulate_dry_run (gk_bytes c) (gk_count c)) cs acc) = 0"
    if "\<forall>c \<in> set cs. gk_bytes c = 0" "gr_bytes acc = 0" for cs acc
    using that by (induction cs arbitrary: acc) (auto simp: accumulate_dry_run_def as_i64_def)
  have wet: "gr_bytes (fst (gc_keys env cs acc u)) = 0"
    if "\<forall>c \<in> set cs. gk_bytes c = 0" "gr_bytes acc = 0" for cs acc u
    using that by (induction env cs acc u rule: gc_keys.induct)
      (auto simp: record_gc_success_def as_i64_def split: prod.split gc_outcome.split)
  show ?thesis
    using assms(2) dry[of "gc_candidates (ge_numeric env) (rg_db s)" "empty_gc_result True"]
      wet[of "gc_candidates (ge_numeric env) (rg_db s)" "empty_gc_result False" s] zero
    by (auto simp: run_gc_def select_orphans_def action_simps empty_gc_result_def split: if_splits prod.splits)
qed

theorem gc_never_finishes_a_missing_object_witness:
  "snd (gc_key sample_gc sample_candidate (sample_orphaned\<lparr> rg_objects := Map.empty \<rparr>))
     = sample_orphaned\<lparr> rg_objects := Map.empty \<rparr>"
  using gc_never_finishes_a_missing_object[of sample_candidate "sample_orphaned\<lparr> rg_objects := Map.empty \<rparr>" sample_gc]
  by (simp add: sample_candidate_def storage_location_def hosted_sample_def)

theorem gc_leaks_other_locations_witness:
  "\<exists>t at. gc_key sample_gc sample_candidate (sample_orphaned\<lparr> rg_objects := (rg_objects sample_orphaned)(at \<mapsto> ''one'') \<rparr>)
       = (Freed, t) \<and> rg_objects t at = Some ''one''"
proof -
  let ?loc = "(''filesystem'', ''/data/other'')"
  let ?at = "address_of ?loc (gk_key sample_candidate)"
  let ?s = "sample_orphaned\<lparr> rg_objects := (rg_objects sample_orphaned)(?at \<mapsto> ''one'') \<rparr>"
  have sim: "gk_key sample_candidate = content_key content_sample ''one''" "gk_location sample_candidate = storage_location hosted_sample"
    "ge_fail sample_gc = (\<lambda>_. None)" "fst (storage_location hosted_sample) = ''filesystem''"
    by (simp_all add: sample_candidate_def sample_gc_def storage_location_def hosted_sample_def)
  have "\<exists>t. gc_key sample_gc sample_candidate ?s = (Freed, t)"
    using sample_still_orphan
    by (simp add: gc_key_def backend_for_def is_still_orphan_def gc_delete_def gc_statement_def store_delete_def sim
        sample_orphaned_def sample_uploaded_def split: if_split)
  then obtain t where t: "gc_key sample_gc sample_candidate ?s = (Freed, t)" by blast
  have "rg_objects t ?at = Some ''one''
    \<and> (\<forall>a \<in> set (db_artifacts (rg_db t)). art_storage_key a \<noteq> gk_key sample_candidate)
    \<and> (\<forall>x \<in> set (gc_candidates (\<lambda>_. None) (rg_db t)). gk_key x \<noteq> gk_key sample_candidate)"
  proof (rule gc_leaks_other_locations[OF t])
    show "hex_digest (sample_digest ''one'')" by (rule sample_digest_hex)
    show "gk_key sample_candidate = storage_key_from_checksum (sample_digest ''one'')"
      by (simp add: sample_candidate_def content_key_def content_sample_def)
    show "\<not> same_store (gk_location sample_candidate) ?loc"
      by (simp add: same_store_def sim storage_location_def hosted_sample_def normal_components_def)
  qed simp
  then show ?thesis using t by blast
qed

theorem gc_reports_no_bytes_witness: "\<exists>r t. run_gc sample_gc True sample_orphaned = (Inr r, t) \<and> gr_bytes r = 0"
proof -
  obtain r t where run: "run_gc sample_gc True sample_orphaned = (Inr r, t)"
    by (simp add: run_gc_def select_orphans_def run_simps sample_gc_def)
  have "gr_bytes r = 0"
    by (rule gc_reports_no_bytes[OF _ run]) (simp add: sample_gc_def)
  then show ?thesis using run by blast
qed

section \<open>A dry run tells what a run does\<close>

lemma orphan_purge [simp]: "orphan (rg_db (purge_key key s)) a r = orphan (rg_db s) a r"
proof -
  have "live_key (rg_db (purge_key key s)) k = live_key (rg_db s) k" for k
    by (auto simp: live_key_def list_ex_iff)
  moreover have "repo_in_scope (rg_db (purge_key key s)) = repo_in_scope (rg_db s)"
    by (intro ext) (simp add: repo_in_scope_def)
  ultimately show ?thesis
    using protects_same[of "rg_db (purge_key key s)" _ "rg_db s"] by (simp add: orphan_def)
qed

lemma still_orphan_purge:
  assumes "key' \<noteq> key"
  shows "still_orphan key' loc (rg_db (purge_key key s)) = still_orphan key' loc (rg_db s)"
proof -
  have "filter (\<lambda>(a, r). art_storage_key a = key' \<and> in_scope loc r)
        [(a, r). a \<leftarrow> filter (\<lambda>a. \<not> (art_storage_key a = key \<and> art_deleted a)) xs, r \<leftarrow> rs, rw_id r = art_repository a]
      = filter (\<lambda>(a, r). art_storage_key a = key' \<and> in_scope loc r) [(a, r). a \<leftarrow> xs, r \<leftarrow> rs, rw_id r = art_repository a]"
    for xs :: "stored_artifact list" and rs
  proof (induction xs)
    case (Cons a xs)
    have "filter (\<lambda>(a, r). art_storage_key a = key' \<and> in_scope loc r) [(a, r). r \<leftarrow> rs, rw_id r = art_repository a] = []"
      if "art_storage_key a = key"
      using that assms by (auto simp: filter_empty_conv)
    then show ?case using Cons by auto
  qed simp
  then show ?thesis by (simp add: still_orphan_def Let_def joined_def)
qed

lemma candidate_still_orphan:
  assumes "c \<in> set (gc_candidates numeric s)"
  shows "still_orphan (gk_key c) (gk_location c) s"
proof -
  obtain a r where row: "(a, r) \<in> set (joined s)" "orphan s a r" "gk_key c = art_storage_key a"
    "gk_location c = storage_location r"
    using assms by (auto simp: gc_candidates_def)
  have "orphan s b q" if "(b, q) \<in> set (joined s)" "art_storage_key b = gk_key c" "in_scope (gk_location c) q" for b q
  proof -
    have "in_scope (storage_location q) x = in_scope (gk_location c) x" for x
      using that(3) by (auto simp: in_scope_def storage_location_def)
    then have same: "repo_in_scope s (storage_location q) = repo_in_scope s (gk_location c)"
      by (intro ext) (simp add: repo_in_scope_def)
    have "art_deleted b"
      using that(1,2) row by (auto simp: orphan_def live_key_def list_ex_iff joined_def)
    then show ?thesis
      using row(2-4) that(2) protects_same[OF same] by (simp add: orphan_def)
  qed
  moreover have "in_scope (gk_location c) r" by (simp add: row(4) in_scope_def storage_location_def)
  ultimately show ?thesis
    using row(1,3) unfolding still_orphan_def Let_def list_all_iff filter_empty_conv by auto
qed

text \<open>Candidates a collection without failures frees.\<close>

definition collectable :: "gc_env \<Rightarrow> registry \<Rightarrow> gc_candidate \<Rightarrow> bool" where
  "collectable env s c \<longleftrightarrow> is_ok (backend_for (ge_registered env) (gk_location c))
     \<and> (fst (gk_location c) = ''filesystem'' \<longrightarrow> rg_objects s (address_of (gk_location c) (gk_key c)) \<noteq> None)"

lemma gc_key_frees:
  assumes "ge_fail env = (\<lambda>_. None)" "collectable env s c" "still_orphan (gk_key c) (gk_location c) (rg_db s)"
  shows "gc_key env c s
    = (Freed, purge_key (gk_key c) (s\<lparr> rg_objects := (rg_objects s)(address_of (gk_location c) (gk_key c) := None) \<rparr>))"
proof -
  have "fst (address_of (gk_location c) (gk_key c)) = fst (gk_location c)" by (simp add: address_of_def)
  then show ?thesis
    using assms by (auto simp: gc_key_def collectable_def is_still_orphan_def gc_delete_def gc_statement_def
        store_delete_def is_ok_def split: sum.split)
qed

lemma gc_keys_rows: "set (db_artifacts (rg_db (snd (gc_keys env cs res s)))) \<subseteq> set (db_artifacts (rg_db s))"
proof (induction env cs res s rule: gc_keys.induct)
  case (2 env c cs res s)
  obtain r t where run: "gc_key env c s = (r, t)" by fastforce
  have "set (db_artifacts (rg_db t)) \<subseteq> set (db_artifacts (rg_db s))" by (cases rule: gc_key_cases[OF run]) auto
  then show ?case using 2 run by (cases r) auto
qed simp

lemma gc_keys_frees:
  assumes "ge_fail env = (\<lambda>_. None)" "\<forall>c \<in> set cs. collectable env s c \<and> still_orphan (gk_key c) (gk_location c) (rg_db s)"
    "distinct (map gk_key cs)" "keys_ok (rg_db s)"
  shows "fst (gc_keys env cs res s) = fold (\<lambda>c. record_gc_success (gk_bytes c) (gk_count c)) cs res
    \<and> (\<forall>c \<in> set cs. \<forall>a \<in> set (db_artifacts (rg_db (snd (gc_keys env cs res s)))). art_storage_key a \<noteq> gk_key c)"
  using assms(2-4)
proof (induction cs arbitrary: s res)
  case (Cons c cs)
  let ?t = "purge_key (gk_key c) (s\<lparr> rg_objects := (rg_objects s)(address_of (gk_location c) (gk_key c) := None) \<rparr>)"
  have orphan: "still_orphan (gk_key x) (gk_location x) (rg_db s)" if "x \<in> set (c # cs)" for x
    using that Cons.prems(1) by blast
  have run: "gc_key env c s = (Freed, ?t)"
    using gc_key_frees[OF assms(1)] Cons.prems(1) orphan by simp
  have rest: "collectable env ?t x \<and> still_orphan (gk_key x) (gk_location x) (rg_db ?t)" if x: "x \<in> set cs" for x
  proof
    have other: "gk_key x \<noteq> gk_key c" using Cons.prems(2) x by (auto simp: rev_image_eqI)
    have x': "still_orphan (gk_key x) (gk_location x) (rg_db s)" using orphan x by simp
    show "still_orphan (gk_key x) (gk_location x) (rg_db ?t)"
      using still_orphan_purge[OF other, of _ "s\<lparr> rg_objects := _ \<rparr>"] x' by simp
    obtain h where h: "hex_digest h" "gk_key x = storage_key_from_checksum h"
      using still_orphan_key[OF x' Cons.prems(3)] by blast
    have "rg_objects (snd (gc_key env c s)) (address_of (gk_location x) (gk_key x))
        = rg_objects s (address_of (gk_location x) (gk_key x))"
      using gc_key_frame[OF h(1) _ Cons.prems(3), of c env "gk_location x"] other h(2) by simp
    then show "collectable env ?t x" using Cons.prems(1) x run by (simp add: collectable_def)
  qed
  have keys: "keys_ok (rg_db ?t)" using Cons.prems(3) by (simp add: keys_ok_def)
  have gone: "art_storage_key a \<noteq> gk_key c" if "a \<in> set (db_artifacts (rg_db ?t))" for a
    using that still_orphan_facts(1)[OF orphan[of c]] by (auto simp: live_key_def list_ex_iff)
  have "gc_keys env (c # cs) res s = gc_keys env cs (record_gc_success (gk_bytes c) (gk_count c) res) ?t"
    using run by simp
  then show ?case
    using Cons.IH[OF _ _ keys] Cons.prems(2) rest gone gc_keys_rows by (auto simp del: gc_keys.simps purge_key_simps) blast
qed simp

lemma gc_key_orphan:
  "orphan (rg_db (snd (gc_key env c s))) a r = orphan (rg_db s) a r \<and> db_repos (rg_db (snd (gc_key env c s))) = db_repos (rg_db s)"
proof -
  obtain o' t where run: "gc_key env c s = (o', t)" by fastforce
  have "orphan (rg_db t) a r = orphan (rg_db s) a r \<and> db_repos (rg_db t) = db_repos (rg_db s)"
    by (cases rule: gc_key_cases[OF run]) simp_all
  then show ?thesis using run by simp
qed

lemma gc_keys_orphan:
  "orphan (rg_db (snd (gc_keys env cs res s))) a r = orphan (rg_db s) a r
   \<and> db_repos (rg_db (snd (gc_keys env cs res s))) = db_repos (rg_db s)"
proof (induction env cs res s rule: gc_keys.induct)
  case (2 env c cs res s)
  obtain o' t where run: "gc_key env c s = (o', t)" by fastforce
  then have "orphan (rg_db t) a r = orphan (rg_db s) a r \<and> db_repos (rg_db t) = db_repos (rg_db s)"
    using gc_key_orphan[of env c s a r] by simp
  then show ?case using 2 run by (cases o') auto
qed simp

lemma no_candidates_left:
  assumes "\<forall>c \<in> set (gc_candidates numeric (rg_db s)). \<forall>a \<in> set (db_artifacts (rg_db t)). art_storage_key a \<noteq> gk_key c"
    "set (db_artifacts (rg_db t)) \<subseteq> set (db_artifacts (rg_db s))" "db_repos (rg_db t) = db_repos (rg_db s)"
    "\<And>a r. orphan (rg_db t) a r = orphan (rg_db s) a r"
  shows "gc_candidates numeric (rg_db t) = []"
proof (rule ccontr)
  assume "gc_candidates numeric (rg_db t) \<noteq> []"
  then obtain a r where "(a, r) \<in> set (joined (rg_db t))" "orphan (rg_db t) a r"
    by (auto simp: gc_candidates_def filter_empty_conv)
  then have row: "(a, r) \<in> set (joined (rg_db s))" "orphan (rg_db s) a r" "a \<in> set (db_artifacts (rg_db t))"
    using assms(2-4) by (auto simp: joined_def)
  then have "\<exists>c \<in> set (gc_candidates numeric (rg_db s)). gk_key c = art_storage_key a"
    by (force simp: gc_candidates_def)
  then show False using assms(1) row(3) by metis
qed


lemma sample_candidates:
  "gc_candidates (\<lambda>_. None) (rg_db sample_orphaned) = [sample_candidate]"
proof -
  let ?a = "(fresh_row content_sample (jar_params ''one''))\<lparr> art_deleted := True \<rparr>"
  have key: "art_storage_key ?a = content_key content_sample ''one''" by (simp add: fresh_row_def jar_params_def)
  have rows: "joined (rg_db sample_orphaned) = [(?a, hosted_sample)]"
    by (simp add: joined_def sample_orphaned_def sample_uploaded_def sample_registry_def hosted_sample_def fresh_row_def
        jar_params_def)
  have "orphan (rg_db sample_orphaned) ?a hosted_sample"
    using key content_key_unprotected by (simp add: orphan_def live_key_def sample_orphaned_def)
  then show ?thesis using rows key by (simp add: gc_candidates_def group_rows_def sample_candidate_def)
qed


theorem gc_spares_referenced_keys_witness:
  "snd (gc_key sample_gc sample_candidate sample_uploaded) = sample_uploaded
   \<and> fst (gc_key sample_gc sample_candidate sample_uploaded) \<noteq> Freed"
proof -
  have "live_key (rg_db sample_uploaded) (gk_key sample_candidate)"
    by (simp add: live_key_def sample_candidate_def sample_uploaded_def fresh_row_def jar_params_def)
  then show ?thesis by (intro gc_spares_referenced_keys) blast
qed

end
