(* ===== verification/Repository_Api.thy ===== *)
theory Repository_Api
  imports Virtual_Members Object_Store Access_Control Api_Tokens Promotion
begin

text \<open>
  The management API of repositories (\<open>api/handlers/repositories.rs\<close>): creation, update, deletion, listing,
  proxy settings, upstream credentials (\<open>services/upstream_auth.rs\<close>), routing rules
  (\<open>services/routing_rules.rs\<close>) and the members of virtual repositories. The routes are mounted behind the
  middleware that only resolves an identity, so every check a request meets is in its handler. The state is
  the database and the cache of the visibility gate. Deserialisation, encryption, JSON and regular
  expressions are parameters. Events, and the request of \<open>test_upstream\<close>, are left out.
\<close>

section \<open>State and environment\<close>

record api_state =
  as_db :: repo_db
  as_cache :: repo_cache

datatype upstream_auth = BasicUpstream string string | BearerUpstream string

record routing_rule =
  ru_pattern :: string
  ru_rewrite :: string

text \<open>A compiled pattern: its captures on a text, the whole match first, and its number of groups.\<close>

type_synonym regex = "(string \<Rightarrow> string option list option) \<times> nat"

record api_env =
  ae_repo :: repo_env
  ae_permission :: "uuid \<Rightarrow> string \<Rightarrow> uuid \<Rightarrow> string \<Rightarrow> bool result"
  ae_backend :: string
  ae_root :: string
  ae_registered :: "string \<Rightarrow> bool"
  ae_guest_access :: bool
  ae_show_uuid :: "uuid \<Rightarrow> string"
  ae_encrypt :: "string \<Rightarrow> string"
  ae_decrypt :: "string \<Rightarrow> string result"
  ae_json :: "upstream_auth \<Rightarrow> string"
  ae_parse_json :: "string \<Rightarrow> (string \<Rightarrow> string option) result"
  ae_rules_json :: "routing_rule list \<Rightarrow> string"
  ae_parse_rules :: "string \<Rightarrow> routing_rule list option"
  ae_regex :: "string \<Rightarrow> string + regex"
  ae_group_refs :: "string \<Rightarrow> nat list"

abbreviation ae_fail :: "api_env \<Rightarrow> faults" where
  "ae_fail env \<equiv> ry_fail (ae_repo env)"

abbreviation in_db :: "(repo_db, 'a) action \<Rightarrow> (api_state, 'a) action" where
  "in_db \<equiv> on_part as_db (\<lambda>d s. s\<lparr> as_db := d \<rparr>)"

section \<open>Guards\<close>

definition require_auth :: "auth_extension option \<Rightarrow> auth_extension result" where
  "require_auth auth = (case auth of None \<Rightarrow> Inl (Authentication ''Authentication required'') | Some a \<Rightarrow> Inr a)"

definition coerce_is_public_for_create :: "bool \<Rightarrow> bool \<Rightarrow> bool \<times> bool" where
  "coerce_is_public_for_create requested guest = (if requested \<and> \<not> guest then (False, True) else (requested, False))"

definition coerce_is_public_for_update :: "bool option \<Rightarrow> bool \<Rightarrow> bool option \<times> bool" where
  "coerce_is_public_for_update requested guest =
     (if requested = Some True \<and> \<not> guest then (Some False, True) else (requested, False))"

definition require_repo_access :: "auth_extension \<Rightarrow> uuid \<Rightarrow> unit result" where
  "require_repo_access a rid =
     (if can_access_repo a rid then Inr () else Inl (Authorization ''Token does not have access to this repository''))"

definition require_visible :: "repo_row \<Rightarrow> auth_extension option \<Rightarrow> unit result" where
  "require_visible r auth =
     (if rw_public r then Inr ()
      else (case auth of
              Some a \<Rightarrow> if can_access_repo a (rw_id r) then Inr ()
                        else Inl (NotFound (''Repository '' @ quoted (rw_key r) @ '' not found''))
            | None \<Rightarrow> Inl (NotFound (''Repository '' @ quoted (rw_key r) @ '' not found''))))"

definition authorize_virtual_member_mutation :: "auth_extension \<Rightarrow> repo_row \<Rightarrow> repo_row \<Rightarrow> unit result" where
  "authorize_virtual_member_mutation a v m =
     bind_result (require_repo_access a (rw_id v)) (\<lambda>_. require_repo_access a (rw_id m))"

text \<open>Authentication, then a scope.\<close>

definition require_caller :: "auth_extension option \<Rightarrow> string \<Rightarrow> ('s, auth_extension) action" where
  "require_caller auth scope =
     andthen (of_result (require_auth auth)) (\<lambda>a. andthen (of_result (require_scope a scope)) (\<lambda>_. give a))"

text \<open>\<open>SYSTEM_SENTINEL_ID\<close> is the identifier of zeros.\<close>

definition nil_uuid :: uuid where "nil_uuid = 0"

definition require_rule ::
  "api_env \<Rightarrow> auth_extension \<Rightarrow> string \<Rightarrow> uuid \<Rightarrow> string \<Rightarrow> (api_state, unit) action" where
  "require_rule env a tt tid what =
     (if is_admin a then give ()
      else andthen (of_result (ae_permission env (user_id a) tt tid ''admin'')) (\<lambda>ok.
           run_or ok (Authorization (''Insufficient permissions to '' @ what))))"

definition is_key_char :: "char \<Rightarrow> bool" where
  "is_key_char c \<longleftrightarrow> is_ascii_digit c \<or> 65 \<le> (of_char c :: nat) \<and> (of_char c :: nat) \<le> 90
     \<or> 97 \<le> (of_char c :: nat) \<and> (of_char c :: nat) \<le> 122 \<or> c = CHR ''-'' \<or> c = CHR ''_'' \<or> c = CHR ''.''"

definition validate_repository_key :: "string \<Rightarrow> unit result" where
  "validate_repository_key key =
     (if key = [] \<or> length key > 128 then Inl (Validation ''Repository key must be between 1 and 128 characters'')
      else if \<not> list_all is_key_char key then Inl (Validation
        ''Repository key must contain only alphanumeric characters, hyphens, underscores, and dots'')
      else if starts_with ''.'' key \<or> starts_with ''-'' key then
        Inl (Validation ''Repository key must not start with a dot or hyphen'')
      else if contains ''..'' key then Inl (Validation ''Repository key must not contain consecutive dots'')
      else Inr ())"

definition validate_cache_ttl :: "int \<Rightarrow> bool" where
  "validate_cache_ttl secs \<longleftrightarrow> 1 \<le> secs \<and> secs \<le> 2592000"

text \<open>The message is its first sentence.\<close>

definition validate_virtual_repo_member_count ::
  "string \<Rightarrow> repository_type \<Rightarrow> (string \<times> int) list option \<Rightarrow> unit result" where
  "validate_virtual_repo_member_count key t members =
     (if t \<noteq> VirtualRepo then Inr ()
      else if members = Some [] then Inl (Validation (''Virtual repository '' @ quoted key
        @ '' was created with an explicit empty member_repos''))
      else Inr ())"

definition is_cache_ttl_configurable :: "repository_type \<Rightarrow> unit result" where
  "is_cache_ttl_configurable t =
     (if t \<noteq> RemoteRepo then Inl (Validation ''cache_ttl is only configurable on remote (proxy) repositories'')
      else Inr ())"

definition default_cache_ttl_secs :: int where "default_cache_ttl_secs = 86400"

definition resolve_cache_ttl :: "string option \<Rightarrow> int" where
  "resolve_cache_ttl stored =
     (case Option.bind stored (parse_signed 64) of None \<Rightarrow> default_cache_ttl_secs | Some n \<Rightarrow> n)"

definition parse_format :: "string \<Rightarrow> repository_format result" where
  "parse_format s =
     (case parse_format_str s of Some f \<Rightarrow> Inr f | None \<Rightarrow> Inl (Validation (''Invalid format: '' @ s)))"

definition parse_repo_type :: "string \<Rightarrow> repository_type result" where
  "parse_repo_type s =
     (let l = to_lowercase s
      in if l = ''local'' then Inr LocalRepo
         else if l = ''remote'' then Inr RemoteRepo
         else if l = ''virtual'' then Inr VirtualRepo
         else if l = ''staging'' then Inr StagingRepo
         else Inl (Validation (''Invalid repo type: '' @ s)))"

definition resolve_member_priority :: "int \<Rightarrow> nat \<Rightarrow> int" where
  "resolve_member_priority explicit index = (if 0 < explicit then explicit else as_i32 (as_i32 (int index) + 1))"

section \<open>Settings of a repository\<close>

definition upsert_repo_config :: "api_env \<Rightarrow> uuid \<Rightarrow> string \<Rightarrow> string \<Rightarrow> (api_state, unit) action" where
  "upsert_repo_config env rid key value =
     execute (ae_fail env) (''set '' @ key) (\<lambda>s. s\<lparr> as_db := (as_db s)\<lparr> db_config := (db_config (as_db s))((rid, key) \<mapsto> value) \<rparr> \<rparr>)"

definition upsert_index_upstream_url :: "api_env \<Rightarrow> uuid \<Rightarrow> string \<Rightarrow> (api_state, unit) action" where
  "upsert_index_upstream_url env rid url = upsert_repo_config env rid ''index_upstream_url'' url"

definition delete_repo_config :: "api_env \<Rightarrow> uuid \<Rightarrow> string list \<Rightarrow> (api_state, unit) action" where
  "delete_repo_config env rid keys =
     execute (ae_fail env) ''delete setting'' (\<lambda>s. s\<lparr> as_db := (as_db s)\<lparr> db_config :=
       (\<lambda>(r, k). if r = rid \<and> k \<in> set keys then None else db_config (as_db s) (r, k)) \<rparr> \<rparr>)"

definition read_repo_config :: "api_env \<Rightarrow> uuid \<Rightarrow> string \<Rightarrow> (api_state, string option) action" where
  "read_repo_config env rid key = select (ae_fail env) (''read '' @ key) (\<lambda>s. db_config (as_db s) (rid, key))"

definition set_cache_ttl ::
  "api_env \<Rightarrow> auth_extension option \<Rightarrow> string \<Rightarrow> int \<Rightarrow> (api_state, string \<times> int) action" where
  "set_cache_ttl env auth key secs =
     andthen (require_caller auth ''write'') (\<lambda>a.
     andthen (in_db (repo_by_key (ae_repo env) key)) (\<lambda>r.
     andthen (of_result (require_repo_access a (rw_id r))) (\<lambda>_.
     andthen (of_result (is_cache_ttl_configurable (rw_type r))) (\<lambda>_.
     andthen (run_or (validate_cache_ttl secs) (Validation ''cache_ttl_seconds must be between 1 and 2592000 (30 days)'')) (\<lambda>_.
     andthen (upsert_repo_config env (rw_id r) ''cache_ttl_secs'' (show_int secs)) (\<lambda>_.
     give (key, secs)))))))"

definition get_cache_ttl :: "api_env \<Rightarrow> string \<Rightarrow> (api_state, string \<times> int) action" where
  "get_cache_ttl env key =
     andthen (in_db (repo_by_key (ae_repo env) key)) (\<lambda>r.
     andthen (read_repo_config env (rw_id r) ''cache_ttl_secs'') (\<lambda>v.
     give (key, resolve_cache_ttl v)))"

section \<open>Upstream credentials\<close>

definition filter_auth_type :: "string option \<Rightarrow> string option" where
  "filter_auth_type v = (case v of Some t \<Rightarrow> if t \<noteq> [] \<and> t \<noteq> ''none'' then Some t else None | None \<Rightarrow> None)"

definition parse_auth_credentials :: "string \<Rightarrow> (string \<Rightarrow> string option) \<Rightarrow> upstream_auth result" where
  "parse_auth_credentials t creds =
     (let field = (\<lambda>k. case creds k of None \<Rightarrow> [] | Some v \<Rightarrow> v)
      in if t = ''basic'' then Inr (BasicUpstream (field ''username'') (field ''password''))
         else if t = ''bearer'' then Inr (BearerUpstream (field ''token''))
         else Inl (Config (''Unknown upstream auth type: '' @ t)))"

definition load_upstream_auth :: "api_env \<Rightarrow> uuid \<Rightarrow> (api_state, upstream_auth option) action" where
  "load_upstream_auth env rid =
     andthen (read_repo_config env rid ''upstream_auth_type'') (\<lambda>v.
     case filter_auth_type v of
       None \<Rightarrow> give None
     | Some t \<Rightarrow>
         andthen (read_repo_config env rid ''upstream_auth_credentials'') (\<lambda>stored.
         andthen (some_or (Config ''Upstream auth type is configured but credentials are missing'') stored) (\<lambda>cipher.
         andthen (of_result (ae_decrypt env cipher)) (\<lambda>plain.
         andthen (of_result (ae_parse_json env plain)) (\<lambda>creds.
         andthen (of_result (parse_auth_credentials t creds)) (\<lambda>a. give (Some a)))))))"

definition save_upstream_auth :: "api_env \<Rightarrow> uuid \<Rightarrow> string \<Rightarrow> string \<Rightarrow> (api_state, unit) action" where
  "save_upstream_auth env rid auth_type credentials =
     andthen (upsert_repo_config env rid ''upstream_auth_type'' auth_type) (\<lambda>_.
     upsert_repo_config env rid ''upstream_auth_credentials'' (ae_encrypt env credentials))"

definition remove_upstream_auth :: "api_env \<Rightarrow> uuid \<Rightarrow> (api_state, unit) action" where
  "remove_upstream_auth env rid = delete_repo_config env rid [''upstream_auth_type'', ''upstream_auth_credentials'']"

definition get_upstream_auth_type :: "api_env \<Rightarrow> uuid \<Rightarrow> (api_state, string option) action" where
  "get_upstream_auth_type env rid =
     andthen (read_repo_config env rid ''upstream_auth_type'') (\<lambda>v. give (filter_auth_type v))"

definition build_upstream_credentials ::
  "api_env \<Rightarrow> string \<Rightarrow> string option \<Rightarrow> string option \<Rightarrow> string result" where
  "build_upstream_credentials env t name password =
     (if t = ''basic'' then
        (case name of
           None \<Rightarrow> Inl (Validation ''username is required for basic auth'')
         | Some u \<Rightarrow> (case password of
             None \<Rightarrow> Inl (Validation ''password is required for basic auth'')
           | Some p \<Rightarrow> Inr (ae_json env (BasicUpstream u p))))
      else if t = ''bearer'' then
        (case password of
           None \<Rightarrow> Inl (Validation ''password is required for bearer auth (used as token)'')
         | Some p \<Rightarrow> Inr (ae_json env (BearerUpstream p)))
      else Inl (Validation (''Invalid auth_type: '' @ t @ ''. Must be 'basic', 'bearer', or 'none' '')))"

definition load_remote_repo :: "api_env \<Rightarrow> auth_extension \<Rightarrow> string \<Rightarrow> (api_state, repo_row) action" where
  "load_remote_repo env a key =
     andthen (in_db (repo_by_key (ae_repo env) key)) (\<lambda>r.
     andthen (of_result (require_repo_access a (rw_id r))) (\<lambda>_.
     andthen (run_or (rw_type r = RemoteRepo) (Validation ''This operation is only valid for remote repositories'')) (\<lambda>_.
     give r)))"

definition set_upstream_auth ::
  "api_env \<Rightarrow> auth_extension option \<Rightarrow> string \<Rightarrow> string \<Rightarrow> string option \<Rightarrow> string option \<Rightarrow> (api_state, unit) action" where
  "set_upstream_auth env auth key auth_type name password =
     andthen (require_caller auth ''write'') (\<lambda>a.
     andthen (load_remote_repo env a key) (\<lambda>r.
     if auth_type = ''none'' then remove_upstream_auth env (rw_id r)
     else andthen (of_result (build_upstream_credentials env auth_type name password)) (\<lambda>creds.
          save_upstream_auth env (rw_id r) auth_type creds)))"

section \<open>Routing rules\<close>

text \<open>A pattern that does not begin with a caret is anchored at both ends; one that does is used as it is.\<close>

definition anchored :: "string \<Rightarrow> string" where
  "anchored pattern = (if starts_with ''^'' pattern then pattern else ''^'' @ pattern @ ''$'')"

text \<open>\<open>str::replace\<close> for a pattern that is not empty.\<close>

fun replace_from :: "nat \<Rightarrow> string \<Rightarrow> string \<Rightarrow> string \<Rightarrow> string" where
  "replace_from n pat new [] = []"
| "replace_from n pat new (c # cs) =
     (case n of
        Suc m \<Rightarrow> replace_from m pat new cs
      | 0 \<Rightarrow> if starts_with pat (c # cs) then new @ replace_from (length pat - 1) pat new cs
             else c # replace_from 0 pat new cs)"

definition replace_all :: "string \<Rightarrow> string \<Rightarrow> string \<Rightarrow> string" where
  "replace_all pat new s = replace_from 0 pat new s"

definition expand :: "string option list \<Rightarrow> string \<Rightarrow> string" where
  "expand caps template = fold (\<lambda>i s. replace_all (''$'' @ show_nat i) (case caps ! i of None \<Rightarrow> [] | Some v \<Rightarrow> v) s)
     (rev [0..<length caps]) template"

fun apply_routing_rules :: "(string \<Rightarrow> string + regex) \<Rightarrow> string \<Rightarrow> routing_rule list \<Rightarrow> string option" where
  "apply_routing_rules compile path [] = None"
| "apply_routing_rules compile path (r # rs) =
     (case compile (anchored (ru_pattern r)) of
        Inl _ \<Rightarrow> apply_routing_rules compile path rs
      | Inr re \<Rightarrow> (case fst re path of
          Some caps \<Rightarrow> Some (expand caps (ru_rewrite r))
        | None \<Rightarrow> apply_routing_rules compile path rs))"

text \<open>\<open>ae_group_refs\<close> lists the numbers that follow a dollar sign in a template.\<close>

definition validate_routing_rule :: "api_env \<Rightarrow> routing_rule \<Rightarrow> string + unit" where
  "validate_routing_rule env r =
     (case ae_regex env (anchored (ru_pattern r)) of
        Inl e \<Rightarrow> Inl (''invalid regex: '' @ e)
      | Inr re \<Rightarrow>
          (case find (\<lambda>n. snd re < n) (ae_group_refs env (ru_rewrite r)) of
             None \<Rightarrow> Inr ()
           | Some n \<Rightarrow> Inl (''rewrite_to references $'' @ show_nat n @ ''  but pattern only has ''
               @ show_nat (snd re) @ '' capture group(s)'')))"

fun check_routing_rules :: "api_env \<Rightarrow> nat \<Rightarrow> routing_rule list \<Rightarrow> unit result" where
  "check_routing_rules env i [] = Inr ()"
| "check_routing_rules env i (r # rs) =
     (case validate_routing_rule env r of
        Inl m \<Rightarrow> Inl (Validation (''routing rule ['' @ show_nat i @ '']: '' @ m))
      | Inr _ \<Rightarrow> check_routing_rules env (Suc i) rs)"

definition stored_rules :: "api_env \<Rightarrow> string option \<Rightarrow> routing_rule list" where
  "stored_rules env v = (case Option.bind v (ae_parse_rules env) of None \<Rightarrow> [] | Some rs \<Rightarrow> rs)"

definition get_routing_rules :: "api_env \<Rightarrow> string \<Rightarrow> (api_state, string \<times> routing_rule list) action" where
  "get_routing_rules env key =
     andthen (in_db (repo_by_key (ae_repo env) key)) (\<lambda>r.
     andthen (read_repo_config env (rw_id r) ''routing_rules'') (\<lambda>v. give (key, stored_rules env v)))"

definition set_routing_rules ::
  "api_env \<Rightarrow> auth_extension option \<Rightarrow> string \<Rightarrow> routing_rule list \<Rightarrow> (api_state, string \<times> routing_rule list) action" where
  "set_routing_rules env auth key rules =
     andthen (require_caller auth ''write'') (\<lambda>a.
     andthen (of_result (check_routing_rules env 0 rules)) (\<lambda>_.
     andthen (in_db (repo_by_key (ae_repo env) key)) (\<lambda>r.
     andthen (of_result (require_repo_access a (rw_id r))) (\<lambda>_.
     andthen (upsert_repo_config env (rw_id r) ''routing_rules'' (ae_rules_json env rules)) (\<lambda>_.
     give (key, rules))))))"

definition delete_routing_rules :: "api_env \<Rightarrow> auth_extension option \<Rightarrow> string \<Rightarrow> (api_state, unit) action" where
  "delete_routing_rules env auth key =
     andthen (require_caller auth ''write'') (\<lambda>a.
     andthen (in_db (repo_by_key (ae_repo env) key)) (\<lambda>r.
     andthen (of_result (require_repo_access a (rw_id r))) (\<lambda>_.
     delete_repo_config env (rw_id r) [''routing_rules''])))"

definition load_routing_rules :: "api_env \<Rightarrow> uuid \<Rightarrow> api_state \<Rightarrow> routing_rule list" where
  "load_routing_rules env rid s =
     (case fst (read_repo_config env rid ''routing_rules'' s) of Inl _ \<Rightarrow> [] | Inr v \<Rightarrow> stored_rules env v)"

section \<open>Members of virtual repositories\<close>

definition only_virtual :: "repo_row \<Rightarrow> unit result" where
  "only_virtual r = (if rw_type r \<noteq> VirtualRepo then Inl (Validation ''Only virtual repositories have members'') else Inr ())"

text \<open>A row of the listing: the member's repository and its priority.\<close>

definition member_rows :: "uuid \<Rightarrow> repo_db \<Rightarrow> (repo_row \<times> int) list" where
  "member_rows v s = List.map_filter (\<lambda>m. map_option (\<lambda>r. (r, vm_priority m)) (find_repo (vm_member m) s))
     (sort_key vm_priority (members_of v s))"

definition list_virtual_members_api ::
  "api_env \<Rightarrow> auth_extension option \<Rightarrow> string \<Rightarrow> (api_state, (repo_row \<times> int) list) action" where
  "list_virtual_members_api env auth key =
     andthen (of_result (require_auth auth)) (\<lambda>a.
     andthen (in_db (repo_by_key (ae_repo env) key)) (\<lambda>r.
     andthen (of_result (only_virtual r)) (\<lambda>_.
     andthen (of_result (require_repo_access a (rw_id r))) (\<lambda>_.
     andthen (select (ae_fail env) ''list members'' (\<lambda>s. member_rows (rw_id r) (as_db s))) (\<lambda>rows.
     give (filter (\<lambda>(m, _). can_access_repo a (rw_id m)) rows))))))"

definition add_virtual_member_api ::
  "api_env \<Rightarrow> auth_extension option \<Rightarrow> string \<Rightarrow> string \<Rightarrow> int option \<Rightarrow> (api_state, repo_row \<times> int) action" where
  "add_virtual_member_api env auth key member_key priority =
     andthen (require_caller auth ''write'') (\<lambda>a.
     andthen (in_db (repo_by_key (ae_repo env) key)) (\<lambda>v.
     andthen (in_db (repo_by_key (ae_repo env) member_key)) (\<lambda>m.
     andthen (of_result (authorize_virtual_member_mutation a v m)) (\<lambda>_.
     andthen (in_db (add_virtual_member (ae_repo env) (rw_id v) (rw_id m) priority)) (\<lambda>_.
     andthen (select (ae_fail env) ''created member'' (\<lambda>s. find (\<lambda>(x, _). rw_id x = rw_id m) (member_rows (rw_id v) (as_db s))))
       (some_or (Database ''no rows returned by a query that expected to return at least one row'')))))))"

definition remove_virtual_member_api ::
  "api_env \<Rightarrow> auth_extension option \<Rightarrow> string \<Rightarrow> string \<Rightarrow> (api_state, unit) action" where
  "remove_virtual_member_api env auth key member_key =
     andthen (require_caller auth ''write'') (\<lambda>a.
     andthen (in_db (repo_by_key (ae_repo env) key)) (\<lambda>v.
     andthen (of_result (only_virtual v)) (\<lambda>_.
     andthen (in_db (repo_by_key (ae_repo env) member_key)) (\<lambda>m.
     andthen (of_result (authorize_virtual_member_mutation a v m)) (\<lambda>_.
     in_db (remove_virtual_member (ae_repo env) (rw_id v) (rw_id m)))))))"

definition detect_bulk_update_misses :: "string \<Rightarrow> (string \<times> uuid) list \<Rightarrow> uuid list \<Rightarrow> unit result" where
  "detect_bulk_update_misses key requested returned =
     (if length requested = length returned then Inr ()
      else Inl (NotFound (''members no longer exist on virtual repository '' @ key @ '': ''
             @ join '', '' (map fst (filter (\<lambda>(_, i). i \<notin> set returned) requested)))))"

fun resolve_members ::
  "api_env \<Rightarrow> auth_extension \<Rightarrow> repo_row \<Rightarrow> (string \<times> int) list \<Rightarrow> (api_state, (uuid \<times> int) list) action" where
  "resolve_members env a v [] = give []"
| "resolve_members env a v ((key, p) # ms) =
     andthen (in_db (repo_by_key (ae_repo env) key)) (\<lambda>m.
     andthen (of_result (authorize_virtual_member_mutation a v m)) (\<lambda>_.
     andthen (run_or (rw_id m \<noteq> rw_id v) (Validation ''A virtual repository cannot be a member of itself'')) (\<lambda>_.
     andthen (if rw_type m = VirtualRepo then in_db (would_create_cycle (ae_repo env) (rw_id v) (rw_id m)) else give False) (\<lambda>cyclic.
     andthen (run_or (\<not> cyclic) (Validation (''Updating member '' @ rw_key m @ '' would leave virtual repository ''
         @ rw_key v @ '' in a cycle''))) (\<lambda>_.
     andthen (resolve_members env a v ms) (\<lambda>rest. give ((rw_id m, p) # rest)))))))"

definition update_virtual_members_api ::
  "api_env \<Rightarrow> auth_extension option \<Rightarrow> string \<Rightarrow> (string \<times> int) list \<Rightarrow> (api_state, (repo_row \<times> int) list) action" where
  "update_virtual_members_api env auth key members =
     andthen (require_caller auth ''write'') (\<lambda>a.
     andthen (in_db (repo_by_key (ae_repo env) key)) (\<lambda>v.
     andthen (of_result (only_virtual v)) (\<lambda>_.
     andthen (resolve_members env a v members) (\<lambda>pairs.
     andthen (in_db (update_virtual_member_priorities (ae_repo env) (rw_id v) pairs)) (\<lambda>updated.
     andthen (of_result (detect_bulk_update_misses (rw_key v) (zip (map fst members) (map fst pairs)) updated)) (\<lambda>_.
     list_virtual_members_api env (Some a) key))))))"

section \<open>Creation, update and deletion\<close>

record create_payload =
  pl_key :: string
  pl_name :: string
  pl_description :: "string option"
  pl_format :: string
  pl_type :: string
  pl_public :: "bool option"
  pl_anonymous :: "bool option"
  pl_upstream :: "string option"
  pl_quota :: "int option"
  pl_backend :: "string option"
  pl_format_key :: "string option"
  pl_index_url :: "string option"
  pl_members :: "(string \<times> int) list option"
  pl_auth_type :: "string option"
  pl_username :: "string option"
  pl_password :: "string option"

record update_payload =
  pu_key :: "string option"
  pu_name :: "string option"
  pu_description :: "string option"
  pu_public :: "bool option"
  pu_anonymous :: "bool option"
  pu_quota :: "int option"
  pu_index_url :: "string option"
  pu_quarantine :: "bool option"
  pu_duration :: "int option"
  pu_release :: "string option"

record repo_response =
  rs_id :: uuid
  rs_key :: string
  rs_name :: string
  rs_description :: "string option"
  rs_format :: string
  rs_type :: string
  rs_public :: bool
  rs_anonymous :: bool
  rs_used :: int
  rs_quota :: "int option"
  rs_upstream :: "string option"
  rs_auth_type :: "string option"
  rs_auth_configured :: bool

definition repo_to_response :: "repo_row \<Rightarrow> int \<Rightarrow> repo_response" where
  "repo_to_response r used = \<lparr> rs_id = rw_id r, rs_key = rw_key r, rs_name = rw_name r, rs_description = rw_description r,
     rs_format = response_format (rw_format r), rs_type = repository_type_as_str (rw_type r), rs_public = rw_public r,
     rs_anonymous = rw_public r, rs_used = used, rs_quota = rw_quota r, rs_upstream = rw_upstream r,
     rs_auth_type = None, rs_auth_configured = False \<rparr>"

definition effective_is_public :: "create_payload \<Rightarrow> bool" where
  "effective_is_public p = (case coalesce (pl_anonymous p) (pl_public p) of None \<Rightarrow> False | Some b \<Rightarrow> b)"

definition choose_backend :: "api_env \<Rightarrow> auth_extension \<Rightarrow> string option \<Rightarrow> string result" where
  "choose_backend env a requested =
     (case requested of
        None \<Rightarrow> Inr (ae_backend env)
      | Some b \<Rightarrow>
          if b = ae_backend env then Inr (ae_backend env)
          else if \<not> is_admin a then Inl (Authorization ''Only admins can select a non-default storage backend'')
          else if \<not> is_available (ae_registered env) b
          then Inl (Validation (''Storage backend '' @ quoted b @ '' is not available''))
          else Inr b)"

definition storage_path_for :: "api_env \<Rightarrow> string \<Rightarrow> string \<Rightarrow> string" where
  "storage_path_for env backend key = (if backend = ''filesystem'' then ae_root env @ ''/'' @ key else key)"

fun add_members :: "api_env \<Rightarrow> uuid \<Rightarrow> nat \<Rightarrow> (string \<times> int) list \<Rightarrow> (api_state, unit) action" where
  "add_members env v i [] = give ()"
| "add_members env v i ((key, p) # ms) =
     andthen (in_db (repo_by_key (ae_repo env) key)) (\<lambda>m.
     andthen (in_db (add_virtual_member (ae_repo env) v (rw_id m) (Some (resolve_member_priority p i)))) (\<lambda>_.
     add_members env v (Suc i) ms))"

definition create_row ::
  "api_env \<Rightarrow> auth_extension \<Rightarrow> create_payload \<Rightarrow> (api_state, repo_row \<times> repository_type) action" where
  "create_row env a p =
     andthen (of_result (validate_repository_key (pl_key p))) (\<lambda>_.
     andthen (in_db (resolve_format (ae_repo env) (pl_format p))) (\<lambda>(f, plugin).
     andthen (of_result (parse_repo_type (pl_type p))) (\<lambda>t.
     andthen (of_result (validate_virtual_repo_member_count (pl_key p) t (pl_members p))) (\<lambda>_.
     andthen (of_result (choose_backend env a (pl_backend p))) (\<lambda>backend.
     andthen (in_db (create_repo (ae_repo env) \<lparr> cr_key = pl_key p, cr_name = pl_name p,
       cr_description = pl_description p, cr_format = f, cr_type = t, cr_backend = backend,
       cr_path = storage_path_for env backend (pl_key p), cr_upstream = pl_upstream p,
       cr_public = fst (coerce_is_public_for_create (effective_is_public p) (ae_guest_access env)),
       cr_quota = pl_quota p, cr_format_key = coalesce plugin (pl_format_key p) \<rparr>)) (\<lambda>r.
     give (r, t)))))))"

definition create_settings :: "api_env \<Rightarrow> create_payload \<Rightarrow> repo_row \<Rightarrow> repository_type \<Rightarrow> (api_state, unit) action" where
  "create_settings env p r t =
     andthen (case pl_index_url p of None \<Rightarrow> give () | Some u \<Rightarrow> upsert_index_upstream_url env (rw_id r) u) (\<lambda>_.
     andthen (if t = VirtualRepo
              then (case pl_members p of None \<Rightarrow> give () | Some ms \<Rightarrow> add_members env (rw_id r) 0 ms) else give ()) (\<lambda>_.
     case pl_auth_type p of
       None \<Rightarrow> give ()
     | Some at \<Rightarrow> andthen (of_result (build_upstream_credentials env at (pl_username p) (pl_password p))) (\<lambda>creds.
         save_upstream_auth env (rw_id r) at creds)))"

text \<open>The body is deserialised after the caller is known.\<close>

definition create_repository ::
  "api_env \<Rightarrow> auth_extension option \<Rightarrow> string + create_payload \<Rightarrow> (api_state, repo_response) action" where
  "create_repository env auth body =
     andthen (require_caller auth ''write'') (\<lambda>a.
     andthen (of_result (case body of Inl e \<Rightarrow> Inl (Validation e) | Inr p \<Rightarrow> Inr p)) (\<lambda>p.
     andthen (require_rule env a ''system'' nil_uuid ''create repositories'') (\<lambda>_.
     andthen (create_row env a p) (\<lambda>(r, t).
     andthen (create_settings env p r t) (\<lambda>_.
     give ((repo_to_response r 0)\<lparr> rs_auth_type := pl_auth_type p, rs_auth_configured := pl_auth_type p \<noteq> None \<rparr>))))))"

definition get_repository :: "api_env \<Rightarrow> auth_extension option \<Rightarrow> string \<Rightarrow> (api_state, repo_response) action" where
  "get_repository env auth key =
     andthen (in_db (repo_by_key (ae_repo env) key)) (\<lambda>r.
     andthen (of_result (require_visible r auth)) (\<lambda>_.
     andthen (in_db (get_storage_usage (ae_repo env) (rw_id r))) (\<lambda>used.
     andthen (get_upstream_auth_type env (rw_id r)) (\<lambda>t.
     give ((repo_to_response r used)\<lparr> rs_auth_type := t, rs_auth_configured := t \<noteq> None \<rparr>)))))"

definition forget_cached :: "string list \<Rightarrow> (api_state, unit) action" where
  "forget_cached keys s = (Inr (), s\<lparr> as_cache := (as_cache s) |` (- set keys) \<rparr>)"

definition as_promotion_repo :: "repo_row \<Rightarrow> repository" where
  "as_promotion_repo r = \<lparr> rp_id = rw_id r, rp_key = rw_key r, rp_format = derive_format_key (rw_format r), rp_type = rw_type r,
     rp_backend = rw_backend r, rp_path = rw_path r, rp_require_approval = None \<rparr>"

definition link_release :: "api_env \<Rightarrow> repo_row \<Rightarrow> string \<Rightarrow> (api_state, unit) action" where
  "link_release env r release_key =
     (if release_key = [] then delete_repo_config env (rw_id r) [''release_repository_id'']
      else
        andthen (run_or (rw_type r = StagingRepo)
          (Validation ''Release target linking is only available for staging repositories'')) (\<lambda>_.
        andthen (\<lambda>s. case in_db (repo_by_key (ae_repo env) release_key) s of
            (Inl _, t) \<Rightarrow> (Inl (Validation (''Release repository '' @ quoted release_key @ '' not found'')), t)
          | (Inr x, t) \<Rightarrow> (Inr x, t)) (\<lambda>release.
        andthen (of_result (validate_release_target_link (as_promotion_repo r) (as_promotion_repo release))) (\<lambda>_.
        upsert_repo_config env (rw_id r) ''release_repository_id'' (ae_show_uuid env (rw_id release))))))"

definition update_settings :: "api_env \<Rightarrow> update_payload \<Rightarrow> repo_row \<Rightarrow> (api_state, unit) action" where
  "update_settings env p r =
     andthen (case pu_index_url p of None \<Rightarrow> give () | Some u \<Rightarrow> upsert_index_upstream_url env (rw_id r) u) (\<lambda>_.
     andthen (case pu_quarantine p of None \<Rightarrow> give ()
       | Some b \<Rightarrow> upsert_repo_config env (rw_id r) ''quarantine_enabled'' (if b then ''true'' else ''false'')) (\<lambda>_.
     andthen (case pu_duration p of None \<Rightarrow> give ()
       | Some d \<Rightarrow> andthen (run_or (0 \<le> d) (Validation ''quarantine_duration_minutes must be non-negative'')) (\<lambda>_.
           upsert_repo_config env (rw_id r) ''quarantine_duration_minutes'' (show_int d))) (\<lambda>_.
     case pu_release p of None \<Rightarrow> give () | Some k \<Rightarrow> link_release env r k)))"

definition max_quota_bytes :: int where "max_quota_bytes = 100 * 1024 * 1024 * 1024 * 1024"

definition update_repository_api ::
  "api_env \<Rightarrow> auth_extension option \<Rightarrow> string \<Rightarrow> update_payload \<Rightarrow> (api_state, repo_response) action" where
  "update_repository_api env auth key p =
     andthen (require_caller auth ''write'') (\<lambda>a.
     andthen (of_result (case pu_key p of None \<Rightarrow> Inr () | Some k \<Rightarrow> validate_repository_key k)) (\<lambda>_.
     andthen (run_or (case pu_quota p of None \<Rightarrow> True | Some q \<Rightarrow> 0 \<le> q \<and> q \<le> max_quota_bytes)
       (Validation ''quota_bytes must be between 0 and 100 TiB'')) (\<lambda>_.
     andthen (in_db (repo_by_key (ae_repo env) key)) (\<lambda>existing.
     andthen (of_result (require_repo_access a (rw_id existing))) (\<lambda>_.
     andthen (require_rule env a ''repository'' (rw_id existing) ''update this repository'') (\<lambda>_.
     andthen (in_db (update_repository (ae_repo env) (rw_id existing) \<lparr> up_key = pu_key p, up_name = pu_name p,
       up_description = pu_description p,
       up_public = fst (coerce_is_public_for_update (coalesce (pu_anonymous p) (pu_public p)) (ae_guest_access env)),
       up_quota = map_option Some (pu_quota p), up_upstream = None \<rparr>)) (\<lambda>r.
     andthen (forget_cached [key, rw_key r]) (\<lambda>_.
     andthen (update_settings env p r) (\<lambda>_.
     andthen (in_db (get_storage_usage (ae_repo env) (rw_id r))) (\<lambda>used.
     give (repo_to_response r used)))))))))))"

definition delete_repository :: "api_env \<Rightarrow> auth_extension option \<Rightarrow> string \<Rightarrow> (api_state, unit) action" where
  "delete_repository env auth key =
     andthen (require_caller auth ''delete'') (\<lambda>a.
     andthen (in_db (repo_by_key (ae_repo env) key)) (\<lambda>r.
     andthen (of_result (require_repo_access a (rw_id r))) (\<lambda>_.
     andthen (require_rule env a ''repository'' (rw_id r) ''delete this repository'') (\<lambda>_.
     andthen (in_db (delete_repo (ae_repo env) (rw_id r))) (\<lambda>_.
     forget_cached [key])))))"

section \<open>Listing\<close>

record list_query =
  lq_page :: "nat option"
  lq_per_page :: "nat option"
  lq_format :: "string option"
  lq_type :: "string option"
  lq_text :: "string option"

record list_reply =
  lr_items :: "repo_response list"
  lr_page :: nat
  lr_per_page :: nat
  lr_total :: nat
  lr_pages :: nat

text \<open>\<open>page\<close> and \<open>per_page\<close> are \<open>u32\<close>, and so is the product, which wraps in a release build; the number of
  pages is a rounded quotient of floating-point numbers, cast with saturation.\<close>

definition as_u32 :: "nat \<Rightarrow> nat" where
  "as_u32 n = n mod 2 ^ 32"

definition total_pages :: "nat \<Rightarrow> nat \<Rightarrow> nat" where
  "total_pages n per_page =
     (if per_page = 0 then (if n = 0 then 0 else 2 ^ 32 - 1)
      else min (2 ^ 32 - 1) ((n + per_page - 1) div per_page))"

fun optional :: "('a \<Rightarrow> 'b result) \<Rightarrow> 'a option \<Rightarrow> 'b option result" where
  "optional f None = Inr None"
| "optional f (Some x) = bind_result (f x) (\<lambda>y. Inr (Some y))"

definition visibility_of :: "auth_extension option \<Rightarrow> repo_visibility" where
  "visibility_of auth = (case auth of None \<Rightarrow> PublicOnly | Some a \<Rightarrow> if is_admin a then AllRepos else VisibleTo (user_id a))"

definition list_repositories :: "api_env \<Rightarrow> auth_extension option \<Rightarrow> list_query \<Rightarrow> (api_state, list_reply) action" where
  "list_repositories env auth q =
     (let page = max 1 (case lq_page q of None \<Rightarrow> 1 | Some n \<Rightarrow> n);
          per_page = min 100 (case lq_per_page q of None \<Rightarrow> 20 | Some n \<Rightarrow> n)
      in andthen (of_result (optional parse_format (lq_format q))) (\<lambda>f.
         andthen (of_result (optional parse_repo_type (lq_type q))) (\<lambda>t.
         andthen (in_db (list_repos (ae_repo env) (as_u32 ((page - 1) * per_page)) per_page f t (visibility_of auth) (lq_text q)))
           (\<lambda>(rows, n).
         andthen (if rows = [] then give (\<lambda>_. 0)
                  else select (ae_fail env) ''usage of a page'' (\<lambda>s rid. live_size rid (as_db s))) (\<lambda>used.
         give \<lparr> lr_items = map (\<lambda>r. repo_to_response r (used (rw_id r))) rows, lr_page = page, lr_per_page = per_page,
                lr_total = n, lr_pages = total_pages n per_page \<rparr>)))))"

section \<open>Which requests need a permission rule\<close>

text \<open>A repository is created, updated or deleted only for an identified caller who is an administrator or
  whom a rule grants \<open>admin\<close>: on the system for a creation, on the repository otherwise. A token must in
  addition have the scope and may not be restricted to other repositories.\<close>

theorem management_needs_a_rule:
  assumes "update_repository_api env auth key p s = (Inr resp, t) \<or> delete_repository env auth key s = (Inr u, t)"
  shows "\<exists>a r. auth = Some a \<and> find (\<lambda>x. rw_key x = key) (db_repos (as_db s)) = Some r
    \<and> can_access_repo a (rw_id r) \<and> (is_admin a \<or> ae_permission env (user_id a) ''repository'' (rw_id r) ''admin'' = Inr True)
    \<and> (has_scope a ''write'' \<or> has_scope a ''delete'')"
proof -
  have caller: "auth = Some a \<and> v = s \<and> has_scope a scope" if "require_caller auth scope s = (Inr a, v)" for scope a v
    using that by (auto simp: require_caller_def require_auth_def require_scope_def action_simps split: option.splits if_splits)
  have rule: "v = w \<and> (is_admin a \<or> ae_permission env (user_id a) tt i ''admin'' = Inr True)"
    if "require_rule env a tt i m v = (Inr x, w)" for a tt i m v x w
    using that by (auto simp: require_rule_def action_simps split: if_splits)
  have repo: "w = v \<and> find (\<lambda>x. rw_key x = key) (db_repos (as_db v)) = Some r"
    if "in_db (repo_by_key (ae_repo env) key) v = (Inr r, w)" for v w r
    using that by (auto simp: repo_by_key_def action_simps)
  have access: "can_access_repo a i" if "require_repo_access a i = Inr x" for a i x
    using that by (auto simp: require_repo_access_def split: if_splits)
  from assms show ?thesis
  proof
    assume "update_repository_api env auth key p s = (Inr resp, t)"
    then obtain a v r w where "require_caller auth ''write'' s = (Inr a, v)"
      "in_db (repo_by_key (ae_repo env) key) v = (Inr r, w)" "require_repo_access a (rw_id r) = Inr ()"
      "\<exists>x. require_rule env a ''repository'' (rw_id r) ''update this repository'' w = (Inr (), x)"
      by (auto simp: update_repository_api_def action_simps)
    then show ?thesis using caller rule repo access by blast
  next
    assume "delete_repository env auth key s = (Inr u, t)"
    then obtain a v r w where "require_caller auth ''delete'' s = (Inr a, v)"
      "in_db (repo_by_key (ae_repo env) key) v = (Inr r, w)" "require_repo_access a (rw_id r) = Inr ()"
      "\<exists>x. require_rule env a ''repository'' (rw_id r) ''delete this repository'' w = (Inr (), x)"
      by (auto simp: delete_repository_def action_simps)
    then show ?thesis using caller rule repo access by blast
  qed
qed

text \<open>An environment in which nothing fails, and an administrator.\<close>

definition sample_api :: api_env where
  "sample_api = \<lparr> ae_repo = sample_repo_env 9, ae_permission = (\<lambda>_ _ _ _. Inr False), ae_backend = ''filesystem'',
     ae_root = ''/data'', ae_registered = (\<lambda>_. False), ae_guest_access = True, ae_show_uuid = show_nat,
     ae_encrypt = rev, ae_decrypt = (\<lambda>c. Inr (rev c)),
     ae_json = (\<lambda>a. case a of BasicUpstream u p \<Rightarrow> u @ [CHR ''/''] @ p | BearerUpstream t \<Rightarrow> t),
     ae_parse_json = (\<lambda>j. Inr (\<lambda>k. if k = ''token'' then Some j else None)),
     ae_rules_json = (\<lambda>_. []), ae_parse_rules = (\<lambda>_. None), ae_regex = (\<lambda>_. Inl []), ae_group_refs = (\<lambda>_. []) \<rparr>"

definition sample_caller :: "bool \<Rightarrow> auth_extension" where
  "sample_caller admin = \<lparr> user_id = 7, username = ''u'', email = ''u@x'', is_admin = admin, is_api_token = False,
     is_service_account = False, scopes = None, allowed_repo_ids = None \<rparr>"

definition sample_remote :: repo_row where
  "sample_remote = \<lparr> rw_id = 4, rw_key = ''hub'', rw_name = ''hub'', rw_description = None, rw_format = Docker,
     rw_type = RemoteRepo, rw_backend = ''filesystem'', rw_path = ''/data/hub'', rw_upstream = Some ''https://hub.example'',
     rw_public = False, rw_quota = None, rw_format_key = None \<rparr>"

definition sample_state :: api_state where
  "sample_state = \<lparr> as_db = no_repos\<lparr> db_repos := [sample_remote], db_token_repos := [(1, 4)] \<rparr>, as_cache = Map.empty \<rparr>"

lemmas sample_api_eval = sample_api_def sample_caller_def sample_remote_def sample_state_def no_repos_def sample_repo_env_def

lemmas api_eval = run_simps require_caller_def require_auth_def require_scope_def has_scope_def require_rule_def
  require_repo_access_def can_access_repo_def repo_by_key_def

theorem management_needs_a_rule_witness:
  "\<exists>t. delete_repository sample_api (Some (sample_caller True)) ''hub'' sample_state = (Inr (), t)
    \<and> (\<exists>a. Some (sample_caller True) = Some a \<and> (is_admin a \<or> ae_permission sample_api (user_id a) ''repository'' 4 ''admin'' = Inr True))"
proof -
  obtain t where run: "delete_repository sample_api (Some (sample_caller True)) ''hub'' sample_state = (Inr (), t)"
    by (simp add: delete_repository_def api_eval delete_repo_def find_repo_def forget_cached_def sample_api_eval)
  have find: "find (\<lambda>x. rw_key x = ''hub'') (db_repos (as_db sample_state)) = Some sample_remote"
    by (simp add: sample_state_def sample_remote_def)
  from management_needs_a_rule[OF disjI2, OF run] find show ?thesis
    using run by (auto simp: sample_remote_def)
qed

text \<open>The settings of a remote repository ask for no rule: any session, whatever the rules say and
  whether or not its user can see the repository, replaces the credentials that are sent to the upstream.\<close>

theorem any_session_replaces_upstream_credentials:
  assumes "find (\<lambda>x. rw_key x = key) (db_repos (as_db s)) = Some r" "rw_type r = RemoteRepo" "\<not> is_api_token a"
    "allowed_repo_ids a = None" "\<And>stmt. ae_fail env stmt = None"
  shows "\<exists>t. set_upstream_auth (env\<lparr> ae_permission := rules \<rparr>) (Some a) key ''bearer'' None (Some token) s = (Inr (), t)
    \<and> db_config (as_db t) (rw_id r, ''upstream_auth_credentials'') = Some (ae_encrypt env (ae_json env (BearerUpstream token)))"
  using assms
  by (simp add: set_upstream_auth_def api_eval load_remote_repo_def build_upstream_credentials_def save_upstream_auth_def
      upsert_repo_config_def)

theorem any_session_replaces_upstream_credentials_witness:
  "\<exists>t. set_upstream_auth (sample_api\<lparr> ae_permission := \<lambda>_ _ _ _. Inr False \<rparr>) (Some (sample_caller False)) ''hub'' ''bearer'' None
      (Some ''secret'') sample_state = (Inr (), t)
    \<and> db_config (as_db t) (4, ''upstream_auth_credentials'') = Some (rev ''secret'')"
proof -
  have "find (\<lambda>x. rw_key x = ''hub'') (db_repos (as_db sample_state)) = Some sample_remote"
    by (simp add: sample_state_def sample_remote_def)
  moreover have "rw_type sample_remote = RemoteRepo" "rw_id sample_remote = 4" by (simp_all add: sample_remote_def)
  moreover have "\<not> is_api_token (sample_caller False)" "allowed_repo_ids (sample_caller False) = None"
    by (simp_all add: sample_caller_def)
  moreover have "ae_fail sample_api stmt = None" "ae_encrypt sample_api = rev"
    "ae_json sample_api (BearerUpstream ''secret'') = ''secret''" for stmt
    by (simp_all add: sample_api_def sample_repo_env_def)
  ultimately show ?thesis
    using any_session_replaces_upstream_credentials[of "''hub''" sample_state sample_remote "sample_caller False" sample_api
      "\<lambda>_ _ _ _. Inr False" "''secret''"] by metis
qed

section \<open>Creation with a key that exists\<close>

lemma create_repo_existing:
  assumes "create_repo env q s = (Inr x, t)" "find (\<lambda>r. rw_key r = cr_key q) (db_repos s) = Some r"
  shows "x = r \<and> t = s"
proof -
  have "insert_in_transaction env q s = (Inr x, t)"
    using assms(1) by (auto simp: create_repo_def Let_def action_simps)
  moreover have "list_ex (\<lambda>r. rw_key r = cr_key q) (db_repos s)"
    using find_SomeD[OF assms(2)] by (auto simp: list_ex_iff)
  ultimately show ?thesis using assms(2)
    by (auto simp: insert_in_transaction_def insert_repository_def repo_by_key_def action_simps split: option.splits if_splits)
qed


text \<open>A request to create a public repository of the same key.\<close>

definition sample_payload :: create_payload where
  "sample_payload = \<lparr> pl_key = ''hub'', pl_name = ''mine'', pl_description = None, pl_format = ''docker'', pl_type = ''local'',
     pl_public = None, pl_anonymous = None, pl_upstream = None, pl_quota = None, pl_backend = None, pl_format_key = None,
     pl_index_url = None, pl_members = None, pl_auth_type = Some ''bearer'', pl_username = None, pl_password = Some ''x'' \<rparr>"

lemma sample_creation:
  "\<exists>resp t. create_repository sample_api (Some (sample_caller True)) (Inr sample_payload) sample_state = (Inr resp, t)"
proof -
  have key: "validate_repository_key ''hub'' = Inr ()"
    by (simp add: validate_repository_key_def is_key_char_def starts_with_def)
  have formats: "parse_format_str ''docker'' = Some Docker" "parse_repo_type ''local'' = Inr LocalRepo"
    by (simp_all add: parse_format_str_def format_arms_def parse_repo_type_def to_lowercase_def lower_char_def)
  have row: "create_row sample_api (sample_caller True) sample_payload sample_state = (Inr (sample_remote, LocalRepo), sample_state)"
    using key formats
    by (simp add: create_row_def sample_payload_def resolve_format_def run_simps validate_virtual_repo_member_count_def
        choose_backend_def create_repo_def Let_def validate_remote_upstream_def should_reject_disabled_format_def
        insert_in_transaction_def insert_repository_def is_duplicate_key_error_def duplicate_key_message_def starts_with_def repo_by_key_def
        sample_api_eval)
  have "is_admin (sample_caller True)" "\<not> is_api_token (sample_caller True)" by (simp_all add: sample_caller_def)
  moreover have "pl_index_url sample_payload = None" "pl_auth_type sample_payload = Some ''bearer''"
    "pl_password sample_payload = Some ''x''"
    by (simp_all add: sample_payload_def)
  moreover have "ae_fail sample_api = (\<lambda>_. None)" by (simp add: sample_api_def sample_repo_env_def)
  ultimately show ?thesis using row
    by (simp add: create_repository_def api_eval create_settings_def build_upstream_credentials_def save_upstream_auth_def
        upsert_repo_config_def)
qed


section \<open>Deletion and restricted tokens\<close>

text \<open>The token service reads the same rows that the deletion cascades to.\<close>

definition with_token_repos :: "repo_db \<Rightarrow> token_state \<Rightarrow> token_state" where
  "with_token_repos d ts = ts\<lparr> tok_repos := db_token_repos d \<rparr>"

lemma restriction_of_rows:
  assumes "tok_selector row = None" "tok_fail tenv ''select token repositories'' = None"
    "ids = map snd (filter (\<lambda>(x, _). x = tok_id row) (db_token_repos d))"
  shows "resolve_restrictions tenv row (with_token_repos d ts) = Inr (if ids = [] then None else Some ids)"
  unfolding resolve_restrictions_def query_def with_token_repos_def assms by simp

text \<open>C16: A token that is restricted to one repository is refused on every other one; when that repository is
  deleted, its restriction is deleted with it, and the token is then accepted on every repository.\<close>

theorem deletion_lifts_token_restriction:
  assumes "delete_repository env auth key s = (Inr u, t)" "find (\<lambda>x. rw_key x = key) (db_repos (as_db s)) = Some r"
    "tok_selector row = None" "tok_fail tenv ''select token repositories'' = None"
    "(tok_id row, rw_id r) \<in> set (db_token_repos (as_db s))"
    "\<And>i. (tok_id row, i) \<in> set (db_token_repos (as_db s)) \<Longrightarrow> i = rw_id r"
    "allowed_repo_ids before = (case resolve_restrictions tenv row (with_token_repos (as_db s) ts) of Inl _ \<Rightarrow> Some [] | Inr ids \<Rightarrow> ids)"
    "allowed_repo_ids after = (case resolve_restrictions tenv row (with_token_repos (as_db t) ts) of Inl _ \<Rightarrow> Some [] | Inr ids \<Rightarrow> ids)"
  shows "(can_access_repo before i \<longleftrightarrow> i = rw_id r) \<and> can_access_repo after i"
proof -
  have "db_token_repos (as_db t) = filter (\<lambda>(_, x). x \<noteq> rw_id r) (db_token_repos (as_db s))"
  proof -
    obtain a s1 s2 x s3 d where a: "require_caller auth ''delete'' s = (Inr a, s1)"
      "in_db (repo_by_key (ae_repo env) key) s1 = (Inr x, s2)"
      "require_rule env a ''repository'' (rw_id x) ''delete this repository'' s2 = (Inr (), s3)"
      and d: "delete_repo (ae_repo env) (rw_id x) (as_db s3) = (Inr (), d)" "as_db t = d"
      using assms(1) by (auto simp: delete_repository_def forget_cached_def action_simps)
    have "s1 = s" using a(1) by (auto simp: require_caller_def action_simps)
    moreover have "s2 = s1" "find (\<lambda>x. rw_key x = key) (db_repos (as_db s1)) = Some x"
      using a(2) by (auto simp: repo_by_key_def action_simps)
    moreover have "s3 = s2" using a(3) by (auto simp: require_rule_def action_simps split: if_splits)
    moreover have "d = drop_repo (rw_id x) (as_db s3)"
      using d(1) by (auto simp: delete_repo_def split: option.splits if_splits)
    ultimately show ?thesis using d(2) assms(2) by (simp add: drop_repo_def)
  qed
  then have "map snd (filter (\<lambda>(x, _). x = tok_id row) (db_token_repos (as_db t))) = []"
    unfolding map_is_Nil_conv filter_empty_conv using assms(6) by fastforce
  then have after: "allowed_repo_ids after = None"
    using restriction_of_rows[OF assms(3,4), of "[]" "as_db t" ts] assms(8) by simp
  let ?ids = "map snd (filter (\<lambda>(x, _). x = tok_id row) (db_token_repos (as_db s)))"
  have "x \<in> set ?ids \<longleftrightarrow> (tok_id row, x) \<in> set (db_token_repos (as_db s))" for x by force
  then have ids: "set ?ids = {rw_id r}" using assms(5,6) by blast
  then have "?ids \<noteq> []" by (metis empty_iff insertI1 list.set(1))
  then have "allowed_repo_ids before = Some ?ids"
    using restriction_of_rows[OF assms(3,4), of ?ids "as_db s" ts] assms(7) by simp
  then show ?thesis using after ids by (simp add: can_access_repo_def)
qed

text \<open>The row of a token restricted to the sample repository.\<close>

definition sample_restricted_row :: api_token_row where
  "sample_restricted_row = \<lparr> tok_id = 1, tok_user = 7, tok_name = ''ci'', tok_hash = ''h'', tok_prefix = ''abcdefgh'',
     tok_scopes = [''write''], tok_expires_at = None, tok_revoked_at = None, tok_last_used_at = None, tok_selector = None \<rparr>"

theorem deletion_lifts_token_restriction_witness:
  "\<exists>t. delete_repository sample_api (Some (sample_caller True)) ''hub'' sample_state = (Inr (), t)
    \<and> resolve_restrictions (sample_token_env 0) sample_restricted_row (with_token_repos (as_db sample_state) sample_token_state)
        = Inr (Some [4])
    \<and> resolve_restrictions (sample_token_env 0) sample_restricted_row (with_token_repos (as_db t) sample_token_state) = Inr None"
proof -
  obtain t where run: "delete_repository sample_api (Some (sample_caller True)) ''hub'' sample_state = (Inr (), t)"
    by (simp add: delete_repository_def api_eval delete_repo_def find_repo_def forget_cached_def sample_api_eval)
  let ?r = "sample_restricted_row" and ?env = "sample_token_env 0"
  have row: "tok_selector ?r = None" "tok_id ?r = 1" "tok_fail ?env ''select token repositories'' = None"
    by (simp_all add: sample_restricted_row_def sample_token_env_def)
  have db: "db_token_repos (as_db sample_state) = [(1, 4)]" "rw_id sample_remote = 4"
    "find (\<lambda>x. rw_key x = ''hub'') (db_repos (as_db sample_state)) = Some sample_remote"
    by (simp_all add: sample_state_def sample_remote_def)
  have before: "resolve_restrictions ?env ?r (with_token_repos (as_db sample_state) sample_token_state) = Inr (Some [4])"
    using restriction_of_rows[OF row(1,3), of "[4]"] row(2) db(1) by simp
  obtain ids where ids: "resolve_restrictions ?env ?r (with_token_repos (as_db t) sample_token_state) = Inr ids"
    using restriction_of_rows[OF row(1,3) refl] by blast
  let ?a = "\<lambda>x. (sample_caller False)\<lparr> allowed_repo_ids := x \<rparr>"
  have "can_access_repo (?a ids) i" for i
    using deletion_lifts_token_restriction[OF run db(3) row(1,3), of "?a (Some [4])" sample_token_state "?a ids" i]
      row(2) db(1,2) before ids by simp
  then have all: "case ids of None \<Rightarrow> True | Some xs \<Rightarrow> i \<in> set xs" for i by (simp add: can_access_repo_def)
  have "ids = None"
  proof (cases ids)
    case (Some xs)
    then have "set xs = UNIV" using all by auto
    then have "finite (UNIV :: uuid set)" by (metis finite_set)
    then show ?thesis by simp
  qed
  then show ?thesis using run before ids by blast
qed

section \<open>Directories of repositories\<close>

lemma contains_dots: "contains ''..'' ''..''"
  by (simp add: starts_with_def)

lemma accepted_key:
  assumes "validate_repository_key key = Inr ()"
  shows "CHR ''/'' \<notin> set key" "key \<noteq> []" "key \<noteq> ''.''" "key \<noteq> ''..''"
proof -
  have "list_all is_key_char key" "key \<noteq> []" "\<not> starts_with ''.'' key"
    using assms by (auto simp: validate_repository_key_def split: if_splits)
  moreover have "\<not> is_key_char (CHR ''/'')" by (simp add: is_key_char_def is_ascii_digit_def)
  ultimately show "CHR ''/'' \<notin> set key" "key \<noteq> []" "key \<noteq> ''.''" "key \<noteq> ''..''"
    by (auto simp: list_all_iff starts_with_def)
qed

lemma split_char_not_Nil: "split_char d s \<noteq> []"
  by (induction s) (auto split: list.split)

lemma split_char_join:
  "CHR ''/'' \<notin> set key \<Longrightarrow> split_char (CHR ''/'') (root @ CHR ''/'' # key) = split_char (CHR ''/'') root @ [key]"
  by (induction root) (auto simp: split_char_plain split_char_not_Nil split: list.split)

text \<open>The directory of a repository created with an accepted key is a direct child of the storage root,
  named by the key, whatever the key and the root; so the directories of two accepted keys are the same
  only for the same key, and neither lies in the other.\<close>

theorem repository_directories_are_siblings:
  assumes "validate_repository_key k = Inr ()" "validate_repository_key l = Inr ()"
  shows "normal_components (storage_path_for env ''filesystem'' k) = normal_components (ae_root env) @ [k]
    \<and> (prefix (normal_components (storage_path_for env ''filesystem'' k)) (normal_components (storage_path_for env ''filesystem'' l))
       \<longleftrightarrow> k = l)"
proof -
  have dir: "normal_components (storage_path_for env ''filesystem'' x) = normal_components (ae_root env) @ [x]"
    if "validate_repository_key x = Inr ()" for x
    using accepted_key[OF that] by (simp add: normal_components_def storage_path_for_def split_char_join)
  then show ?thesis using assms by (auto simp: dir[OF assms(1)] dir[OF assms(2)])
qed

theorem repository_directories_are_siblings_witness:
  "normal_components (storage_path_for sample_api ''filesystem'' ''hub'') = normal_components (ae_root sample_api) @ [''hub'']
    \<and> \<not> prefix (normal_components (storage_path_for sample_api ''filesystem'' ''hub''))
        (normal_components (storage_path_for sample_api ''filesystem'' ''hub.2''))"
proof -
  have "validate_repository_key ''hub'' = Inr ()" "validate_repository_key ''hub.2'' = Inr ()"
    by (simp_all add: validate_repository_key_def is_key_char_def is_ascii_digit_def starts_with_def)
  moreover have "''hub'' \<noteq> ''hub.2''" by simp
  ultimately show ?thesis using repository_directories_are_siblings[of "''hub''" "''hub.2''" sample_api] by blast
qed

text \<open>Renaming a repository keeps its directory, so that a repository created later with the old key shares it.\<close>

lemma rename_keeps_directory:
  "storage_location (updated_row q r) = storage_location r"
  "cr_path q' = storage_path_for env backend key \<Longrightarrow> cr_backend q' = backend
     \<Longrightarrow> storage_location r = (backend, storage_path_for env backend key)
     \<Longrightarrow> storage_location (new_repo_row renv q') = storage_location (updated_row q r)"
  by (simp_all add: storage_location_def updated_row_def new_repo_row_def)

section \<open>Upstream credentials round trip\<close>

text \<open>Credentials that were saved are the ones that are loaded and sent to the upstream, when decryption
  undoes encryption and the JSON of the credentials parses to its fields.\<close>

theorem upstream_credentials_roundtrip:
  assumes "build_upstream_credentials env at name password = Inr creds"
    "save_upstream_auth env rid at creds s = (Inr (), t)" "\<And>stmt. ae_fail env stmt = None"
    "\<And>p. ae_decrypt env (ae_encrypt env p) = Inr p"
    "\<And>u p. ae_parse_json env (ae_json env (BasicUpstream u p)) = Inr [''username'' \<mapsto> u, ''password'' \<mapsto> p]"
    "\<And>tok. ae_parse_json env (ae_json env (BearerUpstream tok)) = Inr [''token'' \<mapsto> tok]"
  shows "\<exists>a. load_upstream_auth env rid t = (Inr (Some a), t)
    \<and> (case a of BasicUpstream u p \<Rightarrow> at = ''basic'' \<and> name = Some u \<and> password = Some p
       | BearerUpstream tok \<Rightarrow> at = ''bearer'' \<and> password = Some tok)"
proof -
  have t: "db_config (as_db t) (rid, ''upstream_auth_type'') = Some at"
    "db_config (as_db t) (rid, ''upstream_auth_credentials'') = Some (ae_encrypt env creds)"
    using assms(2) by (auto simp: save_upstream_auth_def upsert_repo_config_def action_simps)
  consider u p where "at = ''basic''" "name = Some u" "password = Some p" "creds = ae_json env (BasicUpstream u p)"
    | tok where "at = ''bearer''" "password = Some tok" "creds = ae_json env (BearerUpstream tok)"
    using assms(1) by (auto simp: build_upstream_credentials_def split: if_splits option.splits)
  then show ?thesis
    by cases (use t assms(3-6) in \<open>simp_all add: load_upstream_auth_def read_repo_config_def run_simps filter_auth_type_def
        parse_auth_credentials_def Let_def\<close>)
qed

text \<open>Fields written one after the other, each with its length.\<close>

definition sample_json_env :: api_env where
  "sample_json_env = sample_api\<lparr>
     ae_json := (\<lambda>a. case a of BasicUpstream u p \<Rightarrow> replicate (length u) (CHR ''1'') @ [CHR ''0''] @ u @ p
                   | BearerUpstream t \<Rightarrow> CHR ''2'' # t),
     ae_parse_json := (\<lambda>j. case j of [] \<Rightarrow> Inl (Internal ''empty'')
       | c # t \<Rightarrow> if c = CHR ''2'' then Inr [''token'' \<mapsto> t]
           else (let n = length (takeWhile (\<lambda>c. c = CHR ''1'') j); rest = drop (Suc n) j
                 in Inr [''username'' \<mapsto> take n rest, ''password'' \<mapsto> drop n rest])) \<rparr>"

theorem upstream_credentials_roundtrip_witness:
  "\<exists>t a. save_upstream_auth sample_json_env 4 ''basic'' (ae_json sample_json_env (BasicUpstream ''u'' ''p'')) sample_state = (Inr (), t)
    \<and> load_upstream_auth sample_json_env 4 t = (Inr (Some a), t) \<and> a = BasicUpstream ''u'' ''p''"
proof -
  let ?creds = "ae_json sample_json_env (BasicUpstream ''u'' ''p'')"
  have build: "build_upstream_credentials sample_json_env ''basic'' (Some ''u'') (Some ''p'') = Inr ?creds"
    by (simp add: build_upstream_credentials_def)
  have fail: "ae_fail sample_json_env stmt = None" for stmt by (simp add: sample_json_env_def sample_api_def sample_repo_env_def)
  then obtain t where save: "save_upstream_auth sample_json_env 4 ''basic'' ?creds sample_state = (Inr (), t)"
    by (simp add: save_upstream_auth_def upsert_repo_config_def run_simps)
  have count: "takeWhile (\<lambda>c. c = CHR ''1'') (replicate n (CHR ''1'') @ CHR ''0'' # xs) = replicate n (CHR ''1'')" for n xs
    by (induction n) simp_all
  have basic: "ae_parse_json sample_json_env (ae_json sample_json_env (BasicUpstream u p)) = Inr [''username'' \<mapsto> u, ''password'' \<mapsto> p]" for u p
    by (cases u) (simp_all add: sample_json_env_def count Let_def)
  have "\<exists>a. load_upstream_auth sample_json_env 4 t = (Inr (Some a), t)
    \<and> (case a of BasicUpstream u p \<Rightarrow> ''basic'' = ''basic'' \<and> Some ''u'' = Some u \<and> Some ''p'' = Some p
       | BearerUpstream tok \<Rightarrow> ''basic'' = ''bearer'' \<and> Some ''p'' = Some tok)"
    by (rule upstream_credentials_roundtrip[OF build save fail _ basic])
      (simp_all add: sample_json_env_def sample_api_def)
  then obtain a where a: "load_upstream_auth sample_json_env 4 t = (Inr (Some a), t)"
    "case a of BasicUpstream u p \<Rightarrow> ''basic'' = ''basic'' \<and> Some ''u'' = Some u \<and> Some ''p'' = Some p
       | BearerUpstream tok \<Rightarrow> ''basic'' = ''bearer'' \<and> Some ''p'' = Some tok"
    by blast
  then have "a = BasicUpstream ''u'' ''p''" by (cases a) simp_all
  then show ?thesis using save a(1) by blast
qed

section \<open>The cache of the visibility gate\<close>

text \<open>After an update or a deletion the gate's cache has no entry under the repository's old or new key.\<close>

lemma forgotten: "k \<in> set keys \<Longrightarrow> repo_cache_get (as_cache (snd (forget_cached keys s))) k now = None"
  by (simp add: forget_cached_def repo_cache_get_def)

section \<open>Routing rules\<close>

text \<open>The first rule whose pattern compiles and matches decides.\<close>

definition rule_captures :: "(string \<Rightarrow> string + regex) \<Rightarrow> string \<Rightarrow> routing_rule \<Rightarrow> string option list option" where
  "rule_captures compile path r = (case compile (anchored (ru_pattern r)) of Inl _ \<Rightarrow> None | Inr re \<Rightarrow> fst re path)"

lemma first_matching_rule:
  "apply_routing_rules compile path rules = map_option (\<lambda>r. expand (the (rule_captures compile path r)) (ru_rewrite r))
     (find (\<lambda>r. rule_captures compile path r \<noteq> None) rules)"
  by (induction rules) (simp_all add: rule_captures_def split: sum.split option.split)

text \<open>A pattern that begins with a caret is not anchored at its end, and a reference in captured text is
  expanded in turn.\<close>

lemma caret_is_not_anchored: "anchored (CHR ''^'' # p) = CHR ''^'' # p"
  by (simp add: anchored_def starts_with_def)

lemma captured_reference_expands: "expand [Some ''a/$1'', Some ''a'', Some ''$1''] ''new/$2'' = ''new/a''"
  by code_simp

end
