(* ===== verification/Virtual_Resolution.thy ===== *)
theory Virtual_Resolution
  imports Repository_Api Artifact_Service
begin

text \<open>
  What the format handlers share (\<open>api/handlers/proxy_helpers.rs\<close>): the look-up of a repository with its
  format, the fetch of an artifact from a hosted repository, the resolution of a download over the members
  of a virtual repository, the guards that keep an upstream from shadowing a package that a hosted member
  owns, and the searches by \<open>LIKE\<close> patterns. The proxy of a remote repository is a parameter: it answers
  a request for a path of an upstream. Streaming and buffered resolution differ only in how bytes travel
  and are one function; the headers of a download are left out.
\<close>

section \<open>Errors\<close>

text \<open>An early return is a plain-text reply or an error of the application.\<close>

datatype http_error = Plain nat string | FromApp app_error

fun status_of :: "http_error \<Rightarrow> nat" where
  "status_of (Plain n _) = n"
| "status_of (FromApp e) = fst (status_and_code e)"

type_synonym 'a reply = "http_error + 'a"

definition internal_error :: "string \<Rightarrow> string \<Rightarrow> http_error" where
  "internal_error label e = Plain 500 (label @ '' error: '' @ e)"

definition reject_write_if_not_hosted :: "string \<Rightarrow> unit reply" where
  "reject_write_if_not_hosted t =
     (if t = ''remote'' then Inl (Plain 405 ''Cannot publish to a remote (proxy) repository'')
      else if t = ''virtual'' then Inl (Plain 400 ''Cannot publish to a virtual repository'')
      else Inr ())"

definition map_proxy_error :: "string \<Rightarrow> app_error \<Rightarrow> http_error" where
  "map_proxy_error pool e =
     (case e of
        NotFound _ \<Rightarrow> Plain 404 ''Artifact not found upstream''
      | Validation _ \<Rightarrow> Plain 400 ''Invalid artifact path''
      | ServiceUnavailable _ \<Rightarrow> Plain 503 ''Upstream temporarily unavailable; retry shortly''
      | _ \<Rightarrow> Plain 502 (''Failed to fetch from upstream: '' @ show_app_error pool e))"

section \<open>Environment and look-up\<close>

text \<open>What a proxy is asked: repository, key, upstream and path. It answers content and its type.\<close>

type_synonym proxy = "uuid \<Rightarrow> string \<Rightarrow> string \<Rightarrow> string \<Rightarrow> (string \<times> string option) result"

record fetch_env =
  fe_content :: content_env
  fe_registered :: "string \<Rightarrow> bool"
  fe_proxy :: "proxy option"
  fe_pool_text :: string

abbreviation fe_fail :: "fetch_env \<Rightarrow> faults" where
  "fe_fail env \<equiv> cv_fail (fe_content env)"

record repo_info =
  ri_id :: uuid
  ri_key :: string
  ri_location :: location
  ri_type :: string
  ri_upstream :: "string option"

definition repo_info_of :: "repo_row \<Rightarrow> repo_info" where
  "repo_info_of r = \<lparr> ri_id = rw_id r, ri_key = rw_key r, ri_location = storage_location r,
     ri_type = repository_type_as_str (rw_type r), ri_upstream = rw_upstream r \<rparr>"

definition resolve_repo_by_key ::
  "fetch_env \<Rightarrow> string \<Rightarrow> string list \<Rightarrow> string \<Rightarrow> registry \<Rightarrow> repo_info reply" where
  "resolve_repo_by_key env key expected label s =
     (case fe_fail env ''resolve repository'' of
        Some e \<Rightarrow> Inl (Plain 500 (''Database error: '' @ e))
      | None \<Rightarrow>
          (case find (\<lambda>r. rw_key r = key) (db_repos (rg_db s)) of
             None \<Rightarrow> Inl (Plain 404 ''Repository not found'')
           | Some r \<Rightarrow>
               let fmt = derive_format_key (rw_format r)
               in if to_lowercase fmt \<notin> set expected
                  then Inl (Plain 400 (''Repository '' @ quoted key @ '' is not '' @ label @ '' repository (format: '' @ fmt @ '')''))
                  else Inr (repo_info_of r)))"

definition fetch_virtual_members :: "fetch_env \<Rightarrow> uuid \<Rightarrow> registry \<Rightarrow> repo_row list reply" where
  "fetch_virtual_members env v s =
     (case fe_fail env ''virtual members'' of
        Some e \<Rightarrow> Inl (Plain 500 (''Failed to resolve virtual members: '' @ e))
      | None \<Rightarrow> Inr (map fst (member_rows v (rg_db s))))"

section \<open>Fetch from a hosted repository\<close>

definition check_quarantine_row :: "fetch_env \<Rightarrow> stored_artifact \<Rightarrow> unit reply" where
  "check_quarantine_row env a =
     (case check_download_allowed (art_quarantine a) (art_until a) (cv_now (fe_content env)) of
        Inl e \<Rightarrow> Inl (FromApp e) | Inr _ \<Rightarrow> Inr ())"

definition storage_for_repo_or_500 :: "fetch_env \<Rightarrow> location \<Rightarrow> unit reply" where
  "storage_for_repo_or_500 env loc =
     (case backend_for (fe_registered env) loc of
        Inl _ \<Rightarrow> Inl (Plain 500 ''Storage operation failed'') | Inr _ \<Rightarrow> Inr ())"

text \<open>A missing object is read once more, after whoever else is reading it; it stays missing unless someone
  writes it meanwhile.\<close>

definition read_content :: "fetch_env \<Rightarrow> location \<Rightarrow> string \<Rightarrow> registry \<Rightarrow> string reply" where
  "read_content env loc key s =
     (case store_get (fe_fail env ''storage get'') key (address_of loc key) (rg_objects s) of
        Inr c \<Rightarrow> Inr c
      | Inl (NotFound _) \<Rightarrow> Inl (Plain 507 ''artifact file unavailable; retry later'')
      | Inl e \<Rightarrow> Inl (FromApp (Storage (show_app_error (fe_pool_text env) e))))"

definition serve_row :: "fetch_env \<Rightarrow> location \<Rightarrow> stored_artifact \<Rightarrow> registry \<Rightarrow> (string \<times> string option) reply" where
  "serve_row env loc a s =
     bind_result (check_quarantine_row env a) (\<lambda>_.
     bind_result (storage_for_repo_or_500 env loc) (\<lambda>_.
     bind_result (read_content env loc (art_storage_key a) s) (\<lambda>c. Inr (c, Some (art_content_type a)))))"

definition find_row :: "fetch_env \<Rightarrow> (stored_artifact \<Rightarrow> bool) \<Rightarrow> registry \<Rightarrow> stored_artifact reply" where
  "find_row env P s =
     (case fe_fail env ''find artifact'' of
        Some e \<Rightarrow> Inl (internal_error ''Database'' e)
      | None \<Rightarrow> (case find (\<lambda>a. \<not> art_deleted a \<and> P a) (db_artifacts (rg_db s)) of
          None \<Rightarrow> Inl (Plain 404 ''Artifact not found'') | Some a \<Rightarrow> Inr a))"

definition local_fetch_by_path ::
  "fetch_env \<Rightarrow> registry \<Rightarrow> string \<Rightarrow> uuid \<Rightarrow> location \<Rightarrow> (string \<times> string option) reply" where
  "local_fetch_by_path env s path rid loc =
     bind_result (find_row env (at_path rid path) s) (\<lambda>a. serve_row env loc a s)"

definition local_fetch_by_name_version ::
  "fetch_env \<Rightarrow> registry \<Rightarrow> string \<Rightarrow> string \<Rightarrow> uuid \<Rightarrow> location \<Rightarrow> (string \<times> string option) reply" where
  "local_fetch_by_name_version env s name version rid loc =
     bind_result (find_row env (\<lambda>a. art_repository a = rid \<and> art_name a = name \<and> art_version a = Some version) s)
       (\<lambda>a. serve_row env loc a s)"

section \<open>Patterns\<close>

definition escape_like_literal :: "string \<Rightarrow> string" where
  "escape_like_literal s = concat (map (\<lambda>c. if c = CHR 0x5C \<or> c = CHR ''%'' \<or> c = CHR ''_'' then [CHR 0x5C, c] else [c]) s)"

definition reverse_suffix_for_like :: "string \<Rightarrow> string" where
  "reverse_suffix_for_like suf = escape_like_literal (rev (CHR ''/'' # suf))"

definition local_fetch_by_path_suffix ::
  "fetch_env \<Rightarrow> registry \<Rightarrow> string \<Rightarrow> uuid \<Rightarrow> location \<Rightarrow> (string \<times> string option) reply" where
  "local_fetch_by_path_suffix env s suf rid loc =
     bind_result (find_row env
         (\<lambda>a. art_repository a = rid \<and> sql_like (reverse_suffix_for_like suf @ ''%'') (rev (art_path a))) s)
       (\<lambda>a. local_fetch_by_path env s (art_path a) rid loc)"

definition maven_ga_like_pattern :: "string \<Rightarrow> string \<Rightarrow> string" where
  "maven_ga_like_pattern grp artifact =
     escape_like_literal (map (\<lambda>c. if c = CHR ''.'' then CHR ''/'' else c) grp) @ ''/''
       @ escape_like_literal artifact @ ''/%''"

section \<open>Members of a virtual repository\<close>

datatype fetch_strategy = FetchLocal | FetchProxy | FetchSkip

definition virtual_member_fetch_strategy :: "repository_type \<Rightarrow> bool \<Rightarrow> bool \<Rightarrow> fetch_strategy" where
  "virtual_member_fetch_strategy t has_proxy has_upstream =
     (case t of RemoteRepo \<Rightarrow> if has_proxy \<and> has_upstream then FetchProxy else FetchSkip | _ \<Rightarrow> FetchLocal)"

definition proxy_fetch :: "fetch_env \<Rightarrow> proxy \<Rightarrow> repo_row \<Rightarrow> string \<Rightarrow> string \<Rightarrow> (string \<times> string option) reply" where
  "proxy_fetch env proxy m upstream path =
     (case proxy (rw_id m) (rw_key m) upstream path of
        Inl e \<Rightarrow> Inl (map_proxy_error (fe_pool_text env) e) | Inr x \<Rightarrow> Inr x)"

text \<open>One turn of the loop; \<open>None\<close> moves on to the next member.\<close>

definition fetch_from_member ::
  "fetch_env \<Rightarrow> proxy option \<Rightarrow> string \<Rightarrow> (uuid \<Rightarrow> location \<Rightarrow> (string \<times> string option) reply) \<Rightarrow> repo_row
   \<Rightarrow> (string \<times> string option) option" where
  "fetch_from_member env px path local m =
     (case virtual_member_fetch_strategy (rw_type m) (px \<noteq> None) (rw_upstream m \<noteq> None) of
        FetchProxy \<Rightarrow> (case (px, rw_upstream m) of
            (Some p, Some u) \<Rightarrow> (case proxy_fetch env p m u path of Inl _ \<Rightarrow> None | Inr x \<Rightarrow> Some x)
          | _ \<Rightarrow> None)
      | FetchLocal \<Rightarrow> (case local (rw_id m) (storage_location m) of Inl _ \<Rightarrow> None | Inr x \<Rightarrow> Some x)
      | FetchSkip \<Rightarrow> None)"

fun first_some :: "('a \<Rightarrow> 'b option) \<Rightarrow> 'a list \<Rightarrow> 'b option" where
  "first_some f [] = None"
| "first_some f (x # xs) = (case f x of Some y \<Rightarrow> Some y | None \<Rightarrow> first_some f xs)"

definition resolve_virtual_download ::
  "fetch_env \<Rightarrow> proxy option \<Rightarrow> uuid \<Rightarrow> string \<Rightarrow> (uuid \<Rightarrow> location \<Rightarrow> (string \<times> string option) reply) \<Rightarrow> registry
   \<Rightarrow> (string \<times> string option) reply" where
  "resolve_virtual_download env px v path local s =
     bind_result (fetch_virtual_members env v s) (\<lambda>ms.
     if ms = [] then Inl (Plain 404 ''Virtual repository has no members'')
     else (case first_some (fetch_from_member env px path local) ms of
             Some x \<Rightarrow> Inr x
           | None \<Rightarrow> Inl (Plain 404 ''Artifact not found in any member repository'')))"

definition metadata_from_member ::
  "fetch_env \<Rightarrow> proxy option \<Rightarrow> string \<Rightarrow> (string \<Rightarrow> string \<Rightarrow> 'b reply) \<Rightarrow> repo_row \<Rightarrow> 'b option" where
  "metadata_from_member env px path transform m =
     (if rw_type m \<noteq> RemoteRepo then None
      else (case (rw_upstream m, px) of
          (Some u, Some p) \<Rightarrow> (case proxy_fetch env p m u path of
              Inl _ \<Rightarrow> None
            | Inr (c, _) \<Rightarrow> (case transform c (rw_key m) of Inl _ \<Rightarrow> None | Inr x \<Rightarrow> Some x))
        | _ \<Rightarrow> None))"

definition resolve_virtual_metadata ::
  "fetch_env \<Rightarrow> proxy option \<Rightarrow> uuid \<Rightarrow> string \<Rightarrow> (string \<Rightarrow> string \<Rightarrow> 'b reply) \<Rightarrow> registry \<Rightarrow> 'b reply" where
  "resolve_virtual_metadata env px v path transform s =
     bind_result (fetch_virtual_members env v s) (\<lambda>ms.
     if ms = [] then Inl (Plain 404 ''Virtual repository has no members'')
     else (case first_some (metadata_from_member env px path transform) ms of
             Some x \<Rightarrow> Inr x
           | None \<Rightarrow> Inl (Plain 404 ''Metadata not found in any member repository'')))"

definition collect_virtual_metadata ::
  "fetch_env \<Rightarrow> proxy option \<Rightarrow> uuid \<Rightarrow> string \<Rightarrow> (string \<Rightarrow> string \<Rightarrow> 'b reply) \<Rightarrow> registry \<Rightarrow> (string \<times> 'b) list reply" where
  "collect_virtual_metadata env px v path extract s =
     bind_result (fetch_virtual_members env v s) (\<lambda>ms.
     Inr (List.map_filter (\<lambda>m. map_option (\<lambda>x. (rw_key m, x)) (metadata_from_member env px path extract m)) ms))"

section \<open>The guards against shadowing\<close>

definition guard_query :: "fetch_env \<Rightarrow> uuid \<Rightarrow> (stored_artifact \<Rightarrow> bool) \<Rightarrow> registry \<Rightarrow> bool reply" where
  "guard_query env v P s =
     bind_result (fetch_virtual_members env v s) (\<lambda>ms.
     let ids = map rw_id (filter (\<lambda>m. rw_type m \<noteq> RemoteRepo) ms)
     in if ids = [] then Inr False
        else (case fe_fail env ''shadowing guard'' of
                Some _ \<Rightarrow> Inl (Plain 500 ''Database error'')
              | None \<Rightarrow> Inr (list_ex (\<lambda>a. art_repository a \<in> set ids \<and> \<not> art_deleted a \<and> P a) (db_artifacts (rg_db s)))))"

definition virtual_non_remote_owns_name :: "fetch_env \<Rightarrow> uuid \<Rightarrow> string \<Rightarrow> registry \<Rightarrow> bool reply" where
  "virtual_non_remote_owns_name env v name s =
     guard_query env v (\<lambda>a. to_lowercase (art_name a) = to_lowercase name) s"

definition virtual_non_remote_owns_path :: "fetch_env \<Rightarrow> uuid \<Rightarrow> string \<Rightarrow> registry \<Rightarrow> bool reply" where
  "virtual_non_remote_owns_path env v path s = guard_query env v (\<lambda>a. art_path a = path) s"

definition virtual_non_remote_owns_maven_ga :: "fetch_env \<Rightarrow> uuid \<Rightarrow> string \<Rightarrow> string \<Rightarrow> registry \<Rightarrow> bool reply" where
  "virtual_non_remote_owns_maven_ga env v grp artifact s =
     guard_query env v (\<lambda>a. sql_like (maven_ga_like_pattern grp artifact) (art_path a)) s"

section \<open>The fallback of a format handler\<close>

datatype remote_or_virtual = ActRemote | ActVirtual | ActHosted

definition classify_remote_or_virtual :: "string \<Rightarrow> remote_or_virtual" where
  "classify_remote_or_virtual t = (if t = ''remote'' then ActRemote else if t = ''virtual'' then ActVirtual else ActHosted)"

datatype virtual_lookup = PathSuffix string | ExactPath string

record download_opts =
  do_upstream_path :: string
  do_lookup :: virtual_lookup
  do_suppress :: bool

definition lookup_in_member ::
  "fetch_env \<Rightarrow> registry \<Rightarrow> virtual_lookup \<Rightarrow> uuid \<Rightarrow> location \<Rightarrow> (string \<times> string option) reply" where
  "lookup_in_member env s l =
     (case l of PathSuffix x \<Rightarrow> local_fetch_by_path_suffix env s x | ExactPath p \<Rightarrow> local_fetch_by_path env s p)"

definition try_remote_or_virtual_download ::
  "fetch_env \<Rightarrow> repo_info \<Rightarrow> download_opts \<Rightarrow> registry \<Rightarrow> (string \<times> string option) option reply" where
  "try_remote_or_virtual_download env r opts s =
     (case classify_remote_or_virtual (ri_type r) of
        ActRemote \<Rightarrow> (case (ri_upstream r, fe_proxy env) of
            (Some u, Some p) \<Rightarrow> (case p (ri_id r) (ri_key r) u (do_upstream_path opts) of
                Inl e \<Rightarrow> Inl (map_proxy_error (fe_pool_text env) e) | Inr x \<Rightarrow> Inr (Some x))
          | _ \<Rightarrow> Inr None)
      | ActVirtual \<Rightarrow>
          bind_result (resolve_virtual_download env (if do_suppress opts then None else fe_proxy env) (ri_id r)
              (do_upstream_path opts) (lookup_in_member env s (do_lookup opts)) s) (\<lambda>x. Inr (Some x))
      | ActHosted \<Rightarrow> Inr None)"

text \<open>The generic download of a virtual repository: a failing guard query is an error, a member that owns the
  path takes the proxy out of play.\<close>

definition download_from_virtual :: "fetch_env \<Rightarrow> uuid \<Rightarrow> string \<Rightarrow> registry \<Rightarrow> (string \<times> string option) result" where
  "download_from_virtual env v path s =
     (case virtual_non_remote_owns_path env v path s of
        Inl _ \<Rightarrow> Inl (Internal ''virtual shadowing-guard query failed'')
      | Inr owned \<Rightarrow>
          (case resolve_virtual_download env (if owned then None else fe_proxy env) v path (local_fetch_by_path env s path) s of
             Inl _ \<Rightarrow> Inl (NotFound ''Artifact not found in any member repository'')
           | Inr x \<Rightarrow> Inr x))"

section \<open>Patterns match literally\<close>

lemma like_literal: "sql_like (escape_like_literal s @ p) t \<longleftrightarrow> (\<exists>u. t = s @ u \<and> sql_like p u)"
proof (induction s arbitrary: t)
  case Nil
  then show ?case by (simp add: escape_like_literal_def)
next
  case (Cons c s)
  have "escape_like_literal (c # s) = (if c = CHR 0x5C \<or> c = CHR ''%'' \<or> c = CHR ''_'' then [CHR 0x5C, c] else [c])
      @ escape_like_literal s"
    by (simp add: escape_like_literal_def)
  then show ?case using Cons by (cases t) auto
qed

lemma like_anything: "sql_like ''%'' t"
  by (induction t) simp_all

text \<open>C40: The two searches by pattern find exactly the paths they mean, whatever characters the input has: the
  reversed pattern the paths that end in a slash and the suffix, and the Maven pattern the paths below the
  directory of the group and the artifact.\<close>

theorem search_patterns_are_literal:
  "(sql_like (reverse_suffix_for_like suf @ ''%'') (rev path) \<longleftrightarrow> ends_with (''/'' @ suf) path)
   \<and> (sql_like (maven_ga_like_pattern grp artifact) path
      \<longleftrightarrow> starts_with (map (\<lambda>c. if c = CHR ''.'' then CHR ''/'' else c) grp @ ''/'' @ artifact @ ''/'') path)"
proof
  have pre: "(\<exists>u. t = s @ u) \<longleftrightarrow> starts_with s t" for s t :: string
    by (auto simp: starts_with_def) (metis append_take_drop_id)
  have "sql_like (reverse_suffix_for_like suf @ ''%'') (rev path) \<longleftrightarrow> (\<exists>u. rev path = rev (CHR ''/'' # suf) @ u)"
    by (simp only: reverse_suffix_for_like_def like_literal like_anything simp_thms)
  then show "sql_like (reverse_suffix_for_like suf @ ''%'') (rev path) \<longleftrightarrow> ends_with (''/'' @ suf) path"
    by (simp only: pre ends_with_def append_Cons append_Nil)
  let ?g = "map (\<lambda>c. if c = CHR ''.'' then CHR ''/'' else c) grp"
  have "escape_like_literal ?g @ ''/'' @ escape_like_literal artifact @ ''/%''
      = escape_like_literal (?g @ ''/'' @ artifact @ ''/'') @ ''%''"
    by (simp add: escape_like_literal_def)
  then have "sql_like (maven_ga_like_pattern grp artifact) path \<longleftrightarrow> (\<exists>u. path = (?g @ ''/'' @ artifact @ ''/'') @ u)"
    by (simp only: maven_ga_like_pattern_def like_literal like_anything simp_thms)
  then show "sql_like (maven_ga_like_pattern grp artifact) path \<longleftrightarrow> starts_with (?g @ ''/'' @ artifact @ ''/'') path"
    by (simp only: pre)
qed

section \<open>The guard\<close>

lemma first_some_Some: "first_some f xs = Some y \<Longrightarrow> \<exists>x \<in> set xs. f x = Some y"
  by (induction xs) (auto split: option.splits)

lemma local_fetch_ok:
  assumes "local_fetch_by_path env s path rid loc = Inr (c, ct)"
  shows "\<exists>a \<in> set (db_artifacts (rg_db s)). \<not> art_deleted a \<and> art_repository a = rid \<and> art_path a = path
    \<and> check_download_allowed (art_quarantine a) (art_until a) (cv_now (fe_content env)) = Inr ()
    \<and> rg_objects s (address_of loc (art_storage_key a)) = Some c"
proof -
  obtain a where a: "find_row env (at_path rid path) s = Inr a" and c: "serve_row env loc a s = Inr (c, ct)"
    using assms by (auto simp: local_fetch_by_path_def bind_result_Inr_iff)
  have "find (\<lambda>a. \<not> art_deleted a \<and> at_path rid path a) (db_artifacts (rg_db s)) = Some a"
    using a by (auto simp: find_row_def split: option.splits)
  then have "a \<in> set (db_artifacts (rg_db s))" "\<not> art_deleted a" "at_path rid path a" by (auto dest: find_SomeD)
  moreover have "check_download_allowed (art_quarantine a) (art_until a) (cv_now (fe_content env)) = Inr ()"
    "read_content env loc (art_storage_key a) s = Inr c"
    using c by (auto simp: serve_row_def bind_result_Inr_iff check_quarantine_row_def split: sum.splits)
  ultimately show ?thesis
    by (auto simp: at_path_def read_content_def store_get_def split: sum.splits option.splits app_error.splits)
qed

lemma fetched_member:
  assumes "fetch_virtual_members env v s = Inr ms" "m \<in> set ms"
  shows "m \<in> set (db_repos (rg_db s))"
proof -
  have ms: "ms = map fst (member_rows v (rg_db s))"
    using assms(1) by (simp add: fetch_virtual_members_def split: option.splits)
  then obtain p where "(m, p) \<in> set (member_rows v (rg_db s))" using assms(2) by auto
  then have "\<exists>i. find_repo i (rg_db s) = Some m"
    unfolding member_rows_def List.map_filter_def by auto
  then show ?thesis using find_repo_some by blast
qed

lemma owned_guard:
  assumes "fetch_virtual_members env v s = Inr ms" "m \<in> set ms" "rw_type m \<noteq> RemoteRepo"
    "a \<in> set (db_artifacts (rg_db s))" "\<not> art_deleted a" "art_repository a = rw_id m" "art_path a = path"
    "fe_fail env ''shadowing guard'' = None"
  shows "virtual_non_remote_owns_path env v path s = Inr True"
proof -
  have "rw_id m \<in> set (map rw_id (filter (\<lambda>m. rw_type m \<noteq> RemoteRepo) ms))" using assms(2,3) by auto
  moreover from this have "map rw_id (filter (\<lambda>m. rw_type m \<noteq> RemoteRepo) ms) \<noteq> []" by (metis empty_iff list.set(1))
  moreover have "list_ex (\<lambda>x. art_repository x \<in> set (map rw_id (filter (\<lambda>m. rw_type m \<noteq> RemoteRepo) ms)) \<and> \<not> art_deleted x
      \<and> art_path x = path) (db_artifacts (rg_db s))"
    unfolding list_ex_iff using assms(4-7) calculation(1) by metis
  ultimately show ?thesis
    using assms(1,8) unfolding virtual_non_remote_owns_path_def guard_query_def Let_def by simp
qed

text \<open>C10: When a member of a virtual repository that is not remote owns a live artifact at the path, no
  upstream is asked for that path, whatever the order of the members and whatever an upstream would answer;
  what is served is the content of a live artifact of such a member that no quarantine holds, and it hashes
  to that artifact's checksum.\<close>

theorem owned_path_is_never_shadowed:
  assumes "fetch_virtual_members env v s = Inr ms" "m \<in> set ms" "rw_type m \<noteq> RemoteRepo"
    "a \<in> set (db_artifacts (rg_db s))" "\<not> art_deleted a" "art_repository a = rw_id m" "art_path a = path"
    "fe_fail env ''shadowing guard'' = None" "content_ok sha s" "repos_ok (rg_db s)"
  shows "download_from_virtual env v path s = download_from_virtual (env\<lparr> fe_proxy := None \<rparr>) v path s
    \<and> (\<forall>c ct. download_from_virtual env v path s = Inr (c, ct) \<longrightarrow>
        (\<exists>b \<in> set (db_artifacts (rg_db s)). \<exists>n \<in> set ms. rw_type n \<noteq> RemoteRepo \<and> art_repository b = rw_id n
           \<and> \<not> art_deleted b \<and> art_path b = path \<and> sha c = art_sha256 b
           \<and> check_download_allowed (art_quarantine b) (art_until b) (cv_now (fe_content env)) = Inr ()))"
proof
  let ?env = "env\<lparr> fe_proxy := None \<rparr>"
  have p: "fe_content ?env = fe_content env" "fe_registered ?env = fe_registered env" "fe_pool_text ?env = fe_pool_text env"
    by simp_all
  have same: "fetch_virtual_members ?env v s = fetch_virtual_members env v s"
    "virtual_non_remote_owns_path ?env v path s = virtual_non_remote_owns_path env v path s"
    "local_fetch_by_path ?env s path = local_fetch_by_path env s path"
    "fetch_from_member ?env None path f x = fetch_from_member env None path f x" for f x
    unfolding fetch_virtual_members_def virtual_non_remote_owns_path_def guard_query_def local_fetch_by_path_def
      find_row_def serve_row_def check_quarantine_row_def storage_for_repo_or_500_def read_content_def
      fetch_from_member_def proxy_fetch_def p by (rule refl)+
  note owned = owned_guard[OF assms(1-8)]
  then have run: "download_from_virtual env v path s =
      (case resolve_virtual_download env None v path (local_fetch_by_path env s path) s of
         Inl _ \<Rightarrow> Inl (NotFound ''Artifact not found in any member repository'') | Inr x \<Rightarrow> Inr x)"
    by (simp add: download_from_virtual_def)
  moreover have "download_from_virtual ?env v path s =
      (case resolve_virtual_download ?env None v path (local_fetch_by_path env s path) s of
         Inl _ \<Rightarrow> Inl (NotFound ''Artifact not found in any member repository'') | Inr x \<Rightarrow> Inr x)"
    using owned by (simp add: download_from_virtual_def same)
  moreover have "fetch_from_member ?env None path f = fetch_from_member env None path f" for f
    by (intro ext) (rule same(4))
  then have "resolve_virtual_download ?env None v path (local_fetch_by_path env s path) s
      = resolve_virtual_download env None v path (local_fetch_by_path env s path) s"
    by (simp only: resolve_virtual_download_def same(1))
  ultimately show "download_from_virtual env v path s = download_from_virtual ?env v path s" by simp
  show "\<forall>c ct. download_from_virtual env v path s = Inr (c, ct) \<longrightarrow>
        (\<exists>b \<in> set (db_artifacts (rg_db s)). \<exists>n \<in> set ms. rw_type n \<noteq> RemoteRepo \<and> art_repository b = rw_id n
           \<and> \<not> art_deleted b \<and> art_path b = path \<and> sha c = art_sha256 b
           \<and> check_download_allowed (art_quarantine b) (art_until b) (cv_now (fe_content env)) = Inr ())"
  proof (intro allI impI)
    fix c ct assume "download_from_virtual env v path s = Inr (c, ct)"
    then have "first_some (fetch_from_member env None path (local_fetch_by_path env s path)) ms = Some (c, ct)"
      using run assms(1) by (auto simp: resolve_virtual_download_def split: sum.splits option.splits if_splits)
    then obtain n where n: "n \<in> set ms" "fetch_from_member env None path (local_fetch_by_path env s path) n = Some (c, ct)"
      using first_some_Some by metis
    then have kind: "rw_type n \<noteq> RemoteRepo" and "local_fetch_by_path env s path (rw_id n) (storage_location n) = Inr (c, ct)"
      by (auto simp: fetch_from_member_def virtual_member_fetch_strategy_def split: repository_type.splits sum.splits)
    then obtain b where b: "b \<in> set (db_artifacts (rg_db s))" "\<not> art_deleted b" "art_repository b = rw_id n"
      "art_path b = path" "check_download_allowed (art_quarantine b) (art_until b) (cv_now (fe_content env)) = Inr ()"
      "rg_objects s (address_of (storage_location n) (art_storage_key b)) = Some c"
      using local_fetch_ok by metis
    have "n \<in> set (db_repos (rg_db s))" by (rule fetched_member[OF assms(1) n(1)])
    then have "find_repo (art_repository b) (rg_db s) = Some n" using find_repo_unique assms(10) b(3) by simp
    then have "sha c = art_sha256 b" using content_hash[OF assms(9) b(1,2)] b(6) by auto
    then show "\<exists>b \<in> set (db_artifacts (rg_db s)). \<exists>n \<in> set ms. rw_type n \<noteq> RemoteRepo \<and> art_repository b = rw_id n
           \<and> \<not> art_deleted b \<and> art_path b = path \<and> sha c = art_sha256 b
           \<and> check_download_allowed (art_quarantine b) (art_until b) (cv_now (fe_content env)) = Inr ()"
      using b n(1) kind by blast
  qed
qed

text \<open>A registry with a virtual repository over the hosted one, holding its artifact, and a remote one.\<close>

definition sample_virtual :: repo_row where
  "sample_virtual = hosted_sample\<lparr> rw_id := 2, rw_key := ''all'', rw_type := VirtualRepo, rw_public := True,
     rw_path := ''/data/all'', rw_quota := None \<rparr>"

definition sample_mirror :: repo_row where
  "sample_mirror = hosted_sample\<lparr> rw_id := 3, rw_key := ''mirror'', rw_type := RemoteRepo, rw_path := ''/data/mirror'',
     rw_upstream := Some ''https://mirror.example'', rw_quota := None \<rparr>"

definition sample_group :: "uuid \<Rightarrow> registry" where
  "sample_group inner = sample_uploaded\<lparr> rg_db := (rg_db sample_uploaded)\<lparr>
     db_repos := [hosted_sample, sample_virtual, sample_mirror,
                  sample_virtual\<lparr> rw_id := 4, rw_key := ''inner'', rw_path := ''/data/inner'' \<rparr>],
     db_members := [\<lparr> vm_virtual = 2, vm_member = 3, vm_priority = 1 \<rparr>, \<lparr> vm_virtual = 2, vm_member = inner, vm_priority = 2 \<rparr>,
                    \<lparr> vm_virtual = 4, vm_member = 1, vm_priority = 1 \<rparr>] \<rparr> \<rparr>"

definition sample_fetch :: fetch_env where
  "sample_fetch = \<lparr> fe_content = content_sample, fe_registered = (\<lambda>_. False),
     fe_proxy = Some (\<lambda>_ _ _ _. Inr (''evil'', None)), fe_pool_text = [] \<rparr>"

lemma sample_members:
  "fetch_virtual_members sample_fetch 2 (sample_group 1) = Inr [sample_mirror, hosted_sample]"
  "fetch_virtual_members sample_fetch 2 (sample_group 4)
     = Inr [sample_mirror, sample_virtual\<lparr> rw_id := 4, rw_key := ''inner'', rw_path := ''/data/inner'' \<rparr>]"
  by (simp_all add: fetch_virtual_members_def member_rows_def members_of_def find_repo_def List.map_filter_def
      sample_group_def sample_uploaded_def sample_fetch_def sample_virtual_def sample_mirror_def sample_defs)

lemma sample_group_ok: "content_ok sample_digest (sample_group n)" "repos_ok (rg_db (sample_group n))"
proof -
  have sample: "content_ok sample_digest sample_uploaded"
    using upload_ok[of content_sample sample_registry "jar_params ''one''" hosted_sample]
      sample_content_ok sample_find sample_digest_hex sample_upload_result
    by (simp add: content_sample_def jar_params_def)
  have objs: "rg_objects (sample_group n) = rg_objects sample_uploaded"
    "db_artifacts (rg_db (sample_group n)) = db_artifacts (rg_db sample_uploaded)"
    by (simp_all add: sample_group_def)
  have "find_repo 1 (rg_db (sample_group n)) = find_repo 1 (rg_db sample_uploaded)"
    by (simp add: find_repo_def sample_group_def sample_uploaded_def sample_registry_def hosted_sample_def)
  moreover have "art_repository a = 1" if "a \<in> set (db_artifacts (rg_db sample_uploaded))" for a
    using that by (simp add: sample_uploaded_def fresh_row_def jar_params_def)
  ultimately have "has_content (sample_group n) a = has_content sample_uploaded a"
    if "a \<in> set (db_artifacts (rg_db sample_uploaded))" for a
    using that unfolding has_content_def objs by simp
  then show "content_ok sample_digest (sample_group n)"
    using sample unfolding content_ok_def objects_hash_def objs by simp
  show "repos_ok (rg_db (sample_group n))"
    by (simp add: repos_ok_def sample_group_def sample_virtual_def sample_mirror_def hosted_sample_def)
qed

lemma sample_group_row:
  "fresh_row content_sample (jar_params ''one'') \<in> set (db_artifacts (rg_db (sample_group n)))"
  by (simp add: sample_group_def sample_uploaded_def)

theorem owned_path_is_never_shadowed_witness:
  "download_from_virtual sample_fetch 2 ''lib/1.0/lib.jar'' (sample_group 1)
     = download_from_virtual (sample_fetch\<lparr> fe_proxy := None \<rparr>) 2 ''lib/1.0/lib.jar'' (sample_group 1)
   \<and> download_from_virtual sample_fetch 2 ''lib/1.0/lib.jar'' (sample_group 1) \<noteq> Inr (''evil'', None)"
proof -
  let ?a = "fresh_row content_sample (jar_params ''one'')"
  have a: "\<not> art_deleted ?a" "art_repository ?a = rw_id hosted_sample" "art_path ?a = ''lib/1.0/lib.jar''"
    by (simp_all add: fresh_row_def jar_params_def hosted_sample_def)
  have hosted: "rw_type hosted_sample \<noteq> RemoteRepo" by (simp add: hosted_sample_def)
  have fail: "fe_fail sample_fetch ''shadowing guard'' = None" by (simp add: sample_fetch_def content_sample_def)
  note main = owned_path_is_never_shadowed[OF sample_members(1) _ hosted sample_group_row a fail sample_group_ok]
  have same: "download_from_virtual sample_fetch 2 ''lib/1.0/lib.jar'' (sample_group 1)
     = download_from_virtual (sample_fetch\<lparr> fe_proxy := None \<rparr>) 2 ''lib/1.0/lib.jar'' (sample_group 1)"
    using main by simp
  have "sample_digest ''evil'' \<noteq> sample_digest ''one''" by (simp add: sample_digest_def)
  moreover have "art_sha256 b = sample_digest ''one''" if "b \<in> set (db_artifacts (rg_db (sample_group 1)))" for b
    using that by (simp add: sample_group_def sample_uploaded_def fresh_row_def content_sample_def jar_params_def)
  ultimately have "download_from_virtual sample_fetch 2 ''lib/1.0/lib.jar'' (sample_group 1) \<noteq> Inr (''evil'', None)"
    using main by fastforce
  then show ?thesis using same by blast
qed

section \<open>Nested virtual repositories\<close>

text \<open>C38: A virtual repository may be a member of another, but neither the guard nor the resolution looks into
  it: its own members are never asked, and a package that one of them owns is served from any remote member
  of the outer repository that answers for its path.\<close>

theorem nested_member_is_shadowed:
  assumes "fetch_virtual_members env v s = Inr [remote, nested]" "rw_type remote = RemoteRepo" "rw_type nested = VirtualRepo"
    "rw_upstream remote = Some upstream" "fe_proxy env = Some proxy"
    "proxy (rw_id remote) (rw_key remote) upstream path = Inr answer"
    "\<forall>a \<in> set (db_artifacts (rg_db s)). art_repository a \<noteq> rw_id nested" "fe_fail env ''shadowing guard'' = None"
  shows "download_from_virtual env v path s = Inr answer"
proof -
  have "virtual_non_remote_owns_path env v path s = Inr False"
    using assms(1-3,7,8) by (auto simp: virtual_non_remote_owns_path_def guard_query_def list_ex_iff)
  moreover have "fetch_from_member env (Some proxy) path f remote = Some answer" for f
    using assms(2,4,6) by (simp add: fetch_from_member_def virtual_member_fetch_strategy_def proxy_fetch_def)
  ultimately show ?thesis
    using assms(1,5) by (simp add: download_from_virtual_def resolve_virtual_download_def)
qed

theorem nested_member_is_shadowed_witness:
  "download_from_virtual sample_fetch 2 ''lib/1.0/lib.jar'' (sample_group 4) = Inr (''evil'', None)
   \<and> (\<exists>a \<in> set (db_artifacts (rg_db (sample_group 4))). art_repository a = 1 \<and> art_path a = ''lib/1.0/lib.jar''
        \<and> (4, 1) \<in> member_edges (rg_db (sample_group 4)) \<and> (2, 4) \<in> member_edges (rg_db (sample_group 4)))"
proof -
  have "download_from_virtual sample_fetch 2 ''lib/1.0/lib.jar'' (sample_group 4) = Inr (''evil'', None)"
    by (rule nested_member_is_shadowed[OF sample_members(2), where proxy = "\<lambda>_ _ _ _. Inr (''evil'', None)"
          and upstream = "''https://mirror.example''"])
      (simp add: sample_mirror_def sample_virtual_def hosted_sample_def sample_fetch_def content_sample_def
        sample_group_def sample_uploaded_def fresh_row_def jar_params_def; fail)+
  moreover have "(4, 1) \<in> member_edges (rg_db (sample_group 4))" "(2, 4) \<in> member_edges (rg_db (sample_group 4))"
    by (auto simp: member_edges_image sample_group_def)
  moreover have "art_repository (fresh_row content_sample (jar_params ''one'')) = 1"
    "art_path (fresh_row content_sample (jar_params ''one'')) = ''lib/1.0/lib.jar''"
    by (simp_all add: fresh_row_def jar_params_def)
  ultimately show ?thesis using sample_group_row by blast
qed

end
