(* ===== verification/Artifact_Api.thy ===== *)
theory Artifact_Api
  imports Virtual_Resolution Uploads
begin

text \<open>
  The artifact requests of the repository API (\<open>api/handlers/repositories.rs\<close>): upload, raw or as a form,
  download and deletion. They compose the guards of the repository API, the artifact service, the routing
  rules and the resolution of virtual repositories. Plugins, the guess of a content type and the signing of
  URLs are parameters; response headers and the listing of artifacts are left out.
\<close>

section \<open>Environment\<close>

record plugin =
  pg_validate :: "string \<Rightarrow> string \<Rightarrow> string + (string + unit)"
  pg_metadata :: "string \<Rightarrow> string \<Rightarrow> (string option \<times> string) option"

record artifact_env =
  aa_fetch :: fetch_env
  aa_api :: api_env
  aa_plugins :: "string \<Rightarrow> plugin option"
  aa_mime :: "string \<Rightarrow> string"
  aa_presign :: "location \<Rightarrow> (string \<Rightarrow> string option result) option"

abbreviation aa_content :: "artifact_env \<Rightarrow> content_env" where
  "aa_content env \<equiv> fe_content (aa_fetch env)"

record upload_headers =
  uh_sha256 :: "string option"
  uh_sha1 :: "string option"
  uh_md5 :: "string option"

definition repo_for :: "artifact_env \<Rightarrow> string \<Rightarrow> (registry, repo_row) action" where
  "repo_for env key = on_db (repo_by_key (cv_repo (aa_content env)) key)"

section \<open>Upload\<close>

definition check_artifact_path :: "string \<Rightarrow> unit result" where
  "check_artifact_path path =
     (case validate_artifact_path path of
        Inr _ \<Rightarrow> Inr ()
      | Inl (InvalidChunk m) \<Rightarrow> Inl (Validation (''invalid chunk: '' @ m))
      | Inl _ \<Rightarrow> Inl (Validation []))"

definition file_name :: "string \<Rightarrow> string" where
  "file_name path = last (split_char (CHR ''/'') path)"

definition derive_name_version :: "string \<Rightarrow> string \<times> string option" where
  "derive_name_version path =
     (let segments = split_char (CHR ''/'') path
      in if 3 \<le> length segments then (segments ! 0, Some (segments ! 1)) else (file_name path, None))"

definition run_plugin :: "plugin \<Rightarrow> string \<Rightarrow> string \<Rightarrow> (string option \<times> string) option result" where
  "run_plugin g path body =
     (case pg_validate g path body of
        Inl e \<Rightarrow> Inl (Internal (''Plugin error: '' @ e))
      | Inr (Inl e) \<Rightarrow> Inl (Validation e)
      | Inr (Inr _) \<Rightarrow> Inr (pg_metadata g path body))"

definition plugin_metadata ::
  "artifact_env \<Rightarrow> string option \<Rightarrow> string \<Rightarrow> string \<Rightarrow> (string option \<times> string) option result" where
  "plugin_metadata env fk path body =
     (case Option.bind fk (aa_plugins env) of None \<Rightarrow> Inr None | Some g \<Rightarrow> run_plugin g path body)"

text \<open>The statement fails when an approval refers to the row; its error is ignored.\<close>

definition cleanup_soft_deleted_artifact :: "artifact_env \<Rightarrow> uuid \<Rightarrow> string \<Rightarrow> (registry, unit) action" where
  "cleanup_soft_deleted_artifact env rid path =
     ignore_error (execute (cv_fail (aa_content env)) ''cleanup'' (\<lambda>s.
       let dead = (\<lambda>a. at_path rid path a \<and> art_deleted a)
       in if list_ex (\<lambda>a. dead a \<and> art_id a \<in> set (rg_approvals s)) (db_artifacts (rg_db s)) then s
          else s\<lparr> rg_db := (rg_db s)\<lparr> db_artifacts := filter (\<lambda>a. \<not> dead a) (db_artifacts (rg_db s)) \<rparr> \<rparr>))"

definition upload_params_for ::
  "artifact_env \<Rightarrow> repo_row \<Rightarrow> string \<Rightarrow> string \<Rightarrow> (string option \<times> string) option \<Rightarrow> uuid \<Rightarrow> upload_params" where
  "upload_params_for env r path body meta uid =
     (let (name, version) = (case meta of Some (v, _) \<Rightarrow> (file_name path, v) | None \<Rightarrow> derive_name_version path)
      in \<lparr> pm_repository = rw_id r, pm_path = path, pm_name = name, pm_version = version,
           pm_content_type = (case meta of Some (_, t) \<Rightarrow> t | None \<Rightarrow> aa_mime env path), pm_data = body,
           pm_uploaded_by = Some uid \<rparr>)"

definition upload_artifact ::
  "artifact_env \<Rightarrow> auth_extension option \<Rightarrow> string \<Rightarrow> string \<Rightarrow> upload_headers \<Rightarrow> string \<Rightarrow> (registry, stored_artifact) action" where
  "upload_artifact env auth key path hdrs body =
     andthen (require_caller auth ''write'') (\<lambda>a.
     andthen (of_result (check_artifact_path path)) (\<lambda>_.
     andthen (repo_for env key) (\<lambda>r.
     andthen (of_result (require_repo_access a (rw_id r))) (\<lambda>_.
     andthen (of_result (verify_checksums (aa_content env) body (uh_sha256 hdrs) (uh_sha1 hdrs) (uh_md5 hdrs))) (\<lambda>_.
     andthen (of_result (backend_for (fe_registered (aa_fetch env)) (storage_location r))) (\<lambda>_.
     andthen (on_db (get_format_key (cv_repo (aa_content env)) (rw_id r))) (\<lambda>fk.
     andthen (of_result (plugin_metadata env fk path body)) (\<lambda>meta.
     andthen (cleanup_soft_deleted_artifact env (rw_id r) path) (\<lambda>_.
     andthen (upload (aa_content env) (storage_location r) (upload_params_for env r path body meta (user_id a))) (\<lambda>artifact.
     andthen (select (cv_fail (aa_content env)) ''download stats'' (\<lambda>_. ())) (\<lambda>_.
     give artifact)))))))))))"

text \<open>A form as it arrives: a file or a text field with its content or the error of reading it, or the error that
  ends the form.\<close>

datatype form_field = FileField string "string + string" | TextField "string option" "string + string" | BadForm string

text \<open>The first file and the last text field named \<open>path\<close>; further files are not read.\<close>

fun read_form ::
  "form_field list \<Rightarrow> (string \<times> string) option \<Rightarrow> string option \<Rightarrow> (string \<times> string \<times> string option) result" where
  "read_form [] file path =
     (case file of
        Some (d, n) \<Rightarrow> Inr (d, n, path)
      | None \<Rightarrow> Inl (Validation ''No file field found in multipart form''))"
| "read_form (BadForm e # fs) file path = Inl (Validation (''Invalid multipart data: '' @ e))"
| "read_form (FileField n content # fs) file path =
     (if file \<noteq> None then read_form fs file path
      else (case content of
              Inl e \<Rightarrow> Inl (Validation (''Failed to read file: '' @ e))
            | Inr d \<Rightarrow> read_form fs (Some (d, n)) path))"
| "read_form (TextField k content # fs) file path =
     (if k \<noteq> Some ''path'' then read_form fs file path
      else (case content of
              Inl e \<Rightarrow> Inl (Validation (''Failed to read path field: '' @ e))
            | Inr v \<Rightarrow> read_form fs file (Some v)))"

definition extract_multipart_file_and_path :: "form_field list \<Rightarrow> (string \<times> string \<times> string option) result" where
  "extract_multipart_file_and_path form = read_form form None None"

fun extract_multipart_file :: "form_field list \<Rightarrow> (string \<times> string) result" where
  "extract_multipart_file [] = Inl (Validation ''No file field found in multipart form'')"
| "extract_multipart_file (BadForm e # fs) = Inl (Validation (''Invalid multipart data: '' @ e))"
| "extract_multipart_file (FileField n content # fs) =
     (case content of Inl e \<Rightarrow> Inl (Validation (''Failed to read file: '' @ e)) | Inr d \<Rightarrow> Inr (d, n))"
| "extract_multipart_file (TextField k content # fs) = extract_multipart_file fs"

definition compose_artifact_path :: "string option \<Rightarrow> string \<Rightarrow> string" where
  "compose_artifact_path custom filename =
     (let trimmed = trim_start_matches (CHR ''/'') (trim (case custom of None \<Rightarrow> [] | Some p \<Rightarrow> p))
      in if trimmed = [] then filename
         else if ends_with ''/'' trimmed then trimmed @ filename
         else trimmed)"

definition upload_artifact_multipart ::
  "artifact_env \<Rightarrow> auth_extension option \<Rightarrow> string \<Rightarrow> upload_headers \<Rightarrow> form_field list
   \<Rightarrow> (registry, stored_artifact) action" where
  "upload_artifact_multipart env auth key hdrs form =
     andthen (of_result (extract_multipart_file_and_path form)) (\<lambda>(body, filename, custom).
     upload_artifact env auth key (compose_artifact_path custom filename) hdrs body)"

definition upload_artifact_multipart_with_path ::
  "artifact_env \<Rightarrow> auth_extension option \<Rightarrow> string \<Rightarrow> string \<Rightarrow> upload_headers \<Rightarrow> form_field list
   \<Rightarrow> (registry, stored_artifact) action" where
  "upload_artifact_multipart_with_path env auth key path hdrs form =
     andthen (of_result (extract_multipart_file form)) (\<lambda>(body, filename).
     upload_artifact env auth key (if path = [] \<or> path = ''/'' then filename else path) hdrs body)"

section \<open>Download\<close>

datatype download_outcome =
    Redirected string
  | Served stored_artifact string
  | Proxied "(string \<times> string option) reply"
  | FromMember string "string option"

definition quarantine_gate :: "artifact_env \<Rightarrow> repo_row \<Rightarrow> string \<Rightarrow> (registry, unit) action" where
  "quarantine_gate env r path =
     andthen (select (cv_fail (aa_content env)) ''quarantine row'' (\<lambda>s. live_at (rw_id r) path (rg_db s))) (\<lambda>row.
     case row of
       None \<Rightarrow> give ()
     | Some a \<Rightarrow> of_result (check_download_allowed (art_quarantine a) (art_until a) (cv_now (aa_content env))))"

text \<open>The redirect, when signing is enabled and the row exists. The row it then inserts is for a table that no
  migration creates; the error is ignored, so nothing is recorded.\<close>

definition try_redirect :: "artifact_env \<Rightarrow> repo_row \<Rightarrow> string \<Rightarrow> (registry, string option) action" where
  "try_redirect env r path =
     (case aa_presign env (storage_location r) of
        None \<Rightarrow> give None
      | Some sign \<Rightarrow>
          andthen (select (cv_fail (aa_content env)) ''redirect row'' (\<lambda>s. live_at (rw_id r) path (rg_db s))) (\<lambda>row.
          case row of
            None \<Rightarrow> give None
          | Some a \<Rightarrow>
              of_result (sign (art_storage_key a))))"

definition fetch_path :: "artifact_env \<Rightarrow> uuid \<Rightarrow> string \<Rightarrow> registry \<Rightarrow> string" where
  "fetch_path env rid path s =
     (case apply_routing_rules (ae_regex (aa_api env)) path
             (load_routing_rules (aa_api env) rid \<lparr> as_db = rg_db s, as_cache = Map.empty \<rparr>) of
        None \<Rightarrow> path | Some p \<Rightarrow> p)"

definition fallback :: "artifact_env \<Rightarrow> repo_row \<Rightarrow> string \<Rightarrow> app_error \<Rightarrow> (registry, download_outcome) action" where
  "fallback env r path e s =
     (case e of
        NotFound _ \<Rightarrow>
          (case rw_type r of
             RemoteRepo \<Rightarrow>
               (case (rw_upstream r, fe_proxy (aa_fetch env)) of
                  (Some u, Some p) \<Rightarrow> (Inr (Proxied (proxy_fetch (aa_fetch env) p r u (fetch_path env (rw_id r) path s))), s)
                | _ \<Rightarrow> (Inl (NotFound ''Artifact not found''), s))
           | VirtualRepo \<Rightarrow>
               (case download_from_virtual (aa_fetch env) (rw_id r) path s of
                  Inl e \<Rightarrow> (Inl e, s) | Inr (c, t) \<Rightarrow> (Inr (FromMember c t), s))
           | _ \<Rightarrow> (Inl e, s))
      | _ \<Rightarrow> (Inl e, s))"

definition download_artifact ::
  "artifact_env \<Rightarrow> auth_extension option \<Rightarrow> string \<Rightarrow> string \<Rightarrow> (registry, download_outcome) action" where
  "download_artifact env auth key path =
     andthen (repo_for env key) (\<lambda>r.
     andthen (of_result (require_visible r auth)) (\<lambda>_.
     andthen (quarantine_gate env r path) (\<lambda>_.
     andthen (of_result (backend_for (fe_registered (aa_fetch env)) (storage_location r))) (\<lambda>_.
     andthen (try_redirect env r path) (\<lambda>url.
     case url of
       Some u \<Rightarrow> give (Redirected u)
     | None \<Rightarrow> (\<lambda>s. case download (aa_content env) (storage_location r) (rw_id r) path (map_option user_id auth) s of
           (Inr (a, c), t) \<Rightarrow> (Inr (Served a c), t)
         | (Inl e, t) \<Rightarrow> fallback env r path e t))))))"

section \<open>Deletion\<close>

definition delete_artifact_api :: "artifact_env \<Rightarrow> auth_extension option \<Rightarrow> string \<Rightarrow> string \<Rightarrow> (registry, unit) action" where
  "delete_artifact_api env auth key path =
     andthen (require_caller auth ''delete'') (\<lambda>a.
     andthen (repo_for env key) (\<lambda>r.
     andthen (of_result (require_repo_access a (rw_id r))) (\<lambda>_.
     andthen (of_result (backend_for (fe_registered (aa_fetch env)) (storage_location r))) (\<lambda>_.
     andthen (select (cv_fail (aa_content env)) ''find artifact'' (\<lambda>s. live_at (rw_id r) path (rg_db s))) (\<lambda>found.
     andthen (some_or (NotFound ''Artifact not found'') found) (\<lambda>artifact.
     delete_artifact (aa_content env) (art_id artifact)))))))"

section \<open>What a caller may read\<close>

lemma repo_for_ok: "repo_for env key s = (Inr r, t)
    \<longleftrightarrow> t = s \<and> ry_fail (cv_repo (aa_content env)) ''get by key'' = None \<and> find (\<lambda>x. rw_key x = key) (db_repos (rg_db s)) = Some r"
  by (auto simp: repo_for_def repo_by_key_def action_simps)

text \<open>C37: A download through a public virtual repository asks for no right on the member that has the artifact:
  anyone, without credentials, gets the content of a private repository that is a member of a public virtual
  one.\<close>

theorem private_member_is_public:
  assumes "find (\<lambda>x. rw_key x = key) (db_repos (rg_db s)) = Some v" "rw_type v = VirtualRepo" "rw_public v"
    "live_at (rw_id v) path (rg_db s) = None" "aa_presign env (storage_location v) = None"
    "fetch_virtual_members (aa_fetch env) (rw_id v) s = Inr [m]" "rw_type m \<noteq> RemoteRepo" "\<not> rw_public m"
    "live_at (rw_id m) path (rg_db s) = Some a"
    "check_download_allowed (art_quarantine a) (art_until a) (cv_now (aa_content env)) = Inr ()"
    "rg_objects s (address_of (storage_location m) (art_storage_key a)) = Some c"
    "backend_for (fe_registered (aa_fetch env)) (storage_location v) = Inr ()"
    "backend_for (fe_registered (aa_fetch env)) (storage_location m) = Inr ()"
    "\<And>stmt. cv_fail (aa_content env) stmt = None" "\<And>stmt. ry_fail (cv_repo (aa_content env)) stmt = None"
  shows "download_artifact env None key path s = (Inr (FromMember c (Some (art_content_type a))), s)"
proof -
  have repo: "repo_for env key s = (Inr v, s)" using assms(1,15) by (simp add: repo_for_ok)
  have same: "find (\<lambda>a. \<not> art_deleted a \<and> at_path (rw_id m) path a) (db_artifacts (rg_db s)) = Some a"
    using assms(9) unfolding live_at_def at_path_def by (simp add: conj_ac)
  have content: "local_fetch_by_path (aa_fetch env) s path (rw_id m) (storage_location m) = Inr (c, Some (art_content_type a))"
    using same assms(10,11,13,14)
    by (simp add: local_fetch_by_path_def find_row_def serve_row_def check_quarantine_row_def storage_for_repo_or_500_def
        read_content_def store_get_def)
  then have "fetch_from_member (aa_fetch env) px path (local_fetch_by_path (aa_fetch env) s path) m
      = Some (c, Some (art_content_type a))" for px
    using assms(7) by (cases "rw_type m") (simp_all add: fetch_from_member_def virtual_member_fetch_strategy_def)
  moreover have "\<exists>b. virtual_non_remote_owns_path (aa_fetch env) (rw_id v) path s = Inr b"
    using assms(6,7,14) by (simp add: virtual_non_remote_owns_path_def guard_query_def)
  ultimately have "download_from_virtual (aa_fetch env) (rw_id v) path s = Inr (c, Some (art_content_type a))"
    using assms(6) by (auto simp: download_from_virtual_def resolve_virtual_download_def)
  moreover have "download (aa_content env) (storage_location v) (rw_id v) path None s = (Inl (NotFound ''Artifact not found''), s)"
    using assms(4,14) by (simp add: download_def run_simps)
  ultimately show ?thesis
    using repo assms(2-5,12,14)
    by (simp add: download_artifact_def andthen_def require_visible_def quarantine_gate_def select_def give_def of_result_def
        try_redirect_def fallback_def)
qed

definition sample_artifact_env :: artifact_env where
  "sample_artifact_env = \<lparr> aa_fetch = sample_fetch, aa_api = sample_api, aa_plugins = (\<lambda>_. None),
     aa_mime = (\<lambda>_. ''application/java-archive''), aa_presign = (\<lambda>_. None) \<rparr>"

definition sample_exposed :: registry where
  "sample_exposed = (sample_group 1)\<lparr> rg_db := (rg_db (sample_group 1))\<lparr>
     db_members := [\<lparr> vm_virtual = 2, vm_member = 1, vm_priority = 1 \<rparr>] \<rparr> \<rparr>"

theorem private_member_is_public_witness:
  "\<exists>c t. download_artifact sample_artifact_env None ''all'' ''lib/1.0/lib.jar'' sample_exposed = (Inr (FromMember c t), sample_exposed)
    \<and> \<not> rw_public hosted_sample"
proof -
  let ?a = "fresh_row content_sample (jar_params ''one'')" and ?s = sample_exposed
  have "find (\<lambda>x. rw_key x = ''all'') (db_repos (rg_db ?s)) = Some sample_virtual"
    by (simp add: sample_exposed_def sample_group_def sample_virtual_def hosted_sample_def)
  moreover have "rw_type sample_virtual = VirtualRepo" "rw_public sample_virtual" "rw_id sample_virtual = 2"
    "rw_type hosted_sample \<noteq> RemoteRepo" "\<not> rw_public hosted_sample" "rw_id hosted_sample = 1"
    by (simp_all add: sample_virtual_def hosted_sample_def)
  moreover have "live_at 2 ''lib/1.0/lib.jar'' (rg_db ?s) = None" "live_at 1 ''lib/1.0/lib.jar'' (rg_db ?s) = Some ?a"
    "check_download_allowed (art_quarantine ?a) (art_until ?a) n = Inr ()" for n
    by (simp_all add: live_at_def sample_exposed_def sample_group_def sample_uploaded_def fresh_row_def jar_params_def
        check_download_allowed_def)
  moreover have "fetch_virtual_members sample_fetch 2 ?s = Inr [hosted_sample]"
    by (simp add: fetch_virtual_members_def member_rows_def members_of_def find_repo_def List.map_filter_def
        sample_exposed_def sample_group_def sample_fetch_def content_sample_def hosted_sample_def)
  moreover have "rg_objects ?s (address_of (storage_location hosted_sample) (art_storage_key ?a)) = Some ''one''"
    by (simp add: sample_exposed_def sample_group_def sample_uploaded_def fresh_row_def jar_params_def)
  moreover have "aa_presign sample_artifact_env l = None" "aa_fetch sample_artifact_env = sample_fetch"
    "cv_fail (aa_content sample_artifact_env) stmt = None" "ry_fail (cv_repo (aa_content sample_artifact_env)) stmt = None" for l stmt
    by (simp_all add: sample_artifact_env_def sample_fetch_def content_sample_def)
  moreover have "backend_for f (storage_location sample_virtual) = Inr ()" "backend_for f (storage_location hosted_sample) = Inr ()" for f
    by (simp_all add: backend_for_def storage_location_def sample_virtual_def hosted_sample_def)
  ultimately have "download_artifact sample_artifact_env None ''all'' ''lib/1.0/lib.jar'' ?s
      = (Inr (FromMember ''one'' (Some (art_content_type ?a))), ?s)"
    by (intro private_member_is_public[where v = sample_virtual and m = hosted_sample]) simp_all
  then show ?thesis by (auto simp: hosted_sample_def)
qed

section \<open>Upload, then download\<close>

lemma cleanup_ok:
  assumes "content_ok sha s" "cleanup_soft_deleted_artifact env rid path s = (r, t)"
  shows "content_ok sha t" "db_repos (rg_db t) = db_repos (rg_db s)"
proof -
  have "t = s \<or> (\<exists>P. t = s\<lparr> rg_db := (rg_db s)\<lparr> db_artifacts := filter P (db_artifacts (rg_db s)) \<rparr> \<rparr>)"
    using assms(2) by (auto simp: cleanup_soft_deleted_artifact_def run_simps Let_def split: option.splits if_splits)
  moreover have "content_ok sha (s\<lparr> rg_db := (rg_db s)\<lparr> db_artifacts := filter P (db_artifacts (rg_db s)) \<rparr> \<rparr>)" for P
    by (rule content_ok_replace[OF assms(1)]) (use assms(1) in \<open>auto simp: content_ok_def\<close>)
  ultimately show "content_ok sha t" "db_repos (rg_db t) = db_repos (rg_db s)" using assms(1) by auto
qed

text \<open>C6: What was uploaded through the API is what the API serves at that path to any caller who may see the
  repository: the refusal of the quarantine gate when the row is held, and otherwise the artifact with
  content that has the digest of the uploaded body. This holds for every type of repository, so also for
  an upload into a proxy, whose upstream is then no longer asked for the path.\<close>

theorem uploaded_artifact_is_served:
  assumes "upload_artifact env auth key path hdrs body s = (Inr a, t)"
    "content_ok (cv_sha256 (aa_content env)) s" "repos_ok (rg_db s)" "hex_digest (cv_sha256 (aa_content env) body)"
    "find (\<lambda>x. rw_key x = key) (db_repos (rg_db s)) = Some r" "require_visible r auth' = Inr ()"
    "aa_presign env' (storage_location r) = None" "\<And>stmt. cv_fail (aa_content env') stmt = None"
    "\<And>stmt. ry_fail (cv_repo (aa_content env')) stmt = None" "\<And>info. cv_hook (aa_content env') BeforeDownload info = Inr ()"
    "backend_for (fe_registered (aa_fetch env')) (storage_location r) = Inr ()"
  shows "\<exists>b c. art_id b = art_id a \<and> cv_sha256 (aa_content env) c = cv_sha256 (aa_content env) body
    \<and> fst (download_artifact env' auth' key path t)
      = (case check_download_allowed (art_quarantine b) (art_until b) (cv_now (aa_content env')) of
           Inl e \<Rightarrow> Inl e | Inr _ \<Rightarrow> Inr (Served b c))"
proof -
  let ?sha = "cv_sha256 (aa_content env)"
  obtain a' s1 meta s2 where caller: "require_caller auth ''write'' s = (Inr a', s1)"
    and clean: "cleanup_soft_deleted_artifact env (rw_id r) path s1 = (Inr (), s2)"
    and up: "upload (aa_content env) (storage_location r) (upload_params_for env r path body meta (user_id a')) s2 = (Inr a, t)"
    using assms(1,5) by (auto simp: upload_artifact_def action_simps repo_for_ok get_format_key_def require_caller_def)
  have s1: "s1 = s" using caller by (auto simp: require_caller_def action_simps)
  have s2: "content_ok ?sha s2" "db_repos (rg_db s2) = db_repos (rg_db s)"
    using cleanup_ok[OF _ clean] assms(2) s1 by auto
  let ?p = "upload_params_for env r path body meta (user_id a')"
  have p: "pm_repository ?p = rw_id r" "pm_path ?p = path" "pm_data ?p = body"
    by (simp_all add: upload_params_for_def split: prod.split)
  have r: "find_repo (rw_id r) (rg_db s) = Some r"
    using find_repo_unique[OF assms(3)] find_SomeD[OF assms(5)] by blast
  then have r2: "find_repo (rw_id r) (rg_db s2) = Some r" using s2(2) by (simp add: find_repo_def)
  obtain b c where b: "live_at (rw_id r) path (rg_db t) = Some b" "art_id b = art_id a"
    "rg_objects t (address_of (storage_location r) (art_storage_key b)) = Some c" "?sha c = ?sha body"
    "db_repos (rg_db t) = db_repos (rg_db s)"
    using uploaded_content[OF up s2(1)] r2 p assms(4) s2(2) by metis
  have repo: "repo_for env' key t = (Inr r, t)" using assms(5,9) b(5) by (simp add: repo_for_ok)
  have "fst (download_artifact env' auth' key path t)
      = (case check_download_allowed (art_quarantine b) (art_until b) (cv_now (aa_content env')) of
           Inl e \<Rightarrow> Inl e | Inr _ \<Rightarrow> Inr (Served b c))"
    using assms(8,10)
    by (simp add: download_artifact_def andthen_def repo of_result_def assms(6,7,11) quarantine_gate_def select_def b(1)
        try_redirect_def give_def download_def run_simps get_object_def store_get_def b(3) split: sum.split)
  then show ?thesis using b(2,4) by blast
qed

lemma sample_upload_request:
  "upload_artifact sample_artifact_env (Some (sample_caller False)) ''maven-local'' ''lib/1.0/lib.jar''
     \<lparr> uh_sha256 = None, uh_sha1 = None, uh_md5 = None \<rparr> ''one'' sample_registry
   = (Inr (fresh_row content_sample (jar_params ''one'')), sample_uploaded)"
proof -
  let ?e = sample_artifact_env
  have env: "aa_content ?e = content_sample" "cv_fail content_sample = (\<lambda>_. None)" "aa_plugins ?e = (\<lambda>_. None)"
    by (simp_all add: sample_artifact_env_def sample_fetch_def content_sample_def)
  have "require_caller (Some (sample_caller False)) ''write'' sample_registry = (Inr (sample_caller False), sample_registry)"
    by (simp add: api_eval sample_caller_def)
  moreover have "check_artifact_path ''lib/1.0/lib.jar'' = Inr ()" by code_simp
  moreover have "repo_for ?e ''maven-local'' sample_registry = (Inr hosted_sample, sample_registry)"
    by (simp add: repo_for_ok env(1)) (simp add: sample_defs)
  moreover have "require_repo_access (sample_caller False) (rw_id hosted_sample) = Inr ()"
    by (simp add: require_repo_access_def can_access_repo_def sample_caller_def)
  moreover have "verify_checksums content_sample ''one'' None None None = Inr ()"
    by (simp add: verify_checksums_def verify_one_def)
  moreover have "backend_for f (storage_location hosted_sample) = Inr ()" for f
    by (simp add: backend_for_def storage_location_def hosted_sample_def)
  moreover have "on_db (get_format_key (cv_repo content_sample) (rw_id hosted_sample)) sample_registry = (Inr None, sample_registry)"
    by (simp add: run_simps get_format_key_def find_repo_def sample_defs)
  moreover have "cleanup_soft_deleted_artifact ?e (rw_id hosted_sample) ''lib/1.0/lib.jar'' sample_registry = (Inr (), sample_registry)"
    by (simp add: cleanup_soft_deleted_artifact_def run_simps env sample_registry_def)
  moreover have "upload_params_for ?e hosted_sample ''lib/1.0/lib.jar'' ''one'' None (user_id (sample_caller False)) = jar_params ''one''"
    by (simp add: upload_params_for_def derive_name_version_def jar_params_def hosted_sample_def sample_caller_def sample_artifact_env_def)
  ultimately show ?thesis
    using sample_upload_result
    by (simp add: upload_artifact_def andthen_def of_result_def env plugin_metadata_def select_def give_def)
qed

theorem uploaded_artifact_is_served_witness:
  "\<exists>b c. sample_digest c = sample_digest ''one''
    \<and> fst (download_artifact sample_artifact_env (Some (sample_caller False)) ''maven-local'' ''lib/1.0/lib.jar'' sample_uploaded)
      = (case check_download_allowed (art_quarantine b) (art_until b) 100 of
           Inl e \<Rightarrow> Inl e | Inr _ \<Rightarrow> Inr (Served b c))"
proof -
  have env: "cv_sha256 (aa_content sample_artifact_env) = sample_digest" "cv_now (aa_content sample_artifact_env) = 100"
    by (simp_all add: sample_artifact_env_def sample_fetch_def content_sample_def)
  have "find (\<lambda>x. rw_key x = ''maven-local'') (db_repos (rg_db sample_registry)) = Some hosted_sample"
    "repos_ok (rg_db sample_registry)" "require_visible hosted_sample (Some (sample_caller False)) = Inr ()"
    "backend_for f (storage_location hosted_sample) = Inr ()" for f
    by (simp_all add: sample_registry_def hosted_sample_def repos_ok_def require_visible_def can_access_repo_def
        sample_caller_def backend_for_def storage_location_def)
  then show ?thesis
    using uploaded_artifact_is_served[OF sample_upload_request, where env' = sample_artifact_env
        and auth' = "Some (sample_caller False)" and r = hosted_sample] sample_content_ok sample_digest_hex
    by (simp add: env) (auto simp: sample_artifact_env_def sample_fetch_def content_sample_def)
qed

end
