(* ===== verification/Spec2Isabelle.thy ===== *)
theory Spec2Isabelle
  imports App_Error Auth_Context Outbound Rate_Limiter Permission Access_Control Sessions Login Api_Tokens
    Uploads Quarantine Curation Maven_Version Quality_Checks Quality_Gate Promotion_Policy Promotion
    Repositories Virtual_Members Object_Store Artifact_Service Storage_GC Repository_Api Virtual_Resolution Artifact_Api
begin

text \<open>
  A model of the backend of Artifact Keeper, an artifact registry (\<open>src/artifact-keeper/backend/src\<close>;
  paths below are relative to it), and the theorems that make its security-critical core correct.

  \<^bold>\<open>The program.\<close> Every request passes middlewares before a package-format handler serves it: the rate
  limiter, then either an authentication middleware or the repository visibility gate. Those ask the
  authentication service (passwords, access and refresh tokens, API tokens, download tickets) who the
  caller is, and the permission service what the caller may do. Handlers that reach out to other hosts
  first pass the outbound URL guard. The repository handlers call the repository service for rows and
  memberships and the artifact service for content; both share the database, and content lies in an object
  store under the key of its digest until the garbage collector finds no row that refers to it.

  \<^bold>\<open>Theories.\<close>
  \<^item> \<open>Prelude\<close>: text operations of the Rust standard library, numbers, clocks, maps.
  \<^item> \<open>Interfaces\<close>: the locales \<open>prefix_match\<close> (what comparing an address with a network under a mask
    promises), \<open>ttl_cache\<close> (what a time-limited cache promises; a hit is never older than lifetime and
    fill delay), \<open>chunk_layout\<close> (ranges that partition a file) and its extension \<open>equal_chunks\<close>.
  \<^item> \<open>App_Error\<close> (\<open>error.rs\<close>): the error type and its HTTP responses.
  \<^item> \<open>Net\<close>, \<open>Outbound\<close> (\<open>api/validation.rs\<close>): IP addresses and the guard against server-side request
    forgery; \<open>prefix_match\<close> is interpreted on the IPv4 and IPv6 prefix tests.
  \<^item> \<open>Auth_Context\<close> (\<open>api/middleware/auth.rs\<close>, \<open>models/user.rs\<close>): identities and credential extraction.
  \<^item> \<open>Rate_Limiter\<close> (\<open>api/middleware/rate_limit.rs\<close>): fixed-window counters; \<open>prefix_match\<close> again.
  \<^item> \<open>Permission\<close> (\<open>services/permission_service.rs\<close>): rules behind a cache; interprets \<open>ttl_cache\<close>.
  \<^item> \<open>Access_Control\<close> (\<open>api/middleware/auth.rs\<close>): identity resolution, the four middlewares, download
    tickets, the repository cache; interprets \<open>ttl_cache\<close>.
  \<^item> \<open>Sessions\<close> (\<open>services/auth_service.rs\<close>): token pairs, credential-change invalidation, refresh-token
    families.
  \<^item> \<open>Login\<close> (\<open>services/auth_service.rs\<close>): password login and lockout.
  \<^item> \<open>Api_Tokens\<close> (\<open>services/auth_service.rs\<close>): API tokens, their cache and in-memory revocation;
    interprets \<open>ttl_cache\<close>.
  \<^item> \<open>Uploads\<close> (\<open>services/upload_service.rs\<close>, \<open>api/handlers/upload.rs\<close>): chunked uploads, their claims,
    files and completion; interprets \<open>equal_chunks\<close>.
  \<^item> \<open>Quarantine\<close> (\<open>services/quarantine_service.rs\<close>, \<open>api/handlers/quarantine.rs\<close>): the hold on new
    artifacts, administrators' decisions and the scanner's update.
  \<^item> \<open>Curation\<close> (\<open>services/curation_service.rs\<close>): rules over upstream packages, glob patterns, versions.
  \<^item> \<open>Maven_Version\<close> (\<open>formats/maven_version.rs\<close>): Maven's version order.
  \<^item> \<open>Db_Actions\<close>: sequences of statements that may fail, with \<open>?\<close> after each, and what they keep.
  \<^item> \<open>Quality_Checks\<close> (\<open>services/metadata_checker.rs\<close>, \<open>services/helm_lint_checker.rs\<close>) and \<open>Quality_Gate\<close>
    (\<open>services/quality_check_service.rs\<close>): checkers, health scores and gates.
  \<^item> \<open>Promotion_Policy\<close> (\<open>services/promotion_policy_service.rs\<close>) and \<open>Promotion\<close>
    (\<open>api/handlers/promotion.rs\<close>, \<open>api/handlers/approval.rs\<close>): what an artifact must meet to be promoted,
    and the promotion, which calls gate and policy and bears on the quarantine.
  \<^item> \<open>Repositories\<close> and \<open>Virtual_Members\<close> (\<open>services/repository_service.rs\<close>): the repository tables with
    their constraints and cascades, formats, visibility, quota; the membership graph and its cycle check, a
    partial function that is proved to return.
  \<^item> \<open>Object_Store\<close> (\<open>storage/\<close>): keys, paths and backends; \<open>Artifact_Service\<close>
    (\<open>services/artifact_service.rs\<close>): upload, download, deletion; \<open>Storage_GC\<close>
    (\<open>services/storage_gc_service.rs\<close>): the collector, and a step relation that interleaves it with
    uploads and deletions.
  \<^item> \<open>Repository_Api\<close> (\<open>api/handlers/repositories.rs\<close>, \<open>services/upstream_auth.rs\<close>,
    \<open>services/routing_rules.rs\<close>): requests on repositories, their settings and members;
    \<open>Virtual_Resolution\<close> (\<open>api/handlers/proxy_helpers.rs\<close>): how a virtual repository answers;
    \<open>Artifact_Api\<close>: the artifact requests, which compose the former.

  \<^bold>\<open>Conventions.\<close> Database tables are lists or maps of records in an explicit state; a query may fail, by a
  parameter that says which does. \<open>Result<T>\<close> is \<open>app_error + 'a\<close>. Strings are byte strings.
  Monotonic instants are natural numbers of nanoseconds, wall-clock times integers of nanoseconds.
  bcrypt, SHA-256, the JWT library, the URL parser and the handlers behind a middleware are parameters.
  Interleavings are step relations (\<open>perm_step\<close>, \<open>refresh_step\<close>, \<open>token_step\<close>, \<open>catalog_step\<close>, \<open>registry_step\<close>) over states that say what is in
  flight.

  \<^bold>\<open>What the lemmas show.\<close> Safety of the gates (no write and no private read without a resolved and
  permitted identity), bounds (requests per window, guesses per lockout period, age of a cached answer),
  revocation (refresh families, API tokens, credential changes) under interleaving, equivalences
  (embedded IPv4, invisible cleanup, a collection and its dry run), termination of the cycle check, state
  invariants (the membership graph has no cycle, live artifacts have their content), what an upload promises
  to later downloads, and counterexamples, each a closed theorem, where the code does
  not do what its comments say.

  \<^bold>\<open>Not modelled.\<close> Cloud storage clients, package formats, scanners, the proxy's cache, federated login protocols and
  the other services that are I/O around SQL; logging and metrics everywhere.
\<close>

end
